(* ===== verification/Js_Prelude.thy ===== *)
theory Js_Prelude
  imports Complex_Main "HOL-Library.Word" "HOL-Library.AList"
begin

text \<open>
  The part of the JavaScript language that every component of the model uses.

  \<^item> Strings are sequences of 16-bit code units (\<open>jsstr\<close>), as in the language, and
    buffers are sequences of bytes (\<open>bytes\<close>). A literal of the source is written
    \<open>js ''...''\<close>.
  \<^item> Thrown values are terms of \<open>exn\<close>: a class (the built-in error classes and the
    classes of \<^verbatim>\<open>onvm-sdk/src/errors.ts\<close>), a message, and the \<open>statusCode\<close> and
    \<open>details\<close> fields of an SDK error.
  \<^item> A function with effects is a state transformer that returns a value or a thrown
    value (\<open>('s, 'a) js\<close>); \<open>js_catch\<close> and \<open>js_finally\<close> are the statements
    \<^verbatim>\<open>try/catch\<close> and \<^verbatim>\<open>try/finally\<close>. An \<^verbatim>\<open>await\<close> is the bind of the
    monad.
  \<^item> The locale \<open>codec\<close> is the contract of every encoder and decoder pair of the
    program; \<open>codec_chain\<close> composes two of them.
\<close>

named_theorems js_monad \<open>unfolding rules of the statement combinators\<close>

section \<open>Strings and bytes\<close>

type_synonym byte = "8 word"
type_synonym bytes = "byte list"
type_synonym unit16 = "16 word"
type_synonym jsstr = "unit16 list"

definition ju :: "char \<Rightarrow> unit16" where
  "ju c = of_char c"

definition js :: "string \<Rightarrow> jsstr" where
  "js = map ju"

lemma unat_ju [simp]: "unat (ju c) = of_char c"
proof -
  have "ju c = of_nat (of_char c)"
    by (simp add: ju_def of_nat_of_char)
  moreover have "(of_char c :: nat) < 2 ^ 16"
    by (rule order.strict_trans [OF nat_of_char_less_256]) simp
  ultimately show ?thesis
    by (simp add: unat_of_nat take_bit_nat_eq_self_iff)
qed

lemma ju_inject [simp]: "ju c = ju d \<longleftrightarrow> c = d"
  by (metis of_char_eq_iff unat_ju)

lemma js_Nil [simp]: "js [] = []"
  and js_Cons: "js (c # cs) = ju c # js cs"
  and js_append: "js (cs @ ds) = js cs @ js ds"
  by (simp_all add: js_def)

lemma js_inject [simp]: "js cs = js ds \<longleftrightarrow> cs = ds"
  by (simp add: js_def inj_map_eq_map inj_def)

lemma js_eq_Nil [simp]: "js cs = [] \<longleftrightarrow> cs = []" "[] = js cs \<longleftrightarrow> cs = []"
  by (auto simp: js_def)

lemma length_js [simp]: "length (js cs) = length cs"
  by (simp add: js_def)

text \<open>
  The truth value of an optional string in a condition: \<open>undefined\<close>, \<open>null\<close> and the
  empty string are false.
\<close>

fun truthy :: "jsstr option \<Rightarrow> bool" where
  "truthy None = False"
| "truthy (Some s) = (s \<noteq> [])"

lemma truthy_iff: "truthy x \<longleftrightarrow> (\<exists>s. x = Some s \<and> s \<noteq> [])"
  by (cases x) auto

text \<open>The operator \<^verbatim>\<open>x || d\<close> on strings, and \<^verbatim>\<open>x || undefined\<close>.\<close>

definition or_str :: "jsstr option \<Rightarrow> jsstr \<Rightarrow> jsstr" where
  "or_str x d = (if truthy x then the x else d)"

definition or_undef :: "jsstr option \<Rightarrow> jsstr option" where
  "or_undef x = (if truthy x then x else None)"

lemma or_str_simps [simp]:
  "or_str None d = d"
  "or_str (Some []) d = d"
  "s \<noteq> [] \<Longrightarrow> or_str (Some s) d = s"
  by (simp_all add: or_str_def)

lemma or_str_neq_Nil: "d \<noteq> [] \<Longrightarrow> or_str x d \<noteq> []"
  by (cases x) (auto simp: or_str_def)

lemma or_undef_truthy: "or_undef x = Some s \<longleftrightarrow> x = Some s \<and> s \<noteq> []"
  by (cases x) (auto simp: or_undef_def)

section \<open>Prefixes, slices and membership\<close>

definition starts_with :: "'a list \<Rightarrow> 'a list \<Rightarrow> bool" where
  "starts_with s p \<longleftrightarrow> take (length p) s = p"

lemma starts_with_append [simp]: "starts_with (p @ s) p"
  by (simp add: starts_with_def)

lemma starts_with_iff: "starts_with s p \<longleftrightarrow> (\<exists>t. s = p @ t)"
  unfolding starts_with_def
  by (metis append_eq_conv_conj append_take_drop_id)

fun str_includes :: "'a list \<Rightarrow> 'a list \<Rightarrow> bool" where
  "str_includes s p = (starts_with s p \<or> (case s of [] \<Rightarrow> False | _ # t \<Rightarrow> str_includes t p))"

declare str_includes.simps [simp del]

lemma str_includes_iff: "str_includes s p \<longleftrightarrow> (\<exists>a b. s = a @ p @ b)"
proof (induction s)
  case Nil
  then show ?case
    by (subst str_includes.simps) (auto simp: starts_with_def)
next
  case (Cons x s)
  have "str_includes (x # s) p \<longleftrightarrow> starts_with (x # s) p \<or> str_includes s p"
    by (subst str_includes.simps) simp
  also have "\<dots> \<longleftrightarrow> (\<exists>b. x # s = p @ b) \<or> (\<exists>a b. s = a @ p @ b)"
    by (simp add: Cons.IH starts_with_iff)
  also have "\<dots> \<longleftrightarrow> (\<exists>a b. x # s = a @ p @ b)"
    by (metis append_Cons append_Nil list.exhaust list.inject)
  finally show ?case .
qed

section \<open>Objects as association lists\<close>

text \<open>
  A plain object that the code builds field by field is an association list in insertion
  order; writing a field replaces it in place or appends it.
\<close>

abbreviation obj_get :: "('k \<times> 'v) list \<Rightarrow> 'k \<Rightarrow> 'v option" where
  "obj_get \<equiv> map_of"

abbreviation obj_put :: "'k \<Rightarrow> 'v \<Rightarrow> ('k \<times> 'v) list \<Rightarrow> ('k \<times> 'v) list" where
  "obj_put \<equiv> AList.update"

text \<open>\<^verbatim>\<open>Object.assign(a, b)\<close> and the spread \<^verbatim>\<open>{ ...a, ...b }\<close>.\<close>

definition obj_assign :: "('k \<times> 'v) list \<Rightarrow> ('k \<times> 'v) list \<Rightarrow> ('k \<times> 'v) list" where
  "obj_assign a b = foldl (\<lambda>ob (k, v). obj_put k v ob) a b"

lemma obj_assign_Nil [simp]: "obj_assign a [] = a"
  by (simp add: obj_assign_def)

lemma obj_assign_Cons [simp]: "obj_assign a ((k, v) # b) = obj_assign (obj_put k v a) b"
  by (simp add: obj_assign_def)

lemma obj_get_put [simp]: "obj_get (obj_put k v ob) k' = (if k' = k then Some v else obj_get ob k')"
  by (simp add: update_conv')

lemma obj_get_assign:
  "distinct (map fst b) \<Longrightarrow>
     obj_get (obj_assign a b) k = (case obj_get b k of None \<Rightarrow> obj_get a k | Some v \<Rightarrow> Some v)"
proof (induction b arbitrary: a)
  case Nil
  then show ?case by simp
next
  case (Cons kv b)
  obtain k0 v0 where kv: "kv = (k0, v0)" by (cases kv)
  from Cons.prems have d: "distinct (map fst b)" and n: "k0 \<notin> fst ` set b"
    by (auto simp: kv)
  from n have "obj_get b k0 = None"
    by (simp add: map_of_eq_None_iff)
  with Cons.IH [OF d] show ?case
    by (auto simp: kv split: option.split)
qed

section \<open>Thrown values\<close>

datatype eclass =
    CError
  | CSyntaxError
  | CTypeError
  | CURIError
  | CAbortError
  | CInvalidCharacterError
  | COnvmError
  | COnvmAuthError
  | COnvmNetworkError
  | COnvmRateLimitError
  | COnvmConfigError
  | CNonError

datatype exn = Exn (exn_class: eclass) (exn_message: jsstr) (exn_status: "int option")
    (exn_details: details)
and details = DUndefined | DText jsstr | DExn exn

text \<open>
  \<^verbatim>\<open>e instanceof Error\<close>, \<^verbatim>\<open>e.name\<close> and \<^verbatim>\<open>String(e)\<close>. The class \<open>CNonError\<close> stands
  for a thrown value that is no \<^verbatim>\<open>Error\<close> object; its message is what \<^verbatim>\<open>String\<close>
  gives for it.
\<close>

definition is_Error :: "exn \<Rightarrow> bool" where
  "is_Error e \<longleftrightarrow> exn_class e \<noteq> CNonError"

fun class_name :: "eclass \<Rightarrow> jsstr" where
  "class_name CError = js ''Error''"
| "class_name CSyntaxError = js ''SyntaxError''"
| "class_name CTypeError = js ''TypeError''"
| "class_name CURIError = js ''URIError''"
| "class_name CAbortError = js ''AbortError''"
| "class_name CInvalidCharacterError = js ''InvalidCharacterError''"
| "class_name COnvmError = js ''OnvmError''"
| "class_name COnvmAuthError = js ''OnvmAuthError''"
| "class_name COnvmNetworkError = js ''OnvmNetworkError''"
| "class_name COnvmRateLimitError = js ''OnvmRateLimitError''"
| "class_name COnvmConfigError = js ''OnvmConfigError''"
| "class_name CNonError = []"

definition exn_to_string :: "exn \<Rightarrow> jsstr" where
  "exn_to_string e =
     (if is_Error e then class_name (exn_class e) @ js '': '' @ exn_message e else exn_message e)"

definition native :: "eclass \<Rightarrow> jsstr \<Rightarrow> exn" where
  "native c m = Exn c m None DUndefined"

abbreviation js_Error :: "jsstr \<Rightarrow> exn" where
  "js_Error \<equiv> native CError"

lemma native_sel [simp]:
  "exn_class (native c m) = c" "exn_message (native c m) = m"
  "exn_status (native c m) = None" "exn_details (native c m) = DUndefined"
  by (simp_all add: native_def)

text \<open>\<^verbatim>\<open>e instanceof Error ? e.message : d\<close>, the text the views show for a failure.\<close>

definition error_text :: "exn \<Rightarrow> jsstr \<Rightarrow> jsstr" where
  "error_text e d = (if is_Error e then exn_message e else d)"

section \<open>Expressions that may throw\<close>

fun r_bind :: "exn + 'a \<Rightarrow> ('a \<Rightarrow> exn + 'b) \<Rightarrow> exn + 'b" where
  "r_bind (Inl e) f = Inl e"
| "r_bind (Inr x) f = f x"

fun r_mapM :: "('a \<Rightarrow> exn + 'b) \<Rightarrow> 'a list \<Rightarrow> exn + 'b list" where
  "r_mapM f [] = Inr []"
| "r_mapM f (x # xs) = r_bind (f x) (\<lambda>y. r_bind (r_mapM f xs) (\<lambda>ys. Inr (y # ys)))"

lemma r_bind_Inr_iff: "r_bind m f = Inr y \<longleftrightarrow> (\<exists>x. m = Inr x \<and> f x = Inr y)"
  and r_bind_Inl_iff: "r_bind m f = Inl e \<longleftrightarrow> m = Inl e \<or> (\<exists>x. m = Inr x \<and> f x = Inl e)"
  by (cases m; auto)+

lemma r_mapM_Inr: "(\<And>x. x \<in> set xs \<Longrightarrow> f (g x) = Inr x) \<Longrightarrow> r_mapM f (map g xs) = Inr xs"
  by (induction xs) auto

lemma r_mapM_length: "r_mapM f xs = Inr ys \<Longrightarrow> length ys = length xs"
  by (induction xs arbitrary: ys) (auto simp: r_bind_Inr_iff)

section \<open>Statements with effects\<close>

type_synonym ('s, 'a) js = "'s \<Rightarrow> (exn + 'a) \<times> 's"

definition js_ret :: "'a \<Rightarrow> ('s, 'a) js" where
  [js_monad]: "js_ret x s = (Inr x, s)"

definition js_throw :: "exn \<Rightarrow> ('s, 'a) js" where
  [js_monad]: "js_throw e s = (Inl e, s)"

definition js_bind :: "('s, 'a) js \<Rightarrow> ('a \<Rightarrow> ('s, 'b) js) \<Rightarrow> ('s, 'b) js" where
  [js_monad]: "js_bind m f s = (case m s of (Inl e, s') \<Rightarrow> (Inl e, s') | (Inr x, s') \<Rightarrow> f x s')"

definition js_catch :: "('s, 'a) js \<Rightarrow> (exn \<Rightarrow> ('s, 'a) js) \<Rightarrow> ('s, 'a) js" where
  [js_monad]: "js_catch m h s = (case m s of (Inl e, s') \<Rightarrow> h e s' | (Inr x, s') \<Rightarrow> (Inr x, s'))"

definition js_finally :: "('s, 'a) js \<Rightarrow> ('s \<Rightarrow> 's) \<Rightarrow> ('s, 'a) js" where
  [js_monad]: "js_finally m f s = (case m s of (r, s') \<Rightarrow> (r, f s'))"

definition js_gets :: "('s \<Rightarrow> 'a) \<Rightarrow> ('s, 'a) js" where
  [js_monad]: "js_gets f s = (Inr (f s), s)"

definition js_modify :: "('s \<Rightarrow> 's) \<Rightarrow> ('s, unit) js" where
  [js_monad]: "js_modify f s = (Inr (), f s)"

text \<open>A computation that may throw but has no effect.\<close>

definition js_lift :: "exn + 'a \<Rightarrow> ('s, 'a) js" where
  [js_monad]: "js_lift r s = (r, s)"

abbreviation js_seq :: "('s, unit) js \<Rightarrow> ('s, 'b) js \<Rightarrow> ('s, 'b) js" where
  "js_seq m n \<equiv> js_bind m (\<lambda>_. n)"

fun js_mapM :: "('a \<Rightarrow> ('s, 'b) js) \<Rightarrow> 'a list \<Rightarrow> ('s, 'b list) js" where
  "js_mapM f [] = js_ret []"
| "js_mapM f (x # xs) = js_bind (f x) (\<lambda>y. js_bind (js_mapM f xs) (\<lambda>ys. js_ret (y # ys)))"

text \<open>
  A statement on a part of the state: \<open>get\<close> reads the part, \<open>put\<close> writes it back.
\<close>

definition js_zoom :: "('s \<Rightarrow> 't) \<Rightarrow> ('t \<Rightarrow> 's \<Rightarrow> 's) \<Rightarrow> ('t, 'a) js \<Rightarrow> ('s, 'a) js" where
  [js_monad]: "js_zoom get put m s = (case m (get s) of (r, t) \<Rightarrow> (r, put t s))"

lemma js_bind_ret [simp]: "js_bind (js_ret x) f = f x"
  and js_bind_throw [simp]: "js_bind (js_throw e) f = js_throw e"
  and js_catch_ret [simp]: "js_catch (js_ret x) h = js_ret x"
  and js_catch_throw [simp]: "js_catch (js_throw e) h = h e"
  by (simp_all add: fun_eq_iff js_monad)

lemma js_lift_simps [simp]: "js_lift (Inr x) = js_ret x" "js_lift (Inl e) = js_throw e"
  by (simp_all add: fun_eq_iff js_monad)

lemma js_bind_ret_right [simp]: "js_bind m js_ret = m"
  by (auto simp: fun_eq_iff js_monad split: prod.split sum.split)

lemma js_bind_assoc: "js_bind (js_bind m f) g = js_bind m (\<lambda>x. js_bind (f x) g)"
  by (auto simp: fun_eq_iff js_monad split: prod.split sum.split)

lemma js_bind_InrD:
  assumes "js_bind m f s = (Inr y, t)"
  obtains x s' where "m s = (Inr x, s')" and "f x s' = (Inr y, t)"
  using assms by (auto simp: js_monad split: prod.splits sum.splits)

lemma js_finally_state: "snd (js_finally m f s) = f (snd (m s))"
  and js_finally_result: "fst (js_finally m f s) = fst (m s)"
  by (simp_all add: js_monad split: prod.split)

section \<open>The contract of an encoder and its decoder\<close>

locale codec =
  fixes enc :: "'a \<Rightarrow> 'b" and dec :: "'b \<Rightarrow> 'a option" and ok :: "'a \<Rightarrow> bool"
  assumes dec_enc: "ok x \<Longrightarrow> dec (enc x) = Some x"
begin

lemma enc_inject: "ok x \<Longrightarrow> ok y \<Longrightarrow> enc x = enc y \<longleftrightarrow> x = y"
  by (metis dec_enc option.inject)

lemma dec_enc_iff: "ok x \<Longrightarrow> dec (enc x) = Some y \<longleftrightarrow> x = y"
  by (simp add: dec_enc)

end

locale codec_chain =
  inner: codec enc1 dec1 ok1 + outer: codec enc2 dec2 ok2
  for enc1 :: "'a \<Rightarrow> 'b" and dec1 :: "'b \<Rightarrow> 'a option" and ok1 :: "'a \<Rightarrow> bool"
    and enc2 :: "'b \<Rightarrow> 'c" and dec2 :: "'c \<Rightarrow> 'b option" and ok2 :: "'b \<Rightarrow> bool" +
  assumes enc1_ok: "ok1 x \<Longrightarrow> ok2 (enc1 x)"

sublocale codec_chain \<subseteq> chain: codec "\<lambda>x. enc2 (enc1 x)" "\<lambda>b. Option.bind (dec2 b) dec1" ok1
  by unfold_locales (simp add: enc1_ok inner.dec_enc outer.dec_enc)

end
