(* ===== verification/Codecs.thy ===== *)
theory Codecs
  imports Js_Prelude
begin

text \<open>
  The text codecs the program takes from its platform: UTF-8 (\<^verbatim>\<open>Buffer.from(s)\<close>,
  \<^verbatim>\<open>buf.toString('utf8')\<close>, \<^verbatim>\<open>response.text()\<close>, Rust's \<^verbatim>\<open>String::from_utf8_lossy\<close>),
  hexadecimal and Base64 in the forms of Node's \<^verbatim>\<open>Buffer\<close>, and the browser's
  \<^verbatim>\<open>btoa\<close> and \<^verbatim>\<open>atob\<close>. Each pair is an interpretation of \<open>codec\<close>.
\<close>

named_theorems codec_simps \<open>rewriting rules of the codecs\<close>

section \<open>UTF-8\<close>

abbreviation u16 :: "nat \<Rightarrow> unit16" where
  "u16 \<equiv> of_nat"

abbreviation u8 :: "nat \<Rightarrow> byte" where
  "u8 \<equiv> of_nat"

definition hi_sur :: "unit16 \<Rightarrow> bool" where
  "hi_sur u \<longleftrightarrow> 0xD800 \<le> unat u \<and> unat u \<le> 0xDBFF"

definition lo_sur :: "unit16 \<Rightarrow> bool" where
  "lo_sur u \<longleftrightarrow> 0xDC00 \<le> unat u \<and> unat u \<le> 0xDFFF"

definition utf8_2 :: "nat \<Rightarrow> bytes" where
  "utf8_2 c = [u8 (0xC0 + c div 64), u8 (0x80 + c mod 64)]"

definition utf8_3 :: "nat \<Rightarrow> bytes" where
  "utf8_3 c = [u8 (0xE0 + c div 4096), u8 (0x80 + c div 64 mod 64), u8 (0x80 + c mod 64)]"

definition utf8_4 :: "nat \<Rightarrow> bytes" where
  "utf8_4 c = [u8 (0xF0 + c div 262144), u8 (0x80 + c div 4096 mod 64),
     u8 (0x80 + c div 64 mod 64), u8 (0x80 + c mod 64)]"

definition sur_pair :: "unit16 \<Rightarrow> unit16 \<Rightarrow> nat" where
  "sur_pair u v = 0x10000 + (unat u - 0xD800) * 1024 + (unat v - 0xDC00)"

text \<open>The encoder: a lone surrogate is written as U+FFFD, as the platform does.\<close>

fun utf8_enc :: "jsstr \<Rightarrow> bytes" where
  "utf8_enc [] = []"
| "utf8_enc (u # s) =
     (if unat u < 0x80 then u8 (unat u) # utf8_enc s
      else if unat u < 0x800 then utf8_2 (unat u) @ utf8_enc s
      else if hi_sur u then
        (case s of
           v # s' \<Rightarrow> if lo_sur v then utf8_4 (sur_pair u v) @ utf8_enc s'
                     else utf8_3 0xFFFD @ utf8_enc s
         | [] \<Rightarrow> utf8_3 0xFFFD)
      else if lo_sur u then utf8_3 0xFFFD @ utf8_enc s
      else utf8_3 (unat u) @ utf8_enc s)"

text \<open>
  The decoder replaces every maximal ill-formed subsequence by U+FFFD. \<open>second_ok\<close> is the
  range of the second byte, which depends on the first.
\<close>

definition cont :: "byte \<Rightarrow> bool" where
  "cont b \<longleftrightarrow> 0x80 \<le> unat b \<and> unat b \<le> 0xBF"

definition second_ok :: "byte \<Rightarrow> byte \<Rightarrow> bool" where
  "second_ok a b \<longleftrightarrow>
     (if unat a = 0xE0 then 0xA0 \<le> unat b \<and> unat b \<le> 0xBF
      else if unat a = 0xED then 0x80 \<le> unat b \<and> unat b \<le> 0x9F
      else if unat a = 0xF0 then 0x90 \<le> unat b \<and> unat b \<le> 0xBF
      else if unat a = 0xF4 then 0x80 \<le> unat b \<and> unat b \<le> 0x8F
      else cont b)"

abbreviation repl :: unit16 where
  "repl \<equiv> 0xFFFD"

definition dec_2 :: "byte \<Rightarrow> byte \<Rightarrow> jsstr" where
  "dec_2 a b = [u16 ((unat a - 0xC0) * 64 + (unat b - 0x80))]"

definition dec_3 :: "byte \<Rightarrow> byte \<Rightarrow> byte \<Rightarrow> jsstr" where
  "dec_3 a b c = [u16 ((unat a - 0xE0) * 4096 + (unat b - 0x80) * 64 + (unat c - 0x80))]"

definition dec_4 :: "byte \<Rightarrow> byte \<Rightarrow> byte \<Rightarrow> byte \<Rightarrow> jsstr" where
  "dec_4 a b c d =
     (let p = (unat a - 0xF0) * 262144 + (unat b - 0x80) * 4096 + (unat c - 0x80) * 64
            + (unat d - 0x80) - 0x10000
      in [u16 (0xD800 + p div 1024), u16 (0xDC00 + p mod 1024)])"

fun utf8_dec :: "bytes \<Rightarrow> jsstr" where
  "utf8_dec [] = []"
| "utf8_dec (a # s) =
     (if unat a < 0x80 then u16 (unat a) # utf8_dec s
      else if 0xC2 \<le> unat a \<and> unat a \<le> 0xDF then
        (case s of
           b # s1 \<Rightarrow> if cont b then dec_2 a b @ utf8_dec s1 else repl # utf8_dec s
         | [] \<Rightarrow> [repl])
      else if 0xE0 \<le> unat a \<and> unat a \<le> 0xEF then
        (case s of
           b # s1 \<Rightarrow>
             if second_ok a b then
               (case s1 of
                  c # s2 \<Rightarrow> if cont c then dec_3 a b c @ utf8_dec s2 else repl # utf8_dec s1
                | [] \<Rightarrow> [repl])
             else repl # utf8_dec s
         | [] \<Rightarrow> [repl])
      else if 0xF0 \<le> unat a \<and> unat a \<le> 0xF4 then
        (case s of
           b # s1 \<Rightarrow>
             if second_ok a b then
               (case s1 of
                  c # s2 \<Rightarrow>
                    if cont c then
                      (case s2 of
                         d # s3 \<Rightarrow> if cont d then dec_4 a b c d @ utf8_dec s3
                                   else repl # utf8_dec s2
                       | [] \<Rightarrow> [repl])
                    else repl # utf8_dec s1
                | [] \<Rightarrow> [repl])
             else repl # utf8_dec s
         | [] \<Rightarrow> [repl])
      else repl # utf8_dec s)"

text \<open>\<^verbatim>\<open>response.text()\<close> also drops a leading byte order mark.\<close>

definition text_decode :: "bytes \<Rightarrow> jsstr" where
  "text_decode bs = utf8_dec (if starts_with bs [0xEF, 0xBB, 0xBF] then drop 3 bs else bs)"

text \<open>A string is well formed when its surrogates come in pairs.\<close>

fun wf_str :: "jsstr \<Rightarrow> bool" where
  "wf_str [] = True"
| "wf_str (u # s) =
     (if hi_sur u then (case s of v # s' \<Rightarrow> lo_sur v \<and> wf_str s' | [] \<Rightarrow> False)
      else \<not> lo_sur u \<and> wf_str s)"

lemma unat_u8: "n < 256 \<Longrightarrow> unat (u8 n) = n"
  by (simp add: unat_of_nat take_bit_nat_eq_self_iff)

lemma unat_u16: "n < 65536 \<Longrightarrow> unat (u16 n) = n"
  by (simp add: unat_of_nat take_bit_nat_eq_self_iff)

lemma u16_unat [simp]: "u16 (unat u) = u"
  and u8_unat [simp]: "u8 (unat b) = b"
  by simp_all

lemma unat_unit16_less: "unat (u :: unit16) < 65536"
  using unsigned_less [of u] by simp

lemma unat_byte_less: "unat (b :: byte) < 256"
  using unsigned_less [of b] by simp

text \<open>Base-64 digits of a code point.\<close>

lemma digits64_3: "n div 4096 * 4096 + n div 64 mod 64 * 64 + n mod 64 = (n :: nat)"
proof -
  have "n div 64 = n div 4096 * 64 + n div 64 mod 64"
    using div_mult_mod_eq [of "n div 64" 64] by (simp add: div_mult2_eq [symmetric])
  moreover have "n = n div 64 * 64 + n mod 64"
    by simp
  ultimately show ?thesis
    by linarith
qed

lemma digits64_4:
  "n div 262144 * 262144 + n div 4096 mod 64 * 4096 + n div 64 mod 64 * 64 + n mod 64 = (n :: nat)"
proof -
  have "n div 4096 = n div 262144 * 64 + n div 4096 mod 64"
    using div_mult_mod_eq [of "n div 4096" 64] by (simp add: div_mult2_eq [symmetric])
  moreover have "n = n div 4096 * 4096 + n div 64 mod 64 * 64 + n mod 64"
    by (rule digits64_3 [symmetric])
  ultimately show ?thesis
    by linarith
qed

lemma utf8_dec_ascii:
  "n < 0x80 \<Longrightarrow> utf8_dec (u8 n # bs) = u16 n # utf8_dec bs"
  by (simp add: unat_u8)

lemma utf8_dec_2:
  assumes "0x80 \<le> n" "n < 0x800"
  shows "utf8_dec (utf8_2 n @ bs) = u16 n # utf8_dec bs"
proof -
  have d: "2 \<le> n div 64" "n div 64 < 32" using assms by auto
  then have a: "unat (u8 (0xC0 + n div 64)) = 0xC0 + n div 64"
    and b: "unat (u8 (0x80 + n mod 64)) = 0x80 + n mod 64"
    by (simp_all only: unat_u8)
  have "n mod 64 < 64" by simp
  with d a b show ?thesis
    by (simp add: utf8_2_def cont_def dec_2_def)
qed

lemma utf8_dec_3_step:
  "0xE0 \<le> unat a \<Longrightarrow> unat a \<le> 0xEF \<Longrightarrow> second_ok a b \<Longrightarrow> cont c \<Longrightarrow>
     utf8_dec (a # b # c # bs) = dec_3 a b c @ utf8_dec bs"
  by simp

lemma utf8_dec_3:
  assumes "0x800 \<le> n" "n < 65536" "n < 0xD800 \<or> 0xDFFF < n"
  shows "utf8_dec (utf8_3 n @ bs) = u16 n # utf8_dec bs"
proof -
  let ?a = "0xE0 + n div 4096" and ?b = "0x80 + n div 64 mod 64" and ?c = "0x80 + n mod 64"
  have d: "n div 4096 < 16" using assms by auto
  have m: "n div 64 mod 64 < 64" "n mod 64 < 64" by simp_all
  have a: "unat (u8 ?a) = ?a" and b: "unat (u8 ?b) = ?b" and c: "unat (u8 ?c) = ?c"
    using d m by (simp_all only: unat_u8)
  have lo: "n div 4096 = 0 \<longrightarrow> 32 \<le> n div 64 mod 64"
    using assms(1) by auto
  have sur: "n div 4096 = 13 \<longrightarrow> n div 64 mod 64 < 32"
  proof
    assume t: "n div 4096 = 13"
    then have "n < 0xD800" using assms(3) by auto
    then have "n div 64 < 864" by auto
    moreover have "n div 64 = 832 + n div 64 mod 64"
    proof -
      have "n div 64 = 64 * (n div 64 div 64) + n div 64 mod 64" by simp
      also have "n div 64 div 64 = 13" using t by (simp add: div_mult2_eq [symmetric])
      finally show ?thesis by simp
    qed
    ultimately show "n div 64 mod 64 < 32" by simp
  qed
  have ok: "second_ok (u8 ?a) (u8 ?b)"
    using lo sur m d unfolding second_ok_def cont_def a b by auto
  have "cont (u8 ?c)" using m unfolding cont_def c by simp
  moreover have "dec_3 (u8 ?a) (u8 ?b) (u8 ?c) = [u16 n]"
    unfolding dec_3_def a b c add_diff_cancel_left' digits64_3 by (rule refl)
  moreover have "0xE0 \<le> unat (u8 ?a)" "unat (u8 ?a) \<le> 0xEF"
    using d unfolding a by simp_all
  ultimately show ?thesis
    using ok unfolding utf8_3_def append_Cons append_Nil
    by (simp only: utf8_dec_3_step append_Cons append_Nil)
qed

lemma utf8_dec_4_step:
  "0xF0 \<le> unat a \<Longrightarrow> unat a \<le> 0xF4 \<Longrightarrow> second_ok a b \<Longrightarrow> cont c \<Longrightarrow> cont d \<Longrightarrow>
     utf8_dec (a # b # c # d # bs) = dec_4 a b c d @ utf8_dec bs"
  by simp

lemma utf8_dec_4:
  assumes "0x10000 \<le> n" "n < 0x110000"
  shows "utf8_dec (utf8_4 n @ bs) =
     u16 (0xD800 + (n - 0x10000) div 1024) # u16 (0xDC00 + (n - 0x10000) mod 1024) # utf8_dec bs"
proof -
  let ?a = "0xF0 + n div 262144" and ?b = "0x80 + n div 4096 mod 64"
    and ?c = "0x80 + n div 64 mod 64" and ?d = "0x80 + n mod 64"
  have q: "n div 262144 < 5" using assms by auto
  have m: "n div 4096 mod 64 < 64" "n div 64 mod 64 < 64" "n mod 64 < 64" by simp_all
  have a: "unat (u8 ?a) = ?a" and b: "unat (u8 ?b) = ?b" and c: "unat (u8 ?c) = ?c"
    and d: "unat (u8 ?d) = ?d"
    using q m by (simp_all only: unat_u8)
  have k: "n div 4096 = n div 262144 * 64 + n div 4096 mod 64"
    using div_mult_mod_eq [of "n div 4096" 64] by (simp add: div_mult2_eq [symmetric])
  have "16 \<le> n div 4096" "n div 4096 < 272" using assms by auto
  then have "n div 262144 = 0 \<longrightarrow> 16 \<le> n div 4096 mod 64"
    and "n div 262144 = 4 \<longrightarrow> n div 4096 mod 64 < 16"
    using k by auto
  then have ok: "second_ok (u8 ?a) (u8 ?b)"
    using m q unfolding second_ok_def cont_def a b by auto
  have "cont (u8 ?c)" "cont (u8 ?d)" using m unfolding cont_def c d by simp_all
  moreover have "dec_4 (u8 ?a) (u8 ?b) (u8 ?c) (u8 ?d) =
      [u16 (0xD800 + (n - 0x10000) div 1024), u16 (0xDC00 + (n - 0x10000) mod 1024)]"
    unfolding dec_4_def a b c d Let_def add_diff_cancel_left' digits64_4 by (rule refl)
  moreover have "0xF0 \<le> unat (u8 ?a)" "unat (u8 ?a) \<le> 0xF4"
    using q unfolding a by simp_all
  ultimately show ?thesis
    using ok unfolding utf8_4_def append_Cons append_Nil
    by (simp only: utf8_dec_4_step append_Cons append_Nil)
qed

lemma sur_pair_bounds:
  assumes "hi_sur u" "lo_sur v"
  shows "0x10000 \<le> sur_pair u v" "sur_pair u v < 0x110000"
    "0xD800 + (sur_pair u v - 0x10000) div 1024 = unat u"
    "0xDC00 + (sur_pair u v - 0x10000) mod 1024 = unat v"
proof -
  define h l where "h = unat u - 0xD800" and "l = unat v - 0xDC00"
  have u: "unat u = 0xD800 + h" "h < 1024" and v: "unat v = 0xDC00 + l" "l < 1024"
    using assms by (auto simp: h_def l_def hi_sur_def lo_sur_def)
  have p: "sur_pair u v = 0x10000 + (h * 1024 + l)"
    by (simp add: sur_pair_def h_def l_def)
  show "0x10000 \<le> sur_pair u v" "sur_pair u v < 0x110000"
    using u v by (simp_all add: p)
  show "0xD800 + (sur_pair u v - 0x10000) div 1024 = unat u"
    "0xDC00 + (sur_pair u v - 0x10000) mod 1024 = unat v"
    using u v unfolding p add_diff_cancel_left' by simp_all
qed

theorem utf8_roundtrip: "wf_str s \<Longrightarrow> utf8_dec (utf8_enc s) = s"
proof (induction s rule: utf8_enc.induct)
  case 1
  show ?case by simp
next
  case (2 u s)
  consider (ascii) "unat u < 0x80" | (two) "0x80 \<le> unat u" "unat u < 0x800"
    | (pair) "0x800 \<le> unat u" "hi_sur u"
    | (three) "0x800 \<le> unat u" "\<not> hi_sur u"
    by linarith
  then show ?case
  proof cases
    case ascii
    with "2.prems" have "wf_str s" by (simp add: hi_sur_def lo_sur_def)
    with ascii "2.IH"(1) have ih: "utf8_dec (utf8_enc s) = s" by simp
    from ascii have "utf8_enc (u # s) = u8 (unat u) # utf8_enc s"
      by (simp only: utf8_enc.simps if_True)
    then show ?thesis
      by (simp only: utf8_dec_ascii [OF ascii] ih u16_unat)
  next
    case two
    with "2.prems" have "wf_str s" by (simp add: hi_sur_def lo_sur_def)
    with two "2.IH"(2) show ?thesis by (simp add: utf8_dec_2)
  next
    case pair
    with "2.prems" obtain v s' where s: "s = v # s'" and v: "lo_sur v" and w: "wf_str s'"
      by (auto split: list.splits)
    from pair s v w "2.IH"(3) have ih: "utf8_dec (utf8_enc s') = s'" by simp
    from pair s v have "utf8_enc (u # s) = utf8_4 (sur_pair u v) @ utf8_enc s'" by simp
    with ih sur_pair_bounds [OF pair(2) v] show ?thesis
      by (simp add: utf8_dec_4 s)
  next
    case three
    with "2.prems" have w: "wf_str s" and l: "\<not> lo_sur u" by auto
    from three l have "unat u < 0xD800 \<or> 0xDFFF < unat u" by (auto simp: hi_sur_def lo_sur_def)
    with three l w "2.IH"(6) unat_unit16_less [of u] show ?thesis
      by (simp add: utf8_dec_3)
  qed
qed

text \<open>ASCII text is its own encoding, and any other character takes more bytes than units.\<close>

lemma utf8_enc_ascii: "\<forall>u \<in> set s. unat u < 128 \<Longrightarrow> utf8_enc s = map (\<lambda>u. u8 (unat u)) s"
  by (induction s) simp_all

lemma length_utf8: "length (utf8_2 c) = 2" "length (utf8_3 c) = 3" "length (utf8_4 c) = 4"
  by (simp_all add: utf8_2_def utf8_3_def utf8_4_def)

lemma utf8_enc_long:
  "length s \<le> length (utf8_enc s) \<and>
     ((\<exists>u \<in> set s. \<not> unat u < 128) \<longrightarrow> length s < length (utf8_enc s))"
proof (induction s rule: utf8_enc.induct)
  case (2 u s)
  show ?case
  proof (cases "unat u < 0x80")
    case True
    with 2(1) [OF True] show ?thesis by simp
  next
    case not_ascii: False
    show ?thesis
    proof (cases "unat u < 0x800")
      case True
      with 2(2) [OF not_ascii True] show ?thesis using not_ascii by (simp add: length_utf8)
    next
      case False
      show ?thesis
      proof (cases "hi_sur u")
        case True
        show ?thesis
        proof (cases s)
          case (Cons v s')
          with 2(3) [OF not_ascii False True Cons] 2(4) [OF not_ascii False True Cons] show ?thesis
            using not_ascii False True by (cases "lo_sur v") (auto simp: length_utf8)
        qed (use not_ascii False True in \<open>simp add: length_utf8\<close>)
      next
        case nhi: False
        with 2(5) [OF not_ascii False nhi] 2(6) [OF not_ascii False nhi] show ?thesis
          using not_ascii False by (cases "lo_sur u") (auto simp: length_utf8)
      qed
    qed
  qed
qed simp

text \<open>A text that starts with an ASCII character has no byte order mark.\<close>

lemma text_decode_enc:
  assumes "wf_str s" "s = [] \<or> unat (hd s) < 128"
  shows "text_decode (utf8_enc s) = s"
proof -
  have "\<not> starts_with (utf8_enc s) [0xEF, 0xBB, 0xBF]"
  proof (cases s)
    case (Cons u t)
    then have u: "unat u < 128" using assms(2) by simp
    then have "unat (u8 (unat u)) < 128" by (simp only: unat_u8)
    then have "u8 (unat u) \<noteq> 0xEF" by auto
    then show ?thesis using u by (simp add: Cons starts_with_def)
  qed (simp add: starts_with_def)
  then show ?thesis using assms(1) by (simp add: text_decode_def utf8_roundtrip)
qed

interpretation utf8: codec utf8_enc "\<lambda>b. Some (utf8_dec b)" wf_str
  by unfold_locales (simp add: utf8_roundtrip)

section \<open>Hexadecimal\<close>

definition hex_digit :: "nat \<Rightarrow> unit16" where
  "hex_digit n = (if n < 10 then u16 (48 + n) else u16 (87 + n))"

definition hex_val :: "unit16 \<Rightarrow> nat option" where
  "hex_val u =
     (if 48 \<le> unat u \<and> unat u \<le> 57 then Some (unat u - 48)
      else if 97 \<le> unat u \<and> unat u \<le> 102 then Some (unat u - 87)
      else if 65 \<le> unat u \<and> unat u \<le> 70 then Some (unat u - 55)
      else None)"

fun hex_enc :: "bytes \<Rightarrow> jsstr" where
  "hex_enc [] = []"
| "hex_enc (b # bs) = hex_digit (unat b div 16) # hex_digit (unat b mod 16) # hex_enc bs"

text \<open>
  \<^verbatim>\<open>Buffer.from(s, 'hex')\<close> stops at the first pair that is not two hexadecimal digits and
  drops an odd last digit; Rust's \<^verbatim>\<open>hex::decode\<close> refuses both.
\<close>

fun hex_dec :: "jsstr \<Rightarrow> bytes" where
  "hex_dec (a # b # s) =
     (case (hex_val a, hex_val b) of
        (Some h, Some l) \<Rightarrow> u8 (16 * h + l) # hex_dec s
      | _ \<Rightarrow> [])"
| "hex_dec _ = []"

fun hex_dec_strict :: "jsstr \<Rightarrow> bytes option" where
  "hex_dec_strict [] = Some []"
| "hex_dec_strict [a] = None"
| "hex_dec_strict (a # b # s) =
     (case (hex_val a, hex_val b) of
        (Some h, Some l) \<Rightarrow> map_option (\<lambda>bs. u8 (16 * h + l) # bs) (hex_dec_strict s)
      | _ \<Rightarrow> None)"

lemma hex_val_digit [simp]: "n < 16 \<Longrightarrow> hex_val (hex_digit n) = Some n"
  by (cases "n < 10") (simp_all add: hex_digit_def hex_val_def unat_u16 del: of_nat_add)

lemma length_hex_enc [simp]: "length (hex_enc bs) = 2 * length bs"
  by (induction bs) simp_all

lemma hex_enc_eq_Nil [simp]: "hex_enc bs = [] \<longleftrightarrow> bs = []"
  by (cases bs) simp_all

lemma hex_dec_enc [simp]: "hex_dec (hex_enc bs) = bs"
proof (induction bs)
  case (Cons b bs)
  have "16 * (unat b div 16) + unat b mod 16 = unat b" by simp
  then show ?case
    using Cons.IH unat_byte_less [of b] by (simp del: of_nat_add of_nat_mult)
qed simp

lemma hex_dec_strict_enc [simp]: "hex_dec_strict (hex_enc bs) = Some bs"
proof (induction bs)
  case (Cons b bs)
  have "16 * (unat b div 16) + unat b mod 16 = unat b" by simp
  then show ?case
    using Cons.IH unat_byte_less [of b] by (simp del: of_nat_add of_nat_mult)
qed simp

lemma hex_dec_enc_append: "hex_dec (hex_enc bs @ s) = bs @ hex_dec s"
proof (induction bs)
  case (Cons b bs)
  have "16 * (unat b div 16) + unat b mod 16 = unat b" by simp
  then show ?case
    using Cons.IH unat_byte_less [of b] by (simp del: of_nat_add of_nat_mult)
qed simp

lemma hex_enc_chars: "u \<in> set (hex_enc bs) \<Longrightarrow> \<exists>n < 16. u = hex_digit n"
proof (induction bs)
  case (Cons b bs)
  have "unat b div 16 < 16" "unat b mod 16 < 16" using unat_byte_less [of b] by auto
  with Cons show ?case
    using \<open>unat b mod 16 < 16\<close> by (metis hex_enc.simps(2) set_ConsD)
qed simp

interpretation hex: codec hex_enc "\<lambda>s. Some (hex_dec s)" "\<lambda>_. True"
  by unfold_locales simp

interpretation hex_strict: codec hex_enc hex_dec_strict "\<lambda>_. True"
  by unfold_locales simp

section \<open>Base64\<close>

definition b64_digit :: "nat \<Rightarrow> unit16" where
  "b64_digit n =
     (if n < 26 then u16 (65 + n)
      else if n < 52 then u16 (71 + n)
      else if n < 62 then u16 (n - 4)
      else if n = 62 then 43 else 47)"

definition b64_std_val :: "unit16 \<Rightarrow> nat option" where
  "b64_std_val u =
     (if 65 \<le> unat u \<and> unat u \<le> 90 then Some (unat u - 65)
      else if 97 \<le> unat u \<and> unat u \<le> 122 then Some (unat u - 71)
      else if 48 \<le> unat u \<and> unat u \<le> 57 then Some (unat u + 4)
      else if unat u = 43 then Some 62
      else if unat u = 47 then Some 63
      else None)"

text \<open>Node also accepts the URL-safe digits.\<close>

definition b64_val :: "unit16 \<Rightarrow> nat option" where
  "b64_val u =
     (if unat u = 45 then Some 62 else if unat u = 95 then Some 63 else b64_std_val u)"

abbreviation eq_sign :: unit16 where
  "eq_sign \<equiv> 61"

fun b64_enc :: "bytes \<Rightarrow> jsstr" where
  "b64_enc [] = []"
| "b64_enc [a] = [b64_digit (unat a div 4), b64_digit (unat a mod 4 * 16), eq_sign, eq_sign]"
| "b64_enc [a, b] =
     [b64_digit (unat a div 4), b64_digit (unat a mod 4 * 16 + unat b div 16),
      b64_digit (unat b mod 16 * 4), eq_sign]"
| "b64_enc (a # b # c # bs) =
     b64_digit (unat a div 4) # b64_digit (unat a mod 4 * 16 + unat b div 16)
     # b64_digit (unat b mod 16 * 4 + unat c div 64) # b64_digit (unat c mod 64) # b64_enc bs"

fun b64_groups :: "nat list \<Rightarrow> bytes" where
  "b64_groups (p # q # r # s # vs) =
     u8 (p * 4 + q div 16) # u8 (q mod 16 * 16 + r div 4) # u8 (r mod 4 * 64 + s) # b64_groups vs"
| "b64_groups [p, q, r] = [u8 (p * 4 + q div 16), u8 (q mod 16 * 16 + r div 4)]"
| "b64_groups [p, q] = [u8 (p * 4 + q div 16)]"
| "b64_groups _ = []"

text \<open>\<^verbatim>\<open>Buffer.from(s, 'base64')\<close> skips every character that is no digit.\<close>

definition b64_dec :: "jsstr \<Rightarrow> bytes" where
  "b64_dec s = b64_groups (List.map_filter b64_val s)"

text \<open>The browser's \<^verbatim>\<open>btoa\<close> and \<^verbatim>\<open>atob\<close>; \<open>None\<close> is the InvalidCharacterError.\<close>

definition latin1 :: "jsstr \<Rightarrow> bool" where
  "latin1 s \<longleftrightarrow> list_all (\<lambda>u. unat u < 256) s"

definition btoa :: "jsstr \<Rightarrow> jsstr option" where
  "btoa s = (if latin1 s then Some (b64_enc (map (\<lambda>u. u8 (unat u)) s)) else None)"

definition is_ascii_ws :: "unit16 \<Rightarrow> bool" where
  "is_ascii_ws u \<longleftrightarrow> unat u \<in> {9, 10, 12, 13, 32}"

definition strip_eq :: "jsstr \<Rightarrow> jsstr" where
  "strip_eq s =
     (if length s mod 4 = 0 \<and> s \<noteq> [] \<and> last s = eq_sign then
        (let t = butlast s in if t \<noteq> [] \<and> last t = eq_sign then butlast t else t)
      else s)"

definition atob :: "jsstr \<Rightarrow> jsstr option" where
  "atob s =
     (let t = strip_eq (filter (\<lambda>u. \<not> is_ascii_ws u) s)
      in if length t mod 4 \<noteq> 1 \<and> list_all (\<lambda>u. b64_std_val u \<noteq> None) t
         then Some (map (\<lambda>b. u16 (unat b)) (b64_groups (List.map_filter b64_std_val t)))
         else None)"

lemma b64_std_val_digit [simp]: "n < 64 \<Longrightarrow> b64_std_val (b64_digit n) = Some n"
proof -
  assume n: "n < 64"
  consider "n < 26" | "26 \<le> n" "n < 52" | "52 \<le> n" "n < 62" | "n = 62" | "n = 63"
    using n by linarith
  then show ?thesis
    by cases (auto simp: b64_digit_def b64_std_val_def unat_u16 simp del: of_nat_add of_nat_diff)
qed

lemma b64_val_digit [simp]:
  assumes "n < 64"
  shows "b64_val (b64_digit n) = Some n"
proof -
  have "unat (b64_digit n) \<noteq> 45 \<and> unat (b64_digit n) \<noteq> 95"
    using b64_std_val_digit [OF assms] by (auto simp: b64_std_val_def split: if_splits)
  then show ?thesis
    by (simp add: b64_val_def assms)
qed

lemma b64_val_eq_sign [simp]: "b64_val eq_sign = None" "b64_std_val eq_sign = None"
  by (simp_all add: b64_val_def b64_std_val_def)

lemma map_filter_Cons [simp]:
  "List.map_filter f (x # xs) =
     (case f x of None \<Rightarrow> List.map_filter f xs | Some y \<Rightarrow> y # List.map_filter f xs)"
  "List.map_filter f [] = []"
  by (simp_all add: List.map_filter_simps)

text \<open>The six-bit digits of one, two and three bytes.\<close>

lemma sextets:
  fixes a b c :: byte
  shows "unat a div 4 < 64" "unat a mod 4 * 16 + unat b div 16 < 64"
    "unat b mod 16 * 4 + unat c div 64 < 64" "unat c mod 64 < 64"
    "unat a mod 4 * 16 < 64" "unat b mod 16 * 4 < 64"
  using unat_byte_less [of a] unat_byte_less [of b] unat_byte_less [of c] by auto

lemma octets:
  fixes a b c :: byte
  shows "unat a div 4 * 4 + (unat a mod 4 * 16 + unat b div 16) div 16 = unat a"
    "(unat a mod 4 * 16 + unat b div 16) mod 16 * 16 + (unat b mod 16 * 4 + unat c div 64) div 4
       = unat b"
    "(unat b mod 16 * 4 + unat c div 64) mod 4 * 64 + unat c mod 64 = unat c"
    "unat a div 4 * 4 + unat a mod 4 * 16 div 16 = unat a"
    "(unat a mod 4 * 16 + unat b div 16) mod 16 * 16 + unat b mod 16 * 4 div 4 = unat b"
proof -
  have r: "unat b div 16 < 16" "unat c div 64 < 4"
    using unat_byte_less [of b] unat_byte_less [of c] by auto
  show "unat a div 4 * 4 + (unat a mod 4 * 16 + unat b div 16) div 16 = unat a"
    "(unat a mod 4 * 16 + unat b div 16) mod 16 * 16 + (unat b mod 16 * 4 + unat c div 64) div 4
       = unat b"
    "(unat b mod 16 * 4 + unat c div 64) mod 4 * 64 + unat c mod 64 = unat c"
    "unat a div 4 * 4 + unat a mod 4 * 16 div 16 = unat a"
    "(unat a mod 4 * 16 + unat b div 16) mod 16 * 16 + unat b mod 16 * 4 div 4 = unat b"
    using r by simp_all
qed

fun b64_sextets :: "bytes \<Rightarrow> nat list" where
  "b64_sextets [] = []"
| "b64_sextets [a] = [unat a div 4, unat a mod 4 * 16]"
| "b64_sextets [a, b] =
     [unat a div 4, unat a mod 4 * 16 + unat b div 16, unat b mod 16 * 4]"
| "b64_sextets (a # b # c # bs) =
     unat a div 4 # (unat a mod 4 * 16 + unat b div 16) # (unat b mod 16 * 4 + unat c div 64)
     # (unat c mod 64) # b64_sextets bs"

lemma b64_groups_sextets: "b64_groups (b64_sextets bs) = bs"
  by (induction bs rule: b64_sextets.induct)
    (simp_all only: b64_sextets.simps b64_groups.simps octets u8_unat)

lemma b64_filter_enc:
  "List.map_filter b64_val (b64_enc bs) = b64_sextets bs"
  by (induction bs rule: b64_enc.induct) (simp_all add: sextets)

lemma b64_dec_enc [simp]: "b64_dec (b64_enc bs) = bs"
  by (simp add: b64_dec_def b64_filter_enc b64_groups_sextets)

interpretation b64: codec b64_enc "\<lambda>s. Some (b64_dec s)" "\<lambda>_. True"
  by unfold_locales simp

text \<open>The text of a Base64 encoding: digits, then at most two equals signs.\<close>

definition b64_pad :: "bytes \<Rightarrow> jsstr" where
  "b64_pad bs = replicate ((3 - length bs mod 3) mod 3) eq_sign"

lemma b64_enc_split: "b64_enc bs = map b64_digit (b64_sextets bs) @ b64_pad bs"
  by (induction bs rule: b64_enc.induct) (simp_all add: b64_pad_def numeral_2_eq_2)

lemma b64_sextets_less: "n \<in> set (b64_sextets bs) \<Longrightarrow> n < 64"
  by (induction bs rule: b64_sextets.induct) (auto simp: sextets simp del: mod_mult_right_eq)

lemma length_b64_sextets_mod:
  "length (b64_sextets bs) mod 4 =
     (if length bs mod 3 = 0 then 0 else if length bs mod 3 = 1 then 2 else 3)"
  by (induction bs rule: b64_sextets.induct) simp_all

lemma length_b64_enc: "length (b64_enc bs) mod 4 = 0"
  by (induction bs rule: b64_enc.induct) simp_all

lemma b64_digit_text:
  assumes "n < 64"
  shows "\<not> is_ascii_ws (b64_digit n)" and "b64_digit n \<noteq> eq_sign"
proof -
  have "b64_std_val (b64_digit n) = Some n" using assms by simp
  then show "\<not> is_ascii_ws (b64_digit n)" and "b64_digit n \<noteq> eq_sign"
    by (auto simp: b64_std_val_def is_ascii_ws_def split: if_splits)
qed

lemma filter_ws_b64_enc: "filter (\<lambda>u. \<not> is_ascii_ws u) (b64_enc bs) = b64_enc bs"
proof (rule filter_True, rule ballI)
  fix u
  assume "u \<in> set (b64_enc bs)"
  then consider n where "u = b64_digit n" "n < 64" | "u = eq_sign"
    by (auto simp: b64_enc_split b64_pad_def b64_sextets_less)
  then show "\<not> is_ascii_ws u"
  proof cases
    case 1
    then show ?thesis by (simp add: b64_digit_text)
  next
    case 2
    then show ?thesis by (simp add: is_ascii_ws_def)
  qed
qed

lemma strip_eq_b64_enc: "strip_eq (b64_enc bs) = map b64_digit (b64_sextets bs)"
proof -
  let ?d = "map b64_digit (b64_sextets bs)"
  have l: "?d = [] \<or> last ?d \<noteq> eq_sign"
    by (metis b64_digit_text(2) b64_sextets_less last_in_set last_map list.map_disc_iff)
  have m: "length (b64_enc bs) mod 4 = 0" by (rule length_b64_enc)
  consider "length bs mod 3 = 0" | "length bs mod 3 = 1" | "length bs mod 3 = 2"
    by linarith
  then show ?thesis
  proof cases
    case 1
    then have "b64_enc bs = ?d" by (simp add: b64_enc_split b64_pad_def)
    with l show ?thesis by (auto simp: strip_eq_def)
  next
    case 2
    then have e: "b64_enc bs = ?d @ [eq_sign, eq_sign]"
      by (simp add: b64_enc_split b64_pad_def numeral_2_eq_2)
    with m show ?thesis by (simp add: strip_eq_def butlast_append)
  next
    case 3
    then have e: "b64_enc bs = ?d @ [eq_sign]"
      by (simp add: b64_enc_split b64_pad_def)
    with m l show ?thesis by (auto simp: strip_eq_def butlast_append)
  qed
qed

lemma map_filter_digits:
  "\<forall>n \<in> set vs. n < 64 \<Longrightarrow> List.map_filter b64_std_val (map b64_digit vs) = vs"
  by (induction vs) simp_all

lemma atob_b64_enc: "atob (b64_enc bs) = Some (map (\<lambda>b. u16 (unat b)) bs)"
proof -
  let ?d = "map b64_digit (b64_sextets bs)"
  have "length ?d mod 4 \<noteq> 1"
    by (simp add: length_b64_sextets_mod)
  moreover have "list_all (\<lambda>u. b64_std_val u \<noteq> None) ?d"
    by (auto simp: list_all_iff b64_sextets_less)
  moreover have "List.map_filter b64_std_val ?d = b64_sextets bs"
    by (rule map_filter_digits) (simp add: b64_sextets_less)
  ultimately show ?thesis
    by (simp only: atob_def filter_ws_b64_enc strip_eq_b64_enc Let_def b64_groups_sextets
        simp_thms if_True)
qed

text \<open>
  \<^verbatim>\<open>atob(btoa(s))\<close> is \<open>s\<close>, where \<^verbatim>\<open>btoa\<close> does not throw.
\<close>

lemma u16_u8: "unat u < 256 \<Longrightarrow> u16 (unat (u8 (unat u))) = u"
  by (simp only: unat_u8 u16_unat)

text \<open>Reading UTF-8 bytes as Latin-1 gives the text back only when it is ASCII.\<close>

lemma latin1_utf8: "map (\<lambda>b. u16 (unat b)) (utf8_enc s) = s \<longleftrightarrow> (\<forall>u \<in> set s. unat u < 128)"
proof
  assume "map (\<lambda>b. u16 (unat b)) (utf8_enc s) = s"
  then have "length (utf8_enc s) = length s" by (metis length_map)
  then show "\<forall>u \<in> set s. unat u < 128" using utf8_enc_long [of s] by auto
next
  assume a: "\<forall>u \<in> set s. unat u < 128"
  then have "map (\<lambda>b. u16 (unat b)) (map (\<lambda>u. u8 (unat u)) s) = s"
    unfolding map_map comp_def by (intro map_idI) (metis u16_u8 less_trans numeral_less_iff semiring_norm(76,78,79))
  then show "map (\<lambda>b. u16 (unat b)) (utf8_enc s) = s" by (simp only: utf8_enc_ascii [OF a])
qed

lemma atob_btoa: "btoa s = Some t \<Longrightarrow> atob t = Some s"
proof -
  assume "btoa s = Some t"
  then have l: "\<forall>u \<in> set s. unat u < 256" and t: "t = b64_enc (map (\<lambda>u. u8 (unat u)) s)"
    by (auto simp: btoa_def latin1_def list_all_iff split: if_splits)
  from l have "map (\<lambda>b. u16 (unat b)) (map (\<lambda>u. u8 (unat u)) s) = s"
    unfolding map_map comp_def by (intro map_idI) (simp only: u16_u8)
  then show "atob t = Some s"
    by (simp only: t atob_b64_enc)
qed

interpretation btoa: codec "\<lambda>s. the (btoa s)" atob latin1
  by unfold_locales (metis atob_btoa btoa_def option.sel)

section \<open>\<^verbatim>\<open>encodeURIComponent\<close>\<close>

definition uri_unreserved :: "unit16 \<Rightarrow> bool" where
  "uri_unreserved u \<longleftrightarrow>
     65 \<le> unat u \<and> unat u \<le> 90 \<or> 97 \<le> unat u \<and> unat u \<le> 122 \<or> 48 \<le> unat u \<and> unat u \<le> 57
       \<or> u \<in> set (js ''-_.!~*()'') \<or> u = 39"

definition upper_hex :: "nat \<Rightarrow> unit16" where
  "upper_hex n = (if n < 10 then u16 (48 + n) else u16 (55 + n))"

definition pct_byte :: "byte \<Rightarrow> jsstr" where
  "pct_byte b = [37, upper_hex (unat b div 16), upper_hex (unat b mod 16)]"

fun uri_encode :: "jsstr \<Rightarrow> jsstr" where
  "uri_encode [] = []"
| "uri_encode (u # s) =
     (if uri_unreserved u then u # uri_encode s
      else if hi_sur u then
        (case s of
           [] \<Rightarrow> []
         | v # s' \<Rightarrow> concat (map pct_byte (utf8_enc [u, v])) @ uri_encode s')
      else concat (map pct_byte (utf8_enc [u])) @ uri_encode s)"

text \<open>A string that is not well formed makes it throw.\<close>

definition encodeURIComponent :: "jsstr \<Rightarrow> exn + jsstr" where
  "encodeURIComponent s =
     (if wf_str s then Inr (uri_encode s) else Inl (native CURIError (js ''URI malformed'')))"

end
