(* ===== verification/Sha256.thy ===== *)
theory Sha256
  imports Codecs
begin

text \<open>
  The part of Node's \<^verbatim>\<open>crypto\<close> module that \<^verbatim>\<open>onvm-sdk/src/auth.ts\<close> uses: SHA-256 on byte
  strings (FIPS 180-4) and \<^verbatim>\<open>createHmac('sha256', key)\<close> (FIPS 198-1). Both compute;
  \<open>sha256_abc\<close> is the one-block test vector of the standard. The locale \<open>mac_alg\<close> is what the key
  derivation relies on: tags have a fixed positive length.
\<close>

unbundle bit_operations_syntax

type_synonym word32 = "32 word"

section \<open>SHA-256\<close>

definition sha_sigma0 :: "word32 \<Rightarrow> word32" where
  "sha_sigma0 x = word_rotr 7 x XOR word_rotr 18 x XOR drop_bit 3 x"

definition sha_sigma1 :: "word32 \<Rightarrow> word32" where
  "sha_sigma1 x = word_rotr 17 x XOR word_rotr 19 x XOR drop_bit 10 x"

definition sha_Sigma0 :: "word32 \<Rightarrow> word32" where
  "sha_Sigma0 x = word_rotr 2 x XOR word_rotr 13 x XOR word_rotr 22 x"

definition sha_Sigma1 :: "word32 \<Rightarrow> word32" where
  "sha_Sigma1 x = word_rotr 6 x XOR word_rotr 11 x XOR word_rotr 25 x"

definition sha_Ch :: "word32 \<Rightarrow> word32 \<Rightarrow> word32 \<Rightarrow> word32" where
  "sha_Ch x y z = (x AND y) XOR (NOT x AND z)"

definition sha_Maj :: "word32 \<Rightarrow> word32 \<Rightarrow> word32 \<Rightarrow> word32" where
  "sha_Maj x y z = (x AND y) XOR (x AND z) XOR (y AND z)"

definition sha_K :: "word32 list" where
  "sha_K =
    [1116352408, 1899447441, 3049323471, 3921009573, 961987163, 1508970993, 2453635748, 2870763221,
     3624381080, 310598401, 607225278, 1426881987, 1925078388, 2162078206, 2614888103, 3248222580,
     3835390401, 4022224774, 264347078, 604807628, 770255983, 1249150122, 1555081692, 1996064986,
     2554220882, 2821834349, 2952996808, 3210313671, 3336571891, 3584528711, 113926993, 338241895,
     666307205, 773529912, 1294757372, 1396182291, 1695183700, 1986661051, 2177026350, 2456956037,
     2730485921, 2820302411, 3259730800, 3345764771, 3516065817, 3600352804, 4094571909, 275423344,
     430227734, 506948616, 659060556, 883997877, 958139571, 1322822218, 1537002063, 1747873779,
     1955562222, 2024104815, 2227730452, 2361852424, 2428436474, 2756734187, 3204031479, 3329325298]"

definition sha_H0 :: "word32 list" where
  "sha_H0 =
    [1779033703, 3144134277, 1013904242, 2773480762,
     1359893119, 2600822924, 528734635, 1541459225]"

text \<open>The message schedule, newest word first.\<close>

fun sha_schedule :: "nat \<Rightarrow> word32 list \<Rightarrow> word32 list" where
  "sha_schedule 0 ws = rev ws"
| "sha_schedule (Suc n) ws =
     sha_schedule n ((sha_sigma1 (ws ! 1) + ws ! 6 + sha_sigma0 (ws ! 14) + ws ! 15) # ws)"

fun sha_round :: "word32 list \<Rightarrow> word32 \<times> word32 \<Rightarrow> word32 list" where
  "sha_round [a, b, c, d, e, f, g, h] (k, w) =
     (let t1 = h + sha_Sigma1 e + sha_Ch e f g + k + w;
          t2 = sha_Sigma0 a + sha_Maj a b c
      in [t1 + t2, a, b, c, d + t1, e, f, g])"
| "sha_round s _ = s"

definition sha_block :: "word32 list \<Rightarrow> word32 list \<Rightarrow> word32 list" where
  "sha_block h m = map2 (+) h (foldl sha_round h (zip sha_K (sha_schedule 48 (rev m))))"

definition be32 :: "byte \<Rightarrow> byte \<Rightarrow> byte \<Rightarrow> byte \<Rightarrow> word32" where
  "be32 a b c d = push_bit 24 (ucast a) OR push_bit 16 (ucast b) OR push_bit 8 (ucast c) OR ucast d"

fun be_words :: "bytes \<Rightarrow> word32 list" where
  "be_words (a # b # c # d # bs) = be32 a b c d # be_words bs"
| "be_words _ = []"

definition be_bytes :: "word32 \<Rightarrow> bytes" where
  "be_bytes w = [ucast (drop_bit 24 w), ucast (drop_bit 16 w), ucast (drop_bit 8 w), ucast w]"

text \<open>A one bit, zeros up to 56 modulo 64 bytes, and the length in bits as 64 bits.\<close>

definition sha_pad :: "bytes \<Rightarrow> bytes" where
  "sha_pad m =
     (let bits = 8 * of_nat (length m) :: 64 word
      in m @ 0x80 # replicate ((119 - length m mod 64) mod 64) 0
           @ map (\<lambda>i. ucast (drop_bit i bits)) [56, 48, 40, 32, 24, 16, 8, 0])"

fun sha_chunks :: "nat \<Rightarrow> word32 list \<Rightarrow> word32 list \<Rightarrow> word32 list" where
  "sha_chunks 0 h ws = h"
| "sha_chunks (Suc n) h ws = sha_chunks n (sha_block h (take 16 ws)) (drop 16 ws)"

definition sha256 :: "bytes \<Rightarrow> bytes" where
  "sha256 m =
     (let ws = be_words (sha_pad m)
      in concat (map be_bytes (sha_chunks (length ws div 16) sha_H0 ws)))"

section \<open>HMAC\<close>

definition hmac_sha256 :: "bytes \<Rightarrow> bytes \<Rightarrow> bytes" where
  "hmac_sha256 key m =
     (let k0 = (if 64 < length key then sha256 key else key);
          k = k0 @ replicate (64 - length k0) 0
      in sha256 (map (\<lambda>b. b XOR 0x5c) k @ sha256 (map (\<lambda>b. b XOR 0x36) k @ m)))"

section \<open>Lengths\<close>

lemma length_sha_round [simp]: "length h = 8 \<Longrightarrow> length (sha_round h kw) = 8"
proof -
  assume "length h = 8"
  then obtain a b c d e f g i where "h = [a, b, c, d, e, f, g, i]"
    by (auto simp: numeral_eq_Suc length_Suc_conv)
  then show ?thesis by (cases kw) (simp add: Let_def)
qed

lemma length_sha_rounds: "length h = 8 \<Longrightarrow> length (foldl sha_round h kws) = 8"
  by (induction kws arbitrary: h) simp_all

lemma length_sha_block: "length h = 8 \<Longrightarrow> length (sha_block h m) = 8"
  by (simp add: sha_block_def length_sha_rounds)

lemma length_sha_chunks: "length h = 8 \<Longrightarrow> length (sha_chunks n h ws) = 8"
  by (induction n arbitrary: h ws) (simp_all add: length_sha_block)

lemma length_concat_be_bytes: "length (concat (map be_bytes ws)) = 4 * length ws"
  by (induction ws) (simp_all add: be_bytes_def)

lemma length_sha256 [simp]: "length (sha256 m) = 32"
  by (simp add: sha256_def Let_def length_concat_be_bytes length_sha_chunks sha_H0_def)

text \<open>The padding is a whole number of blocks, so no word of the message is dropped.\<close>

lemma length_sha_pad: "length (sha_pad m) mod 64 = 0"
proof -
  have "length (sha_pad m) = length m + 9 + (119 - length m mod 64) mod 64"
    by (simp add: sha_pad_def Let_def)
  moreover have "(a + 9 + (119 - a mod 64) mod 64) mod 64 = 0" for a :: nat
  proof -
    have "a mod 64 < 64" by simp
    moreover have "(a + 9 + (119 - a mod 64) mod 64) mod 64 =
        (a mod 64 + 9 + (119 - a mod 64)) mod 64"
      by (metis mod_add_left_eq mod_add_right_eq)
    ultimately show ?thesis by simp
  qed
  ultimately show ?thesis by simp
qed

lemma sha256_abc:
  "sha256 [0x61, 0x62, 0x63] =
     [0xba, 0x78, 0x16, 0xbf, 0x8f, 0x01, 0xcf, 0xea, 0x41, 0x41, 0x40, 0xde, 0x5d, 0xae, 0x22, 0x23,
      0xb0, 0x03, 0x61, 0xa3, 0x96, 0x17, 0x7a, 0x9c, 0xb4, 0x10, 0xff, 0x61, 0xf2, 0x00, 0x15, 0xad]"
  by code_simp

locale mac_alg =
  fixes mac :: "bytes \<Rightarrow> bytes \<Rightarrow> bytes" and tag_len :: nat
  assumes length_mac: "length (mac k m) = tag_len"
    and tag_len_pos: "0 < tag_len"

interpretation hmac: mac_alg hmac_sha256 32
  by unfold_locales (simp_all add: hmac_sha256_def Let_def)

end
