(* ===== verification/Json.thy ===== *)
theory Json
  imports Codecs
begin

text \<open>
  Numbers as text, and JSON: the value type, \<^verbatim>\<open>JSON.stringify\<close>, \<^verbatim>\<open>JSON.parse\<close>, and
  property access on parsed values.

  A finite JavaScript number is modelled by the rational it denotes; the rounding of
  arithmetic to 53 bits and the exponent form of numbers outside
  \<open>10\<^sup>-\<^sup>6 \<le> |x| < 10\<^sup>2\<^sup>1\<close> are not. \<open>JSON_parse\<close> runs a
  recursive-descent parser with fuel \<open>2 * length s + 2\<close>; \<open>jp_val_enough\<close> shows that
  this fuel is enough for every text, so \<open>None\<close> is a SyntaxError and never exhausted
  fuel.
\<close>

section \<open>Decimal numbers\<close>

fun show_nat :: "nat \<Rightarrow> jsstr" where
  "show_nat n = (if n < 10 then [u16 (48 + n)] else show_nat (n div 10) @ [u16 (48 + n mod 10)])"

declare show_nat.simps [simp del]

definition show_int :: "int \<Rightarrow> jsstr" where
  "show_int i = (if i < 0 then 45 # show_nat (nat (- i)) else show_nat (nat i))"

definition is_digit :: "unit16 \<Rightarrow> bool" where
  "is_digit u \<longleftrightarrow> 48 \<le> unat u \<and> unat u \<le> 57"

definition digits_val :: "jsstr \<Rightarrow> nat" where
  "digits_val ds = foldl (\<lambda>n u. 10 * n + (unat u - 48)) 0 ds"

lemma unat_digit: "n < 10 \<Longrightarrow> unat (u16 (48 + n)) = 48 + n"
  by (rule unat_u16) simp

lemma is_digit_digit: "n < 10 \<Longrightarrow> is_digit (u16 (48 + n))"
  by (simp only: is_digit_def unat_digit) simp

lemma digits_val_snoc: "digits_val (ds @ [u]) = 10 * digits_val ds + (unat u - 48)"
  by (simp add: digits_val_def)

lemma show_nat_digits: "u \<in> set (show_nat n) \<Longrightarrow> is_digit u"
proof (induction n rule: show_nat.induct)
  case (1 n)
  show ?case
  proof (cases "n < 10")
    case True
    then have "show_nat n = [u16 (48 + n)]" by (subst show_nat.simps) (simp only: if_True)
    with "1.prems" is_digit_digit [OF True] show ?thesis by simp
  next
    case False
    then have "show_nat n = show_nat (n div 10) @ [u16 (48 + n mod 10)]"
      by (subst show_nat.simps) (simp only: if_False)
    then have "set (show_nat n) = insert (u16 (48 + n mod 10)) (set (show_nat (n div 10)))"
      by (simp only: set_append) simp
    with "1.prems" "1.IH" [OF False] is_digit_digit [of "n mod 10"] show ?thesis
      by (metis insertE mod_less_divisor zero_less_numeral)
  qed
qed

lemma digits_val_show_nat [simp]: "digits_val (show_nat n) = n"
proof (induction n rule: show_nat.induct)
  case (1 n)
  show ?case
  proof (cases "n < 10")
    case True
    then have "show_nat n = [] @ [u16 (48 + n)]"
      by (subst show_nat.simps) (simp only: if_True append_Nil)
    then show ?thesis
      by (simp only: digits_val_snoc unat_digit [OF True]) (simp add: digits_val_def)
  next
    case False
    then have "show_nat n = show_nat (n div 10) @ [u16 (48 + n mod 10)]"
      by (subst show_nat.simps) (simp only: if_False)
    moreover have "unat (u16 (48 + n mod 10)) = 48 + n mod 10"
      by (rule unat_digit) simp
    ultimately have "digits_val (show_nat n) = 10 * (n div 10) + n mod 10"
      using "1.IH" [OF False] by (simp add: digits_val_snoc del: of_nat_add)
    then show ?thesis by simp
  qed
qed

lemma show_nat_neq_Nil [simp]: "show_nat n \<noteq> []"
  by (subst show_nat.simps) simp

lemma show_nat_leading: "length (show_nat n) > 1 \<Longrightarrow> hd (show_nat n) \<noteq> 48"
proof (induction n rule: show_nat.induct)
  case (1 n)
  have big: "\<not> n < 10"
    using "1.prems" by (subst (asm) show_nat.simps) (auto split: if_splits)
  then have e: "show_nat n = show_nat (n div 10) @ [u16 (48 + n mod 10)]"
    by (subst show_nat.simps) (simp only: if_False)
  show ?case
  proof (cases "n div 10 < 10")
    case True
    then have "show_nat (n div 10) = [u16 (48 + n div 10)]"
      by (subst show_nat.simps) (simp only: if_True)
    then have h: "hd (show_nat n) = u16 (48 + n div 10)" by (simp add: e del: of_nat_add)
    have "0 < n div 10" using big by (simp add: div_greater_zero_iff)
    then have "unat (hd (show_nat n)) \<noteq> 48" by (simp only: h unat_digit [OF True])
    then show ?thesis by auto
  next
    case False
    then have "length (show_nat (n div 10)) > 1"
      by (subst show_nat.simps) (simp add: Suc_lessI)
    with "1.IH" [OF big] show ?thesis by (simp add: e)
  qed
qed

text \<open>
  \<^verbatim>\<open>parseInt(s)\<close> with no radix: leading white space, a sign, a \<^verbatim>\<open>0x\<close> prefix, then as
  many digits as there are; \<open>None\<close> is NaN.
\<close>

definition is_js_ws :: "unit16 \<Rightarrow> bool" where
  "is_js_ws u \<longleftrightarrow>
     unat u \<in> {9, 10, 11, 12, 13, 32, 160, 5760, 8232, 8233, 8239, 8287, 12288, 65279}
       \<or> 8192 \<le> unat u \<and> unat u \<le> 8202"

definition parse_nat :: "jsstr \<Rightarrow> nat option" where
  "parse_nat s =
     (if starts_with s (js ''0x'') \<or> starts_with s (js ''0X'') then
        (let hs = takeWhile (\<lambda>u. hex_val u \<noteq> None) (drop 2 s)
         in if hs = [] then None
            else Some (foldl (\<lambda>n u. 16 * n + the (hex_val u)) 0 hs))
      else
        (let ds = takeWhile is_digit s in if ds = [] then None else Some (digits_val ds)))"

definition parseInt :: "jsstr \<Rightarrow> int option" where
  "parseInt s =
     (case dropWhile is_js_ws s of
        [] \<Rightarrow> None
      | c # r \<Rightarrow>
          if c = 45 then map_option (\<lambda>n. - int n) (parse_nat r)
          else if c = 43 then map_option int (parse_nat r)
          else map_option int (parse_nat (c # r)))"

text \<open>\<^verbatim>\<open>s.trim()\<close>.\<close>

definition trim :: "jsstr \<Rightarrow> jsstr" where
  "trim s = rev (dropWhile is_js_ws (rev (dropWhile is_js_ws s)))"

lemma digit_not_ws: "is_digit u \<Longrightarrow> \<not> is_js_ws u \<and> u \<noteq> 45 \<and> u \<noteq> 43"
  by (auto simp: is_digit_def is_js_ws_def)

lemma takeWhile_show_nat: "takeWhile is_digit (show_nat n) = show_nat n"
  by (simp add: show_nat_digits)

lemma js_0x: "js ''0x'' = [48, 120]" "js ''0X'' = [48, 88]"
  by (simp_all add: js_def ju_def)

lemma parse_nat_show [simp]: "parse_nat (show_nat n) = Some n"
proof -
  have "\<not> starts_with (show_nat n) [48, x]" if "\<not> is_digit x" for x
  proof
    assume "starts_with (show_nat n) [48, x]"
    then obtain t where "show_nat n = [48, x] @ t" by (auto simp: starts_with_iff)
    then have "x \<in> set (show_nat n)" by simp
    with that show_nat_digits show False by blast
  qed
  from this [of 120] this [of 88] show ?thesis
    by (simp add: parse_nat_def js_0x takeWhile_show_nat is_digit_def)
qed

lemma parseInt_show_int [simp]: "parseInt (show_int i) = Some i"
proof (cases "i < 0")
  case True
  then show ?thesis
    by (simp add: parseInt_def show_int_def is_js_ws_def)
next
  case False
  obtain c r where cr: "show_nat (nat i) = c # r"
    by (cases "show_nat (nat i)") simp_all
  then have "is_digit c" using show_nat_digits [of c "nat i"] by simp
  with False show ?thesis
    using parse_nat_show [of "nat i"]
    by (simp add: parseInt_def show_int_def cr digit_not_ws)
qed

section \<open>Numbers as text\<close>

fun frac_digits :: "nat \<Rightarrow> rat \<Rightarrow> jsstr" where
  "frac_digits 0 q = []"
| "frac_digits (Suc n) q =
     (if q = 0 then []
      else u16 (48 + nat \<lfloor>10 * q\<rfloor>) # frac_digits n (10 * q - of_int \<lfloor>10 * q\<rfloor>))"

text \<open>\<^verbatim>\<open>String(x)\<close> for a finite number, with at most 17 decimals.\<close>

definition num_str :: "rat \<Rightarrow> jsstr" where
  "num_str r =
     (if of_int \<lfloor>r\<rfloor> = r then show_int \<lfloor>r\<rfloor>
      else (if r < 0 then [45] else []) @ show_nat (nat \<lfloor>\<bar>r\<bar>\<rfloor>) @ 46
        # frac_digits 17 (\<bar>r\<bar> - of_int \<lfloor>\<bar>r\<bar>\<rfloor>))"

lemma num_str_int [simp]: "num_str (of_int i) = show_int i"
  by (simp add: num_str_def)

section \<open>JSON values and \<^verbatim>\<open>JSON.stringify\<close>\<close>

datatype json =
    JNull
  | JBool bool
  | JNum rat
  | JStr jsstr
  | JArr "json list"
  | JObj "(jsstr \<times> json) list"

definition hex4 :: "nat \<Rightarrow> jsstr" where
  "hex4 n = [hex_digit (n div 4096), hex_digit (n div 256 mod 16), hex_digit (n div 16 mod 16),
     hex_digit (n mod 16)]"

definition esc_u :: "unit16 \<Rightarrow> jsstr" where
  "esc_u u = [92, 117] @ hex4 (unat u)"

definition esc_unit :: "unit16 \<Rightarrow> jsstr" where
  "esc_unit u =
     (if u = 34 then [92, 34]
      else if u = 92 then [92, 92]
      else if u = 8 then [92, 98]
      else if u = 12 then [92, 102]
      else if u = 10 then [92, 110]
      else if u = 13 then [92, 114]
      else if u = 9 then [92, 116]
      else if unat u < 32 then esc_u u
      else [u])"

fun esc_str :: "jsstr \<Rightarrow> jsstr" where
  "esc_str [] = []"
| "esc_str (u # s) =
     (if hi_sur u then
        (case s of
           v # s' \<Rightarrow> if lo_sur v then u # v # esc_str s' else esc_u u @ esc_str s
         | [] \<Rightarrow> esc_u u)
      else if lo_sur u then esc_u u @ esc_str s
      else esc_unit u @ esc_str s)"

definition quote :: "jsstr \<Rightarrow> jsstr" where
  "quote s = 34 # esc_str s @ [34]"

fun join :: "jsstr \<Rightarrow> jsstr list \<Rightarrow> jsstr" where
  "join sep [] = []"
| "join sep [x] = x"
| "join sep (x # xs) = x @ sep @ join sep xs"

fun JSON_stringify :: "json \<Rightarrow> jsstr" where
  "JSON_stringify JNull = js ''null''"
| "JSON_stringify (JBool b) = (if b then js ''true'' else js ''false'')"
| "JSON_stringify (JNum r) = num_str r"
| "JSON_stringify (JStr s) = quote s"
| "JSON_stringify (JArr vs) = [91] @ join [44] (map JSON_stringify vs) @ [93]"
| "JSON_stringify (JObj kvs) =
     [123] @ join [44] (map (\<lambda>kv. quote (fst kv) @ [58] @ JSON_stringify (snd kv)) kvs) @ [125]"

text \<open>
  An object literal of the source: a field whose value is \<^verbatim>\<open>undefined\<close> is left out by
  \<^verbatim>\<open>JSON.stringify\<close>.
\<close>

definition obj_literal :: "(string \<times> json option) list \<Rightarrow> json" where
  "obj_literal fs = JObj (List.map_filter (\<lambda>(k, v). map_option (Pair (js k)) v) fs)"

section \<open>\<^verbatim>\<open>JSON.parse\<close>\<close>

definition is_json_ws :: "unit16 \<Rightarrow> bool" where
  "is_json_ws u \<longleftrightarrow> u = 9 \<or> u = 10 \<or> u = 13 \<or> u = 32"

abbreviation skip_ws :: "jsstr \<Rightarrow> jsstr" where
  "skip_ws \<equiv> dropWhile is_json_ws"

definition un_hex4 :: "unit16 \<Rightarrow> unit16 \<Rightarrow> unit16 \<Rightarrow> unit16 \<Rightarrow> unit16 option" where
  "un_hex4 a b c d =
     (case (hex_val a, hex_val b, hex_val c, hex_val d) of
        (Some p, Some q, Some r, Some s) \<Rightarrow> Some (u16 (((p * 16 + q) * 16 + r) * 16 + s))
      | _ \<Rightarrow> None)"

definition un_escape :: "unit16 \<Rightarrow> unit16 option" where
  "un_escape e =
     (if e = 34 \<or> e = 92 \<or> e = 47 then Some e
      else if e = 98 then Some 8
      else if e = 102 then Some 12
      else if e = 110 then Some 10
      else if e = 114 then Some 13
      else if e = 116 then Some 9
      else None)"

abbreviation push :: "'a \<Rightarrow> ('a list \<times> 'b) option \<Rightarrow> ('a list \<times> 'b) option" where
  "push x \<equiv> map_option (\<lambda>(xs, r). (x # xs, r))"

text \<open>The characters of a string, after the opening quote.\<close>

fun jp_str :: "jsstr \<Rightarrow> (jsstr \<times> jsstr) option" where
  "jp_str [] = None"
| "jp_str (c # s) =
     (if c = 34 then Some ([], s)
      else if c = 92 then
        (case s of
           [] \<Rightarrow> None
         | e # t \<Rightarrow>
             if e = 117 then
               (case t of
                  p # q # r # w # t' \<Rightarrow>
                    (case un_hex4 p q r w of None \<Rightarrow> None | Some u \<Rightarrow> push u (jp_str t'))
                | _ \<Rightarrow> None)
             else (case un_escape e of None \<Rightarrow> None | Some u \<Rightarrow> push u (jp_str t)))
      else if unat c < 32 then None
      else push c (jp_str s))"

definition jp_exp :: "jsstr \<Rightarrow> (int \<times> jsstr) option" where
  "jp_exp s =
     (case s of
        e # t \<Rightarrow>
          if e = 101 \<or> e = 69 then
            (let neg = (case t of c # _ \<Rightarrow> c = 45 | [] \<Rightarrow> False);
                 t' = (case t of c # r \<Rightarrow> if c = 45 \<or> c = 43 then r else t | [] \<Rightarrow> []);
                 ds = takeWhile is_digit t'
             in if ds = [] then None
                else Some ((if neg then - 1 else 1) * int (digits_val ds), dropWhile is_digit t'))
          else Some (0, s)
      | [] \<Rightarrow> Some (0, s))"

definition jp_frac :: "jsstr \<Rightarrow> (jsstr \<times> jsstr) option" where
  "jp_frac s =
     (case s of
        c # t \<Rightarrow>
          if c = 46 then
            (let ds = takeWhile is_digit t
             in if ds = [] then None else Some (ds, dropWhile is_digit t))
          else Some ([], s)
      | [] \<Rightarrow> Some ([], s))"

definition scale10 :: "int \<Rightarrow> rat \<Rightarrow> rat" where
  "scale10 e r = (if 0 \<le> e then r * 10 ^ nat e else r / 10 ^ nat (- e))"

definition jp_num :: "jsstr \<Rightarrow> (rat \<times> jsstr) option" where
  "jp_num s =
     (let neg = (case s of c # _ \<Rightarrow> c = 45 | [] \<Rightarrow> False);
          t = (if neg then tl s else s);
          ds = takeWhile is_digit t
      in if ds = [] \<or> (1 < length ds \<and> hd ds = 48) then None
         else
           (case jp_frac (dropWhile is_digit t) of
              None \<Rightarrow> None
            | Some (fs, t1) \<Rightarrow>
                (case jp_exp t1 of
                   None \<Rightarrow> None
                 | Some (e, t2) \<Rightarrow>
                     Some ((if neg then - 1 else 1)
                        * scale10 (e - int (length fs)) (of_nat (digits_val (ds @ fs))), t2))))"

fun jp_val :: "nat \<Rightarrow> jsstr \<Rightarrow> (json \<times> jsstr) option"
  and jp_elems :: "nat \<Rightarrow> jsstr \<Rightarrow> (json list \<times> jsstr) option"
  and jp_members :: "nat \<Rightarrow> jsstr \<Rightarrow> ((jsstr \<times> json) list \<times> jsstr) option"
where
  "jp_val 0 s = None"
| "jp_val (Suc n) s =
     (case skip_ws s of
        [] \<Rightarrow> None
      | c # r \<Rightarrow>
          if c = 123 then
            (case skip_ws r of
               [] \<Rightarrow> None
             | d # r' \<Rightarrow>
                 if d = 125 then Some (JObj [], r')
                 else map_option (\<lambda>(kvs, t). (JObj (obj_assign [] kvs), t)) (jp_members n r))
          else if c = 91 then
            (case skip_ws r of
               [] \<Rightarrow> None
             | d # r' \<Rightarrow>
                 if d = 93 then Some (JArr [], r')
                 else map_option (\<lambda>(vs, t). (JArr vs, t)) (jp_elems n r))
          else if c = 34 then map_option (\<lambda>(x, t). (JStr x, t)) (jp_str r)
          else if starts_with (c # r) (js ''true'') then Some (JBool True, drop 4 (c # r))
          else if starts_with (c # r) (js ''false'') then Some (JBool False, drop 5 (c # r))
          else if starts_with (c # r) (js ''null'') then Some (JNull, drop 4 (c # r))
          else map_option (\<lambda>(x, t). (JNum x, t)) (jp_num (c # r)))"
| "jp_elems 0 s = None"
| "jp_elems (Suc n) s =
     (case jp_val n s of
        None \<Rightarrow> None
      | Some (v, r) \<Rightarrow>
          (case skip_ws r of
             [] \<Rightarrow> None
           | d # r' \<Rightarrow>
               if d = 44 then push v (jp_elems n r')
               else if d = 93 then Some ([v], r')
               else None))"
| "jp_members 0 s = None"
| "jp_members (Suc n) s =
     (case skip_ws s of
        [] \<Rightarrow> None
      | c # r \<Rightarrow>
          if c \<noteq> 34 then None
          else
            (case jp_str r of
               None \<Rightarrow> None
             | Some (k, r1) \<Rightarrow>
                 (case skip_ws r1 of
                    [] \<Rightarrow> None
                  | d # r2 \<Rightarrow>
                      if d \<noteq> 58 then None
                      else
                        (case jp_val n r2 of
                           None \<Rightarrow> None
                         | Some (v, r3) \<Rightarrow>
                             (case skip_ws r3 of
                                [] \<Rightarrow> None
                              | g # r4 \<Rightarrow>
                                  if g = 44 then push (k, v) (jp_members n r4)
                                  else if g = 125 then Some ([(k, v)], r4)
                                  else None)))))"

definition JSON_parse :: "jsstr \<Rightarrow> json option" where
  "JSON_parse s =
     (case jp_val (2 * length s + 2) s of
        Some (v, r) \<Rightarrow> if skip_ws r = [] then Some v else None
      | None \<Rightarrow> None)"

section \<open>The fuel of the parser is enough\<close>

declare dropWhile_eq_Nil_conv [simp del]

lemma push_Some: "push x m = Some (ys, r) \<longleftrightarrow> (\<exists>xs. m = Some (xs, r) \<and> ys = x # xs)"
  by (cases m) auto

lemma skip_ws_length: "skip_ws s = c # r \<Longrightarrow> length r < length s"
  by (metis length_Cons length_dropWhile_le less_eq_Suc_le)

lemma jp_str_shrinks: "jp_str s = Some (x, r) \<Longrightarrow> length r < length s"
  by (induction s arbitrary: x rule: jp_str.induct)
    (fastforce split: if_splits list.splits option.splits)+

lemma jp_frac_shrinks: "jp_frac s = Some (x, r) \<Longrightarrow> length r \<le> length s"
  by (auto simp: jp_frac_def Let_def split: if_splits list.splits
      intro: le_trans [OF length_dropWhile_le])

lemma jp_exp_shrinks: "jp_exp s = Some (x, r) \<Longrightarrow> length r \<le> length s"
  by (auto simp: jp_exp_def Let_def split: if_splits list.splits
      intro: le_trans [OF length_dropWhile_le])

lemma dropWhile_shorter: "takeWhile P s \<noteq> [] \<Longrightarrow> length (dropWhile P s) < length s"
  by (metis add_diff_cancel_left' length_append length_greater_0_conv less_add_same_cancel2
      takeWhile_dropWhile_id)

lemma jp_num_shrinks:
  assumes "jp_num s = Some (x, r)"
  shows "length r < length s"
proof -
  define t where "t = (if case s of c # _ \<Rightarrow> c = 45 | [] \<Rightarrow> False then tl s else s)"
  have "length t \<le> length s" by (simp add: t_def)
  moreover have "takeWhile is_digit t \<noteq> []"
    using assms by (auto simp: jp_num_def Let_def t_def split: if_splits)
  then have "length (dropWhile is_digit t) < length t"
    by (rule dropWhile_shorter)
  moreover obtain fs t1 e where "jp_frac (dropWhile is_digit t) = Some (fs, t1)"
    and "jp_exp t1 = Some (e, r)"
    using assms by (auto simp: jp_num_def Let_def t_def split: if_splits option.splits)
  then have "length r \<le> length (dropWhile is_digit t)"
    using jp_frac_shrinks jp_exp_shrinks le_trans by blast
  ultimately show ?thesis by simp
qed

lemma jp_val_shrinks: "jp_val n s = Some (v, r) \<Longrightarrow> length r < length s"
  and jp_elems_shrinks: "jp_elems n s = Some (vs, r) \<Longrightarrow> length r < length s"
  and jp_members_shrinks: "jp_members n s = Some (kvs, r) \<Longrightarrow> length r < length s"
proof (induction n s and n s and n s arbitrary: v r and vs r and kvs r
    rule: jp_val_jp_elems_jp_members.induct)
  case (2 n s)
  obtain c t where s: "skip_ws s = c # t"
    using "2.prems" by (cases "skip_ws s") auto
  have t: "length t < length s" by (rule skip_ws_length [OF s])
  have "length r \<le> length t"
    using "2.prems" s "2.IH"(1)[OF s] "2.IH"(2)[OF s]
    by (fastforce split: if_splits list.splits dest: jp_str_shrinks jp_num_shrinks skip_ws_length)
  with t show ?case by simp
next
  case (4 n s)
  obtain v t where v: "jp_val n s = Some (v, t)"
    using "4.prems" by (cases "jp_val n s") auto
  obtain d u where d: "skip_ws t = d # u"
    using "4.prems" v by (cases "skip_ws t") auto
  have "length r \<le> length u"
    using "4.prems" v d "4.IH"(2) [OF v refl d]
    by (fastforce split: if_splits simp: push_Some)
  with skip_ws_length [OF d] "4.IH"(1) [OF v] show ?case by simp
next
  case (6 n s)
  obtain c t where c: "skip_ws s = c # t"
    using "6.prems" by (cases "skip_ws s") auto
  obtain k t1 where k: "c = 34" "jp_str t = Some (k, t1)"
    using "6.prems" c by (cases "jp_str t") (auto split: if_splits)
  obtain d t2 where d: "skip_ws t1 = d # t2"
    using "6.prems" c k by (cases "skip_ws t1") auto
  obtain v t3 where v: "d = 58" "jp_val n t2 = Some (v, t3)"
    using "6.prems" c k d by (cases "jp_val n t2") (auto split: if_splits)
  obtain g t4 where g: "skip_ws t3 = g # t4"
    using "6.prems" c k d v by (cases "skip_ws t3") auto
  have "length r \<le> length t4"
    using "6.prems" c k d v g "6.IH"(2) [OF c _ k(2) refl d _ v(2) refl g]
    by (fastforce split: if_splits simp: push_Some)
  moreover have "length t3 < length t2"
    using "6.IH"(1) [OF c _ k(2) refl d _ v(2)] k(1) v(1) by simp
  ultimately show ?case
    using skip_ws_length [OF c] skip_ws_length [OF d] skip_ws_length [OF g] jp_str_shrinks [OF k(2)]
    by simp
qed simp_all

lemma jp_val_fuel: "2 * length s < m \<Longrightarrow> 2 * length s < n \<Longrightarrow> jp_val m s = jp_val n s"
  and jp_elems_fuel:
    "2 * length s + 1 < m \<Longrightarrow> 2 * length s + 1 < n \<Longrightarrow> jp_elems m s = jp_elems n s"
  and jp_members_fuel:
    "2 * length s + 1 < m \<Longrightarrow> 2 * length s + 1 < n \<Longrightarrow> jp_members m s = jp_members n s"
proof (induction m s and m s and m s arbitrary: n and n and n
    rule: jp_val_jp_elems_jp_members.induct)
  case (2 m s)
  obtain n' where n: "n = Suc n'" using "2.prems" by (cases n) auto
  show ?case
  proof (cases "skip_ws s")
    case Nil
    show ?thesis unfolding n jp_val.simps Nil list.case by (rule refl)
  next
    case s: (Cons c r)
    have r: "2 * length r + 1 < m" "2 * length r + 1 < n'"
      using skip_ws_length [OF s] "2.prems" by (auto simp: n)
    show ?thesis
    proof (cases "skip_ws r")
      case Nil
      show ?thesis unfolding n jp_val.simps s Nil list.case by (rule refl)
    next
      case (Cons d r')
      have "jp_members m r = jp_members n' r" if "c = 123" "d \<noteq> 125"
        by (rule "2.IH"(1) [OF s that(1) Cons that(2) r])
      moreover have "jp_elems m r = jp_elems n' r" if "c \<noteq> 123" "c = 91" "d \<noteq> 93"
        by (rule "2.IH"(2) [OF s that(1,2) Cons that(3) r])
      ultimately show ?thesis
        unfolding n jp_val.simps s Cons list.case by simp
    qed
  qed
next
  case (4 m s)
  obtain n' where n: "n = Suc n'" using "4.prems" by (cases n) auto
  have e: "jp_val m s = jp_val n' s"
    by (rule "4.IH"(1)) (use "4.prems" n in auto)
  show ?case
  proof (cases "jp_val m s")
    case (Some vr)
    then obtain v r where v: "jp_val m s = Some (v, r)" by (cases vr) auto
    show ?thesis
    proof (cases "skip_ws r")
      case (Cons d t)
      have f: "2 * length t + 1 < m" "2 * length t + 1 < n'"
        using skip_ws_length [OF Cons] jp_val_shrinks [OF v] "4.prems" by (auto simp: n)
      have "jp_elems m t = jp_elems n' t" if "d = 44"
        by (rule "4.IH"(2) [OF v refl Cons that f])
      then show ?thesis
        unfolding n jp_elems.simps e [symmetric] v option.case prod.case Cons list.case by simp
    qed (simp add: n v e [symmetric])
  qed (simp add: n e [symmetric])
next
  case (6 m s)
  obtain n' where n: "n = Suc n'" using "6.prems" by (cases n) auto
  have key: "jp_val m r2 = jp_val n' r2
      \<and> (\<forall>v r3 g r4. jp_val m r2 = Some (v, r3) \<longrightarrow> skip_ws r3 = g # r4 \<longrightarrow> g = 44 \<longrightarrow>
           jp_members m r4 = jp_members n' r4)"
    if c: "skip_ws s = 34 # r" and k: "jp_str r = Some (k, r1)" and d: "skip_ws r1 = 58 # r2"
    for r k r1 r2
  proof -
    have l: "length r2 + 2 < length s"
      using skip_ws_length [OF c] jp_str_shrinks [OF k] skip_ws_length [OF d] by simp
    have v: "jp_val m r2 = jp_val n' r2"
      by (rule "6.IH"(1) [OF c _ k refl d]) (use l "6.prems" n in auto)
    moreover have "jp_members m r4 = jp_members n' r4"
      if "jp_val m r2 = Some (v, r3)" "skip_ws r3 = g # r4" "g = 44" for v r3 g r4
      by (rule "6.IH"(2) [OF c _ k refl d _ that(1) refl that(2)])
        (use that(3) l jp_val_shrinks [OF that(1)] skip_ws_length [OF that(2)] "6.prems" n in auto)
    ultimately show ?thesis by blast
  qed
  show ?case
    unfolding n jp_members.simps
    by (auto split: list.split option.split dest: key)
qed simp_all

lemma jp_val_enough: "2 * length s + 2 \<le> n \<Longrightarrow> jp_val n s = jp_val (2 * length s + 2) s"
  by (rule jp_val_fuel) simp_all

section \<open>Reading back what \<^verbatim>\<open>JSON.stringify\<close> writes\<close>

text \<open>
  The values on which the printed numbers are exact: safe integers, and objects whose keys are
  distinct.
\<close>

fun json_ok :: "json \<Rightarrow> bool" where
  "json_ok (JNum r) \<longleftrightarrow> of_int \<lfloor>r\<rfloor> = r \<and> \<bar>r\<bar> \<le> 9007199254740991"
| "json_ok (JArr vs) \<longleftrightarrow> (\<forall>v \<in> set vs. json_ok v)"
| "json_ok (JObj kvs) \<longleftrightarrow> distinct (map fst kvs) \<and> (\<forall>kv \<in> set kvs. json_ok (snd kv))"
| "json_ok _ \<longleftrightarrow> True"

lemma un_hex4_hex4:
  assumes "n < 65536"
  shows "un_hex4 (hex_digit (n div 4096)) (hex_digit (n div 256 mod 16))
    (hex_digit (n div 16 mod 16)) (hex_digit (n mod 16)) = Some (u16 n)"
proof -
  have "n div 4096 < 16" using assms by auto
  moreover have "((n div 4096 * 16 + n div 256 mod 16) * 16 + n div 16 mod 16) * 16 + n mod 16 = n"
  proof -
    have a: "n div 4096 * 16 + n div 256 mod 16 = n div 256"
      using div_mult_mod_eq [of "n div 256" 16] by (simp add: div_mult2_eq [symmetric])
    have b: "n div 256 * 16 + n div 16 mod 16 = n div 16"
      using div_mult_mod_eq [of "n div 16" 16] by (simp add: div_mult2_eq [symmetric])
    show ?thesis by (simp only: a b div_mult_mod_eq)
  qed
  ultimately show ?thesis
    by (simp add: un_hex4_def del: of_nat_add of_nat_mult)
qed

lemma jp_str_esc_u: "jp_str (esc_u u @ t) = push u (jp_str t)"
  by (simp add: esc_u_def hex4_def un_hex4_hex4 unat_unit16_less)

lemma jp_str_plain: "u \<noteq> 34 \<Longrightarrow> u \<noteq> 92 \<Longrightarrow> 32 \<le> unat u \<Longrightarrow> jp_str (u # t) = push u (jp_str t)"
  by simp

lemma jp_str_esc_unit: "jp_str (esc_unit u @ t) = push u (jp_str t)"
  by (simp add: esc_unit_def jp_str_esc_u un_escape_def del: of_nat_add)

lemma jp_str_sur: "hi_sur u \<or> lo_sur u \<Longrightarrow> jp_str (u # t) = push u (jp_str t)"
  by (rule jp_str_plain) (auto simp: hi_sur_def lo_sur_def)

lemma jp_str_esc: "jp_str (esc_str s @ 34 # r) = Some (s, r)"
proof (induction s rule: esc_str.induct)
  case (2 u s)
  moreover have "jp_str (34 # r) = Some ([], r)" by simp
  ultimately show ?case
    by (auto simp: jp_str_esc_u jp_str_esc_unit jp_str_sur simp del: jp_str.simps
        split: list.split)
qed simp

text \<open>What may follow a printed number without changing how it is read.\<close>

definition num_stop :: "jsstr \<Rightarrow> bool" where
  "num_stop r \<longleftrightarrow> (case r of [] \<Rightarrow> True | c # _ \<Rightarrow> c = 44 \<or> c = 93 \<or> c = 125)"

lemma num_stop_simps [simp]:
  "num_stop []" "num_stop (44 # r)" "num_stop (93 # r)" "num_stop (125 # r)"
  by (simp_all add: num_stop_def)

lemma num_stop_rest:
  assumes "num_stop r"
  shows "jp_frac r = Some ([], r)" "jp_exp r = Some (0, r)"
    "takeWhile is_digit r = []" "dropWhile is_digit r = r"
  using assms
  by (auto simp: num_stop_def jp_frac_def jp_exp_def is_digit_def split: list.splits)

lemma digit_not_minus: "is_digit u \<Longrightarrow> u \<noteq> 45"
  by (auto simp: is_digit_def)

lemma show_nat_Cons: "\<exists>c s. show_nat n = c # s \<and> is_digit c"
  by (cases "show_nat n") (use show_nat_digits [of _ n] in auto)

lemma jp_num_digits:
  assumes "num_stop r"
  shows "jp_num (show_nat n @ r) = Some (of_nat n, r)"
    and "jp_num (45 # show_nat n @ r) = Some (- of_nat n, r)"
proof -
  have t: "takeWhile is_digit (show_nat n @ r) = show_nat n"
    using assms by (simp add: takeWhile_append2 num_stop_rest show_nat_digits)
  have d: "dropWhile is_digit (show_nat n @ r) = r"
    using assms by (simp add: dropWhile_append2 num_stop_rest show_nat_digits)
  obtain c s where c: "show_nat n = c # s" "is_digit c"
    using show_nat_Cons by blast
  then have m: "(case show_nat n @ r of c # _ \<Rightarrow> c = 45 | [] \<Rightarrow> False) = False"
    by (simp add: digit_not_minus)
  have z: "\<not> (1 < length (show_nat n) \<and> hd (show_nat n) = 48)"
    using show_nat_leading [of n] by blast
  show "jp_num (show_nat n @ r) = Some (of_nat n, r)"
    unfolding jp_num_def m
    by (simp only: Let_def if_False t d z num_stop_rest [OF assms] option.case prod.case simp_thms
        show_nat_neq_Nil)
      (simp add: scale10_def)
  show "jp_num (45 # show_nat n @ r) = Some (- of_nat n, r)"
    unfolding jp_num_def
    by (simp only: list.case simp_thms Let_def if_True list.sel t d z if_False
        num_stop_rest [OF assms] option.case prod.case show_nat_neq_Nil)
      (simp add: scale10_def)
qed

lemma jp_num_show_int: "num_stop r \<Longrightarrow> jp_num (show_int i @ r) = Some (of_int i, r)"
  by (simp add: show_int_def jp_num_digits)

lemma js_true: "js ''true'' = [116, 114, 117, 101]"
  and js_false: "js ''false'' = [102, 97, 108, 115, 101]"
  and js_null: "js ''null'' = [110, 117, 108, 108]"
  by (simp_all add: js_def ju_def)

lemma starts_with_words:
  "starts_with (c # s) (js ''true'') \<longleftrightarrow> c = 116 \<and> starts_with s [114, 117, 101]"
  "starts_with (c # s) (js ''false'') \<longleftrightarrow> c = 102 \<and> starts_with s [97, 108, 115, 101]"
  "starts_with (c # s) (js ''null'') \<longleftrightarrow> c = 110 \<and> starts_with s [117, 108, 108]"
  by (auto simp: js_true js_false js_null starts_with_def)

lemma jp_val_num:
  assumes "num_stop r"
  shows "jp_val (Suc n) (show_int i @ r) = Some (JNum (of_int i), r)"
proof -
  obtain c s where c: "show_int i = c # s" and "c = 45 \<or> is_digit c"
    using show_nat_Cons [of "nat i"] by (cases "i < 0") (auto simp: show_int_def)
  then have "\<not> is_json_ws c" "c \<noteq> 123" "c \<noteq> 91" "c \<noteq> 34" "c \<noteq> 116" "c \<noteq> 102" "c \<noteq> 110"
    by (auto simp: is_digit_def is_json_ws_def)
  moreover have "jp_num (c # s @ r) = Some (of_int i, r)"
    using jp_num_show_int [OF assms, of i] by (simp add: c)
  ultimately show ?thesis
    by (simp add: c starts_with_words)
qed

lemma skip_ws_plain: "\<not> is_json_ws c \<Longrightarrow> skip_ws (c # r) = c # r"
  by simp

lemma json_punct [simp]:
  "\<not> is_json_ws 123" "\<not> is_json_ws 91" "\<not> is_json_ws 34" "\<not> is_json_ws 44" "\<not> is_json_ws 93"
  "\<not> is_json_ws 125" "\<not> is_json_ws 58" "\<not> is_json_ws 116" "\<not> is_json_ws 102" "\<not> is_json_ws 110"
  by (simp_all add: is_json_ws_def)

text \<open>A printed value starts with a character that is neither white space nor a closing bracket.\<close>

lemma stringify_head:
  assumes "json_ok v"
  shows "\<exists>c s. JSON_stringify v = c # s \<and> \<not> is_json_ws c \<and> c \<noteq> 93 \<and> c \<noteq> 125 \<and> unat c < 128"
proof (cases v)
  case (JNum r)
  then have "JSON_stringify v = show_int \<lfloor>r\<rfloor>"
    using assms by (simp add: num_str_def)
  moreover obtain c s where "show_int \<lfloor>r\<rfloor> = c # s" "c = 45 \<or> is_digit c"
    using show_nat_Cons [of "nat \<lfloor>r\<rfloor>"] by (cases "\<lfloor>r\<rfloor> < 0") (auto simp: show_int_def)
  moreover have "is_digit c \<Longrightarrow> \<not> is_json_ws c \<and> c \<noteq> 93 \<and> c \<noteq> 125 \<and> unat c < 128" for c
    by (auto simp: is_digit_def is_json_ws_def)
  ultimately show ?thesis
    by (auto simp: is_json_ws_def)
qed (simp_all add: quote_def js_true js_false js_null)

lemma join_Cons: "join sep (x # xs) = x @ (if xs = [] then [] else sep @ join sep xs)"
  by (cases xs) simp_all

lemma jp_elems_join:
  assumes "vs \<noteq> []" and "2 * length (join [44] (map JSON_stringify vs)) < n"
    and "\<And>v m r. v \<in> set vs \<Longrightarrow> num_stop r \<Longrightarrow> 2 * length (JSON_stringify v) \<le> m \<Longrightarrow>
      jp_val m (JSON_stringify v @ r) = Some (v, r)"
  shows "jp_elems n (join [44] (map JSON_stringify vs) @ 93 # r) = Some (vs, r)"
  using assms
proof (induction vs arbitrary: n)
  case (Cons v vs)
  obtain n' where n: "n = Suc n'" using Cons.prems(2) by (cases n) auto
  let ?rest = "(if vs = [] then [] else [44] @ join [44] (map JSON_stringify vs)) @ 93 # r"
  have j: "join [44] (map JSON_stringify (v # vs)) @ 93 # r = JSON_stringify v @ ?rest"
    by (simp add: join_Cons)
  have v: "jp_val n' (JSON_stringify v @ ?rest) = Some (v, ?rest)"
    by (rule Cons.prems(3)) (use Cons.prems(2) in \<open>auto simp: n join_Cons\<close>)
  show ?case
  proof (cases "vs = []")
    case True
    then show ?thesis unfolding j n using v by simp
  next
    case False
    have "jp_elems n' (join [44] (map JSON_stringify vs) @ 93 # r) = Some (vs, r)"
      by (rule Cons.IH) (use False Cons.prems in \<open>auto simp: n join_Cons\<close>)
    with False v show ?thesis unfolding j n by simp
  qed
qed simp

abbreviation show_member :: "jsstr \<times> json \<Rightarrow> jsstr" where
  "show_member kv \<equiv> quote (fst kv) @ [58] @ JSON_stringify (snd kv)"

lemma jp_members_join:
  assumes "kvs \<noteq> []" and "2 * length (join [44] (map show_member kvs)) < n"
    and "\<And>kv m r. kv \<in> set kvs \<Longrightarrow> num_stop r \<Longrightarrow> 2 * length (JSON_stringify (snd kv)) \<le> m \<Longrightarrow>
      jp_val m (JSON_stringify (snd kv) @ r) = Some (snd kv, r)"
  shows "jp_members n (join [44] (map show_member kvs) @ 125 # r) = Some (kvs, r)"
  using assms
proof (induction kvs arbitrary: n)
  case (Cons kv kvs)
  obtain n' where n: "n = Suc n'" using Cons.prems(2) by (cases n) auto
  let ?rest = "(if kvs = [] then [] else [44] @ join [44] (map show_member kvs)) @ 125 # r"
  have j: "join [44] (map show_member (kv # kvs)) @ 125 # r =
      34 # esc_str (fst kv) @ 34 # 58 # JSON_stringify (snd kv) @ ?rest"
    by (simp add: join_Cons quote_def)
  have v: "jp_val n' (JSON_stringify (snd kv) @ ?rest) = Some (snd kv, ?rest)"
    by (rule Cons.prems(3)) (use Cons.prems(2) in \<open>auto simp: n join_Cons\<close>)
  show ?case
  proof (cases "kvs = []")
    case True
    then show ?thesis unfolding j n using v by (simp add: jp_str_esc)
  next
    case False
    have "jp_members n' (join [44] (map show_member kvs) @ 125 # r) = Some (kvs, r)"
      by (rule Cons.IH) (use False Cons.prems in \<open>auto simp: n join_Cons\<close>)
    with False v show ?thesis unfolding j n by (simp add: jp_str_esc)
  qed
qed simp

lemma obj_put_fresh: "k \<notin> fst ` set a \<Longrightarrow> obj_put k v a = a @ [(k, v)]"
  by (induction a) auto

lemma obj_assign_distinct:
  "distinct (map fst (a @ b)) \<Longrightarrow> obj_assign a b = a @ b"
proof (induction b arbitrary: a)
  case (Cons kv b)
  obtain k v where kv: "kv = (k, v)" by (cases kv)
  have "k \<notin> fst ` set a" using Cons.prems by (auto simp: kv)
  then have "obj_put k v a = a @ [(k, v)]" by (rule obj_put_fresh)
  moreover have "obj_assign (a @ [(k, v)]) b = (a @ [(k, v)]) @ b"
    by (rule Cons.IH) (use Cons.prems in \<open>auto simp: kv\<close>)
  ultimately show ?case by (simp add: kv)
qed simp

lemma jp_val_arr:
  assumes "\<not> is_json_ws c" "c \<noteq> 93" "jp_elems n (c # s) = Some (vs, r)"
  shows "jp_val (Suc n) (91 # c # s) = Some (JArr vs, r)"
  using assms by (simp add: starts_with_words)

lemma jp_val_obj:
  assumes "\<not> is_json_ws c" "c \<noteq> 125" "jp_members n (c # s) = Some (kvs, r)"
  shows "jp_val (Suc n) (123 # c # s) = Some (JObj (obj_assign [] kvs), r)"
  using assms by (simp add: starts_with_words)

lemma jp_val_literals:
  "jp_val (Suc n) (js ''null'' @ r) = Some (JNull, r)"
  "jp_val (Suc n) (js ''true'' @ r) = Some (JBool True, r)"
  "jp_val (Suc n) (js ''false'' @ r) = Some (JBool False, r)"
  "jp_val (Suc n) (quote x @ r) = Some (JStr x, r)"
  "jp_val (Suc n) (91 # 93 # r) = Some (JArr [], r)"
  "jp_val (Suc n) (123 # 125 # r) = Some (JObj [], r)"
  by (simp_all add: js_true js_false js_null starts_with_def quote_def jp_str_esc)

lemma jp_val_stringify:
  "json_ok v \<Longrightarrow> num_stop r \<Longrightarrow> 2 * length (JSON_stringify v) \<le> n \<Longrightarrow>
     jp_val n (JSON_stringify v @ r) = Some (v, r)"
proof (induction v arbitrary: n r rule: JSON_stringify.induct)
  case (3 q)
  then have i: "of_int \<lfloor>q\<rfloor> = q" by simp
  then have s: "JSON_stringify (JNum q) = show_int \<lfloor>q\<rfloor>" by (simp add: num_str_def)
  have "show_int \<lfloor>q\<rfloor> \<noteq> []" by (simp add: show_int_def)
  then obtain m where "n = Suc m" using "3.prems"(3) unfolding s by (cases n) auto
  with jp_val_num [OF "3.prems"(2)] show ?case by (simp only: s i)
next
  case (5 vs)
  obtain m where n: "n = Suc m" using "5.prems"(3) by (cases n) auto
  show ?case
  proof (cases vs)
    case Nil
    then show ?thesis by (simp add: n jp_val_literals del: jp_val.simps)
  next
    case (Cons v ws)
    have "jp_elems m (join [44] (map JSON_stringify vs) @ 93 # r) = Some (vs, r)"
      by (rule jp_elems_join) (use "5.IH" "5.prems" n Cons in auto)
    moreover obtain c s where "JSON_stringify v = c # s" "\<not> is_json_ws c" "c \<noteq> 93"
      using stringify_head [of v] "5.prems"(1) Cons by auto
    ultimately show ?thesis
      by (simp add: n Cons join_Cons jp_val_arr del: jp_val.simps)
  qed
next
  case (6 kvs)
  obtain m where n: "n = Suc m" using "6.prems"(3) by (cases n) auto
  show ?case
  proof (cases kvs)
    case Nil
    then show ?thesis by (simp add: n jp_val_literals del: jp_val.simps)
  next
    case (Cons kv ws)
    have "jp_members m (join [44] (map show_member kvs) @ 125 # r) = Some (kvs, r)"
    proof (rule jp_members_join)
      show "jp_val k (JSON_stringify (snd kv) @ t) = Some (snd kv, t)"
        if "kv \<in> set kvs" "num_stop t" "2 * length (JSON_stringify (snd kv)) \<le> k" for kv k t
        by (rule "6.IH" [OF that(1) _ that(2,3)]) (use that(1) "6.prems"(1) in auto)
    qed (use "6.prems" n Cons in auto)
    moreover have "obj_assign [] kvs = kvs"
      using obj_assign_distinct [of "[]" kvs] "6.prems"(1) by simp
    ultimately show ?thesis
      by (simp add: n Cons join_Cons quote_def jp_val_obj del: jp_val.simps)
  qed
next
  case (1)
  then show ?case by (cases n) (simp_all add: jp_val_literals del: jp_val.simps)
next
  case (2 b)
  then show ?case by (cases b; cases n) (simp_all add: jp_val_literals del: jp_val.simps)
next
  case (4 x)
  then have "n \<noteq> 0" by (auto simp: quote_def)
  then show ?case by (cases n) (simp_all add: jp_val_literals del: jp_val.simps)
qed

theorem JSON_parse_stringify: "json_ok v \<Longrightarrow> JSON_parse (JSON_stringify v) = Some v"
  using jp_val_stringify [of v "[]" "2 * length (JSON_stringify v) + 2"]
  by (simp add: JSON_parse_def del: jp_val.simps)

interpretation json: codec JSON_stringify JSON_parse json_ok
  by unfold_locales (rule JSON_parse_stringify)

text \<open>
  A printed value is plain text: it can be sent as UTF-8 and read back, the first two steps of
  every request body.
\<close>

lemma wf_str_append: "wf_str a \<Longrightarrow> wf_str b \<Longrightarrow> wf_str (a @ b)"
proof (induction a rule: wf_str.induct)
  case (2 u s)
  then show ?case by (cases "hi_sur u"; cases s) auto
qed simp

lemma wf_str_ascii: "\<forall>u \<in> set s. unat u < 0xD800 \<Longrightarrow> wf_str s"
  by (induction s) (auto simp: hi_sur_def lo_sur_def)

lemma wf_hex_digit: "n < 16 \<Longrightarrow> unat (hex_digit n) < 0xD800"
  by (cases "n < 10") (simp_all add: hex_digit_def unat_u16 del: of_nat_add)

lemma wf_esc_u: "wf_str (esc_u u)"
proof (rule wf_str_ascii)
  have "unat u div 4096 < 16" using unat_unit16_less [of u] by auto
  then show "\<forall>v \<in> set (esc_u u). unat v < 0xD800"
    by (auto simp: esc_u_def hex4_def wf_hex_digit)
qed

lemma wf_esc_unit: "\<not> hi_sur u \<Longrightarrow> \<not> lo_sur u \<Longrightarrow> wf_str (esc_unit u)"
  by (simp add: esc_unit_def wf_esc_u) (auto simp: hi_sur_def lo_sur_def)

lemma wf_esc_str: "wf_str (esc_str s)"
proof (induction s rule: esc_str.induct)
  case (2 u s)
  show ?case
  proof (cases "hi_sur u")
    case True
    with 2 show ?thesis
      by (cases s) (auto intro!: wf_esc_u wf_str_append [OF wf_esc_u] simp del: esc_str.simps(2)
          simp: esc_str.simps(2) [of u])
  next
    case False
    with 2 show ?thesis
      by (auto intro: wf_str_append [OF wf_esc_u] wf_str_append [OF wf_esc_unit])
  qed
qed simp

lemma wf_quote: "wf_str (quote s)"
proof -
  have "wf_str (esc_str s @ [34])"
    by (intro wf_str_append wf_esc_str) (simp add: hi_sur_def lo_sur_def)
  then show ?thesis by (simp add: quote_def hi_sur_def lo_sur_def)
qed

lemma wf_join: "wf_str sep \<Longrightarrow> \<forall>x \<in> set xs. wf_str x \<Longrightarrow> wf_str (join sep xs)"
  by (induction sep xs rule: join.induct) (auto intro: wf_str_append)

lemma wf_show_int: "wf_str (show_int i)"
  by (rule wf_str_ascii)
    (auto simp: show_int_def is_digit_def dest: show_nat_digits)

lemma wf_frac_digits: "wf_str (frac_digits n q)" if "0 \<le> q" "q < 1"
  using that
proof (induction n arbitrary: q)
  case (Suc n)
  have d: "0 \<le> \<lfloor>10 * q\<rfloor>" "\<lfloor>10 * q\<rfloor> < 10" using Suc.prems by (auto simp: floor_less_iff)
  have "wf_str (frac_digits n (10 * q - of_int \<lfloor>10 * q\<rfloor>))"
    by (rule Suc.IH) linarith+
  moreover have "unat (u16 (48 + nat \<lfloor>10 * q\<rfloor>)) < 58"
    using d by (subst unat_u16) (auto simp: nat_less_iff)
  ultimately show ?case
    by (simp add: hi_sur_def lo_sur_def del: of_nat_add)
qed simp

lemma wf_num_str: "wf_str (num_str r)"
proof (cases "of_int \<lfloor>r\<rfloor> = r")
  case False
  let ?f = "\<bar>r\<bar> - of_int \<lfloor>\<bar>r\<bar>\<rfloor>"
  have f: "wf_str (frac_digits 17 ?f)" by (rule wf_frac_digits) linarith+
  have "wf_str (show_int (int (nat \<lfloor>\<bar>r\<bar>\<rfloor>)))" by (rule wf_show_int)
  then have "wf_str (show_nat (nat \<lfloor>\<bar>r\<bar>\<rfloor>))" by (simp add: show_int_def)
  moreover have "wf_str (46 # frac_digits 17 ?f)" using f by (simp add: hi_sur_def lo_sur_def)
  ultimately have "wf_str (show_nat (nat \<lfloor>\<bar>r\<bar>\<rfloor>) @ 46 # frac_digits 17 ?f)"
    by (rule wf_str_append)
  then have "wf_str ((if r < 0 then [45] else []) @ show_nat (nat \<lfloor>\<bar>r\<bar>\<rfloor>)
      @ 46 # frac_digits 17 ?f)"
    by (rule wf_str_append [rotated]) (simp add: hi_sur_def lo_sur_def)
  with False show ?thesis
    by (simp only: num_str_def if_False)
qed (simp add: num_str_def wf_show_int)

lemma wf_bracket: "wf_str s \<Longrightarrow> unat a < 128 \<Longrightarrow> unat b < 128 \<Longrightarrow> wf_str ([a] @ s @ [b])"
  by (intro wf_str_append) (auto simp: hi_sur_def lo_sur_def)

theorem wf_stringify: "wf_str (JSON_stringify v)"
proof (induction v rule: JSON_stringify.induct)
  case (5 vs)
  have "wf_str (join [44] (map JSON_stringify vs))"
    by (rule wf_join) (auto simp: 5 hi_sur_def lo_sur_def)
  then show ?case unfolding JSON_stringify.simps by (rule wf_bracket) simp_all
next
  case (6 kvs)
  have "wf_str (show_member kv)" if "kv \<in> set kvs" for kv
    using 6 [OF that] by (intro wf_str_append wf_quote) (simp_all add: hi_sur_def lo_sur_def)
  then have "wf_str (join [44] (map show_member kvs))"
    by (intro wf_join) (auto simp: hi_sur_def lo_sur_def)
  then show ?case unfolding JSON_stringify.simps by (rule wf_bracket) simp_all
qed (simp_all add: wf_num_str wf_quote js_true js_false js_null hi_sur_def lo_sur_def)

lemma text_decode_json:
  assumes "json_ok v"
  shows "text_decode (utf8_enc (JSON_stringify v)) = JSON_stringify v"
  using stringify_head [OF assms] by (intro text_decode_enc wf_stringify) auto

interpretation json_utf8: codec_chain JSON_stringify JSON_parse json_ok
  utf8_enc "\<lambda>b. Some (utf8_dec b)" wf_str
  by unfold_locales (rule wf_stringify)

section \<open>Reading parsed values\<close>

text \<open>
  The value of an expression over a parsed document: \<open>None\<close> is \<^verbatim>\<open>undefined\<close>. Reading a
  property of \<^verbatim>\<open>null\<close> or \<^verbatim>\<open>undefined\<close> throws a TypeError; optional chaining does not.
\<close>

type_synonym jsval = "json option"

fun opt_prop :: "string \<Rightarrow> jsval \<Rightarrow> jsval" where
  "opt_prop k (Some (JObj kvs)) = obj_get kvs (js k)"
| "opt_prop k _ = None"

definition get_prop :: "string \<Rightarrow> jsval \<Rightarrow> exn + jsval" where
  "get_prop k v =
     (case v of
        None \<Rightarrow> Inl (native CTypeError
          (js ''Cannot read properties of undefined (reading '' @ [39] @ js k @ [39, 41]))
      | Some JNull \<Rightarrow> Inl (native CTypeError
          (js ''Cannot read properties of null (reading '' @ [39] @ js k @ [39, 41]))
      | _ \<Rightarrow> Inr (opt_prop k v))"

fun truthy_val :: "jsval \<Rightarrow> bool" where
  "truthy_val None = False"
| "truthy_val (Some JNull) = False"
| "truthy_val (Some (JBool b)) = b"
| "truthy_val (Some (JNum r)) = (r \<noteq> 0)"
| "truthy_val (Some (JStr s)) = (s \<noteq> [])"
| "truthy_val (Some _) = True"

definition or_val :: "jsval \<Rightarrow> jsval \<Rightarrow> jsval" where
  "or_val a b = (if truthy_val a then a else b)"

definition nullish :: "jsval \<Rightarrow> bool" where
  "nullish v \<longleftrightarrow> v = None \<or> v = Some JNull"

text \<open>\<^verbatim>\<open>String(v)\<close>, and \<^verbatim>\<open>Number(v)\<close> for the values that occur as numbers (\<open>None\<close> is NaN).\<close>

fun json_text :: "json \<Rightarrow> jsstr" where
  "json_text JNull = js ''null''"
| "json_text (JBool b) = (if b then js ''true'' else js ''false'')"
| "json_text (JNum r) = num_str r"
| "json_text (JStr s) = s"
| "json_text (JArr vs) = join [44] (map (\<lambda>v. if v = JNull then [] else json_text v) vs)"
| "json_text (JObj kvs) = js ''[object Object]''"

definition val_text :: "jsval \<Rightarrow> jsstr" where
  "val_text v = (case v of None \<Rightarrow> js ''undefined'' | Some j \<Rightarrow> json_text j)"

text \<open>The message of \<^verbatim>\<open>new Error(v)\<close>.\<close>

definition error_message :: "jsval \<Rightarrow> jsstr" where
  "error_message v = (case v of None \<Rightarrow> [] | Some j \<Rightarrow> json_text j)"

lemma get_prop_obj [simp]: "get_prop k (Some (JObj kvs)) = Inr (obj_get kvs (js k))"
  by (simp add: get_prop_def)

lemma get_prop_nullish: "nullish v \<longleftrightarrow> (\<exists>e. get_prop k v = Inl e)"
  by (auto simp: get_prop_def nullish_def split: option.splits json.splits)

section \<open>Arrays and numbers of parsed values\<close>

text \<open>
  The elements on which \<^verbatim>\<open>what.map(...)\<close> runs; anything that is no array throws a TypeError.
\<close>

definition js_array :: "string \<Rightarrow> jsval \<Rightarrow> exn + json list" where
  "js_array what v =
     (case v of
        Some (JArr vs) \<Rightarrow> Inr vs
      | None \<Rightarrow> map_sum id (\<lambda>_. []) (get_prop ''map'' v)
      | Some JNull \<Rightarrow> map_sum id (\<lambda>_. []) (get_prop ''map'' v)
      | _ \<Rightarrow> Inl (native CTypeError (js what @ js ''.map is not a function'')))"

lemma js_array_JArr [simp]: "js_array what (Some (JArr vs)) = Inr vs"
  by (simp add: js_array_def)

lemma js_array_iff: "js_array what v = Inr vs \<longleftrightarrow> v = Some (JArr vs)"
  by (auto simp: js_array_def get_prop_def split: option.split json.split)

text \<open>
  \<^verbatim>\<open>Number(s)\<close> of a decimal literal with optional sign, fraction and exponent, surrounded by
  white space; the empty string is zero and \<open>None\<close> is NaN. Other radixes and Infinity are NaN here.
\<close>

definition str_number :: "jsstr \<Rightarrow> rat option" where
  "str_number s =
     (let t = trim s;
          neg = (t \<noteq> [] \<and> hd t = 45);
          u = (if t \<noteq> [] \<and> (hd t = 45 \<or> hd t = 43) then tl t else t);
          ds = takeWhile is_digit u;
          r1 = dropWhile is_digit u;
          dot = (r1 \<noteq> [] \<and> hd r1 = 46);
          fs = (if dot then takeWhile is_digit (tl r1) else []);
          r2 = (if dot then dropWhile is_digit (tl r1) else r1)
      in if t = [] then Some 0
         else if ds = [] \<and> fs = [] then None
         else
           (case jp_exp r2 of
              Some (e, []) \<Rightarrow>
                Some ((if neg then - 1 else 1)
                  * scale10 (e - int (length fs)) (of_nat (digits_val (ds @ fs))))
            | _ \<Rightarrow> None))"

definition val_number :: "jsval \<Rightarrow> rat option" where
  "val_number v =
     (case v of
        Some (JNum r) \<Rightarrow> Some r
      | Some (JBool b) \<Rightarrow> Some (if b then 1 else 0)
      | Some JNull \<Rightarrow> Some 0
      | Some (JStr s) \<Rightarrow> str_number s
      | Some (JArr vs) \<Rightarrow> str_number (json_text (JArr vs))
      | _ \<Rightarrow> None)"

text \<open>The test \<^verbatim>\<open>v > n\<close>, false for NaN.\<close>

definition gt_number :: "jsval \<Rightarrow> rat \<Rightarrow> bool" where
  "gt_number v n = (case val_number v of None \<Rightarrow> False | Some r \<Rightarrow> r > n)"

lemma gt_number_JNum [simp]: "gt_number (Some (JNum r)) n \<longleftrightarrow> r > n"
  by (simp add: gt_number_def val_number_def)

interpretation json_b64: codec_chain "\<lambda>v. utf8_enc (JSON_stringify v)"
  "\<lambda>b. Option.bind (Some (utf8_dec b)) JSON_parse" json_ok b64_enc "\<lambda>s. Some (b64_dec s)" "\<lambda>_. True"
  by unfold_locales simp

section \<open>Object literals\<close>

abbreviation str_field :: "string \<Rightarrow> jsstr \<Rightarrow> string \<times> jsval" where
  "str_field k s \<equiv> (k, Some (JStr s))"

abbreviation num_field :: "string \<Rightarrow> int \<Rightarrow> string \<times> jsval" where
  "num_field k i \<equiv> (k, Some (JNum (of_int i)))"

lemma obj_literal_keys:
  "map fst (List.map_filter (\<lambda>(k, v). map_option (Pair (js k)) v) fs) = map (js \<circ> fst) (filter (\<lambda>f. snd f \<noteq> None) fs)"
  by (induction fs) (auto split: option.split)

lemma json_ok_obj_literal:
  assumes "distinct (map fst fs)" "\<And>k v. (k, Some v) \<in> set fs \<Longrightarrow> json_ok v"
  shows "json_ok (obj_literal fs)"
proof -
  have "distinct (map (js \<circ> fst) (filter (\<lambda>f. snd f \<noteq> None) fs))"
    using assms(1) by (induction fs) (auto simp: image_iff)
  moreover have "json_ok v" if "(k, v) \<in> set (List.map_filter (\<lambda>(k, v). map_option (Pair (js k)) v) fs)" for k v
    using that assms(2) by (auto simp: List.map_filter_def)
  ultimately show ?thesis
    by (auto simp: obj_literal_def obj_literal_keys)
qed

lemma json_ok_fields:
  "distinct (map fst fs) \<Longrightarrow> list_all (\<lambda>f. pred_option json_ok (snd f)) fs \<Longrightarrow> json_ok (obj_literal fs)"
  by (rule json_ok_obj_literal) (auto simp: list_all_iff)

lemma pred_option_JStr [simp]: "pred_option json_ok (map_option JStr s)"
  by (cases s) simp_all

lemma opt_prop_obj_literal:
  assumes "distinct (map fst fs)" "(k, v) \<in> set fs"
  shows "opt_prop k (Some (obj_literal fs)) = v"
proof -
  have "map_of (List.map_filter (\<lambda>(k, v). map_option (Pair (js k)) v) fs) (js k) = v"
    if "distinct (map fst fs)" "(k, v) \<in> set fs" for fs
    using that
  proof (induction fs)
    case (Cons f fs)
    obtain j u where f: "f = (j, u)" by (cases f)
    show ?case
    proof (cases "k = j")
      case True
      then have "u = v" "k \<notin> fst ` set fs" using Cons.prems f by (auto simp: image_iff)
      moreover have "map_of (List.map_filter (\<lambda>(k, v). map_option (Pair (js k)) v) fs) (js k) = None"
        if "k \<notin> fst ` set fs"
        using that by (force simp: map_of_eq_None_iff List.map_filter_def image_iff)
      ultimately show ?thesis using True f by (cases v) auto
    next
      case False
      then show ?thesis using Cons f by (cases u) auto
    qed
  qed simp
  from this [OF assms] show ?thesis by (simp add: obj_literal_def)
qed

lemma get_prop_obj_literal:
  "distinct (map fst fs) \<Longrightarrow> (k, v) \<in> set fs \<Longrightarrow> get_prop k (Some (obj_literal fs)) = Inr v"
  using opt_prop_obj_literal [of fs k v] by (simp add: obj_literal_def)

end
