(* ===== verification/Http.thy ===== *)
theory Http
  imports Json
begin

text \<open>
  What the program sees of its surroundings. The record \<open>env\<close> holds everything that comes from
  outside: the answers of \<^verbatim>\<open>fetch\<close> (a function of the requests sent so far and of the new
  one, so any server with any state is such a function), the clock, the random generator and the
  engine's text for an input it rejects (a JSON syntax error, an argument of \<^verbatim>\<open>Buffer.from\<close>). The record \<open>world\<close> is what the program changes: the log
  of requests sent, the readings of clock and generator used up, the timers that are still
  running, and \<^verbatim>\<open>localStorage\<close> (\<open>None\<close> when there is no \<^verbatim>\<open>window\<close>).
\<close>

datatype req_body = NoBody | TextBody jsstr | BytesBody bytes

record http_request =
  rq_method :: jsstr
  rq_url :: jsstr
  rq_headers :: "(jsstr \<times> jsstr) list"
  rq_body :: req_body
  rq_timeout :: "int option"

record http_response =
  rs_status :: int
  rs_statusText :: jsstr
  rs_headers :: "(jsstr \<times> jsstr) list"
  rs_body :: "exn + bytes"

type_synonym fetch_result = "exn + http_response"

record env =
  e_fetch :: "http_request list \<Rightarrow> http_request \<Rightarrow> fetch_result"
  e_now :: "nat \<Rightarrow> int"
  e_random :: "nat \<Rightarrow> nat \<Rightarrow> byte"
  e_syntax_msg :: "jsstr \<Rightarrow> jsstr"

record world =
  w_sent :: "http_request list"
  w_clock :: nat
  w_rand :: nat
  w_timers :: "nat list"
  w_next_timer :: nat
  w_storage :: "(jsstr \<times> jsstr) list option"

section \<open>Requests and responses\<close>

definition fetch :: "env \<Rightarrow> http_request \<Rightarrow> (world, http_response) js" where
  "fetch E req = (\<lambda>w. (e_fetch E (w_sent w) req, w\<lparr>w_sent := w_sent w @ [req]\<rparr>))"

definition resp_ok :: "http_response \<Rightarrow> bool" where
  "resp_ok r \<longleftrightarrow> 200 \<le> rs_status r \<and> rs_status r \<le> 299"

text \<open>\<^verbatim>\<open>response.text()\<close>, \<^verbatim>\<open>response.json()\<close> and \<^verbatim>\<open>response.arrayBuffer()\<close>.\<close>

definition resp_bytes :: "http_response \<Rightarrow> exn + bytes" where
  "resp_bytes r = rs_body r"

definition resp_text :: "http_response \<Rightarrow> exn + jsstr" where
  "resp_text r = map_sum id text_decode (rs_body r)"

definition parse_json :: "env \<Rightarrow> jsstr \<Rightarrow> exn + json" where
  "parse_json E s =
     (case JSON_parse s of None \<Rightarrow> Inl (native CSyntaxError (e_syntax_msg E s)) | Some v \<Rightarrow> Inr v)"

definition resp_json :: "env \<Rightarrow> http_response \<Rightarrow> exn + json" where
  "resp_json E r = (case resp_text r of Inl e \<Rightarrow> Inl e | Inr s \<Rightarrow> parse_json E s)"

text \<open>\<^verbatim>\<open>response.headers.get(name)\<close> for a lower-case name; received names are lower case.\<close>

definition header_get :: "http_response \<Rightarrow> string \<Rightarrow> jsstr option" where
  "header_get r name = obj_get (rs_headers r) (js name)"

text \<open>Header names are case-insensitive: what arrives is in lower case.\<close>

definition lower_ascii :: "jsstr \<Rightarrow> jsstr" where
  "lower_ascii = map (\<lambda>u. if 65 \<le> unat u \<and> unat u \<le> 90 then u + 32 else u)"

section \<open>Clock, random bytes and timers\<close>

definition Date_now :: "env \<Rightarrow> (world, int) js" where
  "Date_now E = (\<lambda>w. (Inr (e_now E (w_clock w)), w\<lparr>w_clock := Suc (w_clock w)\<rparr>))"

definition randomBytes :: "env \<Rightarrow> nat \<Rightarrow> (world, bytes) js" where
  "randomBytes E n =
     (\<lambda>w. (Inr (map (e_random E (w_rand w)) [0..<n]), w\<lparr>w_rand := Suc (w_rand w)\<rparr>))"

definition setTimeout :: "(world, nat) js" where
  "setTimeout =
     (\<lambda>w. (Inr (w_next_timer w),
        w\<lparr>w_timers := w_next_timer w # w_timers w, w_next_timer := Suc (w_next_timer w)\<rparr>))"

definition clearTimeout :: "nat \<Rightarrow> (world, unit) js" where
  "clearTimeout i = js_modify (\<lambda>w. w\<lparr>w_timers := removeAll i (w_timers w)\<rparr>)"

section \<open>\<^verbatim>\<open>localStorage\<close>\<close>

definition has_window :: "world \<Rightarrow> bool" where
  "has_window w \<longleftrightarrow> w_storage w \<noteq> None"

definition getItem :: "jsstr \<Rightarrow> world \<Rightarrow> jsstr option" where
  "getItem k w = (case w_storage w of None \<Rightarrow> None | Some st \<Rightarrow> obj_get st k)"

definition setItem :: "jsstr \<Rightarrow> jsstr \<Rightarrow> world \<Rightarrow> world" where
  "setItem k v w = w\<lparr>w_storage := map_option (obj_put k v) (w_storage w)\<rparr>"

definition removeItem :: "jsstr \<Rightarrow> world \<Rightarrow> world" where
  "removeItem k w = w\<lparr>w_storage := map_option (AList.delete k) (w_storage w)\<rparr>"

section \<open>What the operations do to the world\<close>

lemma Date_now_run [js_monad]:
  "Date_now E w = (Inr (e_now E (w_clock w)), w\<lparr>w_clock := Suc (w_clock w)\<rparr>)"
  by (simp add: Date_now_def)

lemma randomBytes_run [js_monad]:
  "randomBytes E n w =
     (Inr (map (e_random E (w_rand w)) [0..<n]), w\<lparr>w_rand := Suc (w_rand w)\<rparr>)"
  by (simp add: randomBytes_def)

lemma fetch_run [js_monad]:
  "fetch E req w = (e_fetch E (w_sent w) req, w\<lparr>w_sent := w_sent w @ [req]\<rparr>)"
  by (simp add: fetch_def)

lemma setTimeout_run [js_monad]:
  "setTimeout w = (Inr (w_next_timer w),
     w\<lparr>w_timers := w_next_timer w # w_timers w, w_next_timer := Suc (w_next_timer w)\<rparr>)"
  by (simp add: setTimeout_def)

lemma clearTimeout_run [js_monad]:
  "clearTimeout i w = (Inr (), w\<lparr>w_timers := removeAll i (w_timers w)\<rparr>)"
  by (simp add: clearTimeout_def js_modify_def)

text \<open>
  Timer identifiers are fresh: every running timer is below the counter, and none runs twice.
\<close>

definition timers_ok :: "world \<Rightarrow> bool" where
  "timers_ok w \<longleftrightarrow> distinct (w_timers w) \<and> (\<forall>i \<in> set (w_timers w). i < w_next_timer w)"

lemma timers_ok_set: "timers_ok w \<Longrightarrow> timers_ok (snd (setTimeout w))"
  by (auto simp: timers_ok_def js_monad less_SucI)

lemma timers_ok_clear: "timers_ok w \<Longrightarrow> timers_ok (snd (clearTimeout i w))"
  by (auto simp: timers_ok_def js_monad distinct_removeAll)

lemma timers_ok_fresh: "timers_ok w \<Longrightarrow> removeAll (w_next_timer w) (w_timers w) = w_timers w"
  by (auto simp: timers_ok_def intro!: removeAll_id)

text \<open>The contract of a key-value store, met by \<^verbatim>\<open>localStorage\<close> when there is a window.\<close>

locale kv_store =
  fixes get :: "'k \<Rightarrow> 's \<Rightarrow> 'v option" and put :: "'k \<Rightarrow> 'v \<Rightarrow> 's \<Rightarrow> 's"
    and del :: "'k \<Rightarrow> 's \<Rightarrow> 's" and live :: "'s \<Rightarrow> bool"
  assumes get_put: "live s \<Longrightarrow> get k (put j v s) = (if k = j then Some v else get k s)"
    and get_del: "live s \<Longrightarrow> get k (del j s) = (if k = j then None else get k s)"
    and live_put: "live s \<Longrightarrow> live (put j v s)"
    and live_del: "live s \<Longrightarrow> live (del j s)"
begin

lemma get_put_del: "live s \<Longrightarrow> get k (del k (put k v s)) = None"
  by (simp add: get_del live_put)

lemma get_del_all:
  assumes "live s"
  shows "live (fold del ks s)" and "get k (fold del ks s) = (if k \<in> set ks then None else get k s)"
  using assms
proof (induction ks arbitrary: s)
  case (Cons j ks)
  { case 1 then show ?case using Cons by (simp add: live_del) }
  { case 2 then show ?case using Cons.IH(2) [OF live_del] by (simp add: get_del) }
qed simp_all

end

lemma map_of_delete: "map_of (AList.delete k xs) j = (if j = k then None else map_of xs j)"
  by (simp add: delete_conv')

interpretation localStorage: kv_store getItem setItem removeItem has_window
  by unfold_locales
    (auto simp: getItem_def setItem_def removeItem_def has_window_def map_of_delete
      split: option.splits)

section \<open>A concrete surrounding\<close>

text \<open>
  A server that gives every request the same status and text, a clock that stands still and a
  generator that counts; and a page or process that has just started.
\<close>

definition fixed_response :: "int \<Rightarrow> string \<Rightarrow> http_response" where
  "fixed_response status body =
     \<lparr>rs_status = status, rs_statusText = [], rs_headers = [], rs_body = Inr (map of_char body)\<rparr>"

definition fixed_env :: "int \<Rightarrow> string \<Rightarrow> env" where
  "fixed_env status body =
     \<lparr>e_fetch = (\<lambda>_ _. Inr (fixed_response status body)), e_now = (\<lambda>_. 1700000000000),
      e_random = (\<lambda>_ j. of_nat j), e_syntax_msg = (\<lambda>_. js ''Unexpected token'')\<rparr>"

definition json_response :: "json \<Rightarrow> http_response" where
  "json_response v =
     \<lparr>rs_status = 200, rs_statusText = [], rs_headers = [], rs_body = Inr (utf8_enc (JSON_stringify v))\<rparr>"

definition json_env :: "json \<Rightarrow> env" where
  "json_env v = (fixed_env 200 [])\<lparr>e_fetch := (\<lambda>_ _. Inr (json_response v))\<rparr>"

lemma json_response_read:
  assumes "json_ok v"
  shows "resp_ok (json_response v)" "resp_text (json_response v) = Inr (JSON_stringify v)"
    "resp_json E (json_response v) = Inr v"
  using assms by (simp_all add: json_response_def resp_ok_def resp_json_def resp_text_def text_decode_json
      parse_json_def JSON_parse_stringify)

definition offline_env :: "eclass \<Rightarrow> env" where
  "offline_env c = (fixed_env 200 [])\<lparr>e_fetch := (\<lambda>_ _. Inl (native c (js ''fetch failed'')))\<rparr>"

definition fresh_world :: world where
  "fresh_world =
     \<lparr>w_sent = [], w_clock = 0, w_rand = 0, w_timers = [], w_next_timer = 0, w_storage = Some []\<rparr>"

lemma timers_ok_fresh_world [simp]: "timers_ok fresh_world"
  by (simp add: timers_ok_def fresh_world_def)

end
