(* ===== verification/Sdk_Errors.thy ===== *)
theory Sdk_Errors
  imports Js_Prelude
begin

text \<open>
  The error classes of \<^verbatim>\<open>onvm-sdk/src/errors.ts\<close>: the constructors and the three getters
  that callers use to classify a failure.
\<close>

definition OnvmError :: "jsstr \<Rightarrow> int option \<Rightarrow> details \<Rightarrow> exn" where
  "OnvmError message statusCode details = Exn COnvmError message statusCode details"

definition OnvmAuthError :: "jsstr \<Rightarrow> details \<Rightarrow> exn" where
  "OnvmAuthError message details = Exn COnvmAuthError message (Some 401) details"

definition OnvmNetworkError :: "jsstr \<Rightarrow> details \<Rightarrow> exn" where
  "OnvmNetworkError message details = Exn COnvmNetworkError message None details"

definition OnvmRateLimitError :: "jsstr \<Rightarrow> details \<Rightarrow> exn" where
  "OnvmRateLimitError message details = Exn COnvmRateLimitError message (Some 429) details"

definition OnvmConfigError :: "jsstr \<Rightarrow> details \<Rightarrow> exn" where
  "OnvmConfigError message details = Exn COnvmConfigError message None details"

text \<open>\<^verbatim>\<open>e instanceof OnvmError\<close>: every subclass restores its prototype chain.\<close>

definition is_OnvmError :: "exn \<Rightarrow> bool" where
  "is_OnvmError e \<longleftrightarrow>
     exn_class e \<in> {COnvmError, COnvmAuthError, COnvmNetworkError, COnvmRateLimitError, COnvmConfigError}"

definition isAuthError :: "exn \<Rightarrow> bool" where
  "isAuthError e \<longleftrightarrow> exn_status e = Some 401 \<or> exn_status e = Some 403"

definition isRateLimitError :: "exn \<Rightarrow> bool" where
  "isRateLimitError e \<longleftrightarrow> exn_status e = Some 429"

definition isNetworkError :: "exn \<Rightarrow> bool" where
  "isNetworkError e \<longleftrightarrow>
     (case exn_status e of None \<Rightarrow> True | Some s \<Rightarrow> 500 \<le> s \<and> s < 600)"

lemmas error_defs = OnvmError_def OnvmAuthError_def OnvmNetworkError_def OnvmRateLimitError_def
  OnvmConfigError_def

lemma error_sel [simp]:
  "exn_class (OnvmError m s d) = COnvmError" "exn_message (OnvmError m s d) = m"
  "exn_status (OnvmError m s d) = s" "exn_details (OnvmError m s d) = d"
  "exn_class (OnvmAuthError m d) = COnvmAuthError" "exn_message (OnvmAuthError m d) = m"
  "exn_status (OnvmAuthError m d) = Some 401" "exn_details (OnvmAuthError m d) = d"
  "exn_class (OnvmNetworkError m d) = COnvmNetworkError" "exn_message (OnvmNetworkError m d) = m"
  "exn_status (OnvmNetworkError m d) = None" "exn_details (OnvmNetworkError m d) = d"
  by (simp_all add: error_defs)

lemma is_OnvmError_simps [simp]:
  "is_OnvmError (OnvmError m s d)" "is_OnvmError (OnvmAuthError m d)"
  "is_OnvmError (OnvmNetworkError m d)" "is_OnvmError (OnvmRateLimitError m d)"
  "is_OnvmError (OnvmConfigError m d)"
  by (simp_all add: is_OnvmError_def error_defs)

text \<open>The three classes are disjoint: a caller that switches on them takes one branch.\<close>

lemma error_kinds_disjoint:
  "\<not> (isAuthError e \<and> isRateLimitError e)" "\<not> (isAuthError e \<and> isNetworkError e)"
  "\<not> (isRateLimitError e \<and> isNetworkError e)"
  by (auto simp: isAuthError_def isRateLimitError_def isNetworkError_def)

end
