(* ===== verification/Sdk_Auth.thy ===== *)
theory Sdk_Auth
  imports Sha256 Http Sdk_Errors
begin

text \<open>
  \<^verbatim>\<open>onvm-sdk/src/auth.ts\<close>: key derivation, request signatures and response decryption.
  The third-party cipher (\<^verbatim>\<open>@stablelib/xchacha20poly1305\<close>) is the argument \<open>aead\<close> of the two
  decryption functions: applied to key, nonce, ciphertext and associated data it throws, returns
  \<open>None\<close> (the library's \<^verbatim>\<open>null\<close>) or returns the plaintext. The lemmas of the locale
  \<open>mac_alg\<close> show that the key derivation loop is the one of RFC 5869.
\<close>

definition HDR_PROJECT_ID :: jsstr where "HDR_PROJECT_ID = js ''x-project-id''"
definition HDR_TIMESTAMP :: jsstr where "HDR_TIMESTAMP = js ''x-timestamp''"
definition HDR_NONCE :: jsstr where "HDR_NONCE = js ''x-nonce''"
definition HDR_SIGNATURE :: jsstr where "HDR_SIGNATURE = js ''x-signature''"

lemmas hdr_defs = HDR_PROJECT_ID_def HDR_TIMESTAMP_def HDR_NONCE_def HDR_SIGNATURE_def

record DerivedKeys =
  signing_key :: bytes
  response_key :: bytes

type_synonym aead_open = "bytes \<Rightarrow> bytes \<Rightarrow> bytes \<Rightarrow> bytes \<Rightarrow> exn + bytes option"

section \<open>Key derivation\<close>

text \<open>The expand loop: \<open>n\<close> rounds are left, \<open>i\<close> is the counter, \<open>t\<close> the previous block.\<close>

fun expand_loop :: "(bytes \<Rightarrow> bytes \<Rightarrow> bytes) \<Rightarrow> bytes \<Rightarrow> bytes \<Rightarrow> nat \<Rightarrow> nat \<Rightarrow> bytes \<Rightarrow> bytes list" where
  "expand_loop mac prk info 0 i t = []"
| "expand_loop mac prk info (Suc n) i t =
     (let t' = mac prk (t @ info @ [u8 i]) in t' # expand_loop mac prk info n (Suc i) t')"

definition ceil_div :: "nat \<Rightarrow> nat \<Rightarrow> nat" where
  "ceil_div a b = (a + b - 1) div b"

definition hkdf_with ::
  "(bytes \<Rightarrow> bytes \<Rightarrow> bytes) \<Rightarrow> nat \<Rightarrow> bytes \<Rightarrow> bytes option \<Rightarrow> bytes \<Rightarrow> nat \<Rightarrow> bytes" where
  "hkdf_with mac hlen ikm salt info len =
     (let actualSalt = (case salt of None \<Rightarrow> replicate hlen 0 | Some s \<Rightarrow> s);
          prk = mac actualSalt ikm;
          n = ceil_div len hlen
      in take len (concat (expand_loop mac prk info n 1 [])))"

definition hkdf :: "bytes \<Rightarrow> bytes option \<Rightarrow> bytes \<Rightarrow> nat \<Rightarrow> bytes" where
  "hkdf = hkdf_with hmac_sha256 32"

definition deriveKeys :: "jsstr \<Rightarrow> exn + DerivedKeys" where
  "deriveKeys projectSecret =
     (let secretBuffer = hex_dec projectSecret
      in if length secretBuffer \<noteq> 32
         then Inl (OnvmAuthError (js ''Project secret must be 32 bytes (64 hex chars)'') DUndefined)
         else
           (let okm = hkdf secretBuffer None (utf8_enc (js ''onvm-rpc-auth'')) 64
            in Inr \<lparr>signing_key = take 32 okm, response_key = take 32 (drop 32 okm)\<rparr>))"

section \<open>Signatures\<close>

definition generateNonce :: "env \<Rightarrow> (world, jsstr) js" where
  "generateNonce E = js_bind (randomBytes E 16) (\<lambda>b. js_ret (hex_enc b))"

definition getCurrentTimestampMs :: "env \<Rightarrow> (world, int) js" where
  "getCurrentTimestampMs E = Date_now E"

definition canonical :: "jsstr \<Rightarrow> jsstr \<Rightarrow> jsstr \<Rightarrow> int \<Rightarrow> jsstr \<Rightarrow> jsstr" where
  "canonical meth path body timestamp nonce =
     meth @ [32] @ path @ [10] @ show_int timestamp @ [10] @ nonce @ [10] @ body"

definition signRequest :: "jsstr \<Rightarrow> jsstr \<Rightarrow> jsstr \<Rightarrow> int \<Rightarrow> jsstr \<Rightarrow> bytes \<Rightarrow> jsstr" where
  "signRequest meth path body timestamp nonce signingKey =
     hex_enc (hmac_sha256 signingKey (utf8_enc (canonical meth path body timestamp nonce)))"

definition auth_headers ::
  "jsstr \<Rightarrow> jsstr \<Rightarrow> jsstr \<Rightarrow> jsstr \<Rightarrow> bytes \<Rightarrow> int \<Rightarrow> jsstr \<Rightarrow> (jsstr \<times> jsstr) list" where
  "auth_headers meth path body projectId signingKey timestamp nonce =
     [(HDR_PROJECT_ID, projectId),
      (HDR_TIMESTAMP, show_int timestamp),
      (HDR_NONCE, nonce),
      (HDR_SIGNATURE, signRequest meth path body timestamp nonce signingKey)]"

definition buildAuthHeaders ::
  "env \<Rightarrow> jsstr \<Rightarrow> jsstr \<Rightarrow> jsstr \<Rightarrow> jsstr \<Rightarrow> bytes \<Rightarrow> (world, (jsstr \<times> jsstr) list) js" where
  "buildAuthHeaders E meth path body projectId signingKey =
     js_bind (getCurrentTimestampMs E) (\<lambda>timestamp.
     js_bind (generateNonce E) (\<lambda>nonce.
     js_ret (auth_headers meth path body projectId signingKey timestamp nonce)))"

section \<open>Decryption\<close>

definition deriveResponseNonce :: "bytes \<Rightarrow> jsstr \<Rightarrow> int \<Rightarrow> bytes" where
  "deriveResponseNonce responseKey requestNonce timestamp =
     (let info = utf8_enc (js ''resp-'' @ show_int timestamp)
      in hkdf (utf8_enc requestNonce) (Some responseKey) info 24)"

definition decryptResponseToBuffer ::
  "aead_open \<Rightarrow> jsstr \<Rightarrow> bytes \<Rightarrow> jsstr \<Rightarrow> int \<Rightarrow> jsstr \<Rightarrow> jsstr option \<Rightarrow> exn + bytes" where
  "decryptResponseToBuffer aead ciphertextBase64 responseKey requestNonce timestamp canon responseNonceHex =
     (let ciphertext = b64_dec ciphertextBase64;
          nonce = (if truthy responseNonceHex then hex_dec (the responseNonceHex)
                   else deriveResponseNonce responseKey requestNonce timestamp);
          failed = (\<lambda>error. OnvmAuthError
            (js ''Response decryption failed: '' @ exn_to_string error) DUndefined)
      in if length nonce \<noteq> 24
         then Inl (OnvmAuthError (js ''Invalid response nonce length: expected 24 bytes'') DUndefined)
         else
           (case aead responseKey nonce ciphertext (utf8_enc canon) of
              Inl error \<Rightarrow> Inl (failed error)
            | Inr None \<Rightarrow>
                Inl (failed (js_Error (js ''Decryption failed: authentication tag mismatch'')))
            | Inr (Some plaintext) \<Rightarrow> Inr plaintext))"

definition decryptResponse ::
  "aead_open \<Rightarrow> jsstr \<Rightarrow> bytes \<Rightarrow> jsstr \<Rightarrow> int \<Rightarrow> jsstr \<Rightarrow> jsstr option \<Rightarrow> exn + jsstr" where
  "decryptResponse aead ciphertextBase64 responseKey requestNonce timestamp canon responseNonceHex =
     map_sum id utf8_dec
       (decryptResponseToBuffer aead ciphertextBase64 responseKey requestNonce timestamp canon
         responseNonceHex)"

section \<open>RFC 5869\<close>

text \<open>The reference: \<open>T(0)\<close> is empty and \<open>T(i) = HMAC(PRK, T(i-1) | info | i)\<close>.\<close>

primrec rfc_T :: "(bytes \<Rightarrow> bytes \<Rightarrow> bytes) \<Rightarrow> bytes \<Rightarrow> bytes \<Rightarrow> nat \<Rightarrow> bytes" where
  "rfc_T mac prk info 0 = []"
| "rfc_T mac prk info (Suc i) = mac prk (rfc_T mac prk info i @ info @ [u8 (Suc i)])"

definition rfc5869 ::
  "(bytes \<Rightarrow> bytes \<Rightarrow> bytes) \<Rightarrow> nat \<Rightarrow> bytes \<Rightarrow> bytes option \<Rightarrow> bytes \<Rightarrow> nat \<Rightarrow> bytes" where
  "rfc5869 mac hlen ikm salt info len =
     (let prk = mac (case salt of None \<Rightarrow> replicate hlen 0 | Some s \<Rightarrow> s) ikm
      in take len (concat (map (rfc_T mac prk info) [1..<Suc (ceil_div len hlen)])))"

lemma expand_loop_rfc:
  "expand_loop mac prk info n (Suc i) (rfc_T mac prk info i)
     = map (rfc_T mac prk info) [Suc i..<Suc i + n]"
proof (induction n arbitrary: i)
  case (Suc n)
  have "[Suc i..<Suc i + Suc n] = Suc i # [Suc (Suc i)..<Suc (Suc i) + n]"
    by (simp add: upt_rec)
  with Suc.IH [of "Suc i"] show ?case
    by (simp add: Let_def)
qed simp

lemma hkdf_with_rfc5869: "hkdf_with mac hlen = rfc5869 mac hlen"
proof (intro ext)
  show "hkdf_with mac hlen ikm salt info len = rfc5869 mac hlen ikm salt info len"
    for ikm salt info len
    using expand_loop_rfc [of mac _ info _ 0]
    by (simp add: hkdf_with_def rfc5869_def Let_def)
qed

lemma length_expand_loop [simp]: "length (expand_loop mac prk info n i t) = n"
  by (induction n arbitrary: i t) (simp_all add: Let_def)

context mac_alg
begin

lemma length_blocks: "length (concat (expand_loop mac prk info n i t)) = n * tag_len"
  by (induction n arbitrary: i t) (simp_all add: Let_def length_mac)

lemma ceil_div_enough: "len \<le> ceil_div len tag_len * tag_len"
proof -
  have "len + tag_len - 1 = (len + tag_len - 1) div tag_len * tag_len + (len + tag_len - 1) mod tag_len"
    by simp
  moreover have "(len + tag_len - 1) mod tag_len < tag_len"
    using tag_len_pos by simp
  ultimately show ?thesis
    unfolding ceil_div_def using tag_len_pos by linarith
qed

lemma length_hkdf_with: "length (hkdf_with mac tag_len ikm salt info len) = len"
  using ceil_div_enough [of len] by (simp add: hkdf_with_def Let_def length_blocks)

end

lemma length_hkdf [simp]: "length (hkdf ikm salt info len) = len"
  unfolding hkdf_def by (rule hmac.length_hkdf_with)

lemma length_deriveResponseNonce [simp]: "length (deriveResponseNonce k n t) = 24"
  by (simp add: deriveResponseNonce_def Let_def)

lemma deriveKeys_ok:
  assumes "deriveKeys s = Inr ks"
  shows "length (hex_dec s) = 32" "length (signing_key ks) = 32" "length (response_key ks) = 32"
    "signing_key ks @ response_key ks
       = rfc5869 hmac_sha256 32 (hex_dec s) None (utf8_enc (js ''onvm-rpc-auth'')) 64"
  using assms
  by (auto simp: deriveKeys_def Let_def hkdf_def hkdf_with_rfc5869 [symmetric]
      hmac.length_hkdf_with split: if_splits)

lemma buildAuthHeaders_run [js_monad]:
  "buildAuthHeaders E meth path body pid sk w =
     (Inr (auth_headers meth path body pid sk (e_now E (w_clock w))
        (hex_enc (map (e_random E (w_rand w)) [0..<16]))),
      w\<lparr>w_clock := Suc (w_clock w), w_rand := Suc (w_rand w)\<rparr>)"
  by (simp add: buildAuthHeaders_def getCurrentTimestampMs_def generateNonce_def js_monad)

end
