(* ===== verification/Sdk_Client.thy ===== *)
theory Sdk_Client
  imports Sdk_Auth
begin

text \<open>
  \<^verbatim>\<open>onvm-sdk/src/client.ts\<close> and the request types of \<^verbatim>\<open>types.ts\<close>. A method of
  \<^verbatim>\<open>OnvmClient\<close> is a statement on the pair of the client object and the world. \<open>request\<close> is
  composed of the parts the method has: \<open>authenticate\<close> (the signed headers), \<open>http_failure\<close> (the
  error of a response that is not 2xx), \<open>read_response\<close> (decryption and parsing) and
  \<open>request_error\<close> (the outer \<^verbatim>\<open>catch\<close>).
\<close>

section \<open>Configuration and client objects\<close>

datatype RpcMode = Dev | Prod

record OnvmClientConfig =
  cf_rpcUrl :: jsstr
  cf_programId :: "jsstr option"
  cf_projectId :: "jsstr option"
  cf_projectSecret :: "jsstr option"
  cf_mode :: "RpcMode option"
  cf_timeout :: "int option"

record OnvmClient =
  rpcUrl :: jsstr
  programId :: "jsstr option"
  projectId :: "jsstr option"
  projectSecret :: "jsstr option"
  timeout :: int
  derivedKeys :: "DerivedKeys option"
  detectedNodeMode :: "RpcMode option"

type_synonym 'a sdk = "(OnvmClient \<times> world, 'a) js"

definition on_world :: "(world, 'a) js \<Rightarrow> 'a sdk" where
  [js_monad]: "on_world = js_zoom snd (\<lambda>w s. (fst s, w))"

definition set_mode :: "RpcMode \<Rightarrow> unit sdk" where
  [js_monad]: "set_mode m = js_modify (\<lambda>(c, w). (c\<lparr>detectedNodeMode := Some m\<rparr>, w))"

definition strip_slash :: "jsstr \<Rightarrow> jsstr" where
  "strip_slash s = (if s \<noteq> [] \<and> last s = 47 then butlast s else s)"

definition new_OnvmClient :: "OnvmClientConfig \<Rightarrow> exn + OnvmClient" where
  "new_OnvmClient config =
     (let c = \<lparr>rpcUrl = strip_slash (cf_rpcUrl config), programId = cf_programId config,
               projectId = cf_projectId config, projectSecret = cf_projectSecret config,
               timeout = (case cf_timeout config of None \<Rightarrow> 30000 | Some t \<Rightarrow> t),
               derivedKeys = None, detectedNodeMode = None\<rparr>
      in if truthy (projectId c) \<and> truthy (projectSecret c) then
           map_sum id (\<lambda>ks. c\<lparr>derivedKeys := Some ks\<rparr>) (deriveKeys (the (projectSecret c)))
         else Inr c)"

section \<open>The mode of the node\<close>

definition content_type_json :: "(jsstr \<times> jsstr) list" where
  "content_type_json = [(js ''Content-Type'', js ''application/json'')]"

definition http_get :: "jsstr \<Rightarrow> (jsstr \<times> jsstr) list \<Rightarrow> http_request" where
  "http_get url headers =
     \<lparr>rq_method = js ''GET'', rq_url = url, rq_headers = headers, rq_body = NoBody, rq_timeout = None\<rparr>"

definition liveness_failure :: "jsstr \<Rightarrow> http_response \<Rightarrow> jsstr \<Rightarrow> exn" where
  "liveness_failure healthUrl response errorText =
     OnvmError
       (js ''Failed to detect node mode: HTTP '' @ show_int (rs_status response) @ js '' from '' @ healthUrl)
       (Some (rs_status response)) (DText (or_str (Some errorText) (rs_statusText response)))"

definition liveness_unparsable :: "jsstr \<Rightarrow> http_response \<Rightarrow> exn \<Rightarrow> exn" where
  "liveness_unparsable healthUrl response parseError =
     OnvmError (js ''Failed to parse node liveness response from '' @ healthUrl)
       (Some (rs_status response))
       (if is_Error parseError then DText (exn_message parseError) else DExn parseError)"

definition missing_credentials :: exn where
  "missing_credentials =
     OnvmError
       (js ''Node is running in prod mode but projectId or projectSecret is missing. Please provide valid credentials.'')
       (Some 401) DUndefined"

definition detect_error :: "jsstr \<Rightarrow> exn \<Rightarrow> exn" where
  "detect_error url error =
     (if is_OnvmError error then error
      else
        (let message = (if is_Error error then exn_message error else exn_to_string error)
         in OnvmNetworkError (js ''Unable to reach RPC endpoint at '' @ url @ js '': '' @ message)
              (DText message)))"

definition detectNodeMode :: "env \<Rightarrow> RpcMode sdk" where
  "detectNodeMode E =
     js_bind (js_gets fst) (\<lambda>this.
       case detectedNodeMode this of
         Some m \<Rightarrow> js_ret m
       | None \<Rightarrow>
           (let healthUrl = rpcUrl this @ js ''/health/liveness'' in
            js_catch
              (js_bind (on_world (fetch E (http_get healthUrl content_type_json))) (\<lambda>response.
               if \<not> resp_ok response then
                 js_bind (js_lift (resp_text response)) (\<lambda>errorText.
                 js_throw (liveness_failure healthUrl response errorText))
               else
                 js_bind
                   (js_catch (js_lift (resp_json E response))
                     (\<lambda>parseError. js_throw (liveness_unparsable healthUrl response parseError)))
                   (\<lambda>data.
                 js_bind (js_lift (get_prop ''mode'' (Some data))) (\<lambda>mode.
                 let m = (if mode = Some (JStr (js ''dev'')) then Dev else Prod) in
                 js_seq (set_mode m)
                   (if m = Prod \<and> (\<not> truthy (projectId this) \<or> \<not> truthy (projectSecret this))
                    then js_throw missing_credentials
                    else js_ret m)))))
              (\<lambda>error. js_throw (detect_error (rpcUrl this) error))))"

section \<open>Requests\<close>

text \<open>
  The signed headers, with the timestamp and nonce read back from them; \<open>None\<close> is
  \<^verbatim>\<open>undefined\<close> (or NaN). \<open>signed\<close> is the condition \<^verbatim>\<open>authTimestamp && authNonce\<close>.
\<close>

type_synonym auth_info = "(jsstr \<times> jsstr) list \<times> int option \<times> jsstr option"

definition authenticate ::
  "env \<Rightarrow> OnvmClient \<Rightarrow> RpcMode \<Rightarrow> jsstr \<Rightarrow> jsstr \<Rightarrow> jsstr \<Rightarrow> (jsstr \<times> jsstr) list \<Rightarrow>
     (world, auth_info) js" where
  "authenticate E this nodeMode meth path bodyStr headers =
     (case derivedKeys this of
        Some ks \<Rightarrow>
          if nodeMode = Prod \<and> truthy (projectId this) then
            js_bind (buildAuthHeaders E meth path bodyStr (the (projectId this)) (signing_key ks))
              (\<lambda>authHeaders.
                js_ret (obj_assign headers authHeaders,
                  Option.bind (obj_get authHeaders (js ''x-timestamp'')) parseInt,
                  obj_get authHeaders (js ''x-nonce'')))
          else js_ret (headers, None, None)
      | None \<Rightarrow> js_ret (headers, None, None))"

definition signed :: "int option \<Rightarrow> jsstr option \<Rightarrow> bool" where
  "signed authTimestamp authNonce \<longleftrightarrow>
     authTimestamp \<noteq> None \<and> authTimestamp \<noteq> Some 0 \<and> truthy authNonce"

definition http_failure :: "RpcMode \<Rightarrow> http_response \<Rightarrow> jsstr \<Rightarrow> exn" where
  "http_failure nodeMode response errorText =
     (if rs_status response = 401 then
        (if nodeMode = Prod then
           OnvmError
             (js ''Authentication failed. Please check your projectId and projectSecret credentials.'')
             (Some 401) (DText errorText)
         else OnvmError (js ''Unauthorized access.'') (Some 401) (DText errorText))
      else if rs_status response = 403 then
        OnvmError
          (js ''Access forbidden. Your credentials may not have permission for this operation.'')
          (Some 403) (DText errorText)
      else if rs_status response = 429 then
        OnvmError (js ''Rate limit exceeded. Please slow down your requests.'') (Some 429)
          (DText errorText)
      else
        OnvmError (js ''HTTP '' @ show_int (rs_status response) @ js '': '' @ errorText)
          (Some (rs_status response)) (DText errorText))"

text \<open>The test \<^verbatim>\<open>responseText.match(/^[A-Za-z0-9+/=\s]+$/)\<close>.\<close>

definition looks_base64 :: "jsstr \<Rightarrow> bool" where
  "looks_base64 s \<longleftrightarrow>
     s \<noteq> [] \<and> list_all (\<lambda>u. b64_std_val u \<noteq> None \<or> u = 61 \<or> is_js_ws u) s"

definition AEAD_NAME :: jsstr where
  "AEAD_NAME = js ''XChaCha20Poly1305''"

definition parse_body :: "env \<Rightarrow> jsstr \<Rightarrow> exn + json" where
  "parse_body E responseText =
     (if responseText \<noteq> [] then parse_json E responseText else Inr (JObj []))"

definition decrypt_json ::
  "env \<Rightarrow> aead_open \<Rightarrow> DerivedKeys \<Rightarrow> jsstr \<Rightarrow> jsstr \<Rightarrow> int \<Rightarrow> jsstr \<Rightarrow> jsstr option \<Rightarrow> exn + json" where
  "decrypt_json E aead ks responseText nonce ts canon responseNonce =
     (case decryptResponse aead responseText (response_key ks) nonce ts canon responseNonce of
        Inl e \<Rightarrow> Inl e
      | Inr decrypted \<Rightarrow> parse_json E decrypted)"

definition undecryptable :: "exn \<Rightarrow> exn" where
  "undecryptable decryptError =
     OnvmError
       (js ''Failed to decrypt response. Your credentials may be incorrect or the response format is invalid.'')
       (Some 500) (DExn decryptError)"

definition read_response ::
  "env \<Rightarrow> aead_open \<Rightarrow> OnvmClient \<Rightarrow> RpcMode \<Rightarrow> jsstr \<Rightarrow> jsstr \<Rightarrow> jsstr \<Rightarrow> int option \<Rightarrow>
     jsstr option \<Rightarrow> http_response \<Rightarrow> jsstr \<Rightarrow> exn + json" where
  "read_response E aead this nodeMode meth path bodyStr authTimestamp authNonce response responseText =
     (case derivedKeys this of
        None \<Rightarrow> parse_body E responseText
      | Some ks \<Rightarrow>
          if nodeMode = Prod \<and> signed authTimestamp authNonce then
            (let ts = the authTimestamp;
                 nonce = the authNonce;
                 responseNonce = header_get response ''x-response-nonce'';
                 responseAead = header_get response ''x-response-aead'';
                 canon = canonical meth path bodyStr ts nonce
             in if responseAead = Some AEAD_NAME \<and> truthy responseNonce then
                  decrypt_json E aead ks responseText nonce ts canon responseNonce
                else if looks_base64 responseText then
                  (case decrypt_json E aead ks responseText nonce ts canon (or_undef responseNonce) of
                     Inl decryptError \<Rightarrow> Inl (undecryptable decryptError)
                   | Inr v \<Rightarrow> Inr v)
                else parse_body E responseText)
          else parse_body E responseText)"

definition request_error :: "jsstr \<Rightarrow> exn \<Rightarrow> exn" where
  "request_error endpoint error =
     (if is_Error error \<and> class_name (exn_class error) = js ''AbortError'' then
        OnvmNetworkError (js ''Request timeout while calling '' @ endpoint) DUndefined
      else if is_OnvmError error then error
      else
        OnvmNetworkError
          (js ''Network error calling '' @ endpoint @ js '': ''
             @ (if is_Error error then exn_message error else exn_to_string error))
          (DExn error))"

definition send_request ::
  "env \<Rightarrow> aead_open \<Rightarrow> OnvmClient \<Rightarrow> RpcMode \<Rightarrow> jsstr \<Rightarrow> jsstr \<Rightarrow> jsstr \<Rightarrow> auth_info \<Rightarrow> (world, json) js" where
  "send_request E aead this nodeMode meth path bodyStr auth =
     (case auth of (headers, authTimestamp, authNonce) \<Rightarrow>
      let endpoint = rpcUrl this @ path in
      js_catch
        (js_bind setTimeout (\<lambda>timeoutId.
         js_bind
           (fetch E
             \<lparr>rq_method = meth, rq_url = endpoint, rq_headers = headers,
              rq_body = (if bodyStr = [] then NoBody else TextBody bodyStr),
              rq_timeout = Some (timeout this)\<rparr>) (\<lambda>response.
         js_seq (clearTimeout timeoutId)
           (js_bind (js_lift (resp_text response)) (\<lambda>text.
            if \<not> resp_ok response then js_throw (http_failure nodeMode response text)
            else
              js_lift (read_response E aead this nodeMode meth path bodyStr authTimestamp authNonce
                response text))))))
        (\<lambda>error. js_throw (request_error endpoint error)))"

definition request ::
  "env \<Rightarrow> aead_open \<Rightarrow> string \<Rightarrow> jsstr \<Rightarrow> jsval \<Rightarrow> (jsstr \<times> jsstr) list \<Rightarrow> json sdk" where
  "request E aead meth path body customHeaders =
     js_bind (detectNodeMode E) (\<lambda>nodeMode.
     js_bind (js_gets fst) (\<lambda>this.
     let bodyStr = (if truthy_val body then JSON_stringify (the body) else []);
         headers = obj_assign content_type_json customHeaders
     in on_world
          (js_bind (authenticate E this nodeMode (js meth) path bodyStr headers)
            (send_request E aead this nodeMode (js meth) path bodyStr))))"

section \<open>Blobs\<close>

definition blob_network_error :: "string \<Rightarrow> jsstr \<Rightarrow> exn \<Rightarrow> exn" where
  "blob_network_error what endpoint error =
     OnvmNetworkError
       (js ''Network error '' @ js what @ endpoint @ js '': ''
          @ (if is_Error error then exn_message error else exn_to_string error))
       (DExn error)"

definition read_upload ::
  "env \<Rightarrow> aead_open \<Rightarrow> OnvmClient \<Rightarrow> RpcMode \<Rightarrow> jsstr \<Rightarrow> int option \<Rightarrow> jsstr option \<Rightarrow>
     http_response \<Rightarrow> jsstr \<Rightarrow> exn + json" where
  "read_upload E aead this nodeMode bodyStr authTimestamp authNonce response responseText =
     (case derivedKeys this of
        Some ks \<Rightarrow>
          if nodeMode = Prod \<and> signed authTimestamp authNonce
             \<and> header_get response ''x-response-aead'' = Some AEAD_NAME then
            decrypt_json E aead ks responseText (the authNonce) (the authTimestamp)
              (canonical (js ''POST'') (js ''/blobs'') bodyStr (the authTimestamp) (the authNonce))
              (or_undef (header_get response ''x-response-nonce''))
          else parse_body E responseText
      | None \<Rightarrow> parse_body E responseText)"

definition uploadBlob :: "env \<Rightarrow> aead_open \<Rightarrow> bytes \<Rightarrow> jsstr option \<Rightarrow> json sdk" where
  "uploadBlob E aead data mimeType =
     js_bind (detectNodeMode E) (\<lambda>nodeMode.
     js_bind (js_gets fst) (\<lambda>this.
     let url = rpcUrl this @ js ''/blobs'';
         headers = (if truthy mimeType then [(js ''x-mime'', the mimeType)] else []);
         bodyStr = utf8_dec data
     in on_world
          (js_bind (authenticate E this nodeMode (js ''POST'') (js ''/blobs'') bodyStr headers)
            (\<lambda>(headers, authTimestamp, authNonce).
          js_bind
            (js_catch
              (fetch E
                \<lparr>rq_method = js ''POST'', rq_url = url, rq_headers = headers, rq_body = BytesBody data,
                 rq_timeout = None\<rparr>)
              (\<lambda>error. js_throw (blob_network_error ''uploading blob to '' url error)))
            (\<lambda>response.
          js_bind (js_lift (resp_text response)) (\<lambda>responseText.
          if \<not> resp_ok response then
            js_throw (OnvmError (js ''Upload failed: '' @ rs_statusText response)
              (Some (rs_status response)) (DText responseText))
          else
            js_lift (read_upload E aead this nodeMode bodyStr authTimestamp authNonce response
              responseText)))))))"

definition read_download ::
  "aead_open \<Rightarrow> OnvmClient \<Rightarrow> RpcMode \<Rightarrow> jsstr \<Rightarrow> int option \<Rightarrow> jsstr option \<Rightarrow>
     http_response \<Rightarrow> exn + bytes" where
  "read_download aead this nodeMode blobId authTimestamp authNonce response =
     (case derivedKeys this of
        Some ks \<Rightarrow>
          if nodeMode = Prod \<and> signed authTimestamp authNonce
             \<and> header_get response ''x-response-aead'' = Some AEAD_NAME then
            (case resp_text response of
               Inl e \<Rightarrow> Inl e
             | Inr ciphertextBase64 \<Rightarrow>
                 decryptResponseToBuffer aead ciphertextBase64 (response_key ks) (the authNonce)
                   (the authTimestamp)
                   (canonical (js ''GET'') (js ''/blobs/'' @ blobId) [] (the authTimestamp)
                     (the authNonce))
                   (or_undef (header_get response ''x-response-nonce'')))
          else resp_bytes response
      | None \<Rightarrow> resp_bytes response)"

definition downloadBlob :: "env \<Rightarrow> aead_open \<Rightarrow> jsstr \<Rightarrow> bytes sdk" where
  "downloadBlob E aead blobId =
     js_bind (detectNodeMode E) (\<lambda>nodeMode.
     js_bind (js_gets fst) (\<lambda>this.
     let url = rpcUrl this @ js ''/blobs/'' @ blobId
     in on_world
          (js_bind (authenticate E this nodeMode (js ''GET'') (js ''/blobs/'' @ blobId) [] [])
            (\<lambda>(headers, authTimestamp, authNonce).
          js_bind
            (js_catch (fetch E (http_get url headers))
              (\<lambda>error. js_throw (blob_network_error ''downloading blob from '' url error)))
            (\<lambda>response.
          if \<not> resp_ok response then
            js_throw (OnvmError (js ''Download failed: '' @ rs_statusText response)
              (Some (rs_status response)) DUndefined)
          else js_lift (read_download aead this nodeMode blobId authTimestamp authNonce response))))))"

section \<open>Request types\<close>

record CreateProjectRequest =
  cp_identity_passphrase :: jsstr
  cp_project_id :: "jsstr option"

record DeployProgramRequest =
  dp_wasm_base64 :: jsstr
  dp_entrypoint :: jsstr
  dp_blob_refs :: "jsstr list"

text \<open>
  Shared by \<^verbatim>\<open>ExecuteRequest\<close> and \<^verbatim>\<open>EstimateFuelRequest\<close>, which have the same fields. The
  API route of the social network passes on fields of a request body unchecked, so they are any
  values.
\<close>

record ExecuteRequest =
  ex_program_id :: jsval
  ex_input_base64 :: jsval

record SubmitJobRequest =
  sj_request_id :: jsstr
  sj_program_id :: jsstr
  sj_input_base64 :: "jsstr option"
  sj_input_blob_id :: "jsstr option"
  sj_max_retries :: "int option"
  sj_metadata :: "(jsstr \<times> jsstr) list option"

definition CreateProjectRequest_json :: "CreateProjectRequest \<Rightarrow> json" where
  "CreateProjectRequest_json r = obj_literal
     [(''identity_passphrase'', Some (JStr (cp_identity_passphrase r))),
      (''project_id'', map_option JStr (cp_project_id r))]"

definition DeployProgramRequest_json :: "DeployProgramRequest \<Rightarrow> json" where
  "DeployProgramRequest_json r = obj_literal
     [(''wasm_base64'', Some (JStr (dp_wasm_base64 r))),
      (''entrypoint'', Some (JStr (dp_entrypoint r))),
      (''blob_refs'', Some (JArr (map JStr (dp_blob_refs r))))]"

definition ExecuteRequest_json :: "ExecuteRequest \<Rightarrow> json" where
  "ExecuteRequest_json r = obj_literal
     [(''program_id'', ex_program_id r), (''input_base64'', ex_input_base64 r)]"

definition SubmitJobRequest_json :: "SubmitJobRequest \<Rightarrow> json" where
  "SubmitJobRequest_json r = obj_literal
     [(''request_id'', Some (JStr (sj_request_id r))),
      (''program_id'', Some (JStr (sj_program_id r))),
      (''input_base64'', map_option JStr (sj_input_base64 r)),
      (''input_blob_id'', map_option JStr (sj_input_blob_id r)),
      (''max_retries'', map_option (\<lambda>i. JNum (of_int i)) (sj_max_retries r)),
      (''metadata'', map_option (\<lambda>m. JObj (map (\<lambda>(k, v). (k, JStr v)) m)) (sj_metadata r))]"

section \<open>Operations\<close>

abbreviation get_json :: "env \<Rightarrow> aead_open \<Rightarrow> jsstr \<Rightarrow> json sdk" where
  "get_json E aead path \<equiv> request E aead ''GET'' path None []"

abbreviation post_json :: "env \<Rightarrow> aead_open \<Rightarrow> jsstr \<Rightarrow> jsval \<Rightarrow> json sdk" where
  "post_json E aead path body \<equiv> request E aead ''POST'' path body []"

definition health :: "env \<Rightarrow> aead_open \<Rightarrow> json sdk" where
  "health E aead = get_json E aead (js ''/health'')"

definition liveness :: "env \<Rightarrow> aead_open \<Rightarrow> json sdk" where
  "liveness E aead = get_json E aead (js ''/health/liveness'')"

definition readiness :: "env \<Rightarrow> aead_open \<Rightarrow> json sdk" where
  "readiness E aead = get_json E aead (js ''/health/readiness'')"

definition metrics :: "env \<Rightarrow> aead_open \<Rightarrow> json sdk" where
  "metrics E aead = get_json E aead (js ''/health/metrics'')"

definition createProject :: "env \<Rightarrow> aead_open \<Rightarrow> CreateProjectRequest \<Rightarrow> json sdk" where
  "createProject E aead req =
     post_json E aead (js ''/rpc-auth/projects'') (Some (CreateProjectRequest_json req))"

definition deployProgram :: "env \<Rightarrow> aead_open \<Rightarrow> DeployProgramRequest \<Rightarrow> json sdk" where
  "deployProgram E aead req =
     post_json E aead (js ''/programs'') (Some (DeployProgramRequest_json req))"

definition getProgramInfo :: "env \<Rightarrow> aead_open \<Rightarrow> jsstr \<Rightarrow> json sdk" where
  "getProgramInfo E aead pid = get_json E aead (js ''/programs/'' @ pid)"

definition executeProgram :: "env \<Rightarrow> aead_open \<Rightarrow> ExecuteRequest \<Rightarrow> json sdk" where
  "executeProgram E aead req = post_json E aead (js ''/execute'') (Some (ExecuteRequest_json req))"

definition estimateFuel :: "env \<Rightarrow> aead_open \<Rightarrow> ExecuteRequest \<Rightarrow> json sdk" where
  "estimateFuel E aead req =
     post_json E aead (js ''/estimate-fuel'') (Some (ExecuteRequest_json req))"

definition getFuelProfile :: "env \<Rightarrow> aead_open \<Rightarrow> jsstr \<Rightarrow> json sdk" where
  "getFuelProfile E aead pid = get_json E aead (js ''/fuel-profile/'' @ pid)"

definition getProgramReceipts :: "env \<Rightarrow> aead_open \<Rightarrow> jsstr \<Rightarrow> json sdk" where
  "getProgramReceipts E aead pid =
     js_bind (get_json E aead (js ''/programs/'' @ pid @ js ''/receipts''))
       (\<lambda>receipts. js_ret (obj_literal [(''receipts'', Some receipts)]))"

definition getProgramCommittee :: "env \<Rightarrow> aead_open \<Rightarrow> jsstr \<Rightarrow> json sdk" where
  "getProgramCommittee E aead pid =
     get_json E aead (js ''/programs/'' @ pid @ js ''/committee'')"

definition getProgramStateRoot :: "env \<Rightarrow> aead_open \<Rightarrow> jsstr \<Rightarrow> jsstr option \<Rightarrow> json sdk" where
  "getProgramStateRoot E aead pid key =
     (if truthy key then
        js_bind (js_lift (encodeURIComponent (the key))) (\<lambda>k.
        get_json E aead (js ''/programs/'' @ pid @ js ''/state-root?key='' @ k))
      else get_json E aead (js ''/programs/'' @ pid @ js ''/state-root''))"

definition listProgramCatalog :: "env \<Rightarrow> aead_open \<Rightarrow> json sdk" where
  "listProgramCatalog E aead =
     js_bind (get_json E aead (js ''/program-catalog''))
       (\<lambda>catalog. js_ret (obj_literal [(''catalog'', Some catalog)]))"

definition submitJob :: "env \<Rightarrow> aead_open \<Rightarrow> SubmitJobRequest \<Rightarrow> json sdk" where
  "submitJob E aead req = post_json E aead (js ''/jobs'') (Some (SubmitJobRequest_json req))"

definition getJobStatus :: "env \<Rightarrow> aead_open \<Rightarrow> jsstr \<Rightarrow> json sdk" where
  "getJobStatus E aead jobId = get_json E aead (js ''/jobs/'' @ jobId)"

definition getJobLogs :: "env \<Rightarrow> aead_open \<Rightarrow> jsstr \<Rightarrow> json sdk" where
  "getJobLogs E aead jobId = get_json E aead (js ''/jobs/'' @ jobId @ js ''/logs'')"

definition getJobOutput :: "env \<Rightarrow> aead_open \<Rightarrow> jsstr \<Rightarrow> json sdk" where
  "getJobOutput E aead jobId = get_json E aead (js ''/jobs/'' @ jobId @ js ''/output'')"

definition cancelJob :: "env \<Rightarrow> aead_open \<Rightarrow> jsstr \<Rightarrow> unit sdk" where
  "cancelJob E aead jobId =
     js_bind (post_json E aead (js ''/jobs/'' @ jobId @ js ''/cancel'') None) (\<lambda>_. js_ret ())"

definition listJobs :: "env \<Rightarrow> aead_open \<Rightarrow> json sdk" where
  "listJobs E aead = get_json E aead (js ''/jobs'')"

definition setProgramId :: "jsstr \<Rightarrow> unit sdk" where
  "setProgramId pid = js_modify (\<lambda>(c, w). (c\<lparr>programId := Some pid\<rparr>, w))"

definition getProgramId :: "jsstr option sdk" where
  "getProgramId = js_gets (\<lambda>s. programId (fst s))"

section \<open>How the parts run\<close>

definition client_request :: "OnvmClient \<Rightarrow> jsstr \<Rightarrow> jsstr \<Rightarrow> jsstr \<Rightarrow> (jsstr \<times> jsstr) list \<Rightarrow> http_request" where
  "client_request this meth path bodyStr headers =
     \<lparr>rq_method = meth, rq_url = rpcUrl this @ path, rq_headers = headers,
      rq_body = (if bodyStr = [] then NoBody else TextBody bodyStr),
      rq_timeout = Some (timeout this)\<rparr>"

definition request_outcome ::
  "env \<Rightarrow> aead_open \<Rightarrow> OnvmClient \<Rightarrow> RpcMode \<Rightarrow> jsstr \<Rightarrow> jsstr \<Rightarrow> jsstr \<Rightarrow> auth_info \<Rightarrow>
     http_response \<Rightarrow> exn + json" where
  "request_outcome E aead this nodeMode meth path bodyStr auth response =
     (case resp_text response of
        Inl e \<Rightarrow> Inl e
      | Inr text \<Rightarrow>
          if \<not> resp_ok response then Inl (http_failure nodeMode response text)
          else read_response E aead this nodeMode meth path bodyStr (fst (snd auth)) (snd (snd auth))
                 response text)"

lemma send_request_run:
  assumes "timers_ok w"
  shows "send_request E aead this m meth path b auth w =
    (let rq = client_request this meth path b (fst auth);
         w' = w\<lparr>w_sent := w_sent w @ [rq], w_next_timer := Suc (w_next_timer w)\<rparr>
     in case e_fetch E (w_sent w) rq of
          Inl e \<Rightarrow> (Inl (request_error (rpcUrl this @ path) e),
                   w'\<lparr>w_timers := w_next_timer w # w_timers w\<rparr>)
        | Inr response \<Rightarrow>
            (map_sum (request_error (rpcUrl this @ path)) id
               (request_outcome E aead this m meth path b auth response), w'))"
proof -
  obtain h t n where a: "auth = (h, t, n)" by (cases auth)
  show ?thesis
    using timers_ok_fresh [OF assms]
    by (cases "e_fetch E (w_sent w) (client_request this meth path b h)")
      (auto simp: a send_request_def request_outcome_def client_request_def js_monad Let_def
        split: sum.split prod.split)
qed

lemma authenticate_run:
  "authenticate E this m meth path b h w =
     (case derivedKeys this of
        None \<Rightarrow> (Inr (h, None, None), w)
      | Some ks \<Rightarrow>
          if m = Prod \<and> truthy (projectId this) then
            (let ts = e_now E (w_clock w);
                 nonce = hex_enc (map (e_random E (w_rand w)) [0..<16])
             in (Inr (obj_assign h (auth_headers meth path b (the (projectId this)) (signing_key ks) ts nonce),
                   Some ts, Some nonce),
                 w\<lparr>w_clock := Suc (w_clock w), w_rand := Suc (w_rand w)\<rparr>))
          else (Inr (h, None, None), w))"
  by (auto simp: authenticate_def js_monad auth_headers_def hdr_defs Let_def split: option.split)

lemma authenticate_total: "\<exists>auth w'. authenticate E this m meth path b h w = (Inr auth, w')
    \<and> w_sent w' = w_sent w \<and> w_timers w' = w_timers w \<and> w_next_timer w' = w_next_timer w
    \<and> w_storage w' = w_storage w"
  by (auto simp: authenticate_run Let_def split: option.split)

lemma detect_cached:
  "detectedNodeMode (fst s) = Some m \<Longrightarrow> detectNodeMode E s = (Inr m, s)"
  by (simp add: detectNodeMode_def js_monad)

abbreviation liveness_request :: "OnvmClient \<Rightarrow> http_request" where
  "liveness_request c \<equiv> http_get (rpcUrl c @ js ''/health/liveness'') content_type_json"

definition mode_of :: "env \<Rightarrow> OnvmClient \<Rightarrow> http_response \<Rightarrow> exn + RpcMode" where
  "mode_of E c response =
     (let healthUrl = rpcUrl c @ js ''/health/liveness'' in
      if \<not> resp_ok response then
        (case resp_text response of
           Inl e \<Rightarrow> Inl e
         | Inr t \<Rightarrow> Inl (liveness_failure healthUrl response t))
      else
        (case resp_json E response of
           Inl e \<Rightarrow> Inl (liveness_unparsable healthUrl response e)
         | Inr data \<Rightarrow>
             map_sum id (\<lambda>mode. if mode = Some (JStr (js ''dev'')) then Dev else Prod)
               (get_prop ''mode'' (Some data))))"

definition has_credentials :: "OnvmClient \<Rightarrow> bool" where
  "has_credentials c \<longleftrightarrow> truthy (projectId c) \<and> truthy (projectSecret c)"

lemma detect_run:
  assumes "detectedNodeMode c = None"
  shows "detectNodeMode E (c, w) =
    (let w' = w\<lparr>w_sent := w_sent w @ [liveness_request c]\<rparr> in
     case e_fetch E (w_sent w) (liveness_request c) of
       Inl e \<Rightarrow> (Inl (detect_error (rpcUrl c) e), (c, w'))
     | Inr response \<Rightarrow>
         (case mode_of E c response of
            Inl e \<Rightarrow> (Inl (detect_error (rpcUrl c) e), (c, w'))
          | Inr m \<Rightarrow>
              (if m = Prod \<and> \<not> has_credentials c
               then Inl (detect_error (rpcUrl c) missing_credentials) else Inr m,
               (c\<lparr>detectedNodeMode := Some m\<rparr>, w'))))"
  using assms
  by (cases "e_fetch E (w_sent w) (liveness_request c)")
    (auto simp: detectNodeMode_def mode_of_def has_credentials_def js_monad Let_def
      split: sum.split prod.split)

lemma detect_error_onvm [simp]: "is_OnvmError (detect_error u e)"
  by (simp add: detect_error_def Let_def)

lemma request_error_onvm [simp]: "is_OnvmError (request_error u e)"
  by (simp add: request_error_def)

lemma detect_error_missing [simp]: "detect_error u missing_credentials = missing_credentials"
  by (simp add: detect_error_def missing_credentials_def)

lemma request_run:
  assumes "detectNodeMode E (c, w) = (r, (c', w'))"
  shows "request E aead meth path body ch (c, w) =
    (case r of
       Inl e \<Rightarrow> (Inl e, (c', w'))
     | Inr m \<Rightarrow>
         (let b = (if truthy_val body then JSON_stringify (the body) else []);
              (ra, w'') = authenticate E c' m (js meth) path b (obj_assign content_type_json ch) w'
          in case ra of
               Inl e \<Rightarrow> (Inl e, (c', w''))
             | Inr auth \<Rightarrow> map_prod id (Pair c') (send_request E aead c' m (js meth) path b auth w'')))"
  using assms
  by (auto simp: request_def js_monad Let_def split: sum.split prod.split)

section \<open>What every method keeps\<close>

text \<open>
  The contract of a method that goes through \<open>request\<close>: what it throws is an SDK error, of the
  client object it changes at most the cached mode, which never changes once it is set, it only
  appends to the log of requests, and it leaves the storage alone.
\<close>

definition method_ok :: "'a sdk \<Rightarrow> bool" where
  "method_ok m \<longleftrightarrow>
     (\<forall>c w. timers_ok w \<longrightarrow>
        (case m (c, w) of (r, (c', w')) \<Rightarrow>
           (\<forall>e. r = Inl e \<longrightarrow> is_OnvmError e)
           \<and> (\<exists>x. c' = c\<lparr>detectedNodeMode := x\<rparr>)
           \<and> (detectedNodeMode c \<noteq> None \<longrightarrow> c' = c)
           \<and> timers_ok w'
           \<and> w_storage w' = w_storage w
           \<and> (\<exists>rs. w_sent w' = w_sent w @ rs \<and> length rs \<le> 2)))"

lemma timers_ok_cong:
  "w_timers w = w_timers w' \<Longrightarrow> w_next_timer w = w_next_timer w' \<Longrightarrow> timers_ok w = timers_ok w'"
  by (simp add: timers_ok_def)

lemma send_request_ok:
  assumes "timers_ok w" "send_request E aead this m meth path b auth w = (r, w')"
  shows "r = Inl e \<Longrightarrow> is_OnvmError e" "timers_ok w'" "w_storage w' = w_storage w"
    "w_sent w' = w_sent w @ [client_request this meth path b (fst auth)]"
  using assms
  by (auto simp: send_request_run Let_def map_sum_def timers_ok_def less_SucI split: sum.splits)

lemma detect_cases:
  obtains (cached) m where "detectedNodeMode c = Some m" "detectNodeMode E (c, w) = (Inr m, (c, w))"
  | (failed) e where "detectedNodeMode c = None"
      "detectNodeMode E (c, w) =
         (Inl (detect_error (rpcUrl c) e), (c, w\<lparr>w_sent := w_sent w @ [liveness_request c]\<rparr>))"
  | (refused) "detectedNodeMode c = None" "\<not> has_credentials c"
      "detectNodeMode E (c, w) =
         (Inl missing_credentials,
          (c\<lparr>detectedNodeMode := Some Prod\<rparr>, w\<lparr>w_sent := w_sent w @ [liveness_request c]\<rparr>))"
  | (detected) m where "detectedNodeMode c = None" "m = Prod \<longrightarrow> has_credentials c"
      "detectNodeMode E (c, w) =
         (Inr m, (c\<lparr>detectedNodeMode := Some m\<rparr>, w\<lparr>w_sent := w_sent w @ [liveness_request c]\<rparr>))"
proof (cases "detectedNodeMode c")
  case (Some m)
  then show ?thesis using cached detect_cached [of "(c, w)"] by simp
next
  case None
  note run = detect_run [OF None, of E w, unfolded Let_def]
  show ?thesis
  proof (cases "e_fetch E (w_sent w) (liveness_request c)")
    case (Inl e)
    then show ?thesis using failed [OF None, of e] run by simp
  next
    case r: (Inr response)
    show ?thesis
    proof (cases "mode_of E c response")
      case (Inl e)
      then show ?thesis using failed [OF None, of e] run r by simp
    next
      case (Inr m)
      then show ?thesis
        using refused [OF None] detected [OF None, of m] run r
        by (cases "m = Prod \<and> \<not> has_credentials c") auto
    qed
  qed
qed

lemma missing_credentials_onvm [simp]: "is_OnvmError missing_credentials"
  by (simp add: missing_credentials_def)

lemma detect_ok:
  assumes "detectNodeMode E (c, w) = (r, (c', w'))"
  shows "r = Inl e \<Longrightarrow> is_OnvmError e"
    "\<exists>x. c' = c\<lparr>detectedNodeMode := x\<rparr>"
    "detectedNodeMode c \<noteq> None \<Longrightarrow> c' = c"
    "r = Inr m \<Longrightarrow> detectedNodeMode c' = Some m"
    "w_timers w' = w_timers w" "w_next_timer w' = w_next_timer w" "w_storage w' = w_storage w"
    "w_sent w' = w_sent w @ (if detectedNodeMode c = None then [liveness_request c] else [])"
proof -
  show "\<exists>x. c' = c\<lparr>detectedNodeMode := x\<rparr>"
    by (rule exI [of _ "detectedNodeMode c'"])
      (use assms in \<open>cases rule: detect_cases [of c E w]; auto\<close>)
qed (use assms in \<open>cases rule: detect_cases [of c E w]; simp; auto\<close>)+

lemma request_method_ok: "method_ok (request E aead meth path body ch)"
  unfolding method_ok_def
proof (intro allI impI)
  fix c w assume t: "timers_ok w"
  obtain r c' w1 where d: "detectNodeMode E (c, w) = (r, (c', w1))" by (metis prod_cases3)
  note dk = detect_ok [OF d]
  have t1: "timers_ok w1" using t dk(5,6) by (simp add: timers_ok_def)
  show "case request E aead meth path body ch (c, w) of (r, (c', w')) \<Rightarrow>
      (\<forall>e. r = Inl e \<longrightarrow> is_OnvmError e) \<and> (\<exists>x. c' = c\<lparr>detectedNodeMode := x\<rparr>)
      \<and> (detectedNodeMode c \<noteq> None \<longrightarrow> c' = c) \<and> timers_ok w' \<and> w_storage w' = w_storage w
      \<and> (\<exists>rs. w_sent w' = w_sent w @ rs \<and> length rs \<le> 2)"
  proof (cases r)
    case (Inl e)
    then show ?thesis using dk t1 by (simp add: request_run [OF d])
  next
    case (Inr m)
    define b where "b = (if truthy_val body then JSON_stringify (the body) else [])"
    obtain auth w2 where a: "authenticate E c' m (js meth) path b (obj_assign content_type_json ch) w1
        = (Inr auth, w2)" "w_sent w2 = w_sent w1" "w_timers w2 = w_timers w1"
        "w_next_timer w2 = w_next_timer w1" "w_storage w2 = w_storage w1"
      using authenticate_total by metis
    have t2: "timers_ok w2" using t1 a(3,4) by (simp add: timers_ok_def)
    obtain r3 w3 where q: "send_request E aead c' m (js meth) path b auth w2 = (r3, w3)"
      by (cases "send_request E aead c' m (js meth) path b auth w2")
    have "request E aead meth path body ch (c, w) = (r3, (c', w3))"
      by (simp add: request_run [OF d] Inr a(1) q Let_def b_def [symmetric])
    then show ?thesis
      using dk(2,3,7,8) send_request_ok [OF t2 q] a(2,5) by simp
  qed
qed

lemma method_okD:
  assumes "method_ok m" "timers_ok w" "m (c, w) = (r, (c', w'))"
  shows "r = Inl e \<Longrightarrow> is_OnvmError e" "\<exists>x. c' = c\<lparr>detectedNodeMode := x\<rparr>"
    "detectedNodeMode c \<noteq> None \<Longrightarrow> c' = c" "timers_ok w'" "w_storage w' = w_storage w"
    "\<exists>rs. w_sent w' = w_sent w @ rs \<and> length rs \<le> 2"
  using assms(1) [unfolded method_ok_def, THEN spec [of _ c], THEN spec [of _ w], THEN mp,
      OF assms(2), unfolded assms(3) prod.case]
  by blast+

lemma method_ok_map:
  assumes "method_ok m"
  shows "method_ok (js_bind m (\<lambda>x. js_ret (f x)))"
  unfolding method_ok_def
proof (intro allI impI)
  fix c w assume t: "timers_ok w"
  obtain r c' w' where m: "m (c, w) = (r, (c', w'))" by (metis prod_cases3)
  have "js_bind m (\<lambda>x. js_ret (f x)) (c, w) = (map_sum id f r, (c', w'))"
    by (cases r) (simp_all add: js_monad m)
  then show "case js_bind m (\<lambda>x. js_ret (f x)) (c, w) of (r, (c', w')) \<Rightarrow>
      (\<forall>e. r = Inl e \<longrightarrow> is_OnvmError e) \<and> (\<exists>x. c' = c\<lparr>detectedNodeMode := x\<rparr>)
      \<and> (detectedNodeMode c \<noteq> None \<longrightarrow> c' = c) \<and> timers_ok w' \<and> w_storage w' = w_storage w
      \<and> (\<exists>rs. w_sent w' = w_sent w @ rs \<and> length rs \<le> 2)"
    using method_okD [OF assms t m] by (cases r) simp_all
qed

abbreviation body_text :: "jsval \<Rightarrow> jsstr" where
  "body_text body \<equiv> (if truthy_val body then JSON_stringify (the body) else [])"

lemma request_cached:
  assumes "detectedNodeMode c = Some m"
    and "authenticate E c m (js meth) path (body_text body) (obj_assign content_type_json ch) w
      = (Inr auth, w1)"
  shows "request E aead meth path body ch (c, w) =
    map_prod id (Pair c) (send_request E aead c m (js meth) path (body_text body) auth w1)"
proof -
  have "detectNodeMode E (c, w) = (Inr m, (c, w))"
    using assms(1) by (simp add: detect_cached)
  from request_run [OF this, of aead meth path body ch] show ?thesis
    unfolding sum.case Let_def assms(2) prod.case .
qed

lemma authenticate_frame:
  assumes "authenticate E c m meth path b h w = (Inr auth, w1)"
  shows "w_sent w1 = w_sent w" "w_timers w1 = w_timers w" "w_next_timer w1 = w_next_timer w"
    "timers_ok w1 = timers_ok w"
  using assms authenticate_total [of E c m meth path b h w] by (auto simp: timers_ok_def)

text \<open>The requests sent by \<open>request\<close> when the mode is known, and how it ends.\<close>

lemma request_result:
  assumes "detectedNodeMode c = Some m" and t: "timers_ok w"
    and a: "authenticate E c m (js meth) path (body_text body) (obj_assign content_type_json ch) w
      = (Inr auth, w1)"
    and rq: "rq = client_request c (js meth) path (body_text body) (fst auth)"
  shows "fst (request E aead meth path body ch (c, w)) =
      (case e_fetch E (w_sent w) rq of
         Inl e \<Rightarrow> Inl (request_error (rpcUrl c @ path) e)
       | Inr response \<Rightarrow>
           map_sum (request_error (rpcUrl c @ path)) id
             (request_outcome E aead c m (js meth) path (body_text body) auth response))"
    and "w_sent (snd (snd (request E aead meth path body ch (c, w)))) = w_sent w @ [rq]"
    and "w_timers (snd (snd (request E aead meth path body ch (c, w)))) =
      (case e_fetch E (w_sent w) rq of Inl _ \<Rightarrow> [w_next_timer w] | Inr _ \<Rightarrow> []) @ w_timers w"
proof -
  note f = authenticate_frame [OF a]
  have t1: "timers_ok w1" using f t by simp
  note r = request_cached [OF assms(1) a, of aead] send_request_run [OF t1]
  show "fst (request E aead meth path body ch (c, w)) =
      (case e_fetch E (w_sent w) rq of
         Inl e \<Rightarrow> Inl (request_error (rpcUrl c @ path) e)
       | Inr response \<Rightarrow>
           map_sum (request_error (rpcUrl c @ path)) id
             (request_outcome E aead c m (js meth) path (body_text body) auth response))"
    by (cases "e_fetch E (w_sent w) rq") (simp_all only: r, simp_all add: f rq [symmetric] Let_def)
  show "w_sent (snd (snd (request E aead meth path body ch (c, w)))) = w_sent w @ [rq]"
    by (cases "e_fetch E (w_sent w) rq") (simp_all only: r, simp_all add: f rq [symmetric] Let_def)
  show "w_timers (snd (snd (request E aead meth path body ch (c, w)))) =
      (case e_fetch E (w_sent w) rq of Inl _ \<Rightarrow> [w_next_timer w] | Inr _ \<Rightarrow> []) @ w_timers w"
    by (cases "e_fetch E (w_sent w) rq") (simp_all only: r, simp_all add: f rq [symmetric] Let_def)
qed

lemma authenticate_unkeyed: "derivedKeys c = None \<Longrightarrow> authenticate E c m meth path b h w = (Inr (h, None, None), w)"
  by (simp add: authenticate_run)

text \<open>Without keys a JSON answer is simply the result.\<close>

lemma request_unkeyed:
  assumes "detectedNodeMode c = Some m" "derivedKeys c = None" "timers_ok w" "json_ok v"
    and "e_fetch E (w_sent w) (client_request c (js meth) path (body_text body) (obj_assign content_type_json ch))
      = Inr (json_response v)"
  shows "fst (request E aead meth path body ch (c, w)) = Inr v"
proof -
  have "JSON_stringify v \<noteq> []" using stringify_head [OF assms(4)] by auto
  then show ?thesis
    using assms(5) request_result(1) [OF assms(1,3) authenticate_unkeyed [OF assms(2)] refl, where aead = aead]
      json_response_read [OF assms(4)] JSON_parse_stringify [OF assms(4)]
    by (simp add: request_outcome_def read_response_def assms(2) parse_body_def parse_json_def)
qed

lemma header_distinct: "distinct (map fst (auth_headers meth path b pid sk ts nonce))"
  by (simp add: auth_headers_def hdr_defs)

lemma auth_header_get:
  assumes "h = obj_assign h0 (auth_headers meth path b pid sk ts nonce)"
  shows "obj_get h HDR_PROJECT_ID = Some pid" "obj_get h HDR_TIMESTAMP = Some (show_int ts)"
    "obj_get h HDR_NONCE = Some nonce"
    "obj_get h HDR_SIGNATURE = Some (signRequest meth path b ts nonce sk)"
  unfolding assms obj_get_assign [OF header_distinct]
  by (simp_all add: auth_headers_def hdr_defs)

section \<open>Properties of the client\<close>

definition client_ok :: "OnvmClient \<Rightarrow> bool" where
  "client_ok c \<longleftrightarrow>
     (case derivedKeys c of
        None \<Rightarrow> \<not> has_credentials c
      | Some ks \<Rightarrow> has_credentials c \<and> deriveKeys (the (projectSecret c)) = Inr ks)"

lemma client_ok_mode: "client_ok (c\<lparr>detectedNodeMode := x\<rparr>) = client_ok c"
  by (simp add: client_ok_def has_credentials_def split: option.split)

lemma new_client_ok: "new_OnvmClient config = Inr c \<Longrightarrow> client_ok c \<and> detectedNodeMode c = None"
  by (auto simp: new_OnvmClient_def client_ok_def has_credentials_def Let_def map_sum_def
      split: if_splits sum.splits)

lemma method_ok_client_ok:
  assumes "method_ok m" "timers_ok w" "client_ok c" "m (c, w) = (r, (c', w'))"
  shows "client_ok c'"
  using method_okD(2) [OF assms(1,2,4)] assms(3) by (auto simp: client_ok_mode)

lemma operations_method_ok:
  "method_ok (health E aead)" "method_ok (liveness E aead)" "method_ok (readiness E aead)"
  "method_ok (metrics E aead)" "method_ok (createProject E aead cp)"
  "method_ok (deployProgram E aead dp)" "method_ok (getProgramInfo E aead pid)"
  "method_ok (executeProgram E aead ex)" "method_ok (estimateFuel E aead ex)"
  "method_ok (getFuelProfile E aead pid)" "method_ok (getProgramReceipts E aead pid)"
  "method_ok (getProgramCommittee E aead pid)" "method_ok (listProgramCatalog E aead)"
  "method_ok (submitJob E aead sj)" "method_ok (getJobStatus E aead jobId)"
  "method_ok (getJobLogs E aead jobId)" "method_ok (getJobOutput E aead jobId)"
  "method_ok (cancelJob E aead jobId)" "method_ok (listJobs E aead)"
  unfolding health_def liveness_def readiness_def metrics_def createProject_def deployProgram_def
    getProgramInfo_def executeProgram_def estimateFuel_def getFuelProfile_def getProgramReceipts_def
    getProgramCommittee_def listProgramCatalog_def submitJob_def getJobStatus_def getJobLogs_def
    getJobOutput_def cancelJob_def listJobs_def
  by (rule request_method_ok method_ok_map)+

lemma getProgramStateRoot_method_ok:
  "key = None \<or> wf_str (the key) \<Longrightarrow> method_ok (getProgramStateRoot E aead pid key)"
  by (auto simp: getProgramStateRoot_def encodeURIComponent_def request_method_ok)


text \<open>A client without credentials, and one with them, both of which know the mode.\<close>

definition plain_client :: OnvmClient where
  "plain_client =
     \<lparr>rpcUrl = js ''http://n'', programId = None, projectId = None, projectSecret = None,
      timeout = 30000, derivedKeys = None, detectedNodeMode = Some Dev\<rparr>"

definition keyed_client :: "DerivedKeys \<Rightarrow> OnvmClient" where
  "keyed_client ks =
     plain_client\<lparr>projectId := Some (js ''p1''), projectSecret := Some (hex_enc (replicate 32 7)),
       derivedKeys := Some ks, detectedNodeMode := Some Prod\<rparr>"




text \<open>
  C4. When the node runs in prod mode and the client has its keys, the request that is sent
  carries the project id, a timestamp and a fresh nonce of 32 hexadecimal digits, and its signature
  is the HMAC-SHA256 under the signing key of exactly what is sent: method, path, timestamp, nonce
  and body. Headers given by the caller cannot replace these.
\<close>
theorem request_is_signed:
  assumes "detectedNodeMode c = Some Prod" "derivedKeys c = Some ks" "projectId c = Some pid"
    "pid \<noteq> []" "timers_ok w"
  shows "\<exists>rq ts nonce.
      w_sent (snd (snd (request E aead meth path body ch (c, w)))) = w_sent w @ [rq]
      \<and> rq_method rq = js meth \<and> rq_url rq = rpcUrl c @ path
      \<and> rq_body rq = (if body_text body = [] then NoBody else TextBody (body_text body))
      \<and> obj_get (rq_headers rq) (js ''x-project-id'') = Some pid
      \<and> obj_get (rq_headers rq) (js ''x-timestamp'') = Some (show_int ts)
      \<and> obj_get (rq_headers rq) (js ''x-nonce'') = Some nonce \<and> length nonce = 32
      \<and> obj_get (rq_headers rq) (js ''x-signature'') =
          Some (hex_enc (hmac_sha256 (signing_key ks)
            (utf8_enc (js meth @ [32] @ path @ [10] @ show_int ts @ [10] @ nonce @ [10] @ body_text body))))"
proof -
  define ts where "ts = e_now E (w_clock w)"
  define nonce where "nonce = hex_enc (map (e_random E (w_rand w)) [0..<16])"
  define h where "h = obj_assign (obj_assign content_type_json ch)
    (auth_headers (js meth) path (body_text body) pid (signing_key ks) ts nonce)"
  have a: "authenticate E c Prod (js meth) path (body_text body) (obj_assign content_type_json ch) w
      = (Inr (h, Some ts, Some nonce), w\<lparr>w_clock := Suc (w_clock w), w_rand := Suc (w_rand w)\<rparr>)"
    using assms(2-4) by (simp add: authenticate_run Let_def h_def ts_def nonce_def)
  note g = auth_header_get [OF h_def, unfolded hdr_defs signRequest_def canonical_def]
  have "length nonce = 32" by (simp add: nonce_def)
  then show ?thesis
    using request_result(2) [OF assms(1,5) a refl, of aead]
    by (intro exI [of _ "client_request c (js meth) path (body_text body) h"] exI [of _ ts]
        exI [of _ nonce]) (simp add: client_request_def g)
qed

theorem request_is_signed_witness:
  "\<exists>rq ts nonce.
      w_sent (snd (snd (request (fixed_env 200 ''{}'') (\<lambda>_ _ _ _. Inr None) ''GET'' (js ''/jobs'') None []
        (keyed_client \<lparr>signing_key = [1], response_key = [2]\<rparr>, fresh_world)))) = w_sent fresh_world @ [rq]
      \<and> rq_method rq = js ''GET'' \<and> rq_url rq = js ''http://n/jobs''
      \<and> rq_body rq = NoBody
      \<and> obj_get (rq_headers rq) (js ''x-project-id'') = Some (js ''p1'')
      \<and> obj_get (rq_headers rq) (js ''x-timestamp'') = Some (show_int ts)
      \<and> obj_get (rq_headers rq) (js ''x-nonce'') = Some nonce \<and> length nonce = 32
      \<and> obj_get (rq_headers rq) (js ''x-signature'') =
          Some (hex_enc (hmac_sha256 [1]
            (utf8_enc (js ''GET'' @ [32] @ js ''/jobs'' @ [10] @ show_int ts @ [10] @ nonce @ [10] @ []))))"
  using request_is_signed [of "keyed_client \<lparr>signing_key = [1], response_key = [2]\<rparr>"
      "\<lparr>signing_key = [1], response_key = [2]\<rparr>" "js ''p1''" fresh_world "fixed_env 200 ''{}''"
      "\<lambda>_ _ _ _. Inr None" "''GET''" "js ''/jobs''" None "[]"]
  by (simp add: keyed_client_def plain_client_def js_append [symmetric])

text \<open>
  The abort timer of a request is cleared as soon as \<^verbatim>\<open>fetch\<close> answers, but it stays armed
  when \<^verbatim>\<open>fetch\<close> rejects: each failed call leaves one more running timer behind.
\<close>
lemma request_abort_timer:
  assumes "detectedNodeMode c = Some m" "timers_ok w"
  shows "\<exists>rq. w_sent (snd (snd (request E aead meth path body ch (c, w)))) = w_sent w @ [rq]
      \<and> w_timers (snd (snd (request E aead meth path body ch (c, w)))) =
          (case e_fetch E (w_sent w) rq of Inl _ \<Rightarrow> [w_next_timer w] | Inr _ \<Rightarrow> []) @ w_timers w"
proof -
  obtain auth w1 where a: "authenticate E c m (js meth) path (body_text body)
      (obj_assign content_type_json ch) w = (Inr auth, w1)"
    using authenticate_total by blast
  show ?thesis
    using request_result(2,3) [OF assms a refl, of aead] by blast
qed

lemma request_abort_timer_witness:
  "\<exists>rq. w_sent (snd (snd (request (offline_env CTypeError) (\<lambda>_ _ _ _. Inr None) ''GET'' (js ''/jobs'')
        None [] (plain_client, fresh_world)))) = w_sent fresh_world @ [rq]
      \<and> w_timers (snd (snd (request (offline_env CTypeError) (\<lambda>_ _ _ _. Inr None) ''GET'' (js ''/jobs'')
        None [] (plain_client, fresh_world)))) = [0]"
  using request_abort_timer [of plain_client Dev fresh_world "offline_env CTypeError"
      "\<lambda>_ _ _ _. Inr None" "''GET''" "js ''/jobs''" None "[]"]
  by (simp add: plain_client_def fresh_world_def offline_env_def timers_ok_def)

text \<open>
  C7. When \<^verbatim>\<open>fetch\<close> itself fails, the caller gets an \<^verbatim>\<open>OnvmNetworkError\<close> without a
  status that names the endpoint: the timeout message for an abort, otherwise the message of the
  failure, which is kept as details.
\<close>
theorem request_network_error:
  assumes "detectedNodeMode c = Some m" "timers_ok w" "\<And>h rq. e_fetch E h rq = Inl e"
    "\<not> is_OnvmError e"
  shows "fst (request E aead meth path body ch (c, w)) =
      Inl (if exn_class e = CAbortError
           then OnvmNetworkError (js ''Request timeout while calling '' @ rpcUrl c @ path) DUndefined
           else OnvmNetworkError (js ''Network error calling '' @ rpcUrl c @ path @ js '': '' @ exn_message e)
                  (DExn e))
    \<and> isNetworkError (projl (fst (request E aead meth path body ch (c, w))))"
proof -
  obtain auth w1 where a: "authenticate E c m (js meth) path (body_text body)
      (obj_assign content_type_json ch) w = (Inr auth, w1)"
    using authenticate_total by blast
  have n: "is_Error e \<and> class_name (exn_class e) = js ''AbortError'' \<longleftrightarrow> exn_class e = CAbortError"
    by (cases "exn_class e") (simp_all add: is_Error_def)
  have x: "(if is_Error e then exn_message e else exn_to_string e) = exn_message e"
    by (simp add: exn_to_string_def)
  have "fst (request E aead meth path body ch (c, w)) = Inl (request_error (rpcUrl c @ path) e)"
    using assms(3) by (simp add: request_result(1) [OF assms(1,2) a refl])
  then show ?thesis
    using assms(4) by (simp add: request_error_def n x isNetworkError_def)
qed

theorem request_network_error_witness:
  "fst (request (offline_env CAbortError) (\<lambda>_ _ _ _. Inr None) ''GET'' (js ''/jobs'') None []
        (plain_client, fresh_world)) =
      Inl (OnvmNetworkError (js ''Request timeout while calling http://n/jobs'') DUndefined)
    \<and> isNetworkError (projl (fst (request (offline_env CAbortError) (\<lambda>_ _ _ _. Inr None) ''GET''
        (js ''/jobs'') None [] (plain_client, fresh_world))))"
  using request_network_error [of plain_client Dev fresh_world "offline_env CAbortError"
      "native CAbortError (js ''fetch failed'')" "\<lambda>_ _ _ _. Inr None" "''GET''" "js ''/jobs''" None "[]"]
  by (simp add: offline_env_def is_OnvmError_def plain_client_def isNetworkError_def
      js_append [symmetric])

lemma mode_of_prod:
  "resp_ok response \<Longrightarrow> resp_json E response = Inr (JObj kvs) \<Longrightarrow>
     obj_get kvs (js ''mode'') \<noteq> Some (JStr (js ''dev'')) \<Longrightarrow> mode_of E c response = Inr Prod"
  by (simp add: mode_of_def Let_def)

text \<open>
  C8. Without credentials, the first request to a node in prod mode is refused before it is sent,
  with a 401 error. The mode is cached all the same, so the next call is not refused: it goes out to
  the node, unsigned.
\<close>
theorem prod_without_credentials:
  assumes "detectedNodeMode c = None" "\<not> has_credentials c" "client_ok c" "timers_ok w"
    and "e_fetch E (w_sent w) (liveness_request c) = Inr response"
    and "resp_ok response" "resp_json E response = Inr (JObj kvs)"
    and "obj_get kvs (js ''mode'') \<noteq> Some (JStr (js ''dev''))"
  shows "\<exists>c' w'. request E aead meth path body ch (c, w) = (Inl missing_credentials, (c', w'))
      \<and> w_sent w' = w_sent w @ [liveness_request c]
      \<and> w_sent (snd (snd (request E aead meth path body ch (c', w')))) =
          w_sent w' @ [client_request c (js meth) path (body_text body) (obj_assign content_type_json ch)]"
proof -
  let ?c = "c\<lparr>detectedNodeMode := Some Prod\<rparr>" and ?w = "w\<lparr>w_sent := w_sent w @ [liveness_request c]\<rparr>"
  have d: "detectNodeMode E (c, w) = (Inl missing_credentials, (?c, ?w))"
    using assms(2) by (simp add: detect_run [OF assms(1)] Let_def assms(5) mode_of_prod [OF assms(6-8)])
  have k: "derivedKeys c = None"
    using assms(2,3) by (simp add: client_ok_def split: option.splits)
  have t: "timers_ok ?w" using assms(4) by (simp add: timers_ok_def)
  have r: "request E aead meth path body ch (c, w) = (Inl missing_credentials, (?c, ?w))"
    by (simp add: request_run [OF d])
  have "authenticate E ?c Prod (js meth) path (body_text body) (obj_assign content_type_json ch) ?w
      = (Inr (obj_assign content_type_json ch, None, None), ?w)"
    by (rule authenticate_unkeyed) (simp add: k)
  from request_result(2) [OF _ t this refl, of aead] r show ?thesis
    by (intro exI [of _ ?c] exI [of _ ?w]) (simp add: client_request_def)
qed

theorem prod_without_credentials_witness:
  "\<exists>c' w'. request (fixed_env 200 ''{}'') (\<lambda>_ _ _ _. Inr None) ''GET'' (js ''/jobs'') None []
        (plain_client\<lparr>detectedNodeMode := None\<rparr>, fresh_world) = (Inl missing_credentials, (c', w'))
      \<and> w_sent w' = w_sent fresh_world @ [liveness_request plain_client]
      \<and> w_sent (snd (snd (request (fixed_env 200 ''{}'') (\<lambda>_ _ _ _. Inr None) ''GET'' (js ''/jobs'') None []
          (c', w')))) =
          w_sent w' @ [client_request plain_client (js ''GET'') (js ''/jobs'') [] content_type_json]"
proof -
  have j: "resp_json (fixed_env 200 ''{}'') (fixed_response 200 ''{}'') = Inr (JObj [])"
  proof -
    have "JSON_parse [123, 125] = Some (JObj [])" by code_simp
    then show ?thesis
      by (simp add: resp_json_def resp_text_def fixed_response_def text_decode_def starts_with_def
          parse_json_def)
  qed
  show ?thesis
    using prod_without_credentials [of "plain_client\<lparr>detectedNodeMode := None\<rparr>" fresh_world
        "fixed_env 200 ''{}''" "fixed_response 200 ''{}''" "[]" "\<lambda>_ _ _ _. Inr None" "''GET''"
        "js ''/jobs''" None "[]"] j
    by (simp add: plain_client_def has_credentials_def client_ok_def fixed_env_def resp_ok_def
        fixed_response_def client_request_def)
qed

end
