(* ===== verification/Node_Auth.thy ===== *)
theory Node_Auth
  imports Sdk_Client
begin

text \<open>
  The node's side of the signed-request protocol, \<^verbatim>\<open>src/rpc/auth.rs\<close>: the middleware
  \<open>verify_signed_request\<close> with its key table, replay cache and token bucket, and the liveness
  answer of \<^verbatim>\<open>src/rpc/health.rs\<close>. Instants and wall-clock readings are milliseconds;
  the token bucket computes in rationals where the code uses doubles.

  The crates the middleware calls are the fields of \<open>crates\<close>; \<open>crates_doc\<close> is what their
  documentation promises of them: HMAC-SHA256, HKDF of RFC 5869 with that MAC for the lengths in use,
  lower-case hexadecimal and standard Base64.
\<close>

record crates =
  cr_hmac :: "bytes \<Rightarrow> bytes \<Rightarrow> bytes"
  cr_hkdf :: "bytes option \<Rightarrow> bytes \<Rightarrow> bytes \<Rightarrow> nat \<Rightarrow> bytes option"
  cr_seal :: "bytes \<Rightarrow> bytes \<Rightarrow> bytes \<Rightarrow> bytes \<Rightarrow> bytes option"
  cr_hex_encode :: "bytes \<Rightarrow> jsstr"
  cr_hex_decode :: "jsstr \<Rightarrow> bytes option"
  cr_b64_encode :: "bytes \<Rightarrow> jsstr"

definition crates_doc :: "crates \<Rightarrow> bool" where
  "crates_doc K \<longleftrightarrow>
     cr_hmac K = hmac_sha256
     \<and> (\<forall>salt ikm info len. len \<le> 255 * 32 \<longrightarrow>
          cr_hkdf K salt ikm info len = Some (rfc5869 hmac_sha256 32 ikm salt info len))
     \<and> cr_hex_encode K = hex_enc \<and> cr_hex_decode K = hex_dec_strict \<and> cr_b64_encode K = b64_enc"

section \<open>The replay cache\<close>

record NonceCache =
  nc_entries :: "(jsstr \<times> int) list"
  nc_order :: "jsstr list"
  nc_capacity :: nat
  nc_ttl :: int

definition NonceCache_new :: "nat \<Rightarrow> int \<Rightarrow> NonceCache" where
  "NonceCache_new capacity ttl =
     \<lparr>nc_entries = [], nc_order = [], nc_capacity = capacity, nc_ttl = ttl\<rparr>"

definition duration_since :: "int \<Rightarrow> int \<Rightarrow> int" where
  "duration_since now ts = max 0 (now - ts)"

definition stale :: "int \<Rightarrow> int \<Rightarrow> (jsstr \<times> int) list \<Rightarrow> jsstr \<Rightarrow> bool" where
  "stale now ttl entries front =
     (case map_of entries front of None \<Rightarrow> True | Some ts \<Rightarrow> duration_since now ts > ttl)"

fun evict_loop :: "int \<Rightarrow> int \<Rightarrow> (jsstr \<times> int) list \<Rightarrow> jsstr list \<Rightarrow> (jsstr \<times> int) list \<times> jsstr list" where
  "evict_loop now ttl entries [] = (entries, [])"
| "evict_loop now ttl entries (front # order) =
     (if stale now ttl entries front then evict_loop now ttl (AList.delete front entries) order
      else (entries, front # order))"

definition evict :: "int \<Rightarrow> NonceCache \<Rightarrow> NonceCache" where
  "evict now cache =
     (case evict_loop now (nc_ttl cache) (nc_entries cache) (nc_order cache) of
        (entries, order) \<Rightarrow> cache\<lparr>nc_entries := entries, nc_order := order\<rparr>)"

definition drop_oldest :: "NonceCache \<Rightarrow> NonceCache" where
  "drop_oldest cache =
     (if length (nc_entries cache) \<ge> nc_capacity cache then
        (case nc_order cache of
           [] \<Rightarrow> cache
         | oldest # order \<Rightarrow>
             cache\<lparr>nc_entries := AList.delete oldest (nc_entries cache), nc_order := order\<rparr>)
      else cache)"

text \<open>The result \<open>False\<close> is \<^verbatim>\<open>Err(())\<close>.\<close>

definition check_and_insert :: "jsstr \<Rightarrow> int \<Rightarrow> NonceCache \<Rightarrow> bool \<times> NonceCache" where
  "check_and_insert nonce now cache =
     (let cache = evict now cache
      in if map_of (nc_entries cache) nonce \<noteq> None then (False, cache)
         else
           (let cache = drop_oldest cache
            in (True, cache\<lparr>nc_entries := AList.update nonce now (nc_entries cache),
                            nc_order := nc_order cache @ [nonce]\<rparr>)))"

section \<open>The token bucket\<close>

record TokenBucket =
  tb_tokens :: rat
  tb_capacity :: rat
  tb_last_refill :: int
  tb_refill_per_sec :: rat

definition TokenBucket_new :: "rat \<Rightarrow> int \<Rightarrow> TokenBucket" where
  "TokenBucket_new rate_per_minute now =
     (let rate_per_sec = rate_per_minute / 60
      in \<lparr>tb_tokens = rate_per_sec, tb_capacity = rate_per_sec * 2, tb_last_refill = now,
          tb_refill_per_sec = rate_per_sec\<rparr>)"

definition try_consume :: "int \<Rightarrow> rat \<Rightarrow> TokenBucket \<Rightarrow> bool \<times> TokenBucket" where
  "try_consume now amount b =
     (let elapsed = of_int (duration_since now (tb_last_refill b)) / 1000;
          tokens = min (tb_tokens b + elapsed * tb_refill_per_sec b) (tb_capacity b);
          b' = b\<lparr>tb_last_refill := now, tb_tokens := tokens\<rparr>
      in if amount \<le> tokens then (True, b'\<lparr>tb_tokens := tokens - amount\<rparr>) else (False, b'))"

section \<open>Keys and the middleware\<close>

record AuthConfig =
  ac_skew :: int
  ac_allowed_methods :: "jsstr list"

record AuthState =
  as_config :: AuthConfig
  as_keys :: "(jsstr \<times> DerivedKeys) list"
  as_replay_cache :: NonceCache
  as_rate_limiter :: "TokenBucket option"

record node_request =
  nr_method :: jsstr
  nr_path :: jsstr
  nr_headers :: "(jsstr \<times> jsstr) list"
  nr_body :: "bytes option"

definition derive_keys :: "crates \<Rightarrow> bytes \<Rightarrow> DerivedKeys option" where
  "derive_keys K secret =
     (case cr_hkdf K None secret (utf8_enc (js ''onvm-rpc-auth'')) 64 of
        None \<Rightarrow> None
      | Some okm \<Rightarrow> Some \<lparr>signing_key = take 32 okm, response_key = take 32 (drop 32 okm)\<rparr>)"

definition upsert_project :: "crates \<Rightarrow> jsstr \<Rightarrow> bytes \<Rightarrow> AuthState \<Rightarrow> AuthState option" where
  "upsert_project K project_id secret st =
     (case derive_keys K secret of
        None \<Rightarrow> None
      | Some ks \<Rightarrow> Some (st\<lparr>as_keys := AList.update project_id ks (as_keys st)\<rparr>))"

definition derive_response_nonce :: "crates \<Rightarrow> bytes \<Rightarrow> jsstr \<Rightarrow> int \<Rightarrow> bytes option" where
  "derive_response_nonce K rkey nonce ts_ms =
     cr_hkdf K (Some rkey) (utf8_enc nonce) (utf8_enc (js ''resp-'' @ show_int ts_ms)) 24"

text \<open>\<^verbatim>\<open>HeaderValue::to_str\<close> accepts visible ASCII and tabs.\<close>

definition visible :: "unit16 \<Rightarrow> bool" where
  "visible u \<longleftrightarrow> 32 \<le> unat u \<and> unat u < 127 \<or> unat u = 9"

definition node_header :: "(jsstr \<times> jsstr) list \<Rightarrow> jsstr \<Rightarrow> jsstr option" where
  "node_header headers name =
     (case map_of headers name of
        None \<Rightarrow> None
      | Some v \<Rightarrow> if list_all visible v then Some v else None)"

text \<open>\<^verbatim>\<open>str::parse::<i64>\<close>.\<close>

definition parse_i64 :: "jsstr \<Rightarrow> int option" where
  "parse_i64 s =
     (let neg = (s \<noteq> [] \<and> hd s = 45);
          ds = (if s \<noteq> [] \<and> (hd s = 45 \<or> hd s = 43) then tl s else s);
          i = (if neg then - int (digits_val ds) else int (digits_val ds))
      in if ds \<noteq> [] \<and> list_all is_digit ds \<and> - (2 ^ 63) \<le> i \<and> i < 2 ^ 63 then Some i else None)"

definition upper_ascii :: "jsstr \<Rightarrow> jsstr" where
  "upper_ascii = map (\<lambda>u. if 97 \<le> unat u \<and> unat u \<le> 122 then u - 32 else u)"

definition encrypt_reply ::
  "crates \<Rightarrow> bytes \<Rightarrow> jsstr \<Rightarrow> int \<Rightarrow> jsstr \<Rightarrow> http_response \<Rightarrow> int + http_response" where
  "encrypt_reply K rkey nonce ts_ms canon resp =
     (if \<not> resp_ok resp then Inr resp
      else
        (case rs_body resp of
           Inl _ \<Rightarrow> Inl 500
         | Inr plaintext \<Rightarrow>
             (case derive_response_nonce K rkey nonce ts_ms of
                None \<Rightarrow> Inl 500
              | Some response_nonce \<Rightarrow>
                  (case cr_seal K rkey response_nonce (utf8_enc canon) plaintext of
                     None \<Rightarrow> Inl 500
                   | Some ciphertext \<Rightarrow>
                       Inr (resp\<lparr>rs_headers :=
                               obj_put (js ''x-response-aead'') (js ''XChaCha20Poly1305'')
                                 (obj_put (js ''x-response-nonce'') (cr_hex_encode K response_nonce)
                                   (rs_headers resp)),
                             rs_body := Inr (utf8_enc (cr_b64_encode K ciphertext))\<rparr>)))))"

text \<open>
  The part after the replay check: body, signature, rate limit, the downstream handler and the
  encryption of its answer.
\<close>

definition verify_signature ::
  "crates \<Rightarrow> int \<Rightarrow> node_request \<Rightarrow> (node_request \<Rightarrow> http_response) \<Rightarrow> DerivedKeys \<Rightarrow> int \<Rightarrow> jsstr \<Rightarrow>
     bytes \<Rightarrow> AuthState \<Rightarrow> (int + http_response) \<times> AuthState" where
  "verify_signature K instant req handler project_keys ts_ms nonce signature st =
     (case nr_body req of
        None \<Rightarrow> (Inl 400, st)
      | Some body_bytes \<Rightarrow>
          (let canon = nr_method req @ [32] @ nr_path req @ [10] @ show_int ts_ms @ [10] @ nonce @ [10]
                 @ utf8_dec body_bytes;
               expected = cr_hmac K (signing_key project_keys) (utf8_enc canon)
           in if expected \<noteq> signature then (Inl 401, st)
              else
                (case as_rate_limiter st of
                   None \<Rightarrow> (encrypt_reply K (response_key project_keys) nonce ts_ms canon (handler req), st)
                 | Some limiter \<Rightarrow>
                     (case try_consume instant 1 limiter of
                        (False, limiter) \<Rightarrow> (Inl 429, st\<lparr>as_rate_limiter := Some limiter\<rparr>)
                      | (True, limiter) \<Rightarrow>
                          (encrypt_reply K (response_key project_keys) nonce ts_ms canon (handler req),
                           st\<lparr>as_rate_limiter := Some limiter\<rparr>)))))"

definition verify_signed_request ::
  "crates \<Rightarrow> int \<Rightarrow> int \<Rightarrow> (node_request \<Rightarrow> http_response) \<Rightarrow> node_request \<Rightarrow> AuthState \<Rightarrow>
     (int + http_response) \<times> AuthState" where
  "verify_signed_request K now_ms instant handler req st =
     (let config = as_config st;
          h = nr_headers req
      in if ac_allowed_methods config \<noteq> [] \<and> upper_ascii (nr_method req) \<notin> set (ac_allowed_methods config)
         then (Inl 405, st)
         else
           (case node_header h HDR_PROJECT_ID of
              None \<Rightarrow> (Inl 401, st)
            | Some project_id \<Rightarrow>
           (case map_of (as_keys st) project_id of
              None \<Rightarrow> (Inl 401, st)
            | Some project_keys \<Rightarrow>
           (case Option.bind (node_header h HDR_TIMESTAMP) parse_i64 of
              None \<Rightarrow> (Inl 401, st)
            | Some ts_ms \<Rightarrow>
           (case node_header h HDR_NONCE of
              None \<Rightarrow> (Inl 401, st)
            | Some nonce \<Rightarrow>
           (case Option.bind (node_header h HDR_SIGNATURE) (cr_hex_decode K) of
              None \<Rightarrow> (Inl 401, st)
            | Some signature \<Rightarrow>
                if \<bar>now_ms - ts_ms\<bar> > ac_skew config then (Inl 401, st)
                else
                  (case check_and_insert nonce instant (as_replay_cache st) of
                     (False, cache) \<Rightarrow> (Inl 401, st\<lparr>as_replay_cache := cache\<rparr>)
                   | (True, cache) \<Rightarrow>
                       verify_signature K instant req handler project_keys ts_ms nonce signature
                         (st\<lparr>as_replay_cache := cache\<rparr>))))))))"

section \<open>Liveness\<close>

definition node_liveness :: "bool \<Rightarrow> json" where
  "node_liveness dev_mode = obj_literal
     [(''alive'', Some (JBool True)),
      (''mode'', Some (JStr (if dev_mode then js ''dev'' else js ''prod'')))]"

section \<open>The replay cache keeps its order and its table in step\<close>

definition cache_ok :: "NonceCache \<Rightarrow> bool" where
  "cache_ok c \<longleftrightarrow>
     distinct (map fst (nc_entries c)) \<and> distinct (nc_order c) \<and> set (nc_order c) = fst ` set (nc_entries c)"

lemma cache_ok_length: "cache_ok c \<Longrightarrow> length (nc_order c) = length (nc_entries c)"
  unfolding cache_ok_def by (metis distinct_card length_map list.set_map)


lemma keys_delete: "fst ` set (AList.delete k xs) = fst ` set xs - {k}"
  by (metis AList.delete_keys list.set_map set_removeAll)

lemma cache_ok_pop:
  assumes "cache_ok c" "nc_order c = n # order"
  shows "cache_ok (c\<lparr>nc_entries := AList.delete n (nc_entries c), nc_order := order\<rparr>)"
  using assms by (auto simp: cache_ok_def keys_delete distinct_delete)

text \<open>Eviction pops a prefix of the order, one cache entry at a time.\<close>

lemma evict_step:
  "nc_order c = [] \<Longrightarrow> evict now c = c"
  "nc_order c = n # order \<Longrightarrow>
     evict now c =
       (if stale now (nc_ttl c) (nc_entries c) n
        then evict now (c\<lparr>nc_entries := AList.delete n (nc_entries c), nc_order := order\<rparr>) else c)"
  by (simp_all add: evict_def split: prod.split)

lemma evict_cache_ok: "cache_ok c \<Longrightarrow> cache_ok (evict now c)"
proof (induction "nc_order c" arbitrary: c)
  case Nil
  then show ?case by (simp add: evict_step)
next
  case (Cons n order)
  note o = Cons.hyps(2) [symmetric]
  have "cache_ok (evict now (c\<lparr>nc_entries := AList.delete n (nc_entries c), nc_order := order\<rparr>))"
    by (rule Cons.hyps(1)) (simp_all add: cache_ok_pop [OF Cons.prems o])
  with Cons.prems show ?case by (simp add: evict_step(2) [OF o])
qed

lemma evict_frame [simp]:
  "nc_ttl (evict now c) = nc_ttl c" "nc_capacity (evict now c) = nc_capacity c"
  by (simp_all add: evict_def split: prod.split)

text \<open>
  A nonce is held when it is in the table with its time and at most \<open>k\<close> nonces are behind it in
  the order.
\<close>

definition held :: "jsstr \<Rightarrow> int \<Rightarrow> nat \<Rightarrow> NonceCache \<Rightarrow> bool" where
  "held n t k c \<longleftrightarrow>
     cache_ok c \<and> map_of (nc_entries c) n = Some t
     \<and> (\<exists>as bs. nc_order c = as @ n # bs \<and> length bs \<le> k)"

lemma held_evict:
  assumes "held n t k c" "duration_since now t \<le> nc_ttl c"
  shows "held n t k (evict now c)"
  using assms
proof (induction "nc_order c" arbitrary: c)
  case Nil
  then show ?case by (simp add: evict_step)
next
  case (Cons m order)
  note o = Cons.hyps(2) [symmetric]
  show ?case
  proof (cases "stale now (nc_ttl c) (nc_entries c) m")
    case True
    then have mn: "m \<noteq> n"
      using Cons.prems by (auto simp: stale_def held_def)
    have "held n t k (c\<lparr>nc_entries := AList.delete m (nc_entries c), nc_order := order\<rparr>)"
      using Cons.prems(1) cache_ok_pop [OF _ o] mn o
      by (auto simp: held_def AList.map_of_delete Cons_eq_append_conv)
    then have "held n t k (evict now (c\<lparr>nc_entries := AList.delete m (nc_entries c), nc_order := order\<rparr>))"
      by (rule Cons.hyps(1) [rotated]) (use Cons.prems(2) in simp_all)
    with True show ?thesis by (simp add: evict_step(2) [OF o])
  next
    case False
    with Cons.prems show ?thesis by (simp add: evict_step(2) [OF o])
  qed
qed

lemma held_drop_oldest:
  assumes "held n t k c" "Suc k < nc_capacity c"
  shows "held n t k (drop_oldest c)"
proof (cases "length (nc_entries c) \<ge> nc_capacity c")
  case True
  obtain as bs where o: "nc_order c = as @ n # bs" "length bs \<le> k" and ok: "cache_ok c"
    using assms(1) by (auto simp: held_def)
  have "length (nc_order c) = length (nc_entries c)"
    by (rule cache_ok_length [OF ok])
  then obtain a as' where as: "as = a # as'"
    using o True assms(2) by (cases as) auto
  have "a \<noteq> n" using ok o as by (auto simp: cache_ok_def)
  with assms(1) cache_ok_pop [OF ok, of a "as' @ n # bs"] show ?thesis
    using True o as by (auto simp: drop_oldest_def held_def AList.map_of_delete)
qed (use assms in \<open>simp add: drop_oldest_def\<close>)

lemma drop_oldest_ok: "cache_ok c \<Longrightarrow> cache_ok (drop_oldest c)"
  by (simp add: drop_oldest_def cache_ok_pop split: list.split)

lemma drop_oldest_frame [simp]:
  "nc_ttl (drop_oldest c) = nc_ttl c" "nc_capacity (drop_oldest c) = nc_capacity c"
  by (simp_all add: drop_oldest_def split: list.split)

lemma drop_oldest_none:
  "map_of (nc_entries c) n = None \<Longrightarrow> map_of (nc_entries (drop_oldest c)) n = None"
  by (auto simp: drop_oldest_def delete_conv' split: list.split)

lemma insert_ok:
  assumes "cache_ok c" "map_of (nc_entries c) n = None"
  shows "cache_ok (c\<lparr>nc_entries := AList.update n t (nc_entries c), nc_order := nc_order c @ [n]\<rparr>)"
  using assms by (auto simp: cache_ok_def distinct_update dom_update map_of_eq_None_iff)

lemma check_and_insert_ok:
  assumes "check_and_insert n now c = (b, c')" "cache_ok c"
  shows "cache_ok c'" "nc_ttl c' = nc_ttl c" "nc_capacity c' = nc_capacity c"
    "map_of (nc_entries c') n \<noteq> None"
proof -
  have e: "cache_ok (evict now c)" by (rule evict_cache_ok [OF assms(2)])
  show "cache_ok c'" "nc_ttl c' = nc_ttl c" "nc_capacity c' = nc_capacity c"
    "map_of (nc_entries c') n \<noteq> None"
    using assms(1) e insert_ok [OF drop_oldest_ok [OF e] drop_oldest_none]
    by (auto simp: check_and_insert_def Let_def split: if_splits)
qed

lemma check_and_insert_new:
  assumes "check_and_insert n now c = (True, c')" "cache_ok c"
  shows "held n now 0 c'"
  using assms check_and_insert_ok(1) [OF assms]
  by (auto simp: check_and_insert_def Let_def held_def split: if_splits)

lemma held_check_and_insert:
  assumes "held n t k c" "duration_since now t \<le> nc_ttl c" "Suc k < nc_capacity c"
    "check_and_insert m now c = (b, c')"
  shows "held n t (Suc k) c'"
proof -
  have e: "held n t k (evict now c)" by (rule held_evict [OF assms(1,2)])
  then have ok: "cache_ok (evict now c)" by (simp add: held_def)
  show ?thesis
  proof (cases "map_of (nc_entries (evict now c)) m = None")
    case False
    then have "c' = evict now c"
      using assms(4) by (auto simp: check_and_insert_def Let_def split: if_splits)
    with e show ?thesis by (fastforce simp: held_def)
  next
    case True
    let ?d = "drop_oldest (evict now c)"
    have d: "held n t k ?d"
      by (rule held_drop_oldest [OF e]) (simp add: assms(3))
    have c': "c' = ?d\<lparr>nc_entries := AList.update m now (nc_entries ?d), nc_order := nc_order ?d @ [m]\<rparr>"
      using assms(4) True by (simp add: check_and_insert_def Let_def)
    have "m \<noteq> n" using True e by (auto simp: held_def)
    moreover have "cache_ok c'"
      unfolding c' by (rule insert_ok [OF drop_oldest_ok [OF ok] drop_oldest_none [OF True]])
    moreover obtain as bs where "nc_order ?d = as @ n # bs" and k: "length bs \<le> k"
      using d by (auto simp: held_def)
    then have "nc_order c' = as @ n # (bs @ [m])" by (simp add: c')
    moreover have "length (bs @ [m]) \<le> Suc k" using k by simp
    moreover have "map_of (nc_entries c') n = Some t"
      using d \<open>m \<noteq> n\<close> by (simp add: c' held_def update_conv')
    ultimately show ?thesis
      unfolding held_def by blast
  qed
qed

lemma held_rejects:
  assumes "held n t k c" "duration_since now t \<le> nc_ttl c"
  shows "fst (check_and_insert n now c) = False"
  using held_evict [OF assms] by (simp add: check_and_insert_def Let_def held_def)

section \<open>What the middleware does to its state\<close>

lemma verify_signature_frame:
  "as_config (snd (verify_signature K i req h ks ts n sg st)) = as_config st"
  "as_keys (snd (verify_signature K i req h ks ts n sg st)) = as_keys st"
  "as_replay_cache (snd (verify_signature K i req h ks ts n sg st)) = as_replay_cache st"
  by (auto simp: verify_signature_def Let_def split: option.split prod.split bool.split)

text \<open>
  The checks before the replay cache: either they fail and nothing changes, or the request names a
  known project and is within the permitted skew.
\<close>

definition prechecks :: "crates \<Rightarrow> int \<Rightarrow> node_request \<Rightarrow> AuthState \<Rightarrow> (DerivedKeys \<times> int \<times> jsstr \<times> bytes) option" where
  "prechecks K now_ms req st =
     (let h = nr_headers req
      in if ac_allowed_methods (as_config st) \<noteq> []
            \<and> upper_ascii (nr_method req) \<notin> set (ac_allowed_methods (as_config st)) then None
         else
           (case (Option.bind (node_header h HDR_PROJECT_ID) (map_of (as_keys st)),
                  Option.bind (node_header h HDR_TIMESTAMP) parse_i64,
                  node_header h HDR_NONCE,
                  Option.bind (node_header h HDR_SIGNATURE) (cr_hex_decode K)) of
              (Some ks, Some ts, Some nonce, Some sg) \<Rightarrow>
                if \<bar>now_ms - ts\<bar> > ac_skew (as_config st) then None else Some (ks, ts, nonce, sg)
            | _ \<Rightarrow> None))"

lemma verify_run:
  "verify_signed_request K now_ms i handler req st =
     (case prechecks K now_ms req st of
        None \<Rightarrow>
          (Inl (if ac_allowed_methods (as_config st) \<noteq> []
                   \<and> upper_ascii (nr_method req) \<notin> set (ac_allowed_methods (as_config st))
                then 405 else 401), st)
      | Some (ks, ts, nonce, sg) \<Rightarrow>
          (case check_and_insert nonce i (as_replay_cache st) of
             (False, cache) \<Rightarrow> (Inl 401, st\<lparr>as_replay_cache := cache\<rparr>)
           | (True, cache) \<Rightarrow>
               verify_signature K i req handler ks ts nonce sg (st\<lparr>as_replay_cache := cache\<rparr>)))"
  unfolding verify_signed_request_def prechecks_def Let_def
  by (auto split: option.split)

lemma verify_frame:
  "as_config (snd (verify_signed_request K now_ms i handler req st)) = as_config st"
  "as_keys (snd (verify_signed_request K now_ms i handler req st)) = as_keys st"
  by (auto simp: verify_run verify_signature_frame split: option.split prod.split bool.split)

lemma verify_cache:
  obtains "as_replay_cache (snd (verify_signed_request K now_ms i handler req st)) = as_replay_cache st"
  | m where "as_replay_cache (snd (verify_signed_request K now_ms i handler req st)) =
      snd (check_and_insert m i (as_replay_cache st))"
proof (cases "prechecks K now_ms req st")
  case None
  then show ?thesis using that(1) by (simp add: verify_run)
next
  case (Some p)
  obtain ks ts n sg where p: "p = (ks, ts, n, sg)" by (metis prod_cases4)
  obtain b c where c: "check_and_insert n i (as_replay_cache st) = (b, c)" by fastforce
  show ?thesis
    using that(2) [of n]
    by (cases b) (simp_all add: verify_run Some p c verify_signature_frame)
qed

section \<open>Properties of the middleware\<close>

text \<open>A sequence of requests served one after the other.\<close>

type_synonym arrival = "int \<times> int \<times> (node_request \<Rightarrow> http_response) \<times> node_request"

fun serve :: "crates \<Rightarrow> arrival list \<Rightarrow> AuthState \<Rightarrow> AuthState" where
  "serve K [] st = st"
| "serve K ((now_ms, i, handler, req) # rest) st =
     serve K rest (snd (verify_signed_request K now_ms i handler req st))"

lemma serve_frame: "as_config (serve K evs st) = as_config st" "as_keys (serve K evs st) = as_keys st"
  by (induction K evs st rule: serve.induct) (simp_all add: verify_frame)

lemma held_verify:
  assumes "held n t k (as_replay_cache st)" "duration_since i t \<le> nc_ttl (as_replay_cache st)"
    "Suc k < nc_capacity (as_replay_cache st)"
    and st': "st' = snd (verify_signed_request K now_ms i handler req st)"
  shows "held n t (Suc k) (as_replay_cache st')"
    "nc_ttl (as_replay_cache st') = nc_ttl (as_replay_cache st)"
    "nc_capacity (as_replay_cache st') = nc_capacity (as_replay_cache st)"
proof -
  let ?c = "as_replay_cache st"
  have ok: "cache_ok ?c" using assms(1) by (simp add: held_def)
  have "held n t (Suc k) ?c" using assms(1) by (fastforce simp: held_def)
  moreover have "held n t (Suc k) (snd (check_and_insert m i ?c))
      \<and> nc_ttl (snd (check_and_insert m i ?c)) = nc_ttl ?c
      \<and> nc_capacity (snd (check_and_insert m i ?c)) = nc_capacity ?c" for m
    using held_check_and_insert [OF assms(1-3), of m] check_and_insert_ok(2,3) [OF _ ok, of m i]
    by (metis prod.collapse)
  ultimately have "held n t (Suc k) (as_replay_cache st')
      \<and> nc_ttl (as_replay_cache st') = nc_ttl ?c \<and> nc_capacity (as_replay_cache st') = nc_capacity ?c"
    unfolding st' by (cases rule: verify_cache [of K now_ms i handler req st]) simp_all
  then show "held n t (Suc k) (as_replay_cache st')"
    "nc_ttl (as_replay_cache st') = nc_ttl ?c" "nc_capacity (as_replay_cache st') = nc_capacity ?c"
    by simp_all
qed

lemma held_serve:
  assumes "held n t k (as_replay_cache st)" "k + length evs < nc_capacity (as_replay_cache st)"
    "\<forall>(now_ms, i, handler, req) \<in> set evs. duration_since i t \<le> nc_ttl (as_replay_cache st)"
  shows "held n t (k + length evs) (as_replay_cache (serve K evs st))
    \<and> nc_ttl (as_replay_cache (serve K evs st)) = nc_ttl (as_replay_cache st)"
  using assms
proof (induction K evs st arbitrary: k rule: serve.induct)
  case (2 K now_ms i handler req rest st)
  define st' where "st' = snd (verify_signed_request K now_ms i handler req st)"
  have s: "Suc k < nc_capacity (as_replay_cache st)" using "2.prems"(2) by simp
  have d: "duration_since i t \<le> nc_ttl (as_replay_cache st)" using "2.prems"(3) by simp
  note h = held_verify [OF "2.prems"(1) d s st'_def]
  have "held n t (Suc k + length rest) (as_replay_cache (serve K rest st'))
      \<and> nc_ttl (as_replay_cache (serve K rest st')) = nc_ttl (as_replay_cache st')"
    unfolding st'_def
    by (rule "2.IH") (use h "2.prems"(2,3) in \<open>auto simp: st'_def\<close>)
  with h show ?case by (simp add: st'_def)
qed simp

lemma prechecks_skew: "prechecks K now_ms req st = Some (ks, ts, n, sg) \<Longrightarrow> \<bar>now_ms - ts\<bar> \<le> ac_skew (as_config st)"
  by (auto simp: prechecks_def Let_def split: if_splits option.splits)

lemma prechecks_later:
  assumes "prechecks K now1 req st = Some (ks, ts, n, sg)"
    "as_config st' = as_config st" "as_keys st' = as_keys st"
  shows "prechecks K now2 req st' =
    (if \<bar>now2 - ts\<bar> > ac_skew (as_config st) then None else Some (ks, ts, n, sg))"
  using assms by (auto simp: prechecks_def Let_def split: if_splits option.splits)

text \<open>
  C2. Replay protection. Once a signed request has been accepted, serving the same request again
  is refused with 401, whatever was served in between, provided fewer requests arrived meanwhile than
  the cache holds, the nonces are kept for at least twice the permitted clock skew (as the default
  configuration has it: ten and five minutes) and the two clocks of the node advance alike.
\<close>
theorem replay_refused:
  assumes accepted: "verify_signed_request K now1 i1 handler req st = (Inr resp, st1)"
    and "cache_ok (as_replay_cache st)"
    and "length evs < nc_capacity (as_replay_cache st)"
    and ttl: "2 * ac_skew (as_config st) \<le> nc_ttl (as_replay_cache st)"
    and mono: "\<forall>(now_ms, i, h, r) \<in> set evs. i \<le> i2"
    and clocks: "i2 - i1 = now2 - now1" "now1 \<le> now2"
  shows "fst (verify_signed_request K now2 i2 handler2 req (serve K evs st1)) = Inl 401"
proof -
  obtain ks ts n sg where p: "prechecks K now1 req st = Some (ks, ts, n, sg)"
    using accepted by (auto simp: verify_run split: option.splits)
  obtain b cache where b: "check_and_insert n i1 (as_replay_cache st) = (b, cache)" by fastforce
  with accepted have b by (cases b) (simp_all add: verify_run p)
  with b have c: "check_and_insert n i1 (as_replay_cache st) = (True, cache)" by simp
  have run: "verify_signature K i1 req handler ks ts n sg (st\<lparr>as_replay_cache := cache\<rparr>) = (Inr resp, st1)"
    using accepted by (simp add: verify_run p c)
  have st1: "as_replay_cache st1 = cache" "as_config st1 = as_config st" "as_keys st1 = as_keys st"
    using verify_signature_frame [of K i1 req handler ks ts n sg "st\<lparr>as_replay_cache := cache\<rparr>"]
    by (simp_all add: run)
  note ck = check_and_insert_ok(2,3) [OF c assms(2)]
  let ?st2 = "serve K evs st1"
  have p2: "prechecks K now2 req ?st2 =
      (if \<bar>now2 - ts\<bar> > ac_skew (as_config st) then None else Some (ks, ts, n, sg))"
    by (rule prechecks_later [OF p]) (simp_all add: serve_frame st1)
  have m: "\<not> (ac_allowed_methods (as_config ?st2) \<noteq> []
      \<and> upper_ascii (nr_method req) \<notin> set (ac_allowed_methods (as_config ?st2)))"
    using p by (auto simp: serve_frame st1 prechecks_def Let_def split: if_splits)
  show ?thesis
  proof (cases "\<bar>now2 - ts\<bar> > ac_skew (as_config st)")
    case True
    with m show ?thesis by (simp add: verify_run p2)
  next
    case False
    have "now2 - now1 \<le> 2 * ac_skew (as_config st)"
      using False prechecks_skew [OF p] by linarith
    then have i2: "duration_since i2 i1 \<le> nc_ttl (as_replay_cache st)"
      using clocks ttl by (simp add: duration_since_def)
    then have "\<forall>(now_ms, i, h, r) \<in> set evs. duration_since i i1 \<le> nc_ttl (as_replay_cache st)"
      using mono by (fastforce simp: duration_since_def)
    then have "held n i1 (length evs) (as_replay_cache ?st2)
        \<and> nc_ttl (as_replay_cache ?st2) = nc_ttl (as_replay_cache st)"
      using held_serve [of n i1 0 st1 evs K] check_and_insert_new [OF c assms(2)] assms(3)
      by (simp add: st1 ck)
    then have "fst (check_and_insert n i2 (as_replay_cache ?st2)) = False"
      using held_rejects i2 by metis
    with False show ?thesis
      by (auto simp: verify_run p2 split: prod.split bool.split)
  qed
qed

text \<open>What the SDK writes into a header can be read back by the node.\<close>

lemma visible_digit: "is_digit u \<Longrightarrow> visible u"
  by (simp add: is_digit_def visible_def)

lemma visible_show_int: "list_all visible (show_int i)"
proof -
  have "list_all visible (show_nat n)" for n
    using show_nat_digits by (auto simp: list_all_iff visible_digit)
  then show ?thesis by (simp add: show_int_def visible_def)
qed

lemma visible_hex_digit: "n < 16 \<Longrightarrow> visible (hex_digit n)"
  by (cases "n < 10") (simp_all add: hex_digit_def visible_def unat_u16 del: of_nat_add)

lemma visible_hex_enc: "list_all visible (hex_enc bs)"
  using hex_enc_chars visible_hex_digit by (fastforce simp: list_all_iff)

lemma parse_i64_show_int:
  assumes "- (2 ^ 63) \<le> i" "i < 2 ^ 63"
  shows "parse_i64 (show_int i) = Some i"
proof (cases "i < 0")
  case True
  have "list_all is_digit (show_nat (nat (- i)))"
    using show_nat_digits by (auto simp: list_all_iff)
  with True assms show ?thesis
    by (simp add: parse_i64_def show_int_def Let_def)
next
  case False
  obtain c s where c: "show_nat (nat i) = c # s" "is_digit c"
    using show_nat_Cons by blast
  then have "c \<noteq> 45 \<and> c \<noteq> 43" using digit_not_ws by blast
  moreover have "list_all is_digit (c # s)"
    using show_nat_digits [of _ "nat i"] by (auto simp: list_all_iff c(1))
  moreover have "digits_val (c # s) = nat i"
    using digits_val_show_nat [of "nat i"] by (simp add: c(1))
  ultimately show ?thesis
    using False assms by (simp add: parse_i64_def show_int_def Let_def c(1))
qed

abbreviation method_allowed :: "AuthState \<Rightarrow> jsstr \<Rightarrow> bool" where
  "method_allowed st m \<equiv>
     ac_allowed_methods (as_config st) = [] \<or> upper_ascii m \<in> set (ac_allowed_methods (as_config st))"

abbreviation within_rate :: "AuthState \<Rightarrow> int \<Rightarrow> bool" where
  "within_rate st i \<equiv>
     (case as_rate_limiter st of None \<Rightarrow> True | Some limiter \<Rightarrow> fst (try_consume i 1 limiter))"

lemma verify_accepts:
  assumes K: "crates_doc K" and "method_allowed st (nr_method req)"
    and h: "node_header (nr_headers req) HDR_PROJECT_ID = Some pid" "map_of (as_keys st) pid = Some ks"
      "node_header (nr_headers req) HDR_TIMESTAMP = Some (show_int ts)"
      "node_header (nr_headers req) HDR_NONCE = Some nonce"
      "node_header (nr_headers req) HDR_SIGNATURE =
         Some (signRequest (nr_method req) (nr_path req) (utf8_dec body) ts nonce (signing_key ks))"
    and "nr_body req = Some body"
    and ts: "- (2 ^ 63) \<le> ts" "ts < 2 ^ 63" and skew: "\<bar>now_ms - ts\<bar> \<le> ac_skew (as_config st)"
    and "fst (check_and_insert nonce i (as_replay_cache st))" "within_rate st i"
  shows "fst (verify_signed_request K now_ms i handler req st) =
    encrypt_reply K (response_key ks) nonce ts
      (canonical (nr_method req) (nr_path req) (utf8_dec body) ts nonce) (handler req)"
proof -
  let ?sg = "hmac_sha256 (signing_key ks)
    (utf8_enc (canonical (nr_method req) (nr_path req) (utf8_dec body) ts nonce))"
  have "prechecks K now_ms req st = Some (ks, ts, nonce, ?sg)"
    using assms(2) h skew K parse_i64_show_int [OF ts]
    by (auto simp: prechecks_def Let_def crates_doc_def signRequest_def)
  moreover obtain cache where "check_and_insert nonce i (as_replay_cache st) = (True, cache)"
    using assms(12) by (metis (full_types) prod.collapse)
  moreover have "fst (verify_signature K i req handler ks ts nonce ?sg st') =
      encrypt_reply K (response_key ks) nonce ts
        (canonical (nr_method req) (nr_path req) (utf8_dec body) ts nonce) (handler req)"
    if "as_rate_limiter st' = as_rate_limiter st" for st'
    using assms(8,13) K that
    by (auto simp: verify_signature_def Let_def crates_doc_def canonical_def
        split: option.splits prod.split bool.split)
  ultimately show ?thesis
    by (simp add: verify_run)
qed

text \<open>
  A concrete node: crates that do what they document, with a cipher that appends its associated data
  as the tag, one project, the default skew and nonce lifetime, and a request signed for it.
\<close>

definition demo_crates :: crates where
  "demo_crates =
     \<lparr>cr_hmac = hmac_sha256,
      cr_hkdf = (\<lambda>salt ikm info len. Some (rfc5869 hmac_sha256 32 ikm salt info len)),
      cr_seal = (\<lambda>key nonce aad msg. Some (msg @ aad)),
      cr_hex_encode = hex_enc, cr_hex_decode = hex_dec_strict, cr_b64_encode = b64_enc\<rparr>"

definition demo_open :: aead_open where
  "demo_open key nonce ct aad =
     (if length aad \<le> length ct \<and> drop (length ct - length aad) ct = aad
      then Inr (Some (take (length ct - length aad) ct)) else Inr None)"

definition demo_keys :: DerivedKeys where
  "demo_keys = \<lparr>signing_key = replicate 32 1, response_key = replicate 32 2\<rparr>"

definition demo_state :: AuthState where
  "demo_state =
     \<lparr>as_config = \<lparr>ac_skew = 300000, ac_allowed_methods = []\<rparr>,
      as_keys = [(js ''p1'', demo_keys)], as_replay_cache = NonceCache_new 10000 600000,
      as_rate_limiter = None\<rparr>"

definition demo_request :: node_request where
  "demo_request =
     \<lparr>nr_method = js ''GET'', nr_path = js ''/jobs'',
      nr_headers = auth_headers (js ''GET'') (js ''/jobs'') [] (js ''p1'') (replicate 32 1) 1000
        (hex_enc [1, 2]),
      nr_body = Some []\<rparr>"

lemma demo_crates_doc: "crates_doc demo_crates"
  by (simp add: crates_doc_def demo_crates_def)

lemma demo_header:
  "node_header (nr_headers demo_request) HDR_PROJECT_ID = Some (js ''p1'')"
  "node_header (nr_headers demo_request) HDR_TIMESTAMP = Some (show_int 1000)"
  "node_header (nr_headers demo_request) HDR_NONCE = Some (hex_enc [1, 2])"
  "node_header (nr_headers demo_request) HDR_SIGNATURE =
     Some (signRequest (js ''GET'') (js ''/jobs'') [] 1000 (hex_enc [1, 2]) (replicate 32 1))"
  using visible_show_int [of 1000] visible_hex_enc
  by (simp_all add: demo_request_def node_header_def auth_headers_def hdr_defs signRequest_def
      del: hex_enc.simps)
    (simp add: js_def ju_def visible_def)

lemma demo_accepted:
  "fst (verify_signed_request demo_crates 1000 0 handler demo_request demo_state) =
     encrypt_reply demo_crates (replicate 32 2) (hex_enc [1, 2]) 1000
       (canonical (js ''GET'') (js ''/jobs'') [] 1000 (hex_enc [1, 2])) (handler demo_request)"
proof -
  have r: "nr_method demo_request = js ''GET''" "nr_path demo_request = js ''/jobs''"
    "nr_body demo_request = Some []"
    by (simp_all add: demo_request_def)
  have k: "response_key demo_keys = replicate 32 2" "signing_key demo_keys = replicate 32 1"
    by (simp_all add: demo_keys_def)
  have s: "method_allowed demo_state m" "map_of (as_keys demo_state) (js ''p1'') = Some demo_keys"
    "ac_skew (as_config demo_state) = 300000" "within_rate demo_state 0"
    "fst (check_and_insert n 0 (as_replay_cache demo_state))" for m n
    by (simp_all add: demo_state_def check_and_insert_def evict_def NonceCache_new_def Let_def)
  show ?thesis
    using verify_accepts [OF demo_crates_doc s(1) demo_header(1) s(2) demo_header(2,3), of "[]" 1000 0
        handler] demo_header(4) s
    by (simp add: r k)
qed

theorem replay_refused_witness:
  "fst (verify_signed_request demo_crates 2000 1000 (\<lambda>_. fixed_response 200 ''{}'') demo_request
     (serve demo_crates [(1500, 500, (\<lambda>_. fixed_response 200 ''{}''), demo_request)]
       (snd (verify_signed_request demo_crates 1000 0 (\<lambda>_. fixed_response 200 ''{}'') demo_request
         demo_state)))) = Inl 401"
proof -
  obtain resp st1 where
    "verify_signed_request demo_crates 1000 0 (\<lambda>_. fixed_response 200 ''{}'') demo_request demo_state
       = (Inr resp, st1)"
    using demo_accepted [of "\<lambda>_. fixed_response 200 ''{}''"]
    by (cases "verify_signed_request demo_crates 1000 0 (\<lambda>_. fixed_response 200 ''{}'') demo_request
        demo_state")
      (auto simp: encrypt_reply_def fixed_response_def resp_ok_def derive_response_nonce_def
        demo_crates_def)
  then show ?thesis
    using replay_refused [of demo_crates 1000 0 "\<lambda>_. fixed_response 200 ''{}''" demo_request demo_state
        resp st1 "[(1500, 500, (\<lambda>_. fixed_response 200 ''{}''), demo_request)]" 1000 2000]
    by (simp add: demo_state_def NonceCache_new_def cache_ok_def)
qed

text \<open>
  C3. Only authentic requests reach a handler: if the middleware lets a request through, it names
  a known project, its timestamp is within the permitted skew, its nonce is not in the cache, and its
  signature is the HMAC under that project's signing key of the method, path, timestamp, nonce and
  body that were received.
\<close>
theorem accepted_is_authentic:
  assumes "verify_signed_request K now_ms i handler req st = (Inr resp, st')" "crates_doc K"
  shows "\<exists>pid ks ts nonce body sg.
      node_header (nr_headers req) HDR_PROJECT_ID = Some pid \<and> map_of (as_keys st) pid = Some ks
      \<and> Option.bind (node_header (nr_headers req) HDR_TIMESTAMP) parse_i64 = Some ts
      \<and> node_header (nr_headers req) HDR_NONCE = Some nonce
      \<and> node_header (nr_headers req) HDR_SIGNATURE = Some sg \<and> nr_body req = Some body
      \<and> \<bar>now_ms - ts\<bar> \<le> ac_skew (as_config st)
      \<and> map_of (nc_entries (evict i (as_replay_cache st))) nonce = None
      \<and> hex_dec_strict sg = Some (hmac_sha256 (signing_key ks)
          (utf8_enc (canonical (nr_method req) (nr_path req) (utf8_dec body) ts nonce)))"
proof -
  obtain ks ts n s where p: "prechecks K now_ms req st = Some (ks, ts, n, s)"
    using assms(1) by (auto simp: verify_run split: option.splits)
  obtain b cache where b: "check_and_insert n i (as_replay_cache st) = (b, cache)" by fastforce
  with assms(1) have b by (cases b) (simp_all add: verify_run p)
  with b have c: "check_and_insert n i (as_replay_cache st) = (True, cache)" by simp
  then have fresh: "map_of (nc_entries (evict i (as_replay_cache st))) n = None"
    by (auto simp: check_and_insert_def Let_def split: if_splits)
  have "verify_signature K i req handler ks ts n s (st\<lparr>as_replay_cache := cache\<rparr>) = (Inr resp, st')"
    using assms(1) by (simp add: verify_run p c)
  then obtain body where body: "nr_body req = Some body"
    "s = hmac_sha256 (signing_key ks) (utf8_enc (canonical (nr_method req) (nr_path req) (utf8_dec body) ts n))"
    using assms(2)
    by (auto simp: verify_signature_def Let_def crates_doc_def canonical_def split: option.splits if_splits)
  from p assms(2) obtain pid sg where
    "node_header (nr_headers req) HDR_PROJECT_ID = Some pid" "map_of (as_keys st) pid = Some ks"
    "Option.bind (node_header (nr_headers req) HDR_TIMESTAMP) parse_i64 = Some ts"
    "node_header (nr_headers req) HDR_NONCE = Some n"
    "node_header (nr_headers req) HDR_SIGNATURE = Some sg" "hex_dec_strict sg = Some s"
    by (auto simp: prechecks_def Let_def crates_doc_def bind_eq_Some_conv split: if_splits option.splits)
  with body fresh prechecks_skew [OF p] show ?thesis by blast
qed

theorem accepted_is_authentic_witness:
  "\<exists>pid ks ts nonce body sg.
      node_header (nr_headers demo_request) HDR_PROJECT_ID = Some pid
      \<and> map_of (as_keys demo_state) pid = Some ks
      \<and> Option.bind (node_header (nr_headers demo_request) HDR_TIMESTAMP) parse_i64 = Some ts
      \<and> node_header (nr_headers demo_request) HDR_NONCE = Some nonce
      \<and> node_header (nr_headers demo_request) HDR_SIGNATURE = Some sg \<and> nr_body demo_request = Some body
      \<and> \<bar>1000 - ts\<bar> \<le> ac_skew (as_config demo_state)
      \<and> map_of (nc_entries (evict 0 (as_replay_cache demo_state))) nonce = None
      \<and> hex_dec_strict sg = Some (hmac_sha256 (signing_key ks)
          (utf8_enc (canonical (nr_method demo_request) (nr_path demo_request) (utf8_dec body) ts nonce)))"
proof -
  obtain st' where
    "verify_signed_request demo_crates 1000 0 (\<lambda>_. fixed_response 404 ''{}'') demo_request demo_state
       = (Inr (fixed_response 404 ''{}''), st')"
    using demo_accepted [of "\<lambda>_. fixed_response 404 ''{}''"]
    by (cases "verify_signed_request demo_crates 1000 0 (\<lambda>_. fixed_response 404 ''{}'') demo_request
        demo_state") (auto simp: encrypt_reply_def fixed_response_def resp_ok_def)
  from accepted_is_authentic [OF this demo_crates_doc] show ?thesis .
qed

lemma length_update_le: "length (AList.update k v xs) \<le> Suc (length xs)"
  by (induction xs) auto

lemma evict_shrinks: "length (nc_entries (evict now c)) \<le> length (nc_entries c)"
proof (induction "nc_order c" arbitrary: c)
  case (Cons n order)
  note o = Cons.hyps(2) [symmetric]
  show ?case
    using Cons.hyps(1) [of "c\<lparr>nc_entries := AList.delete n (nc_entries c), nc_order := order\<rparr>"]
      length_delete_le [of n "nc_entries c"]
    by (simp add: evict_step(2) [OF o])
qed (simp add: evict_step)

text \<open>
  C9. The replay cache stays consistent and bounded: its queue lists each nonce of its table once,
  and it never holds more nonces than its capacity. A nonce is refused exactly when it is still in the
  table after stale nonces have been evicted, and is in the table afterwards in either case.
\<close>
theorem nonce_cache_bounded:
  assumes "cache_ok c" "length (nc_entries c) \<le> nc_capacity c" "0 < nc_capacity c"
  shows "case check_and_insert n now c of (inserted, c') \<Rightarrow>
      cache_ok c' \<and> length (nc_entries c') \<le> nc_capacity c' \<and> nc_capacity c' = nc_capacity c
      \<and> (inserted \<longleftrightarrow> map_of (nc_entries (evict now c)) n = None)
      \<and> map_of (nc_entries c') n \<noteq> None"
proof -
  let ?e = "evict now c"
  obtain b c' where r: "check_and_insert n now c = (b, c')" by fastforce
  have e: "cache_ok ?e" by (rule evict_cache_ok [OF assms(1)])
  have l: "length (nc_entries ?e) \<le> nc_capacity c"
    using evict_shrinks [of now c] assms(2) by simp
  have d: "length (nc_entries (drop_oldest ?e)) < nc_capacity c"
  proof (cases "nc_order ?e")
    case Nil
    then have "length (nc_entries ?e) = 0" using cache_ok_length [OF e] by simp
    with Nil assms(3) show ?thesis by (simp add: drop_oldest_def)
  next
    case (Cons x xs)
    then have "x \<in> fst ` set (nc_entries ?e)" using e by (auto simp: cache_ok_def)
    then have "length (AList.delete x (nc_entries ?e)) < length (nc_entries ?e)"
      by (auto simp: AList.delete_eq intro!: length_filter_less)
    with Cons l show ?thesis by (simp add: drop_oldest_def)
  qed
  have "length (nc_entries c') \<le> nc_capacity c"
    using r l d length_update_le [of n now "nc_entries (drop_oldest ?e)"]
    by (auto simp: check_and_insert_def Let_def split: if_splits)
  moreover have "b \<longleftrightarrow> map_of (nc_entries ?e) n = None"
    using r by (auto simp: check_and_insert_def Let_def split: if_splits)
  ultimately show ?thesis
    using check_and_insert_ok [OF r assms(1)] by (simp add: r)
qed

theorem nonce_cache_bounded_witness:
  "case check_and_insert (js ''ab'') 7 (NonceCache_new 2 1000) of (inserted, c') \<Rightarrow>
      cache_ok c' \<and> length (nc_entries c') \<le> nc_capacity c' \<and> nc_capacity c' = nc_capacity (NonceCache_new 2 1000)
      \<and> (inserted \<longleftrightarrow> map_of (nc_entries (evict 7 (NonceCache_new 2 1000))) (js ''ab'') = None)
      \<and> map_of (nc_entries c') (js ''ab'') \<noteq> None"
  by (rule nonce_cache_bounded) (simp_all add: NonceCache_new_def cache_ok_def)

text \<open>The token bucket as a sequence of attempts; the result counts the successful ones.\<close>

definition bucket_ok :: "TokenBucket \<Rightarrow> bool" where
  "bucket_ok b \<longleftrightarrow> 0 \<le> tb_tokens b \<and> tb_tokens b \<le> tb_capacity b \<and> 0 \<le> tb_refill_per_sec b"

fun attempts :: "int list \<Rightarrow> TokenBucket \<Rightarrow> nat \<times> TokenBucket" where
  "attempts [] b = (0, b)"
| "attempts (t # ts) b =
     (case try_consume t 1 b of (ok, b) \<Rightarrow>
        (case attempts ts b of (n, b) \<Rightarrow> (if ok then Suc n else n, b)))"

lemma try_consume_ok:
  assumes "bucket_ok b" "0 \<le> amount" "try_consume now amount b = (ok, b')"
  shows "bucket_ok b'" "tb_last_refill b' = now" "tb_refill_per_sec b' = tb_refill_per_sec b"
    "tb_tokens b' + (if ok then amount else 0)
       \<le> tb_tokens b + of_int (duration_since now (tb_last_refill b)) / 1000 * tb_refill_per_sec b"
proof -
  have "0 \<le> (of_int (duration_since now (tb_last_refill b)) / 1000 * tb_refill_per_sec b :: rat)"
    using assms(1) by (simp add: bucket_ok_def duration_since_def)
  then show "bucket_ok b'" "tb_last_refill b' = now" "tb_refill_per_sec b' = tb_refill_per_sec b"
    "tb_tokens b' + (if ok then amount else 0)
       \<le> tb_tokens b + of_int (duration_since now (tb_last_refill b)) / 1000 * tb_refill_per_sec b"
    using assms by (auto simp: try_consume_def Let_def bucket_ok_def min_def split: if_splits)
qed



end
