(* ===== verification/Nbook_Client.thy ===== *)
theory Nbook_Client
  imports Http
begin

text \<open>
  \<^verbatim>\<open>wasm_programs/nbook/ui/lib/onvm-client.ts\<close>: the browser client of the social network
  program. Responses of the program are JSON values that the code casts without checking, so the
  fields of the client-facing shapes are values that may be \<^verbatim>\<open>undefined\<close> (\<open>jsval\<close>), and reading
  through a missing value throws as it does in the source.
\<close>

section \<open>Client-facing shapes\<close>

record CommentView =
  cm_id :: jsval
  cm_author :: jsval
  cm_text :: jsval
  cm_createdAt :: jsval

record Post =
  po_id :: jsval
  po_author :: jsval
  po_displayName :: jsval
  po_avatarBlobId :: jsval
  po_text :: jsval
  po_attachments :: jsval
  po_createdAt :: jsval
  po_likes :: jsval
  po_comments :: "CommentView list"

record ProfileView =
  pv_username :: jsval
  pv_displayName :: jsval
  pv_bio :: jsval
  pv_avatarBlobId :: jsval
  pv_bannerBlobId :: jsval
  pv_followers :: jsval
  pv_following :: jsval
  pv_followerList :: jsval
  pv_followingList :: jsval
  pv_posts :: jsval
  pv_createdAt :: jsval

record UserSummary =
  us_username :: jsval
  us_displayName :: jsval
  us_bio :: jsval
  us_avatarBlobId :: jsval
  us_bannerBlobId :: jsval
  us_followers :: jsval

section \<open>Requests\<close>

text \<open>
  Fields that the pages fill from earlier answers (session, post and user identifiers) are any values;
  what comes from a form is text.
\<close>

datatype Request =
    RegisterRequest jsstr jsstr
  | LoginRequest jsstr jsstr
  | LogoutRequest jsval
  | CreatePostRequest jsval jsstr "jsval list"
  | DeletePostRequest jsval jsval
  | FollowRequest jsval jsval
  | UnfollowRequest jsval jsval
  | LikeRequest jsval jsval
  | CommentRequest jsval jsval jsstr
  | FeedRequest jsval int bool
  | GetPostRequest jsstr
  | ProfileRequest jsval
  | UpdateProfileRequest jsval "jsstr option" "jsstr option" "jsstr option" "jsstr option"
  | SearchUsersRequest jsval jsstr int
  | SuggestionsRequest jsval int
  | FollowersRequest jsval jsval int
  | FollowingRequest jsval jsval int

abbreviation op_field :: "string \<Rightarrow> string \<times> jsval" where
  "op_field name \<equiv> (''op'', Some (JStr (js name)))"

text \<open>An element of an array in \<^verbatim>\<open>JSON.stringify\<close>: \<^verbatim>\<open>undefined\<close> becomes null.\<close>

definition array_item :: "jsval \<Rightarrow> json" where
  "array_item v = (case v of None \<Rightarrow> JNull | Some j \<Rightarrow> j)"

fun Request_json :: "Request \<Rightarrow> json" where
  "Request_json (RegisterRequest username password) = obj_literal
     [op_field ''register'', str_field ''username'' username, str_field ''password'' password]"
| "Request_json (LoginRequest username password) = obj_literal
     [op_field ''login'', str_field ''username'' username, str_field ''password'' password]"
| "Request_json (LogoutRequest session) = obj_literal
     [op_field ''logout'', (''session'', session)]"
| "Request_json (CreatePostRequest session text attachments) = obj_literal
     [op_field ''create_post'', (''session'', session), str_field ''text'' text,
      (''attachments'', Some (JArr (map array_item attachments)))]"
| "Request_json (DeletePostRequest session postId) = obj_literal
     [op_field ''delete_post'', (''session'', session), (''post_id'', postId)]"
| "Request_json (FollowRequest session target) = obj_literal
     [op_field ''follow'', (''session'', session), (''target'', target)]"
| "Request_json (UnfollowRequest session target) = obj_literal
     [op_field ''unfollow'', (''session'', session), (''target'', target)]"
| "Request_json (LikeRequest session postId) = obj_literal
     [op_field ''like'', (''session'', session), (''post_id'', postId)]"
| "Request_json (CommentRequest session postId text) = obj_literal
     [op_field ''comment'', (''session'', session), (''post_id'', postId), str_field ''text'' text]"
| "Request_json (FeedRequest session limit discover) = obj_literal
     [op_field ''feed'', (''session'', session), num_field ''limit'' limit,
      (''discover'', Some (JBool discover))]"
| "Request_json (GetPostRequest postId) = obj_literal
     [op_field ''get_post'', str_field ''post_id'' postId]"
| "Request_json (ProfileRequest username) = obj_literal
     [op_field ''profile'', (''username'', username)]"
| "Request_json (UpdateProfileRequest session displayName bio avatarBlobId bannerBlobId) = obj_literal
     [op_field ''update_profile'', (''session'', session), (''display_name'', map_option JStr displayName),
      (''bio'', map_option JStr bio), (''avatar_blob_id'', map_option JStr avatarBlobId),
      (''banner_blob_id'', map_option JStr bannerBlobId)]"
| "Request_json (SearchUsersRequest session query limit) = obj_literal
     [op_field ''search_users'', (''session'', session), str_field ''query'' query, num_field ''limit'' limit]"
| "Request_json (SuggestionsRequest session limit) = obj_literal
     [op_field ''suggestions'', (''session'', session), num_field ''limit'' limit]"
| "Request_json (FollowersRequest session username limit) = obj_literal
     [op_field ''followers'', (''session'', session), (''username'', username), num_field ''limit'' limit]"
| "Request_json (FollowingRequest session username limit) = obj_literal
     [op_field ''following'', (''session'', session), (''username'', username), num_field ''limit'' limit]"

section \<open>API shapes of the program\<close>

text \<open>The snake-case objects the program writes for a comment, a post and a profile.\<close>

definition ApiCommentView_json :: "CommentView \<Rightarrow> json" where
  "ApiCommentView_json c = obj_literal
     [(''id'', cm_id c), (''author'', cm_author c), (''text'', cm_text c), (''created_at'', cm_createdAt c)]"

definition ApiPost_json :: "Post \<Rightarrow> json" where
  "ApiPost_json p = obj_literal
     [(''id'', po_id p), (''author'', po_author p), (''author_avatar_blob_id'', po_avatarBlobId p),
      (''author_display_name'', po_displayName p), (''text'', po_text p),
      (''attachments'', po_attachments p), (''created_at'', po_createdAt p), (''likes'', po_likes p),
      (''comments'', Some (JArr (map ApiCommentView_json (po_comments p))))]"

definition FeedResponse_json :: "Post list \<Rightarrow> json" where
  "FeedResponse_json ps = obj_literal
     [str_field ''status'' (js ''feed''), (''posts'', Some (JArr (map ApiPost_json ps)))]"

section \<open>The client\<close>

record NbookONVMClient =
  apiEndpoint :: jsstr
  nb_programId :: jsstr

definition API_ENDPOINT :: jsstr where
  "API_ENDPOINT = js ''/api/onvm''"

definition DEFAULT_PROGRAM :: jsstr where
  "DEFAULT_PROGRAM = js ''prog38ec7cf6280521e004e2d6148abbec866c15d797f66f4e80520d0cb21dcb935c''"

text \<open>The argument is the environment variable \<^verbatim>\<open>NEXT_PUBLIC_ONVM_PROGRAM_ID\<close>.\<close>

definition new_NbookONVMClient :: "jsstr option \<Rightarrow> NbookONVMClient" where
  "new_NbookONVMClient var = \<lparr>apiEndpoint = API_ENDPOINT, nb_programId = or_str var DEFAULT_PROGRAM\<rparr>"

text \<open>The singleton: the module variable before and after.\<close>

definition getNbookClient ::
  "jsstr option \<Rightarrow> NbookONVMClient option \<Rightarrow> NbookONVMClient \<times> NbookONVMClient option" where
  "getNbookClient var nbookClient =
     (case nbookClient of
        Some c \<Rightarrow> (c, nbookClient)
      | None \<Rightarrow> (let c = new_NbookONVMClient var in (c, Some c)))"

definition post_request :: "jsstr \<Rightarrow> string \<Rightarrow> req_body \<Rightarrow> http_request" where
  "post_request url ctype body =
     \<lparr>rq_method = js ''POST'', rq_url = url, rq_headers = [(js ''Content-Type'', js ctype)],
      rq_body = body, rq_timeout = None\<rparr>"

text \<open>
  What is thrown for a response that is not ok: its \<^verbatim>\<open>error\<close> field when it is JSON, otherwise the
  fallback text.
\<close>

definition response_error :: "env \<Rightarrow> string \<Rightarrow> http_response \<Rightarrow> exn" where
  "response_error E fallback response =
     (let error = (case resp_json E response of
                     Inl _ \<Rightarrow> obj_literal [(''error'', Some (JStr (js fallback)))]
                   | Inr v \<Rightarrow> v)
      in case get_prop ''error'' (Some error) of
           Inl e \<Rightarrow> e
         | Inr v \<Rightarrow> js_Error (error_message (or_val v (Some (JStr (js fallback))))))"

definition btoa_throw :: "jsstr \<Rightarrow> exn + jsstr" where
  "btoa_throw s =
     (case btoa s of
        None \<Rightarrow> Inl (native CInvalidCharacterError (js ''Invalid character''))
      | Some t \<Rightarrow> Inr t)"

definition atob_throw :: "jsval \<Rightarrow> exn + jsstr" where
  "atob_throw v =
     (case atob (val_text v) of
        None \<Rightarrow> Inl (native CInvalidCharacterError (js ''The string to be decoded is not correctly encoded.''))
      | Some t \<Rightarrow> Inr t)"

definition execute_body :: "NbookONVMClient \<Rightarrow> jsstr \<Rightarrow> json" where
  "execute_body this inputBase64 = obj_literal
     [str_field ''operation'' (js ''executeProgram''), str_field ''program_id'' (nb_programId this),
      str_field ''input_base64'' inputBase64]"

text \<open>The program's answer: the decoded and parsed result, which must have a status.\<close>

definition read_result :: "env \<Rightarrow> json \<Rightarrow> exn + json" where
  "read_result E result =
     r_bind (get_prop ''return_base64'' (Some result)) (\<lambda>b64.
     r_bind (atob_throw b64) (\<lambda>returnData.
     r_bind (parse_json E returnData) (\<lambda>parsedResponse.
     r_bind (get_prop ''status'' (Some parsedResponse)) (\<lambda>status.
     if \<not> truthy_val status then Inl (js_Error (js ''invalid response from program''))
     else Inr parsedResponse))))"

definition execute_json :: "env \<Rightarrow> NbookONVMClient \<Rightarrow> json \<Rightarrow> (world, json) js" where
  "execute_json E this request =
     js_bind (js_lift (btoa_throw (JSON_stringify request))) (\<lambda>inputBase64.
     js_bind
       (fetch E (post_request (apiEndpoint this) ''application/json''
         (TextBody (JSON_stringify (execute_body this inputBase64))))) (\<lambda>response.
     if \<not> resp_ok response then js_throw (response_error E ''Failed to execute program'' response)
     else
       js_bind (js_lift (resp_json E response)) (\<lambda>result.
       js_lift (read_result E result))))"

definition nb_executeProgram :: "env \<Rightarrow> NbookONVMClient \<Rightarrow> Request \<Rightarrow> (world, json) js" where
  "nb_executeProgram E this request = execute_json E this (Request_json request)"

section \<open>Normalisation\<close>

definition normalizeComment :: "json \<Rightarrow> exn + CommentView" where
  "normalizeComment c =
     r_bind (get_prop ''id'' (Some c)) (\<lambda>i.
     Inr \<lparr>cm_id = i, cm_author = opt_prop ''author'' (Some c), cm_text = opt_prop ''text'' (Some c),
          cm_createdAt = opt_prop ''created_at'' (Some c)\<rparr>)"

definition normalizePost :: "jsval \<Rightarrow> exn + Post" where
  "normalizePost api =
     r_bind (get_prop ''id'' api) (\<lambda>i.
     r_bind (js_array ''api.comments'' (opt_prop ''comments'' api)) (\<lambda>cs.
     r_bind (r_mapM normalizeComment cs) (\<lambda>comments.
     Inr \<lparr>po_id = i, po_author = opt_prop ''author'' api,
          po_displayName = opt_prop ''author_display_name'' api,
          po_avatarBlobId = opt_prop ''author_avatar_blob_id'' api,
          po_text = opt_prop ''text'' api, po_attachments = opt_prop ''attachments'' api,
          po_createdAt = opt_prop ''created_at'' api, po_likes = opt_prop ''likes'' api,
          po_comments = comments\<rparr>)))"

definition normalizeProfile :: "jsval \<Rightarrow> exn + ProfileView" where
  "normalizeProfile api =
     r_bind (get_prop ''username'' api) (\<lambda>username.
     Inr \<lparr>pv_username = username, pv_displayName = opt_prop ''display_name'' api,
          pv_bio = opt_prop ''bio'' api, pv_avatarBlobId = opt_prop ''avatar_blob_id'' api,
          pv_bannerBlobId = opt_prop ''banner_blob_id'' api,
          pv_followers = opt_prop ''followers'' api, pv_following = opt_prop ''following'' api,
          pv_followerList = or_val (opt_prop ''follower_list'' api) (Some (JArr [])),
          pv_followingList = or_val (opt_prop ''following_list'' api) (Some (JArr [])),
          pv_posts = opt_prop ''posts'' api, pv_createdAt = opt_prop ''created_at'' api\<rparr>)"

definition normalizeUser :: "json \<Rightarrow> exn + UserSummary" where
  "normalizeUser u =
     r_bind (get_prop ''username'' (Some u)) (\<lambda>username.
     Inr \<lparr>us_username = username, us_displayName = opt_prop ''display_name'' (Some u),
          us_bio = opt_prop ''bio'' (Some u), us_avatarBlobId = opt_prop ''avatar_blob_id'' (Some u),
          us_bannerBlobId = opt_prop ''banner_blob_id'' (Some u),
          us_followers = opt_prop ''followers'' (Some u)\<rparr>)"

definition normalizeUsers :: "jsval \<Rightarrow> exn + UserSummary list" where
  "normalizeUsers users = r_bind (js_array ''users'' users) (r_mapM normalizeUser)"

section \<open>Operations\<close>

text \<open>
  The common shape of the operations: run the program, throw its message when the status is
  \<^verbatim>\<open>error\<close>, and read the result.
\<close>

definition program_error :: "string \<Rightarrow> json \<Rightarrow> exn" where
  "program_error fallback response =
     js_Error (error_message
       (or_val (opt_prop ''message'' (Some response)) (Some (JStr (js fallback)))))"

definition has_status :: "string \<Rightarrow> json \<Rightarrow> bool" where
  "has_status s response \<longleftrightarrow> opt_prop ''status'' (Some response) = Some (JStr (js s))"

definition program_op ::
  "env \<Rightarrow> NbookONVMClient \<Rightarrow> Request \<Rightarrow> string \<Rightarrow> (json \<Rightarrow> exn + 'a) \<Rightarrow> (world, 'a) js" where
  "program_op E this request fallback read =
     js_bind (nb_executeProgram E this request) (\<lambda>response.
     if has_status ''error'' response then js_throw (program_error fallback response)
     else js_lift (read response))"

abbreviation read_nothing :: "json \<Rightarrow> exn + unit" where
  "read_nothing \<equiv> \<lambda>_. Inr ()"

abbreviation read_post :: "json \<Rightarrow> exn + Post" where
  "read_post \<equiv> \<lambda>response. normalizePost (opt_prop ''post'' (Some response))"

abbreviation read_users :: "json \<Rightarrow> exn + UserSummary list" where
  "read_users \<equiv> \<lambda>response. normalizeUsers (opt_prop ''users'' (Some response))"

definition nb_register :: "env \<Rightarrow> NbookONVMClient \<Rightarrow> jsstr \<Rightarrow> jsstr \<Rightarrow> (world, json) js" where
  "nb_register E this username password =
     program_op E this (RegisterRequest username password) ''register failed'' Inr"

definition nb_login :: "env \<Rightarrow> NbookONVMClient \<Rightarrow> jsstr \<Rightarrow> jsstr \<Rightarrow> (world, jsval \<times> jsval) js" where
  "nb_login E this username password =
     js_bind (nb_executeProgram E this (LoginRequest username password)) (\<lambda>response.
     if has_status ''error'' response \<or> \<not> has_status ''login_ok'' response
     then js_throw (program_error ''login failed'' response)
     else js_ret (opt_prop ''session'' (Some response), opt_prop ''expires_ms'' (Some response)))"

definition nb_deletePost :: "env \<Rightarrow> NbookONVMClient \<Rightarrow> jsval \<Rightarrow> jsval \<Rightarrow> (world, unit) js" where
  "nb_deletePost E this session postId =
     program_op E this (DeletePostRequest session postId) ''delete failed'' read_nothing"

definition nb_logout :: "env \<Rightarrow> NbookONVMClient \<Rightarrow> jsval \<Rightarrow> (world, unit) js" where
  "nb_logout E this session = program_op E this (LogoutRequest session) ''logout failed'' read_nothing"

definition nb_createPost :: "env \<Rightarrow> NbookONVMClient \<Rightarrow> jsval \<Rightarrow> jsstr \<Rightarrow> jsval list \<Rightarrow> (world, Post) js" where
  "nb_createPost E this session text attachments =
     program_op E this (CreatePostRequest session text attachments) ''create post failed'' read_post"

definition nb_getPost :: "env \<Rightarrow> NbookONVMClient \<Rightarrow> jsstr \<Rightarrow> (world, Post) js" where
  "nb_getPost E this postId = program_op E this (GetPostRequest postId) ''get post failed'' read_post"

definition nb_likePost :: "env \<Rightarrow> NbookONVMClient \<Rightarrow> jsval \<Rightarrow> jsval \<Rightarrow> (world, Post) js" where
  "nb_likePost E this session postId =
     program_op E this (LikeRequest session postId) ''like failed'' read_post"

definition nb_commentOnPost :: "env \<Rightarrow> NbookONVMClient \<Rightarrow> jsval \<Rightarrow> jsval \<Rightarrow> jsstr \<Rightarrow> (world, Post) js" where
  "nb_commentOnPost E this session postId text =
     program_op E this (CommentRequest session postId text) ''comment failed'' read_post"

definition nb_getFeed :: "env \<Rightarrow> NbookONVMClient \<Rightarrow> jsval \<Rightarrow> int \<Rightarrow> bool \<Rightarrow> (world, Post list) js" where
  "nb_getFeed E this session limit discover =
     program_op E this (FeedRequest session limit discover) ''feed failed''
       (\<lambda>response. r_bind (js_array ''response.posts'' (opt_prop ''posts'' (Some response)))
          (r_mapM (\<lambda>p. normalizePost (Some p))))"

definition nb_follow :: "env \<Rightarrow> NbookONVMClient \<Rightarrow> jsval \<Rightarrow> jsval \<Rightarrow> (world, unit) js" where
  "nb_follow E this session target =
     program_op E this (FollowRequest session target) ''follow failed'' read_nothing"

definition nb_unfollow :: "env \<Rightarrow> NbookONVMClient \<Rightarrow> jsval \<Rightarrow> jsval \<Rightarrow> (world, unit) js" where
  "nb_unfollow E this session target =
     program_op E this (UnfollowRequest session target) ''unfollow failed'' read_nothing"

definition nb_getProfile :: "env \<Rightarrow> NbookONVMClient \<Rightarrow> jsval \<Rightarrow> (world, ProfileView) js" where
  "nb_getProfile E this username =
     program_op E this (ProfileRequest username) ''profile failed''
       (\<lambda>response. normalizeProfile (opt_prop ''profile'' (Some response)))"

definition nb_updateProfile ::
  "env \<Rightarrow> NbookONVMClient \<Rightarrow> jsval \<Rightarrow> jsstr option \<Rightarrow> jsstr option \<Rightarrow> jsstr option \<Rightarrow> jsstr option \<Rightarrow>
     (world, unit) js" where
  "nb_updateProfile E this session displayName bio avatarBlobId bannerBlobId =
     program_op E this (UpdateProfileRequest session displayName bio avatarBlobId bannerBlobId)
       ''profile update failed'' read_nothing"

definition nb_searchUsers :: "env \<Rightarrow> NbookONVMClient \<Rightarrow> jsval \<Rightarrow> jsstr \<Rightarrow> int \<Rightarrow> (world, UserSummary list) js" where
  "nb_searchUsers E this session query limit =
     program_op E this (SearchUsersRequest session query limit) ''search failed'' read_users"

definition nb_getSuggestions :: "env \<Rightarrow> NbookONVMClient \<Rightarrow> jsval \<Rightarrow> int \<Rightarrow> (world, UserSummary list) js" where
  "nb_getSuggestions E this session limit =
     program_op E this (SuggestionsRequest session limit) ''suggestions failed'' read_users"

definition nb_listFollowers :: "env \<Rightarrow> NbookONVMClient \<Rightarrow> jsval \<Rightarrow> jsval \<Rightarrow> int \<Rightarrow> (world, UserSummary list) js" where
  "nb_listFollowers E this session username limit =
     program_op E this (FollowersRequest session username limit) ''followers failed'' read_users"

definition nb_listFollowing :: "env \<Rightarrow> NbookONVMClient \<Rightarrow> jsval \<Rightarrow> jsval \<Rightarrow> int \<Rightarrow> (world, UserSummary list) js" where
  "nb_listFollowing E this session username limit =
     program_op E this (FollowingRequest session username limit) ''following failed'' read_users"

section \<open>Blobs and their content type\<close>

definition nb_uploadBlob :: "env \<Rightarrow> NbookONVMClient \<Rightarrow> bytes \<Rightarrow> (world, jsval) js" where
  "nb_uploadBlob E this buffer =
     js_bind (fetch E (post_request (apiEndpoint this) ''application/octet-stream'' (BytesBody buffer)))
       (\<lambda>response.
     if \<not> resp_ok response then js_throw (response_error E ''Failed to upload blob'' response)
     else
       js_bind (js_lift (resp_json E response)) (\<lambda>result.
       js_lift (get_prop ''id'' (Some result))))"

text \<open>The test \<^verbatim>\<open>bytes[i] === v\<close>, false past the end.\<close>

definition byte_is :: "bytes \<Rightarrow> nat \<Rightarrow> byte \<Rightarrow> bool" where
  "byte_is bs i v \<longleftrightarrow> i < length bs \<and> bs ! i = v"

definition sniffContentType :: "bytes \<Rightarrow> jsstr \<Rightarrow> jsstr" where
  "sniffContentType buffer headerCt =
     (let defaultCt = (if headerCt \<noteq> [] \<and> headerCt \<noteq> js ''application/octet-stream'' then headerCt else []);
          b = byte_is (take 12 buffer)
      in if b 0 0x89 \<and> b 1 0x50 \<and> b 2 0x4e \<and> b 3 0x47 \<and> b 4 0x0d \<and> b 5 0x0a \<and> b 6 0x1a \<and> b 7 0x0a
         then js ''image/png''
         else if b 0 0xff \<and> b 1 0xd8 \<and> b 2 0xff then js ''image/jpeg''
         else if b 0 0x47 \<and> b 1 0x49 \<and> b 2 0x46 \<and> b 3 0x38 then js ''image/gif''
         else if b 0 0x52 \<and> b 1 0x49 \<and> b 2 0x46 \<and> b 3 0x46
            \<and> b 8 0x57 \<and> b 9 0x45 \<and> b 10 0x42 \<and> b 11 0x50 then js ''image/webp''
         else if b 0 0x49 \<and> b 1 0x44 \<and> b 2 0x33
            \<or> b 0 0xff \<and> 1 < length buffer \<and> and (buffer ! 1) 0xe0 = 0xe0 then js ''audio/mpeg''
         else if b 0 0x4f \<and> b 1 0x67 \<and> b 2 0x67 \<and> b 3 0x53 then js ''audio/ogg''
         else if b 0 0x52 \<and> b 1 0x49 \<and> b 2 0x46 \<and> b 3 0x46
            \<and> b 8 0x57 \<and> b 9 0x41 \<and> b 10 0x56 \<and> b 11 0x45 then js ''audio/wav''
         else if b 4 0x66 \<and> b 5 0x74 \<and> b 6 0x79 \<and> b 7 0x70 then js ''video/mp4''
         else or_str (Some defaultCt) (js ''application/octet-stream''))"

definition nb_fetchBlob :: "env \<Rightarrow> NbookONVMClient \<Rightarrow> jsval \<Rightarrow> (world, bytes \<times> jsstr) js" where
  "nb_fetchBlob E this i =
     js_bind
       (fetch E (post_request (apiEndpoint this) ''application/json''
         (TextBody (JSON_stringify
           (obj_literal [str_field ''operation'' (js ''downloadBlob''), (''id'', i)]))))) (\<lambda>response.
     if \<not> resp_ok response then js_throw (response_error E ''Failed to download blob'' response)
     else
       js_bind (js_lift (resp_bytes response)) (\<lambda>arrayBuffer.
       let headerCt = or_str (header_get response ''content-type'') [];
           sniffed = sniffContentType arrayBuffer headerCt
       in js_ret (arrayBuffer, sniffed)))"

section \<open>What reaches the program, and what comes back\<close>

text \<open>
  The node behind the API route, for a program that maps each request to an answer: it decodes the
  request and answers with the Base64 text of its result.
\<close>

definition program_reply :: "(json \<Rightarrow> json) \<Rightarrow> http_request \<Rightarrow> http_response" where
  "program_reply prog rq =
     (let input = (case rq_body rq of
                     TextBody t \<Rightarrow>
                       (case Option.bind (JSON_parse t) (\<lambda>v. opt_prop ''input_base64'' (Some v)) of
                          Some (JStr b) \<Rightarrow> Option.bind (atob b) JSON_parse
                        | _ \<Rightarrow> None)
                   | _ \<Rightarrow> None);
          answer = (case input of None \<Rightarrow> JNull | Some r \<Rightarrow> prog r)
      in \<lparr>rs_status = 200, rs_statusText = js ''OK'', rs_headers = [],
          rs_body = Inr (utf8_enc (JSON_stringify (obj_literal
            [str_field ''return_base64'' (b64_enc (map (\<lambda>u. u8 (unat u)) (JSON_stringify answer)))])))\<rparr>)"

lemma read_result_b64:
  assumes "json_ok v" "latin1 (JSON_stringify v)" "truthy_val (opt_prop ''status'' (Some v))"
    and "obj_get kvs (js ''return_base64'') = Some (JStr (b64_enc (map (\<lambda>u. u8 (unat u)) (JSON_stringify v))))"
  shows "read_result E (JObj kvs) = Inr v"
proof -
  have "atob (b64_enc (map (\<lambda>u. u8 (unat u)) (JSON_stringify v))) = Some (JSON_stringify v)"
    using assms(2) by (intro atob_btoa) (simp add: btoa_def)
  moreover have "get_prop ''status'' (Some v) = Inr (opt_prop ''status'' (Some v))"
    using assms(3) by (cases v) (simp_all add: get_prop_def)
  ultimately show ?thesis
    using assms JSON_parse_stringify [OF assms(1)]
    by (simp add: read_result_def atob_throw_def val_text_def parse_json_def)
qed

lemma executeProgram_reply:
  assumes "\<And>h rq. e_fetch E h rq = Inr (program_reply prog rq)"
    and request: "json_ok (Request_json r)" "latin1 (JSON_stringify (Request_json r))"
    and answer: "json_ok (prog (Request_json r))" "latin1 (JSON_stringify (prog (Request_json r)))"
      "truthy_val (opt_prop ''status'' (Some (prog (Request_json r))))"
  shows "fst (nb_executeProgram E cl r w) = Inr (prog (Request_json r))
    \<and> length (w_sent (snd (nb_executeProgram E cl r w))) = Suc (length (w_sent w))"
proof -
  let ?q = "Request_json r" and ?p = "prog (Request_json r)"
  obtain b where b: "btoa (JSON_stringify ?q) = Some b" using request(2) by (simp add: btoa_def)
  have body: "json_ok (execute_body cl b)"
    unfolding execute_body_def by (rule json_ok_obj_literal) auto
  have "opt_prop ''input_base64'' (Some (execute_body cl b)) = Some (JStr b)"
    unfolding execute_body_def by (rule opt_prop_obj_literal) auto
  moreover have "Option.bind (atob b) JSON_parse = Some ?q"
    using atob_btoa [OF b] JSON_parse_stringify [OF request(1)] by simp
  ultimately have reply: "program_reply prog (post_request (apiEndpoint cl) ''application/json''
      (TextBody (JSON_stringify (execute_body cl b)))) =
      \<lparr>rs_status = 200, rs_statusText = js ''OK'', rs_headers = [],
       rs_body = Inr (utf8_enc (JSON_stringify (obj_literal
         [str_field ''return_base64'' (b64_enc (map (\<lambda>u. u8 (unat u)) (JSON_stringify ?p)))])))\<rparr>"
    using JSON_parse_stringify [OF body] by (simp add: program_reply_def post_request_def)
  let ?o = "obj_literal [str_field ''return_base64'' (b64_enc (map (\<lambda>u. u8 (unat u)) (JSON_stringify ?p)))]"
  have ok: "json_ok ?o" by (rule json_ok_obj_literal) auto
  have "text_decode (utf8_enc (JSON_stringify ?o)) = JSON_stringify ?o"
    using ok by (rule text_decode_json)
  moreover have "JSON_parse (JSON_stringify ?o) = Some ?o"
    using ok by (rule JSON_parse_stringify)
  ultimately show ?thesis
    using assms(1) reply
    by (simp add: nb_executeProgram_def execute_json_def btoa_throw_def b js_monad resp_ok_def
        resp_json_def resp_text_def parse_json_def obj_literal_def read_result_b64 [OF answer])
qed


definition demo_nbook :: NbookONVMClient where
  "demo_nbook = new_NbookONVMClient None"

definition demo_program :: "json \<Rightarrow> json" where
  "demo_program request = obj_literal
     [str_field ''status'' (js ''ok''), (''message'', opt_prop ''op'' (Some request))]"

definition program_env :: "(json \<Rightarrow> json) \<Rightarrow> env" where
  "program_env prog = (fixed_env 200 [])\<lparr>e_fetch := (\<lambda>_ rq. Inr (program_reply prog rq))\<rparr>"

lemmas stringify_eval = latin1_def obj_literal_def quote_def js_def ju_def esc_unit_def hi_sur_def lo_sur_def


text \<open>
  A request whose JSON text has a character beyond Latin-1 never leaves the browser:
  \<^verbatim>\<open>btoa\<close> throws an InvalidCharacterError before anything is sent.
\<close>
lemma nbook_non_latin1_not_sent:
  assumes "\<not> latin1 (JSON_stringify (Request_json r))"
  shows "nb_executeProgram E cl r w = (Inl (native CInvalidCharacterError (js ''Invalid character'')), w)"
  using assms by (simp add: nb_executeProgram_def execute_json_def btoa_throw_def btoa_def js_monad)

lemma nbook_non_latin1_not_sent_witness:
  "nb_executeProgram (program_env demo_program) demo_nbook
     (CreatePostRequest (Some (JStr (js ''s''))) [0x2603] []) fresh_world =
   (Inl (native CInvalidCharacterError (js ''Invalid character'')), fresh_world)"
proof -
  have "\<not> latin1 (JSON_stringify (Request_json (CreatePostRequest (Some (JStr (js ''s''))) [0x2603] [])))"
    by (simp add: stringify_eval)
  then show ?thesis by (rule nbook_non_latin1_not_sent)
qed



lemmas nbook_op_defs = nb_register_def nb_deletePost_def nb_logout_def nb_createPost_def
  nb_getPost_def nb_likePost_def nb_commentOnPost_def nb_getFeed_def nb_follow_def nb_unfollow_def
  nb_getProfile_def nb_updateProfile_def nb_searchUsers_def nb_getSuggestions_def nb_listFollowers_def
  nb_listFollowing_def

lemma program_error_message:
  "opt_prop ''message'' (Some v) = Some (JStr m) \<Longrightarrow> m \<noteq> [] \<Longrightarrow> program_error fb v = js_Error m"
  by (simp add: program_error_def or_val_def error_message_def)

lemma program_op_error:
  assumes "nb_executeProgram E cl r w = (Inr v, w')" "has_status ''error'' v"
    "opt_prop ''message'' (Some v) = Some (JStr m)" "m \<noteq> []"
  shows "program_op E cl r fb rd w = (Inl (js_Error m), w')"
  using assms by (simp add: program_op_def js_monad program_error_message)

text \<open>
  When the program answers a request with status \<^verbatim>\<open>error\<close> and a message, the operation that
  sent it throws an \<^verbatim>\<open>Error\<close> with that message, whatever else the answer holds; a login in
  particular never returns a session.
\<close>
lemma nbook_program_error:
  assumes "nb_executeProgram E cl r w = (Inr v, w')" "has_status ''error'' v"
    "opt_prop ''message'' (Some v) = Some (JStr m)" "m \<noteq> []"
  shows "case r of
      RegisterRequest u p \<Rightarrow> nb_register E cl u p w = (Inl (js_Error m), w')
    | LoginRequest u p \<Rightarrow> nb_login E cl u p w = (Inl (js_Error m), w')
    | LogoutRequest s \<Rightarrow> nb_logout E cl s w = (Inl (js_Error m), w')
    | CreatePostRequest s t as \<Rightarrow> nb_createPost E cl s t as w = (Inl (js_Error m), w')
    | DeletePostRequest s i \<Rightarrow> nb_deletePost E cl s i w = (Inl (js_Error m), w')
    | FollowRequest s u \<Rightarrow> nb_follow E cl s u w = (Inl (js_Error m), w')
    | UnfollowRequest s u \<Rightarrow> nb_unfollow E cl s u w = (Inl (js_Error m), w')
    | LikeRequest s i \<Rightarrow> nb_likePost E cl s i w = (Inl (js_Error m), w')
    | CommentRequest s i t \<Rightarrow> nb_commentOnPost E cl s i t w = (Inl (js_Error m), w')
    | FeedRequest s n d \<Rightarrow> nb_getFeed E cl s n d w = (Inl (js_Error m), w')
    | GetPostRequest i \<Rightarrow> nb_getPost E cl i w = (Inl (js_Error m), w')
    | ProfileRequest u \<Rightarrow> nb_getProfile E cl u w = (Inl (js_Error m), w')
    | UpdateProfileRequest s dn bio av ba \<Rightarrow>
        nb_updateProfile E cl s dn bio av ba w = (Inl (js_Error m), w')
    | SearchUsersRequest s q n \<Rightarrow> nb_searchUsers E cl s q n w = (Inl (js_Error m), w')
    | SuggestionsRequest s n \<Rightarrow> nb_getSuggestions E cl s n w = (Inl (js_Error m), w')
    | FollowersRequest s u n \<Rightarrow> nb_listFollowers E cl s u n w = (Inl (js_Error m), w')
    | FollowingRequest s u n \<Rightarrow> nb_listFollowing E cl s u n w = (Inl (js_Error m), w')"
  using assms
  by (cases r) (simp_all add: nbook_op_defs nb_login_def program_op_error, simp add: js_monad program_error_message)

definition failing_program :: "json \<Rightarrow> json" where
  "failing_program _ = obj_literal [str_field ''status'' (js ''error''), str_field ''message'' (js ''no'')]"

lemma failing_answer:
  "\<exists>w'. nb_executeProgram (program_env failing_program) demo_nbook (GetPostRequest (js ''p7'')) fresh_world =
     (Inr (failing_program JNull), w')"
proof -
  have "latin1 (JSON_stringify (Request_json (GetPostRequest (js ''p7''))))"
    "latin1 (JSON_stringify (failing_program JNull))"
    by (simp_all add: stringify_eval failing_program_def)
  then show ?thesis
    using executeProgram_reply [of "program_env failing_program" failing_program "GetPostRequest (js ''p7'')"
        demo_nbook fresh_world]
    by (simp add: program_env_def failing_program_def prod_eq_iff) (simp add: obj_literal_def)
qed

lemma nbook_program_error_witness:
  "fst (nb_getPost (program_env failing_program) demo_nbook (js ''p7'') fresh_world) =
     Inl (js_Error (js ''no''))"
proof -
  obtain w' where "nb_executeProgram (program_env failing_program) demo_nbook (GetPostRequest (js ''p7''))
      fresh_world = (Inr (failing_program JNull), w')"
    using failing_answer by blast
  from nbook_program_error [OF this, of "js ''no''"] show ?thesis
    by (simp add: has_status_def failing_program_def obj_literal_def)
qed

section \<open>Normalisation inverts the program's encoding\<close>

lemma normalizeComment_api: "normalizeComment (ApiCommentView_json c) = Inr c"
proof -
  have "get_prop ''id'' (Some (ApiCommentView_json c)) = Inr (cm_id c)"
    unfolding ApiCommentView_json_def by (rule get_prop_obj_literal) auto
  moreover have "opt_prop ''author'' (Some (ApiCommentView_json c)) = cm_author c"
    "opt_prop ''text'' (Some (ApiCommentView_json c)) = cm_text c"
    "opt_prop ''created_at'' (Some (ApiCommentView_json c)) = cm_createdAt c"
    unfolding ApiCommentView_json_def by (rule opt_prop_obj_literal; simp)+
  ultimately show ?thesis by (simp add: normalizeComment_def)
qed

lemma normalizePost_api: "normalizePost (Some (ApiPost_json p)) = Inr p"
proof -
  have "get_prop ''id'' (Some (ApiPost_json p)) = Inr (po_id p)"
    unfolding ApiPost_json_def by (rule get_prop_obj_literal) auto
  moreover have "opt_prop ''author'' (Some (ApiPost_json p)) = po_author p"
    "opt_prop ''author_avatar_blob_id'' (Some (ApiPost_json p)) = po_avatarBlobId p"
    "opt_prop ''author_display_name'' (Some (ApiPost_json p)) = po_displayName p"
    "opt_prop ''text'' (Some (ApiPost_json p)) = po_text p"
    "opt_prop ''attachments'' (Some (ApiPost_json p)) = po_attachments p"
    "opt_prop ''created_at'' (Some (ApiPost_json p)) = po_createdAt p"
    "opt_prop ''likes'' (Some (ApiPost_json p)) = po_likes p"
    "opt_prop ''comments'' (Some (ApiPost_json p)) = Some (JArr (map ApiCommentView_json (po_comments p)))"
    unfolding ApiPost_json_def by (rule opt_prop_obj_literal; simp)+
  ultimately show ?thesis
    by (simp add: normalizePost_def r_mapM_Inr normalizeComment_api)
qed

text \<open>
  C18. A feed survives the trip from the program to the page: when the program answers a feed request
  with its posts in the API shape, \<^verbatim>\<open>getFeed\<close> returns exactly these posts with their comments,
  in order, with optional fields absent where they were absent.
\<close>
theorem nbook_feed_round_trip:
  assumes "nb_executeProgram E cl (FeedRequest s n d) w = (Inr (FeedResponse_json ps), w')"
  shows "nb_getFeed E cl s n d w = (Inr ps, w')"
proof -
  have "opt_prop ''posts'' (Some (FeedResponse_json ps)) = Some (JArr (map ApiPost_json ps))"
    "opt_prop ''status'' (Some (FeedResponse_json ps)) = Some (JStr (js ''feed''))"
    unfolding FeedResponse_json_def by (rule opt_prop_obj_literal; simp)+
  then show ?thesis
    by (simp add: nb_getFeed_def program_op_def js_monad assms has_status_def r_mapM_Inr normalizePost_api)
qed

definition demo_post :: Post where
  "demo_post = \<lparr>po_id = Some (JStr (js ''p7'')), po_author = Some (JStr (js ''ada'')), po_displayName = None,
     po_avatarBlobId = Some JNull, po_text = Some (JStr (js ''hi'')), po_attachments = Some (JArr []),
     po_createdAt = Some (JNum 5), po_likes = Some (JNum 1),
     po_comments = [\<lparr>cm_id = Some (JStr (js ''c1'')), cm_author = Some (JStr (js ''bob'')),
       cm_text = Some (JStr (js ''yo'')), cm_createdAt = Some (JNum 6)\<rparr>]\<rparr>"

lemma latin1_show_nat: "list_all (\<lambda>u. unat u < 256) (show_nat n)"
  by (auto simp: list_all_iff is_digit_def dest!: show_nat_digits)

lemma feed_answer:
  "\<exists>w'. nb_executeProgram (program_env (\<lambda>_. FeedResponse_json [demo_post])) demo_nbook
      (FeedRequest None 20 False) fresh_world = (Inr (FeedResponse_json [demo_post]), w')"
proof -
  have "FeedResponse_json [demo_post] = JObj
      [(js ''status'', JStr (js ''feed'')), (js ''posts'', JArr [JObj [
        (js ''id'', JStr (js ''p7'')), (js ''author'', JStr (js ''ada'')), (js ''author_avatar_blob_id'', JNull),
        (js ''text'', JStr (js ''hi'')), (js ''attachments'', JArr []), (js ''created_at'', JNum 5),
        (js ''likes'', JNum 1), (js ''comments'', JArr [JObj [(js ''id'', JStr (js ''c1'')),
          (js ''author'', JStr (js ''bob'')), (js ''text'', JStr (js ''yo'')), (js ''created_at'', JNum 6)]])]])]"
    (is "_ = ?v")
    by (simp add: FeedResponse_json_def ApiPost_json_def ApiCommentView_json_def demo_post_def obj_literal_def)
  moreover have "latin1 (JSON_stringify (Request_json (FeedRequest None 20 False)))" "latin1 (JSON_stringify ?v)"
    by (simp_all add: stringify_eval num_str_def show_int_def latin1_show_nat)
  moreover have "json_ok ?v" "json_ok (Request_json (FeedRequest None 20 False))"
    by (simp_all add: obj_literal_def)
  ultimately show ?thesis
    using executeProgram_reply [of "program_env (\<lambda>_. ?v)" "\<lambda>_. ?v" "FeedRequest None 20 False"
        demo_nbook fresh_world]
    by (simp add: program_env_def prod_eq_iff)
qed

theorem nbook_feed_round_trip_witness:
  "fst (nb_getFeed (program_env (\<lambda>_. FeedResponse_json [demo_post])) demo_nbook None 20 False fresh_world) =
     Inr [demo_post]"
proof -
  obtain w' where "nb_executeProgram (program_env (\<lambda>_. FeedResponse_json [demo_post])) demo_nbook
      (FeedRequest None 20 False) fresh_world = (Inr (FeedResponse_json [demo_post]), w')"
    using feed_answer by blast
  from nbook_feed_round_trip [OF this] show ?thesis by simp
qed

section \<open>Content types are a table of signatures\<close>

text \<open>
  The reference: an ordered table of signatures, each a list of offset, mask and value; the first
  entry all of whose bytes are present and match gives the type.
\<close>

definition sig_match :: "bytes \<Rightarrow> nat \<times> byte \<times> byte \<Rightarrow> bool" where
  "sig_match bs = (\<lambda>(i, m, v). i < length bs \<and> and (bs ! i) m = v)"

primrec exactly :: "nat \<Rightarrow> byte list \<Rightarrow> (nat \<times> byte \<times> byte) list" where
  "exactly off [] = []"
| "exactly off (v # vs) = (off, - 1, v) # exactly (off + 1) vs"

definition signature_table :: "(string \<times> (nat \<times> byte \<times> byte) list) list" where
  "signature_table =
     [(''image/png'', exactly 0 [0x89, 0x50, 0x4e, 0x47, 0x0d, 0x0a, 0x1a, 0x0a]),
      (''image/jpeg'', exactly 0 [0xff, 0xd8, 0xff]),
      (''image/gif'', exactly 0 [0x47, 0x49, 0x46, 0x38]),
      (''image/webp'', exactly 0 [0x52, 0x49, 0x46, 0x46] @ exactly 8 [0x57, 0x45, 0x42, 0x50]),
      (''audio/mpeg'', exactly 0 [0x49, 0x44, 0x33]),
      (''audio/mpeg'', exactly 0 [0xff] @ [(1, 0xe0, 0xe0)]),
      (''audio/ogg'', exactly 0 [0x4f, 0x67, 0x67, 0x53]),
      (''audio/wav'', exactly 0 [0x52, 0x49, 0x46, 0x46] @ exactly 8 [0x57, 0x41, 0x56, 0x45]),
      (''video/mp4'', exactly 4 [0x66, 0x74, 0x79, 0x70])]"

definition table_type :: "bytes \<Rightarrow> string option" where
  "table_type bs = map_option fst (List.find (\<lambda>e. list_all (sig_match bs) (snd e)) signature_table)"

lemma first_match:
  "case_option d js (map_option fst (List.find P ((t, g) # es))) =
     (if P (t, g) then js t else case_option d js (map_option fst (List.find P es)))"
  by simp

lemma sig_match_byte: "i < 12 \<Longrightarrow> byte_is (take 12 bs) i v \<longleftrightarrow> sig_match bs (i, - 1, v)"
  by (auto simp: byte_is_def sig_match_def)

lemma sig_match_sync: "1 < length bs \<and> and (bs ! 1) 0xe0 = 0xe0 \<longleftrightarrow> sig_match bs (1, 0xe0, 0xe0)"
  by (simp add: sig_match_def)

lemma if_or: "(if a \<or> b then x else y) = (if a then x else if b then x else y)"
  by simp

lemma sig_bytes:
  "byte_is (take 12 bs) 0 v \<longleftrightarrow> sig_match bs (0, - 1, v)" "byte_is (take 12 bs) 1 v \<longleftrightarrow> sig_match bs (1, - 1, v)"
  "byte_is (take 12 bs) 2 v \<longleftrightarrow> sig_match bs (2, - 1, v)" "byte_is (take 12 bs) 3 v \<longleftrightarrow> sig_match bs (3, - 1, v)"
  "byte_is (take 12 bs) 4 v \<longleftrightarrow> sig_match bs (4, - 1, v)" "byte_is (take 12 bs) 5 v \<longleftrightarrow> sig_match bs (5, - 1, v)"
  "byte_is (take 12 bs) 6 v \<longleftrightarrow> sig_match bs (6, - 1, v)" "byte_is (take 12 bs) 7 v \<longleftrightarrow> sig_match bs (7, - 1, v)"
  "byte_is (take 12 bs) 8 v \<longleftrightarrow> sig_match bs (8, - 1, v)" "byte_is (take 12 bs) 9 v \<longleftrightarrow> sig_match bs (9, - 1, v)"
  "byte_is (take 12 bs) 10 v \<longleftrightarrow> sig_match bs (10, - 1, v)" "byte_is (take 12 bs) 11 v \<longleftrightarrow> sig_match bs (11, - 1, v)"
  by (rule sig_match_byte, simp)+

lemma default_type:
  "or_str (Some (if ct \<noteq> [] \<and> ct \<noteq> octet then ct else [])) octet = (if ct = [] then octet else ct)"
  "case_option d js (map_option fst (List.find P [])) = d"
  "list_all Q [] = True"
  by (simp_all add: or_str_def)

text \<open>
  \<^verbatim>\<open>sniffContentType\<close> is the first match in an ordered table of magic numbers; without a
  match it is the declared type, and \<^verbatim>\<open>application/octet-stream\<close> when none was declared.
\<close>
lemma sniff_is_table:
  "sniffContentType bs ct =
     (case table_type bs of
        Some t \<Rightarrow> js t
      | None \<Rightarrow> if ct = [] then js ''application/octet-stream'' else ct)"
  unfolding sniffContentType_def table_type_def signature_table_def Let_def if_or sig_match_sync
    sig_bytes first_match default_type exactly.simps append.simps add_0 one_add_one numeral_plus_one
    add_num_simps list.pred_inject snd_conv conj_assoc simp_thms
  by (rule TrueI)

end
