(* ===== verification/Nbook_Session.thy ===== *)
theory Nbook_Session
  imports Nbook_Client
begin

text \<open>
  \<^verbatim>\<open>wasm_programs/nbook/ui/lib/auth.ts\<close> and \<^verbatim>\<open>lib/api.ts\<close>: the session of the signed-in user in
  \<^verbatim>\<open>localStorage\<close>, and the operations the pages call, which add the session token to the calls of
  the client. Every operation takes the client that \<^verbatim>\<open>getNbookClient\<close> returns.
\<close>

section \<open>The client of the page\<close>

text \<open>
  \<^verbatim>\<open>getNbookClient\<close> gives the same client at every call: the module variable is empty or already
  holds that client, and stays so.
\<close>

lemma getNbookClient_stable:
  assumes "nbookClient \<in> {None, Some (new_NbookONVMClient var)}"
  shows "getNbookClient var nbookClient = (new_NbookONVMClient var, Some (new_NbookONVMClient var))"
  using assms by (auto simp: getNbookClient_def Let_def)

section \<open>The stored session\<close>

definition session_key :: jsstr where
  "session_key = js ''nbook_session''"

definition User_json :: "jsstr \<Rightarrow> jsval \<Rightarrow> jsval \<Rightarrow> json" where
  "User_json username session expiresAt = obj_literal
     [str_field ''username'' username, (''session'', session), (''expiresAt'', expiresAt)]"

definition setSession :: "jsval \<Rightarrow> jsstr \<Rightarrow> jsval \<Rightarrow> (world, unit) js" where
  "setSession session username expiresMs =
     js_bind (js_gets has_window) (\<lambda>window.
     if window then
       js_modify (setItem session_key (JSON_stringify (User_json username session expiresMs)))
     else js_ret ())"

definition clearSession :: "(world, unit) js" where
  "clearSession =
     js_bind (js_gets has_window) (\<lambda>window.
     if window then js_modify (removeItem session_key) else js_ret ())"

definition getSession :: "env \<Rightarrow> (world, json option) js" where
  "getSession E =
     js_bind (js_gets has_window) (\<lambda>window.
     if window then
       js_bind (js_gets (getItem session_key)) (\<lambda>data.
       case data of
         None \<Rightarrow> js_ret None
       | Some d \<Rightarrow>
           if d = [] then js_ret None
           else
             js_bind (js_lift (parse_json E d)) (\<lambda>user.
             js_bind (js_lift (get_prop ''expiresAt'' (Some user))) (\<lambda>expiresAt.
             js_bind (Date_now E) (\<lambda>now.
             if gt_number expiresAt (of_int now) then js_ret (Some user)
             else js_bind clearSession (\<lambda>_. js_ret None)))))
     else js_ret None)"

definition isAuthenticated :: "env \<Rightarrow> (world, bool) js" where
  "isAuthenticated E = js_bind (getSession E) (\<lambda>s. js_ret (s \<noteq> None))"

definition getCurrentUsername :: "env \<Rightarrow> (world, jsval) js" where
  "getCurrentUsername E =
     js_bind (getSession E) (\<lambda>session. js_ret (or_val (opt_prop ''username'' session) (Some JNull)))"

section \<open>Signing in and out\<close>

definition auth_register :: "env \<Rightarrow> NbookONVMClient \<Rightarrow> jsstr \<Rightarrow> jsstr \<Rightarrow> (world, unit) js" where
  "auth_register E client username password =
     js_bind (nb_register E client username password) (\<lambda>_. js_ret ())"

definition auth_login :: "env \<Rightarrow> NbookONVMClient \<Rightarrow> jsstr \<Rightarrow> jsstr \<Rightarrow> (world, json) js" where
  "auth_login E client username password =
     js_bind (nb_login E client username password) (\<lambda>(session, expiresMs).
     js_bind (setSession session username expiresMs) (\<lambda>_.
     js_ret (User_json username session expiresMs)))"

definition auth_logout :: "env \<Rightarrow> NbookONVMClient \<Rightarrow> (world, unit) js" where
  "auth_logout E client =
     js_bind (getSession E) (\<lambda>session.
     case session of
       None \<Rightarrow> js_ret ()
     | Some s \<Rightarrow>
         js_bind (js_catch (nb_logout E client (opt_prop ''session'' (Some s))) (\<lambda>error. js_ret ()))
           (\<lambda>_. clearSession))"

section \<open>The operations of the pages\<close>

definition getSessionToken :: "env \<Rightarrow> (world, jsval) js" where
  "getSessionToken E =
     js_bind (getSession E) (\<lambda>session. js_ret (or_val (opt_prop ''session'' session) (Some JNull)))"

text \<open>The two guards: on the token, and on the session that holds it.\<close>

definition with_token :: "env \<Rightarrow> (jsval \<Rightarrow> (world, 'a) js) \<Rightarrow> (world, 'a) js" where
  "with_token E call =
     js_bind (getSessionToken E) (\<lambda>sessionToken.
     if \<not> truthy_val sessionToken then js_throw (js_Error (js ''Not authenticated''))
     else call sessionToken)"

definition with_session :: "env \<Rightarrow> (jsval \<Rightarrow> (world, 'a) js) \<Rightarrow> (world, 'a) js" where
  "with_session E call =
     js_bind (getSession E) (\<lambda>session.
     if \<not> truthy_val (opt_prop ''session'' session) then js_throw (js_Error (js ''Not authenticated''))
     else call (opt_prop ''session'' session))"

definition createPost :: "env \<Rightarrow> NbookONVMClient \<Rightarrow> jsstr \<Rightarrow> jsval list \<Rightarrow> (world, Post) js" where
  "createPost E client text attachments =
     with_token E (\<lambda>sessionToken. nb_createPost E client sessionToken text attachments)"

definition likePost :: "env \<Rightarrow> NbookONVMClient \<Rightarrow> jsval \<Rightarrow> (world, Post) js" where
  "likePost E client postId = with_token E (\<lambda>sessionToken. nb_likePost E client sessionToken postId)"

definition commentOnPost :: "env \<Rightarrow> NbookONVMClient \<Rightarrow> jsval \<Rightarrow> jsstr \<Rightarrow> (world, Post) js" where
  "commentOnPost E client postId text =
     with_token E (\<lambda>sessionToken. nb_commentOnPost E client sessionToken postId text)"

definition getPost :: "env \<Rightarrow> NbookONVMClient \<Rightarrow> jsstr \<Rightarrow> (world, Post) js" where
  "getPost E client postId = nb_getPost E client postId"

definition followUser :: "env \<Rightarrow> NbookONVMClient \<Rightarrow> jsval \<Rightarrow> (world, unit) js" where
  "followUser E client username = with_token E (\<lambda>sessionToken. nb_follow E client sessionToken username)"

definition unfollowUser :: "env \<Rightarrow> NbookONVMClient \<Rightarrow> jsval \<Rightarrow> (world, unit) js" where
  "unfollowUser E client username = with_token E (\<lambda>sessionToken. nb_unfollow E client sessionToken username)"

definition getFeed :: "env \<Rightarrow> NbookONVMClient \<Rightarrow> int \<Rightarrow> bool \<Rightarrow> (world, Post list) js" where
  "getFeed E client limit discover =
     with_token E (\<lambda>sessionToken. nb_getFeed E client sessionToken limit discover)"

definition getProfile :: "env \<Rightarrow> NbookONVMClient \<Rightarrow> jsval \<Rightarrow> (world, ProfileView) js" where
  "getProfile E client username = nb_getProfile E client username"

definition updateProfile ::
  "env \<Rightarrow> NbookONVMClient \<Rightarrow> jsstr option \<Rightarrow> jsstr option \<Rightarrow> jsstr option \<Rightarrow> jsstr option \<Rightarrow> (world, unit) js" where
  "updateProfile E client displayName bio avatarBlobId bannerBlobId =
     with_session E (\<lambda>session. nb_updateProfile E client session displayName bio avatarBlobId bannerBlobId)"

definition deletePost :: "env \<Rightarrow> NbookONVMClient \<Rightarrow> jsval \<Rightarrow> (world, unit) js" where
  "deletePost E client postId = with_session E (\<lambda>session. nb_deletePost E client session postId)"

definition searchUsers :: "env \<Rightarrow> NbookONVMClient \<Rightarrow> jsstr \<Rightarrow> int \<Rightarrow> (world, UserSummary list) js" where
  "searchUsers E client query limit =
     with_session E (\<lambda>session. nb_searchUsers E client session query limit)"

definition getSuggestions :: "env \<Rightarrow> NbookONVMClient \<Rightarrow> int \<Rightarrow> (world, UserSummary list) js" where
  "getSuggestions E client limit = with_session E (\<lambda>session. nb_getSuggestions E client session limit)"

definition listFollowers :: "env \<Rightarrow> NbookONVMClient \<Rightarrow> jsval \<Rightarrow> int \<Rightarrow> (world, UserSummary list) js" where
  "listFollowers E client username limit =
     with_session E (\<lambda>session. nb_listFollowers E client session username limit)"

definition listFollowing :: "env \<Rightarrow> NbookONVMClient \<Rightarrow> jsval \<Rightarrow> int \<Rightarrow> (world, UserSummary list) js" where
  "listFollowing E client username limit =
     with_session E (\<lambda>session. nb_listFollowing E client session username limit)"

definition uploadBlob_api :: "env \<Rightarrow> NbookONVMClient \<Rightarrow> bytes \<Rightarrow> (world, jsval) js" where
  "uploadBlob_api E client file = nb_uploadBlob E client file"

definition fetchBlob_api :: "env \<Rightarrow> NbookONVMClient \<Rightarrow> jsval \<Rightarrow> (world, bytes \<times> jsstr) js" where
  "fetchBlob_api E client i = nb_fetchBlob E client i"

section \<open>The contract of a guard\<close>

abbreviation not_authenticated :: exn where
  "not_authenticated \<equiv> js_Error (js ''Not authenticated'')"

locale session_guard =
  fixes guard :: "env \<Rightarrow> (jsval \<Rightarrow> (world, 'a) js) \<Rightarrow> (world, 'a) js"
  assumes refuse: "getSession E w = (Inr None, w') \<Longrightarrow> guard E call w = (Inl not_authenticated, w')"
    and pass: "getSession E w = (Inr (Some user), w') \<Longrightarrow> opt_prop ''session'' (Some user) = token \<Longrightarrow>
      truthy_val token \<Longrightarrow> guard E call w = call token w'"
    and no_token: "getSession E w = (Inr (Some user), w') \<Longrightarrow>
      \<not> truthy_val (opt_prop ''session'' (Some user)) \<Longrightarrow> guard E call w = (Inl not_authenticated, w')"
    and unreadable: "getSession E w = (Inl e, w') \<Longrightarrow> guard E call w = (Inl e, w')"
begin

lemma success:
  assumes "guard E call w = (Inr x, v)"
  obtains user w' where "getSession E w = (Inr (Some user), w')"
    and "truthy_val (opt_prop ''session'' (Some user))"
    and "call (opt_prop ''session'' (Some user)) w' = (Inr x, v)"
proof (cases "getSession E w")
  case (Pair r w')
  show ?thesis
  proof (cases r)
    case (Inl e)
    with Pair unreadable [of E w e w' call] assms show ?thesis by auto
  next
    case (Inr s)
    then show ?thesis
      using Pair refuse [of E w w' call] pass [of E w _ w' _ call] no_token [of E w _ w' call] assms that
      by (cases s) fastforce+
  qed
qed

end

interpretation token: session_guard with_token
  by unfold_locales
    (auto simp: with_token_def getSessionToken_def js_monad or_val_def)

interpretation held: session_guard with_session
  by unfold_locales (simp_all add: with_session_def js_monad)

lemmas guarded_defs = createPost_def likePost_def commentOnPost_def followUser_def unfollowUser_def
  getFeed_def updateProfile_def deletePost_def searchUsers_def getSuggestions_def listFollowers_def
  listFollowing_def

text \<open>
  Without a session no guarded operation of the pages reaches the network: each of them throws
  \<^verbatim>\<open>Error("Not authenticated")\<close> right after looking for the session.
\<close>
lemma not_signed_in:
  assumes "getSession E w = (Inr None, w')"
  shows "createPost E cl t as w = (Inl not_authenticated, w') \<and> likePost E cl i w = (Inl not_authenticated, w')
    \<and> commentOnPost E cl i t w = (Inl not_authenticated, w') \<and> followUser E cl u w = (Inl not_authenticated, w')
    \<and> unfollowUser E cl u w = (Inl not_authenticated, w') \<and> getFeed E cl n d w = (Inl not_authenticated, w')
    \<and> updateProfile E cl dn bio av ba w = (Inl not_authenticated, w')
    \<and> deletePost E cl i w = (Inl not_authenticated, w') \<and> searchUsers E cl q n w = (Inl not_authenticated, w')
    \<and> getSuggestions E cl n w = (Inl not_authenticated, w')
    \<and> listFollowers E cl u n w = (Inl not_authenticated, w')
    \<and> listFollowing E cl u n w = (Inl not_authenticated, w') \<and> w_sent w' = w_sent w"
proof -
  have "w_sent w' = w_sent w"
    using assms by (auto simp: getSession_def clearSession_def removeItem_def js_monad
        split: if_splits option.splits sum.splits)
  then show ?thesis
    unfolding guarded_defs by (intro conjI token.refuse [OF assms] held.refuse [OF assms])
qed

lemma not_signed_in_witness:
  "likePost (fixed_env 200 ''x'') demo_nbook (Some (JStr (js ''p7''))) fresh_world = (Inl not_authenticated, fresh_world)"
proof -
  have "getSession (fixed_env 200 ''x'') fresh_world = (Inr None, fresh_world)"
    by (simp add: getSession_def js_monad has_window_def getItem_def fresh_world_def)
  from not_signed_in [OF this] show ?thesis by blast
qed

section \<open>The life of a session\<close>

lemma User_json_ok:
  assumes "pred_option json_ok session" "pred_option json_ok expiresAt"
  shows "json_ok (User_json username session expiresAt)"
  using assms unfolding User_json_def by (intro json_ok_obj_literal) auto

lemma User_json_fields:
  "opt_prop ''username'' (Some (User_json u s x)) = Some (JStr u)"
  "opt_prop ''session'' (Some (User_json u s x)) = s"
  "get_prop ''expiresAt'' (Some (User_json u s x)) = Inr x"
  using opt_prop_obj_literal [of "[str_field ''username'' u, (''session'', s), (''expiresAt'', x)]"]
    get_prop_obj_literal [of "[str_field ''username'' u, (''session'', s), (''expiresAt'', x)]" "''expiresAt''" x]
  by (simp_all add: User_json_def)

lemma stringify_User_not_Nil: "JSON_stringify (User_json u s x) \<noteq> []"
  by (simp add: User_json_def obj_literal_def)

lemma getSession_absent: "getItem session_key w = None \<Longrightarrow> getSession E w = (Inr None, w)"
  by (simp add: getSession_def js_monad)

lemma getSession_stored:
  assumes "has_window w" "getItem session_key w = Some (JSON_stringify (User_json u s x))"
    and "pred_option json_ok s" "pred_option json_ok x"
  shows "getSession E w =
    (let w' = w\<lparr>w_clock := Suc (w_clock w)\<rparr>
     in if gt_number x (of_int (e_now E (w_clock w))) then (Inr (Some (User_json u s x)), w')
        else (Inr None, removeItem session_key w'))"
proof -
  have "has_window (w\<lparr>w_clock := n\<rparr>)" for n using assms(1) by (simp add: has_window_def)
  then show ?thesis
    using assms(1,2) User_json_ok [OF assms(3,4), of u]
    by (simp add: getSession_def clearSession_def js_monad stringify_User_not_Nil parse_json_def
        JSON_parse_stringify User_json_fields Let_def)
qed

text \<open>
  C16. A session that is stored comes back whole, with name and token, exactly while its expiry lies in
  the future. Once it has expired it reads as signed out, is removed from the storage, and stays so.
\<close>
theorem session_life:
  assumes "has_window w" "pred_option json_ok s"
    and "x = Some (JNum (of_int t))" "\<bar>t\<bar> \<le> 9007199254740991"
  shows "let w1 = snd (setSession s u x w); (r, w2) = getSession E w1
    in if t > e_now E (w_clock w)
       then r = Inr (Some (User_json u s x)) \<and> w_storage w2 = w_storage w1
       else r = Inr None \<and> getItem session_key w2 = None \<and> getSession E w2 = (Inr None, w2)"
proof -
  let ?d = "JSON_stringify (User_json u s x)"
  let ?w1 = "setItem session_key ?d w"
  have w1: "snd (setSession s u x w) = ?w1" using assms(1) by (simp add: setSession_def js_monad)
  have live: "has_window ?w1" using assms(1) by (rule localStorage.live_put)
  have "getItem session_key ?w1 = Some ?d" using localStorage.get_put [OF assms(1)] by simp
  moreover have "pred_option json_ok x"
  proof -
    have "of_int \<bar>t\<bar> \<le> (of_int 9007199254740991 :: rat)" using assms(4) by (simp only: of_int_le_iff)
    then show ?thesis using assms(3) by simp
  qed
  moreover have c: "w_clock ?w1 = w_clock w" by (simp add: setItem_def)
  ultimately have g: "getSession E ?w1 =
      (let w' = ?w1\<lparr>w_clock := Suc (w_clock w)\<rparr>
       in if t > e_now E (w_clock w) then (Inr (Some (User_json u s x)), w')
          else (Inr None, removeItem session_key w'))"
    using getSession_stored [OF live _ assms(2), of u x E] assms(3) by simp
  have live': "has_window (?w1\<lparr>w_clock := n\<rparr>)" for n using live by (simp add: has_window_def)
  have "getItem session_key (removeItem session_key (?w1\<lparr>w_clock := n\<rparr>)) = None" for n
    using localStorage.get_del [OF live'] by simp
  then show ?thesis
    by (simp add: w1 g Let_def getSession_absent)
qed

theorem session_life_witness:
  "fst (getSession (fixed_env 200 ''x'') (snd (setSession (Some (JStr (js ''tok''))) (js ''ada'')
      (Some (JNum 1800000000000)) fresh_world))) =
     Inr (Some (User_json (js ''ada'') (Some (JStr (js ''tok''))) (Some (JNum 1800000000000))))
    \<and> fst (getSession (fixed_env 200 ''x'') (snd (setSession (Some (JStr (js ''tok''))) (js ''ada'')
      (Some (JNum 1600000000000)) fresh_world))) = Inr None"
  using session_life [of fresh_world "Some (JStr (js ''tok''))" "Some (JNum 1800000000000)" 1800000000000
      "js ''ada''" "fixed_env 200 ''x''"]
    session_life [of fresh_world "Some (JStr (js ''tok''))" "Some (JNum 1600000000000)" 1600000000000
      "js ''ada''" "fixed_env 200 ''x''"]
  by (simp add: has_window_def fixed_env_def Let_def case_prod_beta) (simp add: fresh_world_def)

text \<open>Calls of the program touch nothing of the page but the log of requests, by at most one entry.\<close>

definition sends_one :: "world \<Rightarrow> world \<Rightarrow> bool" where
  "sends_one w w' \<longleftrightarrow> (\<exists>rs. w' = w\<lparr>w_sent := w_sent w @ rs\<rparr> \<and> length rs \<le> 1)"

lemma sends_one_refl [simp]: "sends_one w w"
  unfolding sends_one_def by (rule exI [of _ "[]"]) simp

lemma sends_one_keeps:
  "sends_one w w' \<Longrightarrow> w_storage w' = w_storage w \<and> w_clock w' = w_clock w
     \<and> length (w_sent w') \<le> Suc (length (w_sent w))"
  by (auto simp: sends_one_def)

lemma execute_sends_one: "sends_one w (snd (nb_executeProgram E cl r w))"
proof -
  have "sends_one w (w\<lparr>w_sent := w_sent w @ [q]\<rparr>)" for q
    unfolding sends_one_def by (rule exI [of _ "[q]"]) simp
  then show ?thesis
    by (auto simp: nb_executeProgram_def execute_json_def js_monad split: sum.split)
qed

lemma program_op_sends_one: "sends_one w (snd (program_op E cl r fb rd w))"
  using execute_sends_one [of w E cl r]
  by (auto simp: program_op_def js_monad split: prod.split sum.split)

lemma login_sends_one: "sends_one w (snd (nb_login E cl u p w))"
  using execute_sends_one [of w E cl "LoginRequest u p"]
  by (auto simp: nb_login_def js_monad split: prod.split sum.split)

text \<open>
  C15. Signing out always ends the session of the page: whatever the server answers, even when it fails
  or refuses, \<^verbatim>\<open>logout\<close> returns normally, the page is signed out afterwards, and at most one
  request was sent.
\<close>
theorem logout_ends_session:
  assumes "getSession E w = (Inr r, w')"
  shows "fst (auth_logout E cl w) = Inr () \<and> fst (getSession E (snd (auth_logout E cl w))) = Inr None
    \<and> length (w_sent (snd (auth_logout E cl w))) \<le> Suc (length (w_sent w))"
proof -
  have kept: "w_sent w' = w_sent w" and storage: "has_window w' = has_window w"
    and none: "r = None \<Longrightarrow> fst (getSession E w') = Inr None"
    using assms
    by (auto simp: getSession_def clearSession_def removeItem_def has_window_def getItem_def js_monad
        map_of_delete split: if_splits option.splits sum.splits)
  show ?thesis
  proof (cases r)
    case None
    with assms kept none show ?thesis by (simp add: auth_logout_def js_monad)
  next
    case (Some s)
    then have "has_window w'" using assms storage by (auto simp: getSession_def js_monad split: if_splits)
    obtain o1 w2 where l: "nb_logout E cl (opt_prop ''session'' (Some s)) w' = (o1, w2)" by fastforce
    then have one: "sends_one w' w2"
      using program_op_sends_one [of w' E cl "LogoutRequest (opt_prop ''session'' (Some s))"]
      by (metis nb_logout_def snd_conv)
    with \<open>has_window w'\<close> have live: "has_window w2" by (auto simp: sends_one_def has_window_def)
    then have "auth_logout E cl w = (Inr (), removeItem session_key w2)"
      using assms l Some
      by (cases o1) (simp_all add: auth_logout_def clearSession_def js_monad)
    moreover have "getItem session_key (removeItem session_key w2) = None"
      using localStorage.get_del [OF live] by simp
    ultimately show ?thesis
      using sends_one_keeps [OF one] kept by (simp add: getSession_absent) (simp add: removeItem_def)
  qed
qed

theorem logout_ends_session_witness:
  "fst (getSession (offline_env CTypeError) (snd (auth_logout (offline_env CTypeError) demo_nbook
     (snd (setSession (Some (JStr (js ''tok''))) (js ''ada'') (Some (JNum 1800000000000)) fresh_world))))) =
   Inr None"
proof -
  let ?w = "snd (setSession (Some (JStr (js ''tok''))) (js ''ada'') (Some (JNum 1800000000000)) fresh_world)"
  have "has_window ?w" "getItem session_key ?w = Some (JSON_stringify (User_json (js ''ada'')
      (Some (JStr (js ''tok''))) (Some (JNum 1800000000000))))"
    by (simp_all add: setSession_def js_monad has_window_def fresh_world_def setItem_def getItem_def)
  then obtain r w' where "getSession (offline_env CTypeError) ?w = (Inr r, w')"
    using getSession_stored [of ?w "js ''ada''" "Some (JStr (js ''tok''))" "Some (JNum 1800000000000)"
        "offline_env CTypeError"]
    by (auto simp: Let_def split: if_splits)
  from logout_ends_session [OF this] show ?thesis by blast
qed

text \<open>
  C14. After a successful login every guarded operation sends the new token: while the session has not
  expired, each is the client's operation with exactly the token that the program issued.
\<close>
theorem login_token_used:
  assumes "has_window w" "nb_login E cl u p w = (Inr (Some (JStr tok), Some (JNum (of_int x))), w1)"
    and "tok \<noteq> []" "\<bar>x\<bar> \<le> 9007199254740991" "x > e_now E (w_clock w)"
  shows "\<exists>w2 w3. auth_login E cl u p w = (Inr (User_json u (Some (JStr tok)) (Some (JNum (of_int x)))), w2)
    \<and> w_sent w3 = w_sent w2 \<and> w_storage w3 = w_storage w2
    \<and> createPost E cl t as w2 = nb_createPost E cl (Some (JStr tok)) t as w3
    \<and> likePost E cl i w2 = nb_likePost E cl (Some (JStr tok)) i w3
    \<and> commentOnPost E cl i t w2 = nb_commentOnPost E cl (Some (JStr tok)) i t w3
    \<and> followUser E cl v w2 = nb_follow E cl (Some (JStr tok)) v w3
    \<and> unfollowUser E cl v w2 = nb_unfollow E cl (Some (JStr tok)) v w3
    \<and> getFeed E cl n d w2 = nb_getFeed E cl (Some (JStr tok)) n d w3
    \<and> updateProfile E cl dn bio av ba w2 = nb_updateProfile E cl (Some (JStr tok)) dn bio av ba w3
    \<and> deletePost E cl i w2 = nb_deletePost E cl (Some (JStr tok)) i w3
    \<and> searchUsers E cl q n w2 = nb_searchUsers E cl (Some (JStr tok)) q n w3
    \<and> getSuggestions E cl n w2 = nb_getSuggestions E cl (Some (JStr tok)) n w3
    \<and> listFollowers E cl v n w2 = nb_listFollowers E cl (Some (JStr tok)) v n w3
    \<and> listFollowing E cl v n w2 = nb_listFollowing E cl (Some (JStr tok)) v n w3"
proof -
  let ?s = "Some (JStr tok)" and ?x = "Some (JNum (of_int x))"
  let ?w2 = "setItem session_key (JSON_stringify (User_json u ?s ?x)) w1"
  let ?w3 = "?w2\<lparr>w_clock := Suc (w_clock w)\<rparr>"
  have one: "sends_one w w1" using login_sends_one [of w E cl u p] assms(2) by simp
  then have w1: "has_window w1" and c: "w_clock w1 = w_clock w"
    using assms(1) sends_one_keeps by (auto simp: has_window_def)
  have login: "auth_login E cl u p w = (Inr (User_json u ?s ?x), ?w2)"
    using assms(2) w1 by (simp add: auth_login_def setSession_def js_monad)
  have "of_int \<bar>x\<bar> \<le> (of_int 9007199254740991 :: rat)" using assms(4) by (simp only: of_int_le_iff)
  then have g: "getSession E ?w2 = (Inr (Some (User_json u ?s ?x)), ?w3)"
    using getSession_stored [OF localStorage.live_put [OF w1], of session_key _ u ?s ?x E]
      localStorage.get_put [OF w1] assms(5) c
    by (simp add: Let_def setItem_def)
  have tr: "truthy_val ?s" using assms(3) by simp
  note pass = token.pass [OF g User_json_fields(2) tr] held.pass [OF g User_json_fields(2) tr]
  show ?thesis
    unfolding guarded_defs
    by (rule exI [of _ ?w2], rule exI [of _ ?w3]) (intro conjI login pass, simp_all)
qed

definition login_program :: "json \<Rightarrow> json" where
  "login_program _ = obj_literal [str_field ''status'' (js ''login_ok''), str_field ''session'' (js ''tok''),
     num_field ''expires_ms'' 1800000000000]"

lemma login_answer:
  "\<exists>w1. nb_login (program_env login_program) demo_nbook (js ''ada'') (js ''pw'') fresh_world =
     (Inr (Some (JStr (js ''tok'')), Some (JNum (of_int 1800000000000))), w1)"
proof -
  let ?r = "LoginRequest (js ''ada'') (js ''pw'')"
  have "latin1 (JSON_stringify (Request_json ?r))" "latin1 (JSON_stringify (login_program JNull))"
    by (simp_all add: stringify_eval login_program_def num_str_def show_int_def latin1_show_nat)
  moreover have "json_ok (Request_json ?r)" "json_ok (login_program (Request_json ?r))"
    "truthy_val (opt_prop ''status'' (Some (login_program (Request_json ?r))))"
    by (simp_all add: login_program_def obj_literal_def)
  ultimately have "\<exists>w1. nb_executeProgram (program_env login_program) demo_nbook ?r fresh_world =
      (Inr (login_program JNull), w1)"
    using executeProgram_reply [of "program_env login_program" login_program ?r demo_nbook fresh_world]
    by (simp add: program_env_def prod_eq_iff login_program_def)
  then show ?thesis
    by (auto simp: nb_login_def js_monad has_status_def login_program_def obj_literal_def)
qed

theorem login_token_used_witness:
  "\<exists>w2 w3. likePost (program_env login_program) demo_nbook (Some (JStr (js ''p7''))) w2 =
       nb_likePost (program_env login_program) demo_nbook (Some (JStr (js ''tok''))) (Some (JStr (js ''p7''))) w3
     \<and> snd (auth_login (program_env login_program) demo_nbook (js ''ada'') (js ''pw'') fresh_world) = w2"
proof -
  obtain w1 where l: "nb_login (program_env login_program) demo_nbook (js ''ada'') (js ''pw'') fresh_world =
      (Inr (Some (JStr (js ''tok'')), Some (JNum (of_int 1800000000000))), w1)"
    using login_answer by blast
  have "has_window fresh_world" "js ''tok'' \<noteq> []"
    "1800000000000 > e_now (program_env login_program) (w_clock fresh_world)"
    by (simp_all add: has_window_def fresh_world_def program_env_def fixed_env_def)
  with login_token_used [OF _ l] show ?thesis by fastforce
qed

end
