(* ===== verification/Nbook_Route.thy ===== *)
theory Nbook_Route
  imports Nbook_Client Sdk_Client
begin

text \<open>
  \<^verbatim>\<open>wasm_programs/nbook/ui/app/api/onvm/route.ts\<close> and \<^verbatim>\<open>app/api/onvm/blob/[id]/route.ts\<close>: the
  server side of the social network's page. A handler runs on the module's client variable and the
  world of the server; its result is the \<^verbatim>\<open>NextResponse\<close> it constructs, kept as the constructor
  call with its arguments. Calls are served one after the other.
\<close>

section \<open>Handlers and their state\<close>

datatype NextResponse =
    NextResponse_json json int
  | NextResponse_new bytes int "(jsstr \<times> jsstr) list"

record NextRequest =
  nq_headers :: "(jsstr \<times> jsstr) list"
  nq_body :: "exn + bytes"

type_synonym route_state = "OnvmClient option \<times> world"

text \<open>The environment variables of the server.\<close>

record server_vars =
  RPC_ENDPOINT :: "jsstr option"
  PROGRAM_ID :: "jsstr option"
  PROJECT_ID :: "jsstr option"
  PROJECT_SECRET :: "jsstr option"

definition on_client :: "OnvmClient \<Rightarrow> 'a sdk \<Rightarrow> (route_state, 'a) js" where
  [js_monad]: "on_client c m = (\<lambda>(ci, w). case m (c, w) of (r, (c', w')) \<Rightarrow> (r, (Some c', w')))"

definition request_json :: "env \<Rightarrow> NextRequest \<Rightarrow> exn + json" where
  "request_json E req =
     r_bind (map_sum id text_decode (nq_body req)) (parse_json E)"

definition error_json :: "string \<Rightarrow> exn \<Rightarrow> NextResponse" where
  "error_json fallback error =
     NextResponse_json (obj_literal [str_field ''error'' (error_text error (js fallback))]) 500"

section \<open>The operations route\<close>

definition no_rpc_url :: exn where
  "no_rpc_url = native CTypeError (js ''Cannot read properties of undefined (reading '' @ [39] @ js ''replace'' @ [39, 41])"

definition getClient :: "server_vars \<Rightarrow> (route_state, OnvmClient) js" where
  "getClient vars =
     js_bind (js_gets fst) (\<lambda>clientInstance.
     case clientInstance of
       Some c \<Rightarrow> js_ret c
     | None \<Rightarrow>
         js_bind (js_lift (case RPC_ENDPOINT vars of
           None \<Rightarrow> Inl no_rpc_url
         | Some url \<Rightarrow> new_OnvmClient
             \<lparr>cf_rpcUrl = url, cf_programId = PROGRAM_ID vars, cf_projectId = PROJECT_ID vars,
              cf_projectSecret = PROJECT_SECRET vars, cf_mode = None, cf_timeout = Some 30000\<rparr>)) (\<lambda>c.
         js_bind (js_modify (\<lambda>(_, w). (Some c, w))) (\<lambda>_. js_ret c)))"

definition destructure_error :: exn where
  "destructure_error = native CTypeError
     (js ''Cannot destructure property '' @ [39] @ js ''operation'' @ [39] @ js '' of '' @ [39]
        @ js ''body'' @ [39] @ js '' as it is null.'')"

definition post_operation :: "env \<Rightarrow> aead_open \<Rightarrow> OnvmClient \<Rightarrow> json \<Rightarrow> (route_state, NextResponse) js" where
  "post_operation E aead client body =
     (if body = JNull then js_throw destructure_error
      else
        (let operation = opt_prop ''operation'' (Some body)
         in if operation = Some (JStr (js ''executeProgram'')) then
              js_bind (on_client client (executeProgram E aead
                \<lparr>ex_program_id = opt_prop ''program_id'' (Some body),
                 ex_input_base64 = opt_prop ''input_base64'' (Some body)\<rparr>)) (\<lambda>result.
              js_ret (NextResponse_json result 200))
            else if operation = Some (JStr (js ''downloadBlob'')) then
              js_bind (on_client client (downloadBlob E aead (val_text (opt_prop ''id'' (Some body))))) (\<lambda>buffer.
              js_ret (NextResponse_new buffer 200
                [(js ''Content-Type'', js ''application/octet-stream'')]))
            else
              js_ret (NextResponse_json (obj_literal [str_field ''error'' (js ''Invalid operation'')]) 400)))"

definition POST :: "env \<Rightarrow> aead_open \<Rightarrow> server_vars \<Rightarrow> NextRequest \<Rightarrow> (route_state, NextResponse) js" where
  "POST E aead vars req =
     (let contentType = or_str (obj_get (nq_headers req) (js ''content-type'')) [] in
      js_bind (getClient vars) (\<lambda>client.
      if \<not> str_includes contentType (js ''application/json'') then
        js_catch
          (js_bind (js_lift (nq_body req)) (\<lambda>uint8Array.
           js_bind (on_client client (uploadBlob E aead uint8Array None)) (\<lambda>result.
           js_ret (NextResponse_json result 200))))
          (\<lambda>error. js_ret (error_json ''Upload failed'' error))
      else
        js_catch
          (js_bind (js_lift (request_json E req)) (\<lambda>body. post_operation E aead client body))
          (\<lambda>error. js_ret (error_json ''Unknown error'' error))))"

section \<open>The blob route\<close>

definition blob_getClient :: "server_vars \<Rightarrow> (route_state, OnvmClient) js" where
  "blob_getClient vars =
     js_bind (js_gets fst) (\<lambda>clientInstance.
     case clientInstance of
       Some c \<Rightarrow> js_ret c
     | None \<Rightarrow>
         js_bind (js_lift (new_OnvmClient
           \<lparr>cf_rpcUrl = or_str (RPC_ENDPOINT vars) [], cf_programId = None, cf_projectId = PROJECT_ID vars,
            cf_projectSecret = PROJECT_SECRET vars, cf_mode = None, cf_timeout = Some 30000\<rparr>)) (\<lambda>c.
         js_bind (js_modify (\<lambda>(_, w). (Some c, w))) (\<lambda>_. js_ret c)))"

definition blob_sniff :: "bytes \<Rightarrow> jsstr" where
  "blob_sniff buffer =
     (let b = byte_is buffer;
          prefix = utf8_dec (take 5 buffer)
      in if length buffer \<ge> 8 \<and> b 0 0x89 \<and> b 1 0x50 \<and> b 2 0x4e \<and> b 3 0x47 then js ''image/png''
         else if length buffer \<ge> 8 \<and> b 0 0xff \<and> b 1 0xd8 \<and> b 2 0xff then js ''image/jpeg''
         else if length buffer \<ge> 8 \<and> b 0 0x47 \<and> b 1 0x49 \<and> b 2 0x46 \<and> b 3 0x38 then js ''image/gif''
         else if length buffer \<ge> 8 \<and> b 0 0x52 \<and> b 1 0x49 \<and> b 2 0x46 \<and> b 3 0x46 \<and> length buffer \<ge> 12
            \<and> b 8 0x57 \<and> b 9 0x45 \<and> b 10 0x42 \<and> b 11 0x50 then js ''image/webp''
         else if starts_with prefix (js ''<?xml'') \<or> starts_with prefix (js ''<svg'') then js ''image/svg+xml''
         else js ''application/octet-stream'')"

definition GET_blob :: "env \<Rightarrow> aead_open \<Rightarrow> server_vars \<Rightarrow> jsstr \<Rightarrow> (route_state, NextResponse) js" where
  "GET_blob E aead vars blobId =
     (if blobId = [] then
        js_ret (NextResponse_json (obj_literal [str_field ''error'' (js ''missing blob id'')]) 400)
      else
        js_catch
          (js_bind (blob_getClient vars) (\<lambda>client.
           js_bind (on_client client (downloadBlob E aead blobId)) (\<lambda>buffer.
           js_ret (NextResponse_new buffer 200
             [(js ''Content-Type'', blob_sniff buffer), (js ''Cache-Control'', js ''public, max-age=60'')]))))
          (\<lambda>error. js_ret (error_json ''Failed to fetch blob'' error)))"

section \<open>The page talking to the routes\<close>

text \<open>
  How a request of the page arrives at a handler, and what is documented of a response that a handler
  constructs: its status, its body (JSON text for \<^verbatim>\<open>NextResponse.json\<close>) and its headers.
\<close>

definition to_next :: "http_request \<Rightarrow> NextRequest" where
  "to_next rq =
     \<lparr>nq_headers = map (\<lambda>(k, v). (lower_ascii k, v)) (rq_headers rq),
      nq_body = Inr (case rq_body rq of NoBody \<Rightarrow> [] | TextBody s \<Rightarrow> utf8_enc s | BytesBody b \<Rightarrow> b)\<rparr>"

definition next_doc :: "(NextResponse \<Rightarrow> http_response) \<Rightarrow> bool" where
  "next_doc serve \<longleftrightarrow>
     (\<forall>v st. rs_status (serve (NextResponse_json v st)) = st
        \<and> rs_body (serve (NextResponse_json v st)) = Inr (utf8_enc (JSON_stringify v)))
     \<and> (\<forall>b st h. rs_status (serve (NextResponse_new b st h)) = st
        \<and> rs_body (serve (NextResponse_new b st h)) = Inr b
        \<and> rs_headers (serve (NextResponse_new b st h)) = map (\<lambda>(k, v). (lower_ascii k, v)) h)"

definition route_env :: "env \<Rightarrow> (NextResponse \<Rightarrow> http_response) \<Rightarrow> (NextRequest \<Rightarrow> exn + NextResponse) \<Rightarrow> env" where
  "route_env E serve handler = E\<lparr>e_fetch := (\<lambda>_ rq.
     case handler (to_next rq) of
       Inl _ \<Rightarrow> Inr \<lparr>rs_status = 500, rs_statusText = [], rs_headers = [], rs_body = Inr []\<rparr>
     | Inr resp \<Rightarrow> Inr (serve resp))\<rparr>"

lemma lower_content_type: "lower_ascii (js ''Content-Type'') = js ''content-type''"
  by (simp add: lower_ascii_def js_def ju_def)

lemma str_includes_self: "str_includes s s"
  unfolding str_includes_iff by (rule exI [of _ "[]"], rule exI [of _ "[]"]) simp

lemma json_request:
  assumes "json_ok v"
  shows "request_json E (to_next (post_request url ''application/json'' (TextBody (JSON_stringify v)))) = Inr v"
    and "str_includes (or_str (obj_get (nq_headers (to_next (post_request url ''application/json'' b))) (js ''content-type'')) [])
      (js ''application/json'')"
proof -
  show "request_json E (to_next (post_request url ''application/json'' (TextBody (JSON_stringify v)))) = Inr v"
    using JSON_parse_stringify [OF assms] text_decode_json [OF assms]
    by (simp add: request_json_def to_next_def post_request_def parse_json_def)
  show "str_includes (or_str (obj_get (nq_headers (to_next (post_request url ''application/json'' b))) (js ''content-type'')) [])
      (js ''application/json'')"
    using str_includes_self by (simp add: to_next_def post_request_def lower_content_type or_str_def)
qed

lemma execute_body_fields:
  "json_ok (execute_body cl b)" "execute_body cl b \<noteq> JNull"
  "opt_prop ''operation'' (Some (execute_body cl b)) = Some (JStr (js ''executeProgram''))"
  "opt_prop ''program_id'' (Some (execute_body cl b)) = Some (JStr (nb_programId cl))"
  "opt_prop ''input_base64'' (Some (execute_body cl b)) = Some (JStr b)"
proof -
  show "json_ok (execute_body cl b)" unfolding execute_body_def by (rule json_ok_obj_literal) auto
  show "execute_body cl b \<noteq> JNull" by (simp add: execute_body_def obj_literal_def)
qed (unfold execute_body_def, (rule opt_prop_obj_literal; simp)+)

definition download_body :: "jsstr \<Rightarrow> json" where
  "download_body i = obj_literal [str_field ''operation'' (js ''downloadBlob''), str_field ''id'' i]"

lemma download_body_fields:
  "json_ok (download_body i)" "download_body i \<noteq> JNull"
  "opt_prop ''operation'' (Some (download_body i)) = Some (JStr (js ''downloadBlob''))"
  "opt_prop ''id'' (Some (download_body i)) = Some (JStr i)"
proof -
  show "json_ok (download_body i)" unfolding download_body_def by (rule json_ok_obj_literal) auto
  show "download_body i \<noteq> JNull" by (simp add: download_body_def obj_literal_def)
qed (unfold download_body_def, (rule opt_prop_obj_literal; simp)+)

lemma getClient_cached: "getClient vars (Some c, w) = (Inr c, (Some c, w))"
  by (simp add: getClient_def js_monad)

lemma POST_json:
  assumes "json_ok v"
  shows "POST E aead vars (to_next (post_request url ''application/json'' (TextBody (JSON_stringify v)))) (Some c, w) =
    js_catch (post_operation E aead c v) (\<lambda>error. js_ret (error_json ''Unknown error'' error)) (Some c, w)"
proof -
  let ?q = "to_next (post_request url ''application/json'' (TextBody (JSON_stringify v)))"
  have "str_includes (or_str (obj_get (nq_headers ?q) (js ''content-type'')) []) (js ''application/json'')"
    by (rule json_request(2) [OF assms])
  then show ?thesis
    by (simp add: POST_def Let_def js_monad getClient_cached json_request(1) [OF assms])
qed

lemma POST_bytes:
  "POST E aead vars (to_next (post_request url ''application/octet-stream'' (BytesBody bs))) (Some c, w) =
    (case uploadBlob E aead bs None (c, w) of
       (Inl e, (c', w')) \<Rightarrow> (Inr (error_json ''Upload failed'' e), (Some c', w'))
     | (Inr v, (c', w')) \<Rightarrow> (Inr (NextResponse_json v 200), (Some c', w')))"
proof -
  have "\<not> str_includes (js ''application/octet-stream'') (js ''application/json'')" by code_simp
  then show ?thesis
    by (simp add: POST_def to_next_def post_request_def lower_content_type or_str_def Let_def js_monad
        getClient_cached split: prod.split sum.split)
qed

text \<open>The page's environment when its API calls reach the operations route with client \<open>c\<close>.\<close>

abbreviation page_env where
  "page_env E1 serve E2 aead vars c w2 \<equiv> route_env E1 serve (\<lambda>q. fst (POST E2 aead vars q (Some c, w2)))"

lemma resp_json_next:
  assumes "next_doc serve" "json_ok v"
  shows "resp_json E (serve (NextResponse_json v st)) = Inr v"
    and "resp_ok (serve (NextResponse_json v st)) \<longleftrightarrow> 200 \<le> st \<and> st \<le> 299"
proof -
  have "rs_status (serve (NextResponse_json v st)) = st"
    "rs_body (serve (NextResponse_json v st)) = Inr (utf8_enc (JSON_stringify v))"
    using assms(1) unfolding next_doc_def by blast+
  then show "resp_json E (serve (NextResponse_json v st)) = Inr v"
    "resp_ok (serve (NextResponse_json v st)) \<longleftrightarrow> 200 \<le> st \<and> st \<le> 299"
    using assms(2)
    by (simp_all add: resp_json_def resp_text_def text_decode_json parse_json_def JSON_parse_stringify resp_ok_def)
qed

lemma response_error_json:
  assumes "next_doc serve" "is_Error e" "exn_message e \<noteq> []"
  shows "response_error E fb (serve (error_json fb' e)) = js_Error (exn_message e)"
    and "\<not> resp_ok (serve (error_json fb' e))"
proof -
  let ?v = "obj_literal [str_field ''error'' (exn_message e)]"
  have "json_ok ?v" by (rule json_ok_obj_literal) auto
  from resp_json_next [OF assms(1) this, where st = 500] show
    "response_error E fb (serve (error_json fb' e)) = js_Error (exn_message e)"
    "\<not> resp_ok (serve (error_json fb' e))"
    using assms(2,3)
    by (simp_all add: response_error_def error_json_def error_text_def obj_literal_def or_val_def
        error_message_def)
qed

lemma page_fetch:
  "fetch (page_env E1 serve E2 aead vars c w2) rq w =
     ((case fst (POST E2 aead vars (to_next rq) (Some c, w2)) of
         Inl _ \<Rightarrow> Inr \<lparr>rs_status = 500, rs_statusText = [], rs_headers = [], rs_body = Inr []\<rparr>
       | Inr resp \<Rightarrow> Inr (serve resp)), w\<lparr>w_sent := w_sent w @ [rq]\<rparr>)"
  by (simp add: fetch_def route_env_def)

text \<open>
  C20. A call of the page goes through: page, API route and SDK together hand the program's answer to
  the page. When the SDK's execution of the Base64 text of the request returns a result with the
  Base64 text of an answer, the page's call returns that answer.
\<close>
theorem relay_execute:
  assumes "next_doc serve"
    and "btoa (JSON_stringify (Request_json r)) = Some b"
    and "executeProgram E2 aead \<lparr>ex_program_id = Some (JStr (nb_programId cl)), ex_input_base64 = Some (JStr b)\<rparr>
      (c, w2) = (Inr (JObj kvs), s')" "json_ok (JObj kvs)"
    and "obj_get kvs (js ''return_base64'') = Some (JStr (b64_enc (map (\<lambda>u. u8 (unat u)) (JSON_stringify v))))"
    and "json_ok v" "latin1 (JSON_stringify v)" "truthy_val (opt_prop ''status'' (Some v))"
  shows "fst (nb_executeProgram (page_env E1 serve E2 aead vars c w2) cl r w) = Inr v"
proof -
  obtain c' w' where s: "s' = (c', w')" by (cases s')
  have "fst (POST E2 aead vars (to_next (post_request (apiEndpoint cl) ''application/json''
      (TextBody (JSON_stringify (execute_body cl b))))) (Some c, w2)) = Inr (NextResponse_json (JObj kvs) 200)"
    using assms(3)
    by (simp add: POST_json execute_body_fields post_operation_def Let_def js_monad s)
  then show ?thesis
    using resp_json_next [OF assms(1,4), where st = 200]
    by (simp add: nb_executeProgram_def execute_json_def btoa_throw_def assms(2) js_bind_def page_fetch
        read_result_b64 [OF assms(6-8,5)] js_ret_def)
qed

text \<open>
  Blobs go through unchanged: the page's download returns exactly the bytes the SDK returned, typed
  by sniffing alone, and the page's upload returns the identifier of the SDK's answer.
\<close>
lemma relay_blobs:
  assumes "next_doc serve"
    and "downloadBlob E2 aead i (c, w2) = (Inr bs, s')"
    and "uploadBlob E2 aead up None (c, w2) = (Inr (JObj kvs), t')" "json_ok (JObj kvs)"
  shows "fst (nb_fetchBlob (page_env E1 serve E2 aead vars c w2) cl (Some (JStr i)) w) =
      Inr (bs, sniffContentType bs [])
    \<and> fst (nb_uploadBlob (page_env E1 serve E2 aead vars c w2) cl up w) = Inr (obj_get kvs (js ''id''))"
proof
  obtain c' w' where s: "s' = (c', w')" by (cases s')
  let ?resp = "NextResponse_new bs 200 [(js ''Content-Type'', js ''application/octet-stream'')]"
  have p: "fst (POST E2 aead vars (to_next (post_request (apiEndpoint cl) ''application/json''
      (TextBody (JSON_stringify (download_body i))))) (Some c, w2)) = Inr ?resp"
    using assms(2)
    by (simp add: POST_json download_body_fields post_operation_def Let_def js_monad s val_text_def)
  have "rs_status (serve ?resp) = 200" "rs_body (serve ?resp) = Inr bs"
    "rs_headers (serve ?resp) = [(js ''content-type'', js ''application/octet-stream'')]"
    using assms(1) by (simp_all add: next_doc_def lower_content_type)
  moreover have "sniffContentType bs (js ''application/octet-stream'') = sniffContentType bs []"
    by (simp add: sniffContentType_def)
  ultimately show "fst (nb_fetchBlob (page_env E1 serve E2 aead vars c w2) cl (Some (JStr i)) w) =
      Inr (bs, sniffContentType bs [])"
    using p [unfolded download_body_def]
    by (simp add: nb_fetchBlob_def js_bind_def page_fetch resp_ok_def resp_bytes_def js_ret_def header_get_def
        or_str_def Let_def)
next
  obtain c' w' where t: "t' = (c', w')" by (cases t')
  show "fst (nb_uploadBlob (page_env E1 serve E2 aead vars c w2) cl up w) = Inr (obj_get kvs (js ''id''))"
    using assms(3) resp_json_next [OF assms(1,4), where st = 200]
    by (simp add: nb_uploadBlob_def js_bind_def page_fetch POST_bytes t js_ret_def)
qed

text \<open>
  C21. Failures keep their message on the way to the page: whatever error with a message the SDK throws
  while a route executes a program, downloads or uploads, the page's call throws an \<^verbatim>\<open>Error\<close> with
  that same message.
\<close>
theorem relay_errors:
  assumes "next_doc serve" "is_Error e" "exn_message e \<noteq> []"
  shows "(btoa (JSON_stringify (Request_json r)) = Some b \<longrightarrow>
      fst (executeProgram E2 aead \<lparr>ex_program_id = Some (JStr (nb_programId cl)), ex_input_base64 = Some (JStr b)\<rparr>
        (c, w2)) = Inl e \<longrightarrow>
      fst (nb_executeProgram (page_env E1 serve E2 aead vars c w2) cl r w) = Inl (js_Error (exn_message e)))
    \<and> (fst (downloadBlob E2 aead i (c, w2)) = Inl e \<longrightarrow>
      fst (nb_fetchBlob (page_env E1 serve E2 aead vars c w2) cl (Some (JStr i)) w) = Inl (js_Error (exn_message e)))
    \<and> (fst (uploadBlob E2 aead up None (c, w2)) = Inl e \<longrightarrow>
      fst (nb_uploadBlob (page_env E1 serve E2 aead vars c w2) cl up w) = Inl (js_Error (exn_message e)))"
proof (intro conjI impI)
  note err = response_error_json [OF assms]
  { assume b: "btoa (JSON_stringify (Request_json r)) = Some b"
      and x: "fst (executeProgram E2 aead
        \<lparr>ex_program_id = Some (JStr (nb_programId cl)), ex_input_base64 = Some (JStr b)\<rparr> (c, w2)) = Inl e"
    have "fst (POST E2 aead vars (to_next (post_request (apiEndpoint cl) ''application/json''
        (TextBody (JSON_stringify (execute_body cl b))))) (Some c, w2)) = Inr (error_json ''Unknown error'' e)"
      using x by (auto simp: POST_json execute_body_fields post_operation_def Let_def js_monad
          split: prod.split)
    then show "fst (nb_executeProgram (page_env E1 serve E2 aead vars c w2) cl r w) = Inl (js_Error (exn_message e))"
      by (simp add: nb_executeProgram_def execute_json_def btoa_throw_def b js_bind_def page_fetch err
          js_ret_def js_throw_def) }
  { assume x: "fst (downloadBlob E2 aead i (c, w2)) = Inl e"
    have "fst (POST E2 aead vars (to_next (post_request (apiEndpoint cl) ''application/json''
        (TextBody (JSON_stringify (download_body i))))) (Some c, w2)) = Inr (error_json ''Unknown error'' e)"
      using x by (auto simp: POST_json download_body_fields post_operation_def Let_def js_monad val_text_def
          split: prod.split)
    then show "fst (nb_fetchBlob (page_env E1 serve E2 aead vars c w2) cl (Some (JStr i)) w) =
        Inl (js_Error (exn_message e))"
      by (simp add: nb_fetchBlob_def download_body_def js_bind_def page_fetch err js_throw_def) }
  { assume x: "fst (uploadBlob E2 aead up None (c, w2)) = Inl e"
    then show "fst (nb_uploadBlob (page_env E1 serve E2 aead vars c w2) cl up w) = Inl (js_Error (exn_message e))"
      by (auto simp: nb_uploadBlob_def js_bind_def page_fetch POST_bytes err js_throw_def
          split: prod.split sum.split) }
qed

section \<open>Concrete routes\<close>

definition demo_serve :: "NextResponse \<Rightarrow> http_response" where
  "demo_serve resp =
     (case resp of
        NextResponse_json v st \<Rightarrow>
          \<lparr>rs_status = st, rs_statusText = [], rs_headers = [], rs_body = Inr (utf8_enc (JSON_stringify v))\<rparr>
      | NextResponse_new b st h \<Rightarrow>
          \<lparr>rs_status = st, rs_statusText = [], rs_headers = map (\<lambda>(k, v). (lower_ascii k, v)) h, rs_body = Inr b\<rparr>)"

lemma demo_serve_doc: "next_doc demo_serve"
  by (simp add: next_doc_def demo_serve_def)

definition demo_vars :: server_vars where
  "demo_vars = \<lparr>RPC_ENDPOINT = None, PROGRAM_ID = None, PROJECT_ID = None, PROJECT_SECRET = None\<rparr>"

abbreviation no_aead :: aead_open where
  "no_aead \<equiv> (\<lambda>_ _ _ _. Inr None)"

definition demo_answer :: json where
  "demo_answer = obj_literal [str_field ''status'' (js ''ok''), str_field ''message'' (js ''done'')]"

definition demo_result :: json where
  "demo_result = JObj [(js ''return_base64'', JStr (b64_enc (map (\<lambda>u. u8 (unat u)) (JSON_stringify demo_answer))))]"

lemma demo_execute:
  assumes "json_ok v"
  shows "\<exists>s'. executeProgram (json_env v) no_aead x (plain_client, fresh_world) = (Inr v, s')"
proof -
  have "fst (executeProgram (json_env v) no_aead x (plain_client, fresh_world)) = Inr v"
    unfolding executeProgram_def
    by (rule request_unkeyed [where m = Dev]) (simp_all add: plain_client_def assms json_env_def)
  then show ?thesis by (metis prod.collapse)
qed

theorem relay_execute_witness:
  "fst (nb_executeProgram (page_env (fixed_env 200 []) demo_serve (json_env demo_result) no_aead demo_vars
     plain_client fresh_world) demo_nbook (GetPostRequest (js ''p7'')) fresh_world) = Inr demo_answer"
proof -
  have "latin1 (JSON_stringify (Request_json (GetPostRequest (js ''p7''))))"
    by (simp add: stringify_eval)
  then obtain b where b: "btoa (JSON_stringify (Request_json (GetPostRequest (js ''p7'')))) = Some b"
    by (simp add: btoa_def)
  have ok: "json_ok demo_result" by (simp add: demo_result_def)
  from demo_execute [OF this] obtain s' where x: "executeProgram (json_env demo_result) no_aead
      \<lparr>ex_program_id = Some (JStr (nb_programId demo_nbook)), ex_input_base64 = Some (JStr b)\<rparr>
      (plain_client, fresh_world) = (Inr demo_result, s')" by blast
  have "latin1 (JSON_stringify demo_answer)" by (simp add: demo_answer_def stringify_eval)
  moreover have "json_ok demo_answer" "truthy_val (opt_prop ''status'' (Some demo_answer))"
    by (simp_all add: demo_answer_def obj_literal_def)
  moreover have "obj_get [(js ''return_base64'', JStr (b64_enc (map (\<lambda>u. u8 (unat u)) (JSON_stringify demo_answer))))]
      (js ''return_base64'') = Some (JStr (b64_enc (map (\<lambda>u. u8 (unat u)) (JSON_stringify demo_answer))))"
    by simp
  ultimately show ?thesis
    using relay_execute [OF demo_serve_doc b x [unfolded demo_result_def]
        ok [unfolded demo_result_def]] by (simp only: demo_result_def)
qed

lemma demo_download:
  "\<exists>s'. downloadBlob (json_env v) no_aead i (plain_client, fresh_world) = (Inr (utf8_enc (JSON_stringify v)), s')"
proof -
  have "fst (downloadBlob (json_env v) no_aead i (plain_client, fresh_world)) = Inr (utf8_enc (JSON_stringify v))"
    by (simp add: downloadBlob_def js_monad detect_cached plain_client_def authenticate_unkeyed Let_def
        read_download_def json_env_def json_response_def resp_ok_def resp_bytes_def)
  then show ?thesis by (metis prod.collapse)
qed

lemma demo_upload:
  "\<exists>s'. uploadBlob (json_env (JObj [(js ''id'', JStr (js ''b1''))])) no_aead [1, 2] None (plain_client, fresh_world) =
     (Inr (JObj [(js ''id'', JStr (js ''b1''))]), s')"
proof -
  let ?v = "JObj [(js ''id'', JStr (js ''b1''))]"
  have "json_ok ?v" by simp
  note r = json_response_read [OF this] JSON_parse_stringify [OF this]
  have "JSON_stringify ?v \<noteq> []" by simp
  then have "fst (uploadBlob (json_env ?v) no_aead [1, 2] None (plain_client, fresh_world)) = Inr ?v"
    using r
    by (simp add: uploadBlob_def js_monad detect_cached plain_client_def authenticate_unkeyed Let_def
        read_upload_def json_env_def parse_body_def parse_json_def del: JSON_stringify.simps)
  then show ?thesis by (metis prod.collapse)
qed

lemma relay_blobs_witness:
  "fst (nb_uploadBlob (page_env (fixed_env 200 []) demo_serve (json_env (JObj [(js ''id'', JStr (js ''b1''))]))
     no_aead demo_vars plain_client fresh_world) demo_nbook [1, 2] fresh_world) = Inr (Some (JStr (js ''b1'')))"
proof -
  let ?v = "JObj [(js ''id'', JStr (js ''b1''))]"
  obtain s' t' where "downloadBlob (json_env ?v) no_aead [] (plain_client, fresh_world) =
      (Inr (utf8_enc (JSON_stringify ?v)), s')"
    "uploadBlob (json_env ?v) no_aead [1, 2] None (plain_client, fresh_world) = (Inr ?v, t')"
    using demo_download demo_upload by blast
  from relay_blobs [OF demo_serve_doc this] show ?thesis by simp
qed

theorem relay_errors_witness:
  "fst (nb_fetchBlob (page_env (fixed_env 200 []) demo_serve (fixed_env 404 '''') no_aead demo_vars
     plain_client fresh_world) demo_nbook (Some (JStr (js ''b1''))) fresh_world) = Inl (js_Error (js ''Download failed: ''))"
proof -
  let ?e = "OnvmError (js ''Download failed: '') (Some 404) DUndefined"
  have "fst (downloadBlob (fixed_env 404 '''') no_aead (js ''b1'') (plain_client, fresh_world)) = Inl ?e"
    by (simp add: downloadBlob_def js_monad detect_cached plain_client_def authenticate_unkeyed Let_def
        fixed_env_def fixed_response_def resp_ok_def)
  moreover have "is_Error ?e" "exn_message ?e = js ''Download failed: ''"
    by (simp_all add: is_Error_def OnvmError_def)
  ultimately show ?thesis
    using relay_errors [OF demo_serve_doc, of ?e] by simp
qed

section \<open>What the routes answer\<close>

text \<open>
  The operations route always answers once its client exists: it never throws, and answers with
  status 200, 400 or 500; 400 is only for a JSON request whose operation is unknown.
\<close>
lemma POST_answers:
  "\<exists>resp s'. POST E aead vars q (Some c, w) = (Inr resp, s')
     \<and> (case resp of
          NextResponse_json v st \<Rightarrow> st \<in> {200, 400, 500} \<and>
            (st = 400 \<longrightarrow> (\<exists>body. request_json E q = Inr body \<and>
               opt_prop ''operation'' (Some body) \<notin> {Some (JStr (js ''executeProgram'')), Some (JStr (js ''downloadBlob''))}))
        | NextResponse_new _ st _ \<Rightarrow> st = 200)"
proof -
  have e: "error_json fb x = NextResponse_json (obj_literal [str_field ''error'' (error_text x (js fb))]) 500" for fb x
    by (simp add: error_json_def)
  show ?thesis
    by (auto simp: POST_def Let_def js_monad getClient_cached post_operation_def e
        split: prod.split sum.split)
qed

lemma POST_answers_witness:
  "\<exists>s'. POST (fixed_env 200 []) no_aead demo_vars
     (to_next (post_request [] ''application/json'' (TextBody (JSON_stringify (JObj []))))) (Some plain_client, fresh_world) =
     (Inr (NextResponse_json (obj_literal [str_field ''error'' (js ''Invalid operation'')]) 400), s')
     \<and> (\<exists>body. request_json (fixed_env 200 [])
         (to_next (post_request [] ''application/json'' (TextBody (JSON_stringify (JObj []))))) = Inr body
       \<and> opt_prop ''operation'' (Some body) \<notin>
         {Some (JStr (js ''executeProgram'')), Some (JStr (js ''downloadBlob''))})"
proof -
  let ?q = "to_next (post_request [] ''application/json'' (TextBody (JSON_stringify (JObj []))))"
  have "POST (fixed_env 200 []) no_aead demo_vars ?q (Some plain_client, fresh_world) =
      (Inr (NextResponse_json (obj_literal [str_field ''error'' (js ''Invalid operation'')]) 400),
       (Some plain_client, fresh_world))"
    by (subst POST_json) (simp_all add: post_operation_def js_monad)
  then show ?thesis
    using POST_answers [of "fixed_env 200 []" no_aead demo_vars ?q plain_client fresh_world] by auto
qed

lemma byte_is_unique: "byte_is bs i v \<Longrightarrow> byte_is bs i v' \<longleftrightarrow> v = v'"
  by (auto simp: byte_is_def)

lemma byte_is_take: "i < n \<Longrightarrow> byte_is (take n bs) i v = byte_is bs i v"
  by (simp add: byte_is_def)

lemma blob_sniff_bytes:
  "blob_sniff bs = js ''image/jpeg'' \<Longrightarrow> byte_is bs 0 0xff \<and> byte_is bs 1 0xd8 \<and> byte_is bs 2 0xff"
  "blob_sniff bs = js ''image/gif'' \<Longrightarrow>
     byte_is bs 0 0x47 \<and> byte_is bs 1 0x49 \<and> byte_is bs 2 0x46 \<and> byte_is bs 3 0x38"
  "blob_sniff bs = js ''image/webp'' \<Longrightarrow>
     byte_is bs 0 0x52 \<and> byte_is bs 1 0x49 \<and> byte_is bs 2 0x46 \<and> byte_is bs 3 0x46
     \<and> byte_is bs 8 0x57 \<and> byte_is bs 9 0x45 \<and> byte_is bs 10 0x42 \<and> byte_is bs 11 0x50"
  by (simp_all add: blob_sniff_def Let_def split: if_split_asm)

text \<open>
  The two content sniffers agree: what the blob route calls JPEG, GIF or WebP, the page's sniffer
  calls the same whatever type was declared, and what the page recognises as PNG by its signature the
  route calls PNG too.
\<close>
lemma sniffers_agree:
  "(blob_sniff bs \<in> {js ''image/jpeg'', js ''image/gif'', js ''image/webp''} \<longrightarrow>
      sniffContentType bs ct = blob_sniff bs)
   \<and> (table_type bs = Some ''image/png'' \<longrightarrow> blob_sniff bs = js ''image/png'')"
proof
  show "blob_sniff bs \<in> {js ''image/jpeg'', js ''image/gif'', js ''image/webp''} \<longrightarrow>
      sniffContentType bs ct = blob_sniff bs"
    by (auto dest!: blob_sniff_bytes simp: sniffContentType_def byte_is_take byte_is_unique)
  show "table_type bs = Some ''image/png'' \<longrightarrow> blob_sniff bs = js ''image/png''"
  proof
    assume "table_type bs = Some ''image/png''"
    then have "list_all (sig_match bs) (exactly 0 [0x89, 0x50, 0x4e, 0x47, 0x0d, 0x0a, 0x1a, 0x0a])"
      by (auto simp: table_type_def signature_table_def simp del: exactly.simps split: if_splits)
    then show "blob_sniff bs = js ''image/png''"
      by (simp add: blob_sniff_def byte_is_def sig_match_def eval_nat_numeral)
  qed
qed

lemma sniffers_agree_witness:
  "sniffContentType [0xff, 0xd8, 0xff, 0, 0, 0, 0, 0] (js ''text/plain'') = js ''image/jpeg''"
  using sniffers_agree [of "[0xff, 0xd8, 0xff, 0, 0, 0, 0, 0]" "js ''text/plain''"]
  by (simp add: blob_sniff_def byte_is_def)

end
