(* ===== verification/Program_Client.thy ===== *)
theory Program_Client
  imports Sdk_Client
begin

text \<open>
  Calling a program through the SDK, as \<^verbatim>\<open>executeProgram\<close> does it in
  \<^verbatim>\<open>wasm_programs/school_management/ui/lib/onvm-client.ts\<close> and
  \<^verbatim>\<open>wasm_programs/identity_card/ui/lib/onvm-client.ts\<close>: the request's JSON text in UTF-8 and
  Base64 to the node, the answer back the same way. The locale states what both clients do with the
  answer, and its lemmas hold for any program behind any such client.
\<close>

section \<open>The call\<close>

text \<open>
  \<^verbatim>\<open>Buffer.from(v, 'base64')\<close>: text is decoded and an array gives its elements as bytes; other
  values are rejected with a TypeError.
\<close>

definition Buffer_from_base64 :: "env \<Rightarrow> jsval \<Rightarrow> exn + bytes" where
  "Buffer_from_base64 E v =
     (case v of
        Some (JStr s) \<Rightarrow> Inr (b64_dec s)
      | Some (JArr vs) \<Rightarrow>
          Inr (map (\<lambda>x. case val_number (Some x) of None \<Rightarrow> 0 | Some r \<Rightarrow> of_int (if r < 0 then - \<lfloor>- r\<rfloor> else \<lfloor>r\<rfloor>)) vs)
      | _ \<Rightarrow> Inl (native CTypeError (e_syntax_msg E (val_text v))))"

definition decode_return :: "env \<Rightarrow> json \<Rightarrow> exn + json" where
  "decode_return E result =
     r_bind (get_prop ''return_base64'' (Some result)) (\<lambda>b.
     r_bind (Buffer_from_base64 E b) (\<lambda>bytes.
     parse_json E (utf8_dec bytes)))"

definition input_text :: "json \<Rightarrow> jsstr" where
  "input_text req = b64_enc (utf8_enc (JSON_stringify req))"

definition sdk_call :: "env \<Rightarrow> aead_open \<Rightarrow> jsstr \<Rightarrow> json \<Rightarrow> json sdk" where
  "sdk_call E aead pid req =
     js_bind (executeProgram E aead
       \<lparr>ex_program_id = Some (JStr pid), ex_input_base64 = Some (JStr (input_text req))\<rparr>) (\<lambda>result.
     js_lift (decode_return E result))"

text \<open>What follows the call: a status that means failure throws the program's message.\<close>

definition check_status :: "string \<Rightarrow> string \<Rightarrow> json \<Rightarrow> exn + json" where
  "check_status failing field parsedResponse =
     r_bind (get_prop ''status'' (Some parsedResponse)) (\<lambda>status.
     if status = Some (JStr (js failing)) then
       Inl (js_Error (error_message (or_val (opt_prop field (Some parsedResponse))
         (Some (JStr (js ''Unknown error occurred''))))))
     else Inr parsedResponse)"

section \<open>The contract of a program client\<close>

text \<open>
  A node that hosts a program: the response to an execution request whose input decodes to \<open>r\<close>
  carries the encoded answer \<open>prog r\<close>.
\<close>

definition return_result :: "json \<Rightarrow> json" where
  "return_result v = obj_literal [str_field ''return_base64'' (b64_enc (utf8_enc (JSON_stringify v)))]"

definition node_input :: "json \<Rightarrow> json option" where
  "node_input body =
     (case opt_prop ''input_base64'' (Some body) of
        Some (JStr b) \<Rightarrow> JSON_parse (utf8_dec (b64_dec b))
      | _ \<Rightarrow> None)"

definition host :: "(json \<Rightarrow> json) \<Rightarrow> http_request \<Rightarrow> http_response" where
  "host prog rq =
     (case rq_body rq of
        TextBody t \<Rightarrow>
          (case Option.bind (JSON_parse t) node_input of
             Some r \<Rightarrow> json_response (return_result (prog r))
           | None \<Rightarrow> fixed_response 400 [])
      | _ \<Rightarrow> fixed_response 400 [])"

lemma return_result_ok: "json_ok (return_result v)"
  unfolding return_result_def by (rule json_ok_obj_literal) auto

lemma decode_return_result: "json_ok v \<Longrightarrow> decode_return E (return_result v) = Inr v"
  by (simp add: decode_return_def return_result_def get_prop_obj_literal Buffer_from_base64_def
      utf8_roundtrip wf_stringify parse_json_def JSON_parse_stringify)

lemma node_input_request:
  assumes "json_ok r"
  shows "node_input (ExecuteRequest_json \<lparr>ex_program_id = Some (JStr pid),
    ex_input_base64 = Some (JStr (input_text r))\<rparr>) = Some r"
proof -
  have "opt_prop ''input_base64'' (Some (ExecuteRequest_json \<lparr>ex_program_id = Some (JStr pid),
      ex_input_base64 = Some (JStr (input_text r))\<rparr>)) = Some (JStr (input_text r))"
    unfolding ExecuteRequest_json_def by (rule opt_prop_obj_literal) auto
  then show ?thesis
    using assms by (simp add: node_input_def input_text_def utf8_roundtrip wf_stringify JSON_parse_stringify)
qed

lemma ExecuteRequest_ok:
  "json_ok (ExecuteRequest_json \<lparr>ex_program_id = Some (JStr pid), ex_input_base64 = Some (JStr b)\<rparr>)"
  unfolding ExecuteRequest_json_def by (rule json_ok_obj_literal) auto

lemma ExecuteRequest_truthy: "truthy_val (Some (ExecuteRequest_json x))"
  by (simp add: ExecuteRequest_json_def obj_literal_def)

lemma sdk_call_hosted:
  assumes "detectedNodeMode c = Some m" "derivedKeys c = None" "timers_ok w"
    and "\<And>h rq. e_fetch E h rq = Inr (host prog rq)"
    and "json_ok r" "json_ok (prog r)"
  shows "fst (sdk_call E aead pid r (c, w)) = Inr (prog r)"
proof -
  let ?x = "ExecuteRequest_json \<lparr>ex_program_id = Some (JStr pid), ex_input_base64 = Some (JStr (input_text r))\<rparr>"
  have "JSON_stringify ?x \<noteq> []" using stringify_head [OF ExecuteRequest_ok, of pid "input_text r"] by auto
  then have "host prog (client_request c (js ''POST'') (js ''/execute'') (body_text (Some ?x))
      (obj_assign content_type_json [])) = json_response (return_result (prog r))"
    using JSON_parse_stringify [OF ExecuteRequest_ok, of pid "input_text r"] node_input_request [OF assms(5)]
    by (simp add: host_def client_request_def ExecuteRequest_truthy)
  then have "fst (executeProgram E aead
      \<lparr>ex_program_id = Some (JStr pid), ex_input_base64 = Some (JStr (input_text r))\<rparr> (c, w)) =
      Inr (return_result (prog r))"
    unfolding executeProgram_def
    by (intro request_unkeyed [OF assms(1,2,3) return_result_ok]) (simp add: assms(4))
  then show ?thesis
    using decode_return_result [OF assms(6), of E]
    by (auto simp: sdk_call_def js_monad split: prod.splits sum.splits)
qed

locale program_client =
  fixes exec :: "env \<Rightarrow> aead_open \<Rightarrow> json \<Rightarrow> ('s \<times> world, json) js"
    and sdk :: "'s \<Rightarrow> OnvmClient" and pid :: "'s \<Rightarrow> jsstr"
    and failed :: "json \<Rightarrow> bool" and why :: "json \<Rightarrow> jsstr"
  assumes exec_throws: "fst (sdk_call E aead (pid s) r (sdk s, w)) = Inl e \<Longrightarrow> fst (exec E aead r (s, w)) = Inl e"
    and exec_fails: "fst (sdk_call E aead (pid s) r (sdk s, w)) = Inr v \<Longrightarrow> failed v \<Longrightarrow>
      fst (exec E aead r (s, w)) = Inl (js_Error (why v))"
    and exec_returns: "fst (sdk_call E aead (pid s) r (sdk s, w)) = Inr v \<Longrightarrow> v \<noteq> JNull \<Longrightarrow> \<not> failed v \<Longrightarrow>
      fst (exec E aead r (s, w)) = Inr v"
    and keeps_pid: "pid (fst (snd (exec E aead r (s, w)))) = pid s"
begin

lemma hosted:
  assumes "detectedNodeMode (sdk s) = Some m" "derivedKeys (sdk s) = None" "timers_ok w"
    and "\<And>h rq. e_fetch E h rq = Inr (host prog rq)"
    and "json_ok r" "json_ok (prog r)" "prog r \<noteq> JNull"
  shows "fst (exec E aead r (s, w)) = (if failed (prog r) then Inl (js_Error (why (prog r))) else Inr (prog r))"
  using sdk_call_hosted [OF assms(1-6), of aead "pid s"] exec_fails exec_returns assms(7) by auto

lemma offline:
  assumes "fst (executeProgram E aead \<lparr>ex_program_id = Some (JStr (pid s)),
      ex_input_base64 = Some (JStr (input_text r))\<rparr> (sdk s, w)) = Inl e"
  shows "fst (exec E aead r (s, w)) = Inl e"
  using assms by (intro exec_throws) (auto simp: sdk_call_def js_monad split: prod.splits)

end

lemma get_prop_status: "v \<noteq> JNull \<Longrightarrow> get_prop k (Some v) = Inr (opt_prop k (Some v))"
  by (cases v) (simp_all add: get_prop_def)

text \<open>A concrete node that hosts a program.\<close>

definition hosted_env :: "(json \<Rightarrow> json) \<Rightarrow> env" where
  "hosted_env prog = (fixed_env 200 [])\<lparr>e_fetch := (\<lambda>_ rq. Inr (host prog rq))\<rparr>"

end
