(* ===== verification/School_Client.thy ===== *)
theory School_Client
  imports Program_Client
begin

text \<open>
  \<^verbatim>\<open>wasm_programs/school_management/ui/lib/onvm-client.ts\<close> with the shapes of
  \<^verbatim>\<open>types/index.ts\<close>: the client of the school program on top of the SDK.
\<close>

section \<open>Data\<close>

record Student =
  st_id :: jsstr
  st_name :: jsstr
  st_grade :: jsstr
  st_age :: jsval
  st_email :: jsstr
  st_subjects :: "jsstr list"

record Teacher =
  te_id :: jsstr
  te_name :: jsstr
  te_subject :: jsstr
  te_email :: jsstr
  te_phone :: jsstr

record Course =
  co_id :: jsstr
  co_name :: jsstr
  co_code :: jsstr
  co_teacher_id :: jsstr
  co_student_ids :: "jsstr list"
  co_description :: jsstr

record Grade =
  gr_id :: jsstr
  gr_student_id :: jsstr
  gr_course_id :: jsstr
  gr_score :: jsval
  gr_date :: jsstr
  gr_studentName :: "jsstr option"
  gr_courseName :: "jsstr option"

text \<open>Numbers are any values: a form whose field is no number sends \<^verbatim>\<open>null\<close>.\<close>

definition Student_json :: "Student \<Rightarrow> json" where
  "Student_json s = obj_literal
     [str_field ''id'' (st_id s), str_field ''name'' (st_name s), str_field ''grade'' (st_grade s),
      (''age'', st_age s), str_field ''email'' (st_email s),
      (''subjects'', Some (JArr (map JStr (st_subjects s))))]"

definition Teacher_json :: "Teacher \<Rightarrow> json" where
  "Teacher_json t = obj_literal
     [str_field ''id'' (te_id t), str_field ''name'' (te_name t), str_field ''subject'' (te_subject t),
      str_field ''email'' (te_email t), str_field ''phone'' (te_phone t)]"

definition Course_json :: "Course \<Rightarrow> json" where
  "Course_json c = obj_literal
     [str_field ''id'' (co_id c), str_field ''name'' (co_name c), str_field ''code'' (co_code c),
      str_field ''teacher_id'' (co_teacher_id c),
      (''student_ids'', Some (JArr (map JStr (co_student_ids c)))),
      str_field ''description'' (co_description c)]"

definition Grade_json :: "Grade \<Rightarrow> json" where
  "Grade_json g = obj_literal
     [str_field ''id'' (gr_id g), str_field ''student_id'' (gr_student_id g),
      str_field ''course_id'' (gr_course_id g), (''score'', gr_score g), str_field ''date'' (gr_date g),
      (''studentName'', map_option JStr (gr_studentName g)),
      (''courseName'', map_option JStr (gr_courseName g))]"

section \<open>The client\<close>

record SchoolManagementClient =
  sc_client :: OnvmClient
  sc_programId :: jsstr

type_synonym 'a school = "(SchoolManagementClient \<times> world, 'a) js"

text \<open>The environment variables that the build inlines.\<close>

record school_vars =
  sv_rpc_url :: "jsstr option"
  sv_program_id :: "jsstr option"
  sv_project_id :: "jsstr option"
  sv_project_secret :: "jsstr option"

definition SCHOOL_PROGRAM_ID :: "school_vars \<Rightarrow> jsstr" where
  "SCHOOL_PROGRAM_ID vars = or_str (sv_program_id vars)
     (js ''prog618df68d440c4f7ac9dae7f63a36ff8e10fb3bb970c7e7aa3d00b4195e06bbd7'')"

definition new_SchoolManagementClient :: "school_vars \<Rightarrow> exn + SchoolManagementClient" where
  "new_SchoolManagementClient vars =
     r_bind (new_OnvmClient
       \<lparr>cf_rpcUrl = or_str (sv_rpc_url vars) (js ''http://localhost:8081''),
        cf_programId = Some (SCHOOL_PROGRAM_ID vars), cf_projectId = sv_project_id vars,
        cf_projectSecret = sv_project_secret vars, cf_mode = None, cf_timeout = Some 30000\<rparr>) (\<lambda>client.
     Inr \<lparr>sc_client = client, sc_programId = SCHOOL_PROGRAM_ID vars\<rparr>)"

definition getSchoolClient ::
  "school_vars \<Rightarrow> SchoolManagementClient option \<Rightarrow> (exn + SchoolManagementClient) \<times> SchoolManagementClient option" where
  "getSchoolClient vars schoolClient =
     (case schoolClient of
        Some c \<Rightarrow> (Inr c, schoolClient)
      | None \<Rightarrow>
          (case new_SchoolManagementClient vars of
             Inl e \<Rightarrow> (Inl e, None)
           | Inr c \<Rightarrow> (Inr c, Some c)))"

definition on_school_sdk :: "(SchoolManagementClient \<Rightarrow> 'a sdk) \<Rightarrow> 'a school" where
  [js_monad]: "on_school_sdk m = (\<lambda>(this, w).
     case m this (sc_client this, w) of (r, (c, w')) \<Rightarrow> (r, (this\<lparr>sc_client := c\<rparr>, w')))"

definition school_executeProgram :: "env \<Rightarrow> aead_open \<Rightarrow> json \<Rightarrow> json school" where
  "school_executeProgram E aead req =
     js_bind (on_school_sdk (\<lambda>this. sdk_call E aead (sc_programId this) req)) (\<lambda>parsedResponse.
     js_lift (check_status ''error'' ''error'' parsedResponse))"

definition operation_json :: "string \<Rightarrow> json \<Rightarrow> json" where
  "operation_json operation data = obj_literal [str_field ''operation'' (js operation), (''data'', Some data)]"

abbreviation school_op :: "env \<Rightarrow> aead_open \<Rightarrow> string \<Rightarrow> json \<Rightarrow> json school" where
  "school_op E aead operation data \<equiv> school_executeProgram E aead (operation_json operation data)"

section \<open>Operations\<close>

definition addStudent :: "env \<Rightarrow> aead_open \<Rightarrow> Student \<Rightarrow> json school" where
  "addStudent E aead student =
     school_op E aead ''add_student'' (obj_literal [(''student'', Some (Student_json student))])"

definition getStudent :: "env \<Rightarrow> aead_open \<Rightarrow> jsstr \<Rightarrow> json school" where
  "getStudent E aead i = school_op E aead ''get_student'' (JStr i)"

definition updateStudent :: "env \<Rightarrow> aead_open \<Rightarrow> Student \<Rightarrow> json school" where
  "updateStudent E aead student =
     school_op E aead ''update_student'' (obj_literal [(''student'', Some (Student_json student))])"

definition deleteStudent :: "env \<Rightarrow> aead_open \<Rightarrow> jsstr \<Rightarrow> json school" where
  "deleteStudent E aead i = school_op E aead ''delete_student'' (JStr i)"

definition listStudents :: "env \<Rightarrow> aead_open \<Rightarrow> json school" where
  "listStudents E aead = school_op E aead ''list_students'' JNull"

definition addTeacher :: "env \<Rightarrow> aead_open \<Rightarrow> Teacher \<Rightarrow> json school" where
  "addTeacher E aead teacher =
     school_op E aead ''add_teacher'' (obj_literal [(''teacher'', Some (Teacher_json teacher))])"

definition getTeacher :: "env \<Rightarrow> aead_open \<Rightarrow> jsstr \<Rightarrow> json school" where
  "getTeacher E aead i = school_op E aead ''get_teacher'' (JStr i)"

definition updateTeacher :: "env \<Rightarrow> aead_open \<Rightarrow> Teacher \<Rightarrow> json school" where
  "updateTeacher E aead teacher =
     school_op E aead ''update_teacher'' (obj_literal [(''teacher'', Some (Teacher_json teacher))])"

definition deleteTeacher :: "env \<Rightarrow> aead_open \<Rightarrow> jsstr \<Rightarrow> json school" where
  "deleteTeacher E aead i = school_op E aead ''delete_teacher'' (JStr i)"

definition listTeachers :: "env \<Rightarrow> aead_open \<Rightarrow> json school" where
  "listTeachers E aead = school_op E aead ''list_teachers'' JNull"

definition addCourse :: "env \<Rightarrow> aead_open \<Rightarrow> Course \<Rightarrow> json school" where
  "addCourse E aead course =
     school_op E aead ''add_course'' (obj_literal [(''course'', Some (Course_json course))])"

definition getCourse :: "env \<Rightarrow> aead_open \<Rightarrow> jsstr \<Rightarrow> json school" where
  "getCourse E aead i = school_op E aead ''get_course'' (JStr i)"

definition updateCourse :: "env \<Rightarrow> aead_open \<Rightarrow> Course \<Rightarrow> json school" where
  "updateCourse E aead course =
     school_op E aead ''update_course'' (obj_literal [(''course'', Some (Course_json course))])"

definition deleteCourse :: "env \<Rightarrow> aead_open \<Rightarrow> jsstr \<Rightarrow> json school" where
  "deleteCourse E aead i = school_op E aead ''delete_course'' (JStr i)"

definition listCourses :: "env \<Rightarrow> aead_open \<Rightarrow> json school" where
  "listCourses E aead = school_op E aead ''list_courses'' JNull"

definition assignGrade :: "env \<Rightarrow> aead_open \<Rightarrow> Grade \<Rightarrow> json school" where
  "assignGrade E aead grade =
     school_op E aead ''assign_grade'' (obj_literal [(''grade'', Some (Grade_json grade))])"

definition getStudentGrades :: "env \<Rightarrow> aead_open \<Rightarrow> jsval \<Rightarrow> json school" where
  "getStudentGrades E aead studentId =
     school_executeProgram E aead (obj_literal [str_field ''operation'' (js ''get_student_grades''), (''data'', studentId)])"

definition getCourseGrades :: "env \<Rightarrow> aead_open \<Rightarrow> jsval \<Rightarrow> json school" where
  "getCourseGrades E aead courseId =
     school_executeProgram E aead (obj_literal [str_field ''operation'' (js ''get_course_grades''), (''data'', courseId)])"

definition enrollStudent :: "env \<Rightarrow> aead_open \<Rightarrow> jsstr \<Rightarrow> jsstr \<Rightarrow> json school" where
  "enrollStudent E aead studentId courseId =
     school_op E aead ''enroll_student''
       (obj_literal [str_field ''student_id'' studentId, str_field ''course_id'' courseId])"

section \<open>The contract\<close>

definition school_failed :: "json \<Rightarrow> bool" where
  "school_failed v \<longleftrightarrow> opt_prop ''status'' (Some v) = Some (JStr (js ''error''))"

definition school_why :: "json \<Rightarrow> jsstr" where
  "school_why v = error_message (or_val (opt_prop ''error'' (Some v)) (Some (JStr (js ''Unknown error occurred''))))"

interpretation school: program_client school_executeProgram sc_client sc_programId school_failed school_why
proof unfold_locales
  fix E aead r w v and s :: SchoolManagementClient
  assume v: "fst (sdk_call E aead (sc_programId s) r (sc_client s, w)) = Inr v"
  show "fst (school_executeProgram E aead r (s, w)) = Inl (js_Error (school_why v))" if "school_failed v"
  proof -
    have "v \<noteq> JNull" using that by (auto simp: school_failed_def)
    then show ?thesis using v that
      by (auto simp: school_executeProgram_def js_monad check_status_def get_prop_status school_failed_def
          school_why_def split: prod.split)
  qed
  show "fst (school_executeProgram E aead r (s, w)) = Inr v" if "v \<noteq> JNull" "\<not> school_failed v"
    using v that
    by (auto simp: school_executeProgram_def js_monad check_status_def get_prop_status school_failed_def
        split: prod.split)
qed (auto simp: school_executeProgram_def js_monad split: prod.split sum.split)

definition school_outcome :: "(json \<Rightarrow> json) \<Rightarrow> string \<Rightarrow> json \<Rightarrow> exn + json" where
  "school_outcome prog operation data =
     (let v = prog (operation_json operation data)
      in if school_failed v then Inl (js_Error (school_why v)) else Inr v)"

lemma json_ok_strs [simp]: "json_ok (JArr (map JStr ss))"
  by simp

lemma school_data_ok:
  "pred_option json_ok (st_age student) \<Longrightarrow> json_ok (Student_json student)" "json_ok (Teacher_json teacher)"
  "json_ok (Course_json course)" "pred_option json_ok (gr_score grade) \<Longrightarrow> json_ok (Grade_json grade)"
  unfolding Student_json_def Teacher_json_def Course_json_def Grade_json_def
  by (rule json_ok_fields; simp)+

lemma operation_json_ok: "json_ok data \<Longrightarrow> json_ok (operation_json operation data)"
  unfolding operation_json_def by (rule json_ok_obj_literal) auto

lemma wrapped_ok: "json_ok v \<Longrightarrow> json_ok (obj_literal [(k, Some v)])"
  by (rule json_ok_obj_literal) auto

lemma pair_ok: "k \<noteq> k' \<Longrightarrow> json_ok (obj_literal [str_field k a, str_field k' b])"
  by (rule json_ok_obj_literal) auto

text \<open>A school client in front of a node that hosts the program \<open>prog\<close>.\<close>

definition school_hosted :: "env \<Rightarrow> (json \<Rightarrow> json) \<Rightarrow> SchoolManagementClient \<Rightarrow> world \<Rightarrow> bool" where
  "school_hosted E prog s w \<longleftrightarrow>
     detectedNodeMode (sc_client s) \<noteq> None \<and> derivedKeys (sc_client s) = None \<and> timers_ok w
     \<and> (\<forall>h rq. e_fetch E h rq = Inr (host prog rq)) \<and> (\<forall>r. json_ok (prog r) \<and> prog r \<noteq> JNull)"

lemma school_op_hosted:
  assumes "school_hosted E prog s w" "json_ok data"
  shows "fst (school_op E aead operation data (s, w)) = school_outcome prog operation data"
  using assms school.hosted [of s _ w E prog "operation_json operation data" aead] operation_json_ok
  by (auto simp: school_hosted_def school_outcome_def Let_def)

text \<open>A call leaves client and node as they are, so that operations can follow each other.\<close>

lemma school_hosted_next:
  assumes "school_hosted E prog s w"
  shows "\<exists>w'. snd (school_executeProgram E aead r (s, w)) = (s, w') \<and> school_hosted E prog s w'"
proof -
  have t: "timers_ok w" and m: "detectedNodeMode (sc_client s) \<noteq> None" using assms by (simp_all add: school_hosted_def)
  let ?x = "\<lparr>ex_program_id = Some (JStr (sc_programId s)), ex_input_base64 = Some (JStr (input_text r))\<rparr>"
  obtain q c w' where x: "executeProgram E aead ?x (sc_client s, w) = (q, (c, w'))" by (metis prod_cases3)
  have "method_ok (executeProgram E aead ?x)" unfolding executeProgram_def by (rule request_method_ok)
  from method_okD(3,4) [OF this t x] m have c: "c = sc_client s" "timers_ok w'" by simp_all
  have "snd (school_executeProgram E aead r (s, w)) = (s, w')"
    using x c(1) by (auto simp: school_executeProgram_def sdk_call_def js_monad split: sum.split)
  then show ?thesis using assms c(2) by (auto simp: school_hosted_def)
qed

lemma school_op_run:
  assumes "school_hosted E prog s w" "json_ok data"
  shows "\<exists>w'. school_op E aead operation data (s, w) = (school_outcome prog operation data, (s, w'))
    \<and> school_hosted E prog s w'"
  using school_op_hosted [OF assms, of aead operation] school_hosted_next [OF assms(1), of aead "operation_json operation data"]
  by (metis prod.collapse)


definition demo_school :: SchoolManagementClient where
  "demo_school = \<lparr>sc_client = plain_client, sc_programId = js ''prog1''\<rparr>"

definition refusing_program :: "json \<Rightarrow> json" where
  "refusing_program _ = JObj [(js ''status'', JStr (js ''error'')), (js ''error'', JStr [0x2603])]"


end
