(* ===== verification/Identity_Client.thy ===== *)
theory Identity_Client
  imports Program_Client
begin

text \<open>
  \<^verbatim>\<open>wasm_programs/identity_card/ui/lib/onvm-client.ts\<close> with the requests of \<^verbatim>\<open>lib/types.ts\<close>:
  the client of the identity card program. Unlike the school client it is created when the module
  loads, and the program reports failure with status \<^verbatim>\<open>err\<close> and a message.
\<close>

section \<open>Requests\<close>

record IdRegisterRequest =
  ir_name :: jsstr
  ir_email :: jsstr
  ir_bio :: "jsstr option"
  ir_avatar_url :: "jsstr option"
  ir_theme :: "jsstr option"

record IdUpdateRequest =
  iu_id :: jsstr
  iu_name :: "jsstr option"
  iu_email :: "jsstr option"
  iu_bio :: "jsstr option"
  iu_avatar_url :: "jsstr option"
  iu_theme :: "jsstr option"

datatype IdentityRequest =
    IdRegister IdRegisterRequest
  | IdGetProfile jsstr
  | IdUpdateProfile IdUpdateRequest
  | IdGetCard jsstr "jsstr option"
  | IdListAll
  | IdStats

abbreviation opt_field :: "string \<Rightarrow> jsstr option \<Rightarrow> string \<times> jsval" where
  "opt_field k s \<equiv> (k, map_option JStr s)"

fun IdentityRequest_json :: "IdentityRequest \<Rightarrow> json" where
  "IdentityRequest_json (IdRegister r) = obj_literal
     [str_field ''op'' (js ''register''), str_field ''name'' (ir_name r), str_field ''email'' (ir_email r),
      opt_field ''bio'' (ir_bio r), opt_field ''avatar_url'' (ir_avatar_url r), opt_field ''theme'' (ir_theme r)]"
| "IdentityRequest_json (IdGetProfile i) = obj_literal [str_field ''op'' (js ''getprofile''), str_field ''id'' i]"
| "IdentityRequest_json (IdUpdateProfile r) = obj_literal
     [str_field ''op'' (js ''updateprofile''), str_field ''id'' (iu_id r), opt_field ''name'' (iu_name r),
      opt_field ''email'' (iu_email r), opt_field ''bio'' (iu_bio r),
      opt_field ''avatar_url'' (iu_avatar_url r), opt_field ''theme'' (iu_theme r)]"
| "IdentityRequest_json (IdGetCard i format) = obj_literal
     [str_field ''op'' (js ''getcard''), str_field ''id'' i, opt_field ''format'' format]"
| "IdentityRequest_json IdListAll = obj_literal [str_field ''op'' (js ''listall'')]"
| "IdentityRequest_json IdStats = obj_literal [str_field ''op'' (js ''stats'')]"

section \<open>The client\<close>

record ONVMClient =
  ic_client :: OnvmClient
  ic_programId :: jsstr

type_synonym 'a identity = "(ONVMClient \<times> world, 'a) js"

record identity_vars =
  iv_rpc_url :: "jsstr option"
  iv_program_id :: "jsstr option"
  iv_project_id :: "jsstr option"
  iv_project_secret :: "jsstr option"

definition IDENTITY_PROGRAM_ID :: "identity_vars \<Rightarrow> jsstr" where
  "IDENTITY_PROGRAM_ID vars = or_str (iv_program_id vars)
     (js ''progfdad95913d574dd1d22c9950f37a967720b65911666224ab64119c786a4be023'')"

definition IDENTITY_PROJECT_ID :: "identity_vars \<Rightarrow> jsstr" where
  "IDENTITY_PROJECT_ID vars = or_str (iv_project_id vars) (js ''b72724722db7b33071c5e7cf5d10bc53'')"

definition IDENTITY_PROJECT_SECRET :: "identity_vars \<Rightarrow> jsstr" where
  "IDENTITY_PROJECT_SECRET vars = or_str (iv_project_secret vars)
     (js ''65eb796b7044c49273d44475608b5f1aa892de2f9b2d6a10c59ac954739bacdc'')"

definition new_ONVMClient :: "identity_vars \<Rightarrow> exn + ONVMClient" where
  "new_ONVMClient vars =
     r_bind (new_OnvmClient
       \<lparr>cf_rpcUrl = or_str (iv_rpc_url vars) (js ''http://localhost:8080''),
        cf_programId = Some (IDENTITY_PROGRAM_ID vars), cf_projectId = Some (IDENTITY_PROJECT_ID vars),
        cf_projectSecret = Some (IDENTITY_PROJECT_SECRET vars), cf_mode = None, cf_timeout = Some 30000\<rparr>) (\<lambda>client.
     Inr \<lparr>ic_client = client, ic_programId = IDENTITY_PROGRAM_ID vars\<rparr>)"

definition on_identity_sdk :: "(ONVMClient \<Rightarrow> 'a sdk) \<Rightarrow> 'a identity" where
  [js_monad]: "on_identity_sdk m = (\<lambda>(this, w).
     case m this (ic_client this, w) of (r, (c, w')) \<Rightarrow> (r, (this\<lparr>ic_client := c\<rparr>, w')))"

definition identity_executeProgram :: "env \<Rightarrow> aead_open \<Rightarrow> json \<Rightarrow> json identity" where
  "identity_executeProgram E aead req =
     js_bind (on_identity_sdk (\<lambda>this. sdk_call E aead (ic_programId this) req)) (\<lambda>parsedResponse.
     js_lift (check_status ''err'' ''message'' parsedResponse))"

definition registerIdentity :: "env \<Rightarrow> aead_open \<Rightarrow> IdRegisterRequest \<Rightarrow> json identity" where
  "registerIdentity E aead req = identity_executeProgram E aead (IdentityRequest_json (IdRegister req))"

definition getIdentity :: "env \<Rightarrow> aead_open \<Rightarrow> jsstr \<Rightarrow> json identity" where
  "getIdentity E aead i = identity_executeProgram E aead (IdentityRequest_json (IdGetProfile i))"

definition updateIdentity :: "env \<Rightarrow> aead_open \<Rightarrow> IdUpdateRequest \<Rightarrow> json identity" where
  "updateIdentity E aead req = identity_executeProgram E aead (IdentityRequest_json (IdUpdateProfile req))"

definition getIdentityCard :: "env \<Rightarrow> aead_open \<Rightarrow> jsstr \<Rightarrow> jsstr option \<Rightarrow> json identity" where
  "getIdentityCard E aead i format = identity_executeProgram E aead (IdentityRequest_json (IdGetCard i format))"

definition listAllIdentities :: "env \<Rightarrow> aead_open \<Rightarrow> json identity" where
  "listAllIdentities E aead = identity_executeProgram E aead (IdentityRequest_json IdListAll)"

definition getStats :: "env \<Rightarrow> aead_open \<Rightarrow> json identity" where
  "getStats E aead = identity_executeProgram E aead (IdentityRequest_json IdStats)"

section \<open>The contract\<close>

definition identity_failed :: "json \<Rightarrow> bool" where
  "identity_failed v \<longleftrightarrow> opt_prop ''status'' (Some v) = Some (JStr (js ''err''))"

definition identity_why :: "json \<Rightarrow> jsstr" where
  "identity_why v = error_message (or_val (opt_prop ''message'' (Some v)) (Some (JStr (js ''Unknown error occurred''))))"

interpretation identity: program_client identity_executeProgram ic_client ic_programId identity_failed identity_why
proof unfold_locales
  fix E aead r w v and s :: ONVMClient
  assume v: "fst (sdk_call E aead (ic_programId s) r (ic_client s, w)) = Inr v"
  show "fst (identity_executeProgram E aead r (s, w)) = Inl (js_Error (identity_why v))" if "identity_failed v"
  proof -
    have "v \<noteq> JNull" using that by (auto simp: identity_failed_def)
    then show ?thesis using v that
      by (auto simp: identity_executeProgram_def js_monad check_status_def get_prop_status identity_failed_def
          identity_why_def split: prod.split)
  qed
  show "fst (identity_executeProgram E aead r (s, w)) = Inr v" if "v \<noteq> JNull" "\<not> identity_failed v"
    using v that
    by (auto simp: identity_executeProgram_def js_monad check_status_def get_prop_status identity_failed_def
        split: prod.split)
qed (auto simp: identity_executeProgram_def js_monad split: prod.split sum.split)

lemma IdentityRequest_ok: "json_ok (IdentityRequest_json r)"
  by (cases r) (simp_all only: IdentityRequest_json.simps, (rule json_ok_fields; simp)+)

definition identity_outcome :: "(json \<Rightarrow> json) \<Rightarrow> IdentityRequest \<Rightarrow> exn + json" where
  "identity_outcome prog r =
     (let v = prog (IdentityRequest_json r)
      in if identity_failed v then Inl (js_Error (identity_why v)) else Inr v)"

definition identity_hosted :: "env \<Rightarrow> (json \<Rightarrow> json) \<Rightarrow> ONVMClient \<Rightarrow> world \<Rightarrow> bool" where
  "identity_hosted E prog s w \<longleftrightarrow>
     detectedNodeMode (ic_client s) \<noteq> None \<and> derivedKeys (ic_client s) = None \<and> timers_ok w
     \<and> (\<forall>h rq. e_fetch E h rq = Inr (host prog rq)) \<and> (\<forall>r. json_ok (prog r) \<and> prog r \<noteq> JNull)"

lemma identity_call_hosted:
  assumes "identity_hosted E prog s w"
  shows "fst (identity_executeProgram E aead (IdentityRequest_json r) (s, w)) = identity_outcome prog r"
  using assms identity.hosted [of s _ w E prog "IdentityRequest_json r" aead] IdentityRequest_ok
  by (auto simp: identity_hosted_def identity_outcome_def Let_def)

text \<open>
  Every operation of the identity client reaches the program as its own request, with optional
  fields left out when they are absent, and hands back the program's answer unchanged; an answer with
  status \<^verbatim>\<open>err\<close> is thrown with the program's message.
\<close>
lemma identity_operations:
  assumes "identity_hosted E prog s w"
  shows "fst (registerIdentity E aead reg (s, w)) = identity_outcome prog (IdRegister reg)
    \<and> fst (getIdentity E aead i (s, w)) = identity_outcome prog (IdGetProfile i)
    \<and> fst (updateIdentity E aead upd (s, w)) = identity_outcome prog (IdUpdateProfile upd)
    \<and> fst (getIdentityCard E aead i f (s, w)) = identity_outcome prog (IdGetCard i f)
    \<and> fst (listAllIdentities E aead (s, w)) = identity_outcome prog IdListAll
    \<and> fst (getStats E aead (s, w)) = identity_outcome prog IdStats"
  unfolding registerIdentity_def getIdentity_def updateIdentity_def getIdentityCard_def listAllIdentities_def
    getStats_def
  by (intro conjI identity_call_hosted [OF assms])

definition demo_identity :: ONVMClient where
  "demo_identity = \<lparr>ic_client = plain_client, ic_programId = js ''prog1''\<rparr>"

definition stats_program :: "json \<Rightarrow> json" where
  "stats_program r = JObj [(js ''status'', JStr (js ''okstats'')), (js ''total_identities'', JNum 3)]"

lemma identity_operations_witness:
  "fst (getStats (hosted_env stats_program) (\<lambda>_ _ _ _. Inr None) (demo_identity, fresh_world)) =
     Inr (JObj [(js ''status'', JStr (js ''okstats'')), (js ''total_identities'', JNum 3)])"
proof -
  have "identity_hosted (hosted_env stats_program) stats_program demo_identity fresh_world"
    by (simp add: identity_hosted_def demo_identity_def plain_client_def hosted_env_def stats_program_def)
  from identity_operations [OF this, of "\<lambda>_ _ _ _. Inr None"] show ?thesis
    by (simp add: identity_outcome_def identity_failed_def stats_program_def Let_def)
qed

end
