(* ===== verification/Toast.thy ===== *)
theory Toast
  imports Json
begin

text \<open>
  \<^verbatim>\<open>wasm_programs/nbook/ui/hooks/use-toast.ts\<close> (the same file is copied into the other three
  user interfaces): the store of notifications. A toast is a JavaScript object; the module's variables
  \<^verbatim>\<open>count\<close>, \<^verbatim>\<open>toastTimeouts\<close>, \<^verbatim>\<open>memoryState\<close> and \<^verbatim>\<open>listeners\<close> are the
  fields of a record, together with the timers that are running and what each listener was told last.
\<close>

section \<open>State\<close>

text \<open>
  Field values: text, booleans, opaque React nodes, and the \<^verbatim>\<open>onOpenChange\<close> closure of the
  toast with a given identifier.
\<close>

datatype tval = TStr jsstr | TBool bool | TNode nat | TOnOpenChange jsstr

type_synonym toast_obj = "(jsstr \<times> tval) list"

datatype toast_action =
    ADD_TOAST toast_obj
  | UPDATE_TOAST toast_obj
  | DISMISS_TOAST "jsstr option"
  | REMOVE_TOAST "jsstr option"

record toaster =
  count :: int
  toastTimeouts :: "(jsstr \<times> nat) list"
  timers :: "(nat \<times> jsstr) list"
  next_timer :: nat
  memoryState :: "toast_obj list"
  listeners :: "nat list"
  told :: "nat \<Rightarrow> toast_obj list option"

definition TOAST_LIMIT :: nat where
  "TOAST_LIMIT = 1"

definition MAX_SAFE_INTEGER :: int where
  "MAX_SAFE_INTEGER = 9007199254740991"

definition toast_id :: "toast_obj \<Rightarrow> tval option" where
  "toast_id t = obj_get t (js ''id'')"

definition initial_toaster :: toaster where
  "initial_toaster =
     \<lparr>count = 0, toastTimeouts = [], timers = [], next_timer = 0, memoryState = [], listeners = [],
      told = (\<lambda>_. None)\<rparr>"

section \<open>Operations\<close>

definition genId :: "toaster \<Rightarrow> jsstr \<times> toaster" where
  "genId s = (let c = (count s + 1) mod MAX_SAFE_INTEGER in (show_int c, s\<lparr>count := c\<rparr>))"

definition addToRemoveQueue :: "jsstr \<Rightarrow> toaster \<Rightarrow> toaster" where
  "addToRemoveQueue toastId s =
     (if obj_get (toastTimeouts s) toastId \<noteq> None then s
      else s\<lparr>timers := timers s @ [(next_timer s, toastId)], next_timer := Suc (next_timer s),
             toastTimeouts := obj_put toastId (next_timer s) (toastTimeouts s)\<rparr>)"

text \<open>The identifiers of toasts are text; \<open>id_text\<close> reads them.\<close>

definition id_text :: "toast_obj \<Rightarrow> jsstr" where
  "id_text t = (case toast_id t of Some (TStr i) \<Rightarrow> i | _ \<Rightarrow> [])"

definition reducer :: "toast_action \<Rightarrow> toaster \<Rightarrow> toaster" where
  "reducer action s =
     (case action of
        ADD_TOAST toast \<Rightarrow> s\<lparr>memoryState := take TOAST_LIMIT (toast # memoryState s)\<rparr>
      | UPDATE_TOAST toast \<Rightarrow>
          s\<lparr>memoryState := map (\<lambda>t. if toast_id t = toast_id toast then obj_assign t toast else t) (memoryState s)\<rparr>
      | DISMISS_TOAST toastId \<Rightarrow>
          (let s1 = (case toastId of
                       Some i \<Rightarrow> if i \<noteq> [] then addToRemoveQueue i s
                                 else fold (\<lambda>t. addToRemoveQueue (id_text t)) (memoryState s) s
                     | None \<Rightarrow> fold (\<lambda>t. addToRemoveQueue (id_text t)) (memoryState s) s)
           in s1\<lparr>memoryState :=
                map (\<lambda>t. if toastId = None \<or> toast_id t = map_option TStr toastId
                         then obj_put (js ''open'') (TBool False) t else t) (memoryState s)\<rparr>)
      | REMOVE_TOAST toastId \<Rightarrow>
          (case toastId of
             None \<Rightarrow> s\<lparr>memoryState := []\<rparr>
           | Some i \<Rightarrow> s\<lparr>memoryState := filter (\<lambda>t. toast_id t \<noteq> Some (TStr i)) (memoryState s)\<rparr>))"

definition dispatch :: "toast_action \<Rightarrow> toaster \<Rightarrow> toaster" where
  "dispatch action s =
     (let s1 = reducer action s
      in s1\<lparr>told := (\<lambda>l. if l \<in> set (listeners s1) then Some (memoryState s1) else told s1 l)\<rparr>)"

definition toast :: "toast_obj \<Rightarrow> toaster \<Rightarrow> jsstr \<times> toaster" where
  "toast props s =
     (let (i, s1) = genId s
      in (i, dispatch (ADD_TOAST (obj_assign props
           [(js ''id'', TStr i), (js ''open'', TBool True), (js ''onOpenChange'', TOnOpenChange i)])) s1))"

definition toast_update :: "jsstr \<Rightarrow> toast_obj \<Rightarrow> toaster \<Rightarrow> toaster" where
  "toast_update i props = dispatch (UPDATE_TOAST (obj_put (js ''id'') (TStr i) props))"

definition toast_dismiss :: "jsstr \<Rightarrow> toaster \<Rightarrow> toaster" where
  "toast_dismiss i = dispatch (DISMISS_TOAST (Some i))"

definition onOpenChange :: "jsstr \<Rightarrow> bool \<Rightarrow> toaster \<Rightarrow> toaster" where
  "onOpenChange i opened s = (if \<not> opened then toast_dismiss i s else s)"

text \<open>The timer callback: forget the timer and remove the toast.\<close>

definition timer_fires :: "nat \<Rightarrow> jsstr \<Rightarrow> toaster \<Rightarrow> toaster" where
  "timer_fires n toastId s =
     dispatch (REMOVE_TOAST (Some toastId))
       (s\<lparr>timers := remove1 (n, toastId) (timers s), toastTimeouts := AList.delete toastId (toastTimeouts s)\<rparr>)"

text \<open>
  The hook: a component reads the state when it mounts, its effect adds its setter to the listeners,
  and the clean-up takes the first occurrence out again.
\<close>

definition useToast_mount :: "nat \<Rightarrow> toaster \<Rightarrow> toaster" where
  "useToast_mount l s = s\<lparr>listeners := listeners s @ [l], told := (told s)(l := Some (memoryState s))\<rparr>"

definition useToast_cleanup :: "nat \<Rightarrow> toaster \<Rightarrow> toaster" where
  "useToast_cleanup l s = s\<lparr>listeners := remove1 l (listeners s)\<rparr>"

definition useToast_dismiss :: "jsstr option \<Rightarrow> toaster \<Rightarrow> toaster" where
  "useToast_dismiss toastId = dispatch (DISMISS_TOAST toastId)"

section \<open>Runs\<close>

text \<open>
  What can happen, in any order: calls of the exported functions, a toast's own close event, a timer
  that fires, and components that mount and unmount. An update may set every field except
  \<^verbatim>\<open>open\<close>, which belongs to the store.
\<close>

inductive toast_step :: "toaster \<Rightarrow> toaster \<Rightarrow> bool" where
  step_toast: "toast_step s (snd (toast props s))"
| step_update: "obj_get props (js ''open'') = None \<Longrightarrow> distinct (map fst props) \<Longrightarrow>
    toast_step s (toast_update i props s)"
| step_open: "toast_step s (onOpenChange i opened s)"
| step_dismiss: "toast_step s (useToast_dismiss toastId s)"
| step_timer: "(n, i) \<in> set (timers s) \<Longrightarrow> toast_step s (timer_fires n i s)"
| step_mount: "l \<notin> set (listeners s) \<Longrightarrow> toast_step s (useToast_mount l s)"
| step_cleanup: "toast_step s (useToast_cleanup l s)"

inductive_cases toast_stepE: "toast_step s s'"

definition reachable_toaster :: "toaster \<Rightarrow> bool" where
  "reachable_toaster = toast_step\<^sup>*\<^sup>* initial_toaster"

section \<open>The invariant\<close>

text \<open>A toast in the store has a non-empty identifier; when it is closed its removal is queued.\<close>

definition toast_ok :: "(jsstr \<times> nat) list \<Rightarrow> toast_obj \<Rightarrow> bool" where
  "toast_ok q t \<longleftrightarrow>
     (\<exists>i. toast_id t = Some (TStr i) \<and> i \<noteq> [] \<and>
        (obj_get t (js ''open'') = Some (TBool True) \<or>
         obj_get t (js ''open'') = Some (TBool False) \<and> obj_get q i \<noteq> None))"

definition queue_ok :: "toaster \<Rightarrow> bool" where
  "queue_ok s \<longleftrightarrow>
     distinct (map fst (timers s)) \<and> distinct (map snd (timers s))
     \<and> (\<forall>n \<in> fst ` set (timers s). n < next_timer s)
     \<and> (\<forall>i n. obj_get (toastTimeouts s) i = Some n \<longleftrightarrow> (n, i) \<in> set (timers s))"

definition toaster_ok :: "toaster \<Rightarrow> bool" where
  "toaster_ok s \<longleftrightarrow>
     length (memoryState s) \<le> TOAST_LIMIT \<and> list_all (toast_ok (toastTimeouts s)) (memoryState s)
     \<and> queue_ok s \<and> distinct (listeners s) \<and> (\<forall>l \<in> set (listeners s). told s l = Some (memoryState s))
     \<and> 0 \<le> count s \<and> count s < MAX_SAFE_INTEGER"

lemma list_all_mapI: "(\<And>x. x \<in> set xs \<Longrightarrow> P (f x)) \<Longrightarrow> list_all P (map f xs)"
  by (induction xs) simp_all

lemma addToRemoveQueue_frame [simp]:
  "memoryState (addToRemoveQueue i s) = memoryState s" "listeners (addToRemoveQueue i s) = listeners s"
  "told (addToRemoveQueue i s) = told s" "count (addToRemoveQueue i s) = count s"
  by (simp_all add: addToRemoveQueue_def)

lemma addToRemoveQueue_queue:
  "obj_get (toastTimeouts (addToRemoveQueue i s)) j \<noteq> None \<longleftrightarrow> j = i \<or> obj_get (toastTimeouts s) j \<noteq> None"
  by (auto simp: addToRemoveQueue_def)

lemma queue_ok_add: "queue_ok s \<Longrightarrow> queue_ok (addToRemoveQueue i s)"
  by (fastforce simp: queue_ok_def addToRemoveQueue_def image_iff)

abbreviation queue_all :: "toast_obj list \<Rightarrow> toaster \<Rightarrow> toaster" where
  "queue_all ts \<equiv> fold (\<lambda>t. addToRemoveQueue (id_text t)) ts"

lemma queue_all_frame [simp]:
  "memoryState (queue_all ts s) = memoryState s" "listeners (queue_all ts s) = listeners s"
  "told (queue_all ts s) = told s" "count (queue_all ts s) = count s"
  by (induction ts arbitrary: s) simp_all

lemma queue_ok_all: "queue_ok s \<Longrightarrow> queue_ok (queue_all ts s)"
  by (induction ts arbitrary: s) (simp_all add: queue_ok_add)

lemma queue_all_queue:
  "obj_get (toastTimeouts (queue_all ts s)) j \<noteq> None \<longleftrightarrow> j \<in> id_text ` set ts \<or> obj_get (toastTimeouts s) j \<noteq> None"
proof (induction ts arbitrary: s)
  case (Cons t ts)
  then show ?case using addToRemoveQueue_queue [of "id_text t" s j] by auto
qed simp

lemma toast_ok_mono:
  "toast_ok q t \<Longrightarrow> (\<And>i. obj_get q i \<noteq> None \<Longrightarrow> obj_get q' i \<noteq> None) \<Longrightarrow> toast_ok q' t"
  unfolding toast_ok_def by blast

lemma toast_id_open [simp]: "toast_id (obj_put (js ''open'') v t) = toast_id t"
  by (simp add: toast_id_def)

lemma toast_ok_close:
  "toast_id t = Some (TStr i) \<Longrightarrow> i \<noteq> [] \<Longrightarrow> obj_get q i \<noteq> None \<Longrightarrow>
     toast_ok q (obj_put (js ''open'') (TBool False) t)"
  by (simp add: toast_ok_def)

text \<open>The part of the invariant that an action of the reducer must keep; \<open>dispatch\<close> restores the rest.\<close>

definition store_ok :: "toaster \<Rightarrow> bool" where
  "store_ok s \<longleftrightarrow>
     length (memoryState s) \<le> TOAST_LIMIT \<and> list_all (toast_ok (toastTimeouts s)) (memoryState s)
     \<and> queue_ok s \<and> distinct (listeners s) \<and> 0 \<le> count s \<and> count s < MAX_SAFE_INTEGER"

lemma dispatch_ok: "store_ok (reducer a s) \<Longrightarrow> toaster_ok (dispatch a s)"
  by (simp add: toaster_ok_def store_ok_def dispatch_def Let_def queue_ok_def)

lemma toaster_ok_store: "toaster_ok s \<Longrightarrow> store_ok s"
  by (simp add: toaster_ok_def store_ok_def)

lemma store_ok_add: "store_ok s \<Longrightarrow> toast_ok (toastTimeouts s) t \<Longrightarrow> store_ok (reducer (ADD_TOAST t) s)"
  by (auto simp: store_ok_def reducer_def TOAST_LIMIT_def queue_ok_def)

lemma store_ok_dismiss:
  assumes "store_ok s"
  shows "store_ok (reducer (DISMISS_TOAST x) s)"
proof -
  define s1 where "s1 = (case x of Some i \<Rightarrow> if i \<noteq> [] then addToRemoveQueue i s else queue_all (memoryState s) s
    | None \<Rightarrow> queue_all (memoryState s) s)"
  have q: "queue_ok s1"
    using assms by (auto simp: s1_def store_ok_def queue_ok_add queue_ok_all split: option.split)
  have fr: "memoryState s1 = memoryState s" "listeners s1 = listeners s" "count s1 = count s"
    by (simp_all add: s1_def split: option.split)
  have grow: "obj_get (toastTimeouts s) j \<noteq> None \<Longrightarrow> obj_get (toastTimeouts s1) j \<noteq> None" for j
    using addToRemoveQueue_queue [of _ s j] queue_all_queue [of _ s j]
    by (auto simp: s1_def split: option.split)
  have "toast_ok (toastTimeouts s1)
      (if x = None \<or> toast_id t = map_option TStr x then obj_put (js ''open'') (TBool False) t else t)"
    if t: "t \<in> set (memoryState s)" for t
  proof -
    have ok: "toast_ok (toastTimeouts s) t" using assms t by (simp add: store_ok_def list_all_iff)
    then obtain i where i: "toast_id t = Some (TStr i)" "i \<noteq> []" by (auto simp: toast_ok_def)
    have "obj_get (toastTimeouts s1) i \<noteq> None" if "x = None \<or> toast_id t = map_option TStr x"
      using that i t addToRemoveQueue_queue [of i s i] queue_all_queue [of "memoryState s" s i]
      by (force simp: s1_def id_text_def split: option.split)
    then show ?thesis
      using toast_ok_close [OF i] toast_ok_mono [OF ok grow] by auto
  qed
  then have "list_all (toast_ok (toastTimeouts s1)) (map (\<lambda>t. if x = None \<or> toast_id t = map_option TStr x
      then obj_put (js ''open'') (TBool False) t else t) (memoryState s))"
    by (rule list_all_mapI)
  moreover have "reducer (DISMISS_TOAST x) s = s1\<lparr>memoryState := map (\<lambda>t. if x = None \<or> toast_id t = map_option TStr x
      then obj_put (js ''open'') (TBool False) t else t) (memoryState s)\<rparr>"
    by (simp add: reducer_def s1_def Let_def)
  ultimately show ?thesis
    using assms q fr by (simp add: store_ok_def queue_ok_def)
qed

lemma obj_get_assign_none: "obj_get b k = None \<Longrightarrow> obj_get (obj_assign a b) k = obj_get a k"
proof (induction b arbitrary: a)
  case (Cons kv b)
  then show ?case by (cases kv) (auto split: if_splits)
qed simp

lemma store_ok_update:
  assumes "store_ok s" "toast_id t = Some (TStr i)" "obj_get t (js ''open'') = None"
    "distinct (map fst t)"
  shows "store_ok (reducer (UPDATE_TOAST t) s)"
proof -
  have "toast_ok (toastTimeouts s) (if toast_id u = toast_id t then obj_assign u t else u)"
    if "u \<in> set (memoryState s)" for u
  proof -
    have ok: "toast_ok (toastTimeouts s) u" using assms(1) that by (simp add: store_ok_def list_all_iff)
    have "toast_id (obj_assign u t) = toast_id u" if "toast_id u = toast_id t"
      using that assms(2) obj_get_assign [OF assms(4), of u "js ''id''"] by (simp add: toast_id_def)
    then show ?thesis
      using ok obj_get_assign_none [OF assms(3), of u] by (auto simp: toast_ok_def)
  qed
  then have "list_all (toast_ok (toastTimeouts s))
      (map (\<lambda>u. if toast_id u = toast_id t then obj_assign u t else u) (memoryState s))"
    by (rule list_all_mapI)
  then show ?thesis
    using assms(1) by (simp add: store_ok_def reducer_def queue_ok_def)
qed

lemma toast_ok_delete:
  assumes "toast_ok q t" "toast_id t \<noteq> Some (TStr i)"
  shows "toast_ok (AList.delete i q) t"
proof -
  obtain j where j: "toast_id t = Some (TStr j)" "j \<noteq> []" "obj_get t (js ''open'') = Some (TBool True) \<or>
      obj_get t (js ''open'') = Some (TBool False) \<and> obj_get q j \<noteq> None"
    using assms(1) by (auto simp: toast_ok_def)
  moreover have "obj_get (AList.delete i q) j = obj_get q j" using assms(2) j(1) by (simp add: delete_conv')
  ultimately show ?thesis unfolding toast_ok_def by auto
qed

lemma toaster_ok_timer:
  assumes "toaster_ok s" "(n, i) \<in> set (timers s)"
  shows "toaster_ok (timer_fires n i s)"
proof -
  let ?s = "s\<lparr>timers := remove1 (n, i) (timers s), toastTimeouts := AList.delete i (toastTimeouts s)\<rparr>"
  have q: "queue_ok s" and m: "list_all (toast_ok (toastTimeouts s)) (memoryState s)"
    using assms(1) by (simp_all add: toaster_ok_def)
  have d: "distinct (timers s)" using q by (auto simp: queue_ok_def distinct_map)
  have u: "(k, i) \<in> set (timers s) \<Longrightarrow> k = n" for k
    using q assms(2) unfolding queue_ok_def by (metis option.inject)
  have "queue_ok ?s"
    using q d u
    by (auto simp: queue_ok_def delete_conv' distinct_map inj_on_def)
  moreover have "list_all (toast_ok (AList.delete i (toastTimeouts s)))
      (filter (\<lambda>t. toast_id t \<noteq> Some (TStr i)) (memoryState s))"
    using m by (auto simp: list_all_iff intro: toast_ok_delete)
  ultimately have "store_ok (reducer (REMOVE_TOAST (Some i)) ?s)"
    using assms(1)
    by (auto simp: store_ok_def toaster_ok_def reducer_def queue_ok_def intro: order_trans [OF length_filter_le])
  then show ?thesis unfolding timer_fires_def by (rule dispatch_ok)
qed

lemma toast_new_ok:
  "toast_ok q (obj_put (js ''onOpenChange'') x (obj_put (js ''open'') (TBool True) (obj_put (js ''id'') (TStr (show_int c)) props)))"
  by (simp add: toast_ok_def toast_id_def) (simp add: show_int_def)

lemma toaster_ok_step: "toast_step s s' \<Longrightarrow> toaster_ok s \<Longrightarrow> toaster_ok s'"
proof (induction rule: toast_step.induct)
  case (step_toast s props)
  let ?c = "(count s + 1) mod MAX_SAFE_INTEGER"
  have "store_ok (s\<lparr>count := ?c\<rparr>)"
    using toaster_ok_store [OF step_toast] by (simp add: store_ok_def queue_ok_def MAX_SAFE_INTEGER_def)
  then show ?case
    by (auto simp: toast_def genId_def Let_def intro!: dispatch_ok store_ok_add toast_new_ok)
next
  case (step_update props s i)
  then show ?case
    unfolding toast_update_def
    by (intro dispatch_ok store_ok_update [where i = i])
      (simp_all add: toaster_ok_store toast_id_def distinct_update)
next
  case (step_open s i opened)
  then show ?case
    by (auto simp: onOpenChange_def toast_dismiss_def intro!: dispatch_ok store_ok_dismiss [OF toaster_ok_store])
next
  case (step_dismiss s toastId)
  then show ?case
    by (auto simp: useToast_dismiss_def intro!: dispatch_ok store_ok_dismiss [OF toaster_ok_store])
next
  case (step_timer n i s)
  then show ?case by (simp add: toaster_ok_timer)
next
  case (step_mount l s)
  then show ?case by (auto simp: useToast_mount_def toaster_ok_def queue_ok_def)
next
  case (step_cleanup s l)
  then show ?case
    by (auto simp: useToast_cleanup_def toaster_ok_def queue_ok_def dest: notin_set_remove1)
qed

lemma toaster_ok_initial: "toaster_ok initial_toaster"
  by (simp add: toaster_ok_def initial_toaster_def queue_ok_def MAX_SAFE_INTEGER_def)

lemma reachable_ok: "reachable_toaster s \<Longrightarrow> toaster_ok s"
  unfolding reachable_toaster_def
  by (induction rule: rtranclp_induct) (auto intro: toaster_ok_initial toaster_ok_step)



section \<open>Dismissed toasts disappear\<close>

lemma fire_all:
  "memoryState (fold (\<lambda>(n, i). timer_fires n i) ts s) =
     filter (\<lambda>t. \<forall>(n, i) \<in> set ts. toast_id t \<noteq> Some (TStr i)) (memoryState s)"
  "timers (fold (\<lambda>(n, i). timer_fires n i) ts s) = fold remove1 ts (timers s)"
  by (induction ts arbitrary: s)
    (auto simp: timer_fires_def dispatch_def reducer_def Let_def conj_commute)

lemma fold_remove1_self: "fold remove1 xs xs = []"
  by (induction xs) simp_all

text \<open>
  Every dismissed notification goes away: when the pending timers of a reachable state have fired,
  no timer is left, no closed toast is left, and no toast was lost whose removal was not queued.
\<close>
lemma toast_removed:
  assumes "reachable_toaster s"
  shows "let s' = fold (\<lambda>(n, i). timer_fires n i) (timers s) s
    in timers s' = [] \<and> (\<forall>t \<in> set (memoryState s'). obj_get t (js ''open'') = Some (TBool True))
       \<and> set (memoryState s') =
           {t \<in> set (memoryState s). \<forall>n i. (n, i) \<in> set (timers s) \<longrightarrow> toast_id t \<noteq> Some (TStr i)}"
proof -
  have ok: "toaster_ok s" by (rule reachable_ok [OF assms])
  have "obj_get t (js ''open'') = Some (TBool True)"
    if "t \<in> set (memoryState s)" "\<forall>(n, i) \<in> set (timers s). toast_id t \<noteq> Some (TStr i)" for t
    using ok that by (fastforce simp: toaster_ok_def queue_ok_def list_all_iff toast_ok_def)
  then show ?thesis
    by (auto simp: Let_def fire_all fold_remove1_self)
qed

lemma toast_removed_witness:
  "let s = snd (toast [] initial_toaster)
   in memoryState (fold (\<lambda>(n, i). timer_fires n i) (timers s) s) = memoryState s \<and> memoryState s \<noteq> []"
proof -
  let ?s = "snd (toast [] initial_toaster)"
  have "toast_step initial_toaster ?s" by (rule step_toast)
  then have "reachable_toaster ?s" unfolding reachable_toaster_def by (rule r_into_rtranclp)
  from toast_removed [OF this] show ?thesis
    by (simp add: toast_def genId_def dispatch_def reducer_def initial_toaster_def Let_def TOAST_LIMIT_def)
qed

end
