(* ===== verification/Views.thy ===== *)
theory Views
  imports Http
begin

text \<open>
  What the user interfaces have in common: a rendered component as a tree of elements, and the calls
  to the outside that a handler makes. Class names, icons and animation properties are left out of
  the trees; text, the attributes that carry content, and buttons with their handler and their
  \<^verbatim>\<open>disabled\<close> flag are kept. An \<open>Area\<close> is an element that can itself be clicked.
\<close>

section \<open>Rendered trees\<close>

datatype 'h view =
    Txt jsstr
  | El string "(string \<times> jsstr) list" "'h view list"
  | Btn 'h bool "'h view list"
  | Area 'h "'h view list"

fun view_texts :: "'h view \<Rightarrow> jsstr list" where
  "view_texts (Txt s) = [s]"
| "view_texts (El n as vs) = concat (map view_texts vs)"
| "view_texts (Btn h d vs) = concat (map view_texts vs)"
| "view_texts (Area h vs) = concat (map view_texts vs)"

text \<open>The handlers of the areas and of the buttons that can be pressed.\<close>

fun view_handlers :: "'h view \<Rightarrow> 'h list" where
  "view_handlers (Txt s) = []"
| "view_handlers (El n as vs) = concat (map view_handlers vs)"
| "view_handlers (Btn h disabled vs) = (if disabled then [] else [h])"
| "view_handlers (Area h vs) = h # concat (map view_handlers vs)"

fun view_tags :: "'h view \<Rightarrow> string list" where
  "view_tags (Txt s) = []"
| "view_tags (El n as vs) = n # concat (map view_tags vs)"
| "view_tags (Btn h d vs) = ''button'' # concat (map view_tags vs)"
| "view_tags (Area h vs) = concat (map view_tags vs)"

text \<open>\<^verbatim>\<open>condition && view\<close> among the children of an element.\<close>

definition show_if :: "bool \<Rightarrow> 'h view list \<Rightarrow> 'h view list" where
  [simp]: "show_if b vs = (if b then vs else [])"

text \<open>
  A value among the children of an element: text and numbers are shown, \<^verbatim>\<open>null\<close>,
  \<^verbatim>\<open>undefined\<close> and booleans are not, arrays show their elements, and an object makes
  rendering throw (the library's message goes on to name the keys).
\<close>

fun react_json :: "json \<Rightarrow> exn + jsstr" where
  "react_json JNull = Inr []"
| "react_json (JBool b) = Inr []"
| "react_json (JNum r) = Inr (num_str r)"
| "react_json (JStr s) = Inr s"
| "react_json (JArr vs) = r_bind (r_mapM id (map react_json vs)) (\<lambda>ts. Inr (concat ts))"
| "react_json (JObj kvs) = Inl (js_Error (js ''Objects are not valid as a React child''))"

definition react_text :: "jsval \<Rightarrow> exn + jsstr" where
  "react_text v = (case v of None \<Rightarrow> Inr [] | Some j \<Rightarrow> react_json j)"

text \<open>\<^verbatim>\<open>a ?? b\<close>.\<close>

definition nullish_or :: "jsval \<Rightarrow> json \<Rightarrow> jsval" where
  "nullish_or v d = (if nullish v then Some d else v)"

text \<open>An attribute with a value from a document: React leaves out the ones that are nullish or boolean.\<close>

fun attr :: "string \<Rightarrow> jsval \<Rightarrow> (string \<times> jsstr) list" where
  "attr k None = []"
| "attr k (Some JNull) = []"
| "attr k (Some (JBool b)) = []"
| "attr k (Some j) = [(k, json_text j)]"

section \<open>Calls to the outside\<close>

datatype effect =
    ToastSuccess jsstr
  | ToastError jsstr
  | Navigate jsstr
  | Clipboard jsstr
  | Download jsstr bytes
  | ConsoleError exn
  | ConsoleWarn exn
  | ConsoleValue jsval
  | RevokeObjectURL jsstr
  | Notice jsstr "jsstr option" bool
  | Callback string
  | ShareSheet jsstr jsval jsstr

text \<open>
  \<open>ConsoleValue\<close> is \<^verbatim>\<open>console.error\<close> with a value that is no exception; \<open>Notice\<close> is a call of the notification store with title, description and whether it is the
  destructive variant; \<open>Callback\<close> calls a property of the component; \<open>ShareSheet\<close> is
  \<^verbatim>\<open>navigator.share\<close>.
\<close>

text \<open>\<^verbatim>\<open>fetch\<close> with an error for a response that is not ok, as the pages do it.\<close>

definition ok_or_throw :: "exn + http_response \<Rightarrow> exn + http_response" where
  "ok_or_throw r =
     r_bind r (\<lambda>response.
     if \<not> resp_ok response then r_bind (resp_text response) (\<lambda>t. Inl (js_Error t)) else Inr response)"

end
