(* ===== verification/Explorer.thy ===== *)
theory Explorer
  imports Views
begin

text \<open>
  The blob explorer, \<^verbatim>\<open>src/blob_gateway/ui/src\<close>: \<^verbatim>\<open>lib/format.ts\<close>,
  \<^verbatim>\<open>components/PreviewSection.tsx\<close>, \<^verbatim>\<open>components/ShareLinkInput.tsx\<close>,
  \<^verbatim>\<open>pages/Index.tsx\<close> and \<^verbatim>\<open>pages/SharePage.tsx\<close>. A handler that awaits a response is split
  at that point: the part before adds a call to the pending ones, the part after runs when the
  response arrives, and between the two anything else may happen.
\<close>

section \<open>Formatting\<close>

text \<open>\<^verbatim>\<open>x.toFixed(2)\<close> for a non-negative number below \<open>10\<^sup>2\<^sup>1\<close>.\<close>

definition fixed2 :: "int \<Rightarrow> jsstr" where
  "fixed2 n = show_int (n div 100) @ js ''.'' @ show_int (n mod 100 div 10) @ show_int (n mod 10)"

definition hundredths :: "rat \<Rightarrow> int" where
  "hundredths x = \<lfloor>100 * x + 1 / 2\<rfloor>"

definition toFixed2 :: "rat option \<Rightarrow> jsstr" where
  "toFixed2 x = (case x of None \<Rightarrow> js ''NaN'' | Some r \<Rightarrow> fixed2 (hundredths r))"

definition lt_number :: "jsval \<Rightarrow> rat \<Rightarrow> bool" where
  "lt_number v n = (case val_number v of None \<Rightarrow> False | Some r \<Rightarrow> r < n)"

definition formatSize :: "jsval \<Rightarrow> jsstr" where
  "formatSize bytes =
     (if lt_number bytes 1024 then val_text bytes @ js '' B''
      else if lt_number bytes (1024 * 1024) then
        toFixed2 (map_option (\<lambda>r. r / 1024) (val_number bytes)) @ js '' KB''
      else if lt_number bytes (1024 * 1024 * 1024) then
        toFixed2 (map_option (\<lambda>r. r / (1024 * 1024)) (val_number bytes)) @ js '' MB''
      else toFixed2 (map_option (\<lambda>r. r / (1024 * 1024 * 1024)) (val_number bytes)) @ js '' GB'')"

text \<open>
  The identifier is a field of a parsed document, so it may be missing or no text at all; arrays and
  objects, which the gateway never sends as identifiers, count as not text here.
\<close>

definition truncate_text :: "jsstr \<Rightarrow> nat \<Rightarrow> jsstr" where
  "truncate_text s len = (if length s \<le> len then s else take len s @ js ''...'')"

definition truncateId :: "jsval \<Rightarrow> nat \<Rightarrow> exn + jsstr" where
  "truncateId i len =
     r_bind (get_prop ''length'' i) (\<lambda>_.
     case i of
       Some (JStr s) \<Rightarrow> Inr (truncate_text s len)
     | _ \<Rightarrow> Inl (native CTypeError (js ''id.substring is not a function'')))"

section \<open>Preview and link components\<close>

abbreviation is_type :: "jsstr \<Rightarrow> string \<Rightarrow> bool" where
  "is_type t kind \<equiv> starts_with t (js kind)"

definition PreviewSection :: "jsstr option \<Rightarrow> jsstr option \<Rightarrow> 'h view list" where
  "PreviewSection content contentType =
     (if \<not> truthy content then []
      else
        (let src = the content;
             safeType = or_str contentType (js ''application/octet-stream'')
         in [El ''div'' []
              (show_if (is_type safeType ''image/'') [El ''img'' [(''src'', src), (''alt'', js ''Preview'')] []]
               @ show_if (is_type safeType ''video/'') [El ''video'' [(''src'', src)] []]
               @ show_if (is_type safeType ''audio/'') [El ''audio'' [(''src'', src)] []]
               @ show_if (\<not> is_type safeType ''image/'' \<and> \<not> is_type safeType ''video/''
                   \<and> \<not> is_type safeType ''audio/'')
                   [Txt (js ''Preview not available for this content type'')])]))"

record ShareLinkInput =
  sl_value :: jsstr
  sl_copied :: bool
  sl_timers :: nat

definition handleCopy :: "ShareLinkInput \<Rightarrow> ShareLinkInput \<times> effect list" where
  "handleCopy s =
     (s\<lparr>sl_copied := True, sl_timers := Suc (sl_timers s)\<rparr>,
      [Clipboard (sl_value s), ToastSuccess (js ''Copied to clipboard!'')])"

definition copy_timer_fires :: "ShareLinkInput \<Rightarrow> ShareLinkInput" where
  "copy_timer_fires s = s\<lparr>sl_copied := False, sl_timers := sl_timers s - 1\<rparr>"

definition ShareLinkInput_view :: "ShareLinkInput \<Rightarrow> jsstr \<Rightarrow> unit view" where
  "ShareLinkInput_view s label =
     El ''div'' []
       [El ''input'' [(''value'', sl_value s), (''aria-label'', label)] [],
        Btn () False [Txt (if sl_copied s then js ''Copied'' else js ''Copy'')]]"

section \<open>The explorer page\<close>

datatype ex_call = InfoCall jsstr | DownloadCall jsstr

record explorer =
  ex_blobId :: jsstr
  ex_loading :: bool
  ex_blobInfo :: jsval
  ex_previewUrl :: "jsstr option"
  ex_pending :: "ex_call list"
  ex_effects :: "effect list"

definition initial_explorer :: explorer where
  "initial_explorer =
     \<lparr>ex_blobId = [], ex_loading = False, ex_blobInfo = Some JNull, ex_previewUrl = None,
      ex_pending = [], ex_effects = []\<rparr>"

definition apiBase :: jsstr where
  "apiBase = js ''/explorer/api''"

definition cdnBase :: jsstr where
  "cdnBase = js ''/explorer/api/cdn''"

definition emit :: "effect \<Rightarrow> explorer \<Rightarrow> explorer" where
  "emit e s = s\<lparr>ex_effects := ex_effects s @ [e]\<rparr>"

definition info_id :: "explorer \<Rightarrow> jsstr" where
  "info_id s = val_text (opt_prop ''id'' (ex_blobInfo s))"

definition previewType :: "explorer \<Rightarrow> jsval" where
  "previewType s =
     or_val (opt_prop ''detected_mime_type'' (ex_blobInfo s))
       (or_val (opt_prop ''mime_type'' (ex_blobInfo s)) (Some (JStr (js ''application/octet-stream''))))"

definition fetchBlobInfo :: "explorer \<Rightarrow> explorer" where
  "fetchBlobInfo s =
     (if trim (ex_blobId s) = [] then emit (ToastError (js ''Please enter a Blob ID'')) s
      else s\<lparr>ex_loading := True, ex_blobInfo := Some JNull, ex_previewUrl := None,
             ex_pending := ex_pending s @ [InfoCall (apiBase @ js ''/blob/'' @ ex_blobId s @ js ''/info'')]\<rparr>)"

definition show_error :: "exn \<Rightarrow> effect" where
  "show_error e = ToastError (js ''Error: '' @ exn_message e)"

definition fetchBlobInfo_resume :: "env \<Rightarrow> fetch_result \<Rightarrow> explorer \<Rightarrow> explorer" where
  "fetchBlobInfo_resume E r s =
     (case r_bind (ok_or_throw r) (resp_json E) of
        Inl error \<Rightarrow> emit (show_error error) s
      | Inr info \<Rightarrow> emit (ToastSuccess (js ''Blob info loaded successfully'')) (s\<lparr>ex_blobInfo := Some info\<rparr>)
     )\<lparr>ex_loading := False\<rparr>"

definition viewBlob :: "explorer \<Rightarrow> explorer" where
  "viewBlob s =
     (if \<not> truthy_val (ex_blobInfo s) then s
      else (emit (ToastSuccess (js ''Blob loaded successfully''))
             (s\<lparr>ex_previewUrl := Some (cdnBase @ js ''/'' @ info_id s)\<rparr>))\<lparr>ex_loading := False\<rparr>)"

definition downloadBlob_start :: "explorer \<Rightarrow> explorer" where
  "downloadBlob_start s =
     (if \<not> truthy_val (ex_blobInfo s) then s
      else s\<lparr>ex_loading := True,
             ex_pending := ex_pending s @ [DownloadCall (apiBase @ js ''/blob/'' @ info_id s @ js ''?download=true'')]\<rparr>)"

text \<open>
  The first match of \<^verbatim>\<open>/filename="([^"]+)"/\<close>: a non-empty run without quotes between the
  marker and a quote.
\<close>

definition quote_char :: unit16 where
  "quote_char = 34"

definition filename_here :: "jsstr \<Rightarrow> jsstr option" where
  "filename_here s =
     (let marker = js ''filename='' @ [quote_char];
          rest = drop (length marker) s;
          name = takeWhile (\<lambda>u. u \<noteq> quote_char) rest
      in if starts_with s marker \<and> name \<noteq> [] \<and> length name < length rest then Some name else None)"

fun match_filename :: "jsstr \<Rightarrow> jsstr option" where
  "match_filename [] = None"
| "match_filename (u # s) =
     (case filename_here (u # s) of Some n \<Rightarrow> Some n | None \<Rightarrow> match_filename s)"

definition download_name :: "http_response \<Rightarrow> jsstr" where
  "download_name response =
     (let disposition = header_get response ''content-disposition''
      in if truthy disposition then
           (case match_filename (the disposition) of Some n \<Rightarrow> n | None \<Rightarrow> js ''download'')
         else js ''download'')"

definition downloadBlob_resume :: "fetch_result \<Rightarrow> explorer \<Rightarrow> explorer" where
  "downloadBlob_resume r s =
     (case r_bind (ok_or_throw r) (\<lambda>response. r_bind (resp_bytes response) (\<lambda>blob. Inr (download_name response, blob))) of
        Inl error \<Rightarrow> emit (show_error error) s
      | Inr (filename, blob) \<Rightarrow>
          emit (ToastSuccess (js ''Download started'')) (emit (Download filename blob) s)
     )\<lparr>ex_loading := False\<rparr>"

definition shareBlob :: "explorer \<Rightarrow> explorer" where
  "shareBlob s =
     (if \<not> truthy_val (ex_blobInfo s) then emit (ToastError (js ''Please fetch blob info first'')) s
      else emit (Navigate (js ''/share/'' @ info_id s)) s)"

definition copyDirectLink :: "jsstr \<Rightarrow> explorer \<Rightarrow> explorer" where
  "copyDirectLink origin s =
     (if \<not> truthy_val (ex_blobInfo s) then emit (ToastError (js ''Please fetch blob info first'')) s
      else emit (ToastSuccess (js ''CDN link copied to clipboard!''))
             (emit (Clipboard (origin @ cdnBase @ js ''/'' @ info_id s)) s))"

definition handleKeyDown :: "jsstr \<Rightarrow> explorer \<Rightarrow> explorer" where
  "handleKeyDown key s = (if key = js ''Enter'' then fetchBlobInfo s else s)"

section \<open>What the explorer shows\<close>

datatype ex_handler = FetchInfo | ViewBlob | DownloadBlob | ShareBlob | CopyLink

definition StatCard :: "string \<Rightarrow> jsstr \<Rightarrow> 'h view" where
  "StatCard label value = El ''stat'' [(''label'', js label)] [Txt value]"

definition stat_cards :: "jsval \<Rightarrow> exn + ex_handler view list" where
  "stat_cards info =
     r_bind (truncateId (opt_prop ''id'' info) 12) (\<lambda>cid.
     Inr [StatCard ''Content ID'' cid,
          StatCard ''Size'' (formatSize (opt_prop ''size'' info)),
          StatCard ''Chunks''
            (val_text (opt_prop ''chunk_count'' info) @ js '' / '' @ val_text (opt_prop ''subchunk_count'' info)),
          StatCard ''MIME Type'' (val_text (or_val (opt_prop ''mime_type'' info) (Some (JStr (js ''Unknown''))))),
          StatCard ''Detected'' (val_text (or_val (opt_prop ''detected_mime_type'' info) (Some (JStr (js ''N/A''))))),
          StatCard ''Available''
            (if truthy_val (opt_prop ''available_locally'' info) then js ''Local '' @ [0x2713] else js ''Remote'')])"

definition explorer_content :: "explorer \<Rightarrow> exn + ex_handler view" where
  "explorer_content s =
     r_bind (stat_cards (ex_blobInfo s)) (\<lambda>stats.
     Inr (El ''content'' []
       [El ''stats'' [] stats,
        El ''actions'' []
          [Btn ViewBlob False [Txt (js ''View'')], Btn DownloadBlob False [Txt (js ''Download'')],
           Btn ShareBlob False [Txt (js ''Share'')], Btn CopyLink False [Txt (js ''CDN Link'')]],
        El ''preview'' [] (PreviewSection (ex_previewUrl s) (Some (val_text (previewType s))))]))"

definition explorer_view :: "explorer \<Rightarrow> exn + ex_handler view" where
  "explorer_view s =
     r_bind (if truthy_val (ex_blobInfo s) \<and> \<not> ex_loading s
             then r_bind (explorer_content s) (\<lambda>v. Inr [v]) else Inr []) (\<lambda>content.
     Inr (El ''div'' []
       ([El ''input'' [(''placeholder'', js ''Enter Blob ID (blob<hash>)''), (''value'', ex_blobId s)] [],
         Btn FetchInfo (ex_loading s) [Txt (js ''Fetch Info'')]]
        @ show_if (ex_loading s) [El ''spinner'' [] []]
        @ content
        @ show_if (\<not> truthy_val (ex_blobInfo s) \<and> \<not> ex_loading s)
            [El ''empty'' [] [Txt (js ''Enter a Blob ID to get started'')]]
        @ [Txt (js ''Powered by ONVM Decentralized Network'')])))"

section \<open>Runs of the explorer\<close>

definition press :: "jsstr \<Rightarrow> ex_handler \<Rightarrow> explorer \<Rightarrow> explorer" where
  "press origin h =
     (case h of
        FetchInfo \<Rightarrow> fetchBlobInfo
      | ViewBlob \<Rightarrow> viewBlob
      | DownloadBlob \<Rightarrow> downloadBlob_start
      | ShareBlob \<Rightarrow> shareBlob
      | CopyLink \<Rightarrow> copyDirectLink origin)"

definition resume :: "env \<Rightarrow> ex_call \<Rightarrow> fetch_result \<Rightarrow> explorer \<Rightarrow> explorer" where
  "resume E call r s =
     (let s1 = s\<lparr>ex_pending := remove1 call (ex_pending s)\<rparr>
      in case call of InfoCall _ \<Rightarrow> fetchBlobInfo_resume E r s1 | DownloadCall _ \<Rightarrow> downloadBlob_resume r s1)"

text \<open>
  Typing, a key in the input field, a press on an enabled button of the view, and the arrival of any
  response to any pending call. The flag \<open>impatient\<close> says whether the Enter key may be used while a
  call is running; the view itself does not prevent it.
\<close>

inductive ex_step :: "bool \<Rightarrow> env \<Rightarrow> jsstr \<Rightarrow> explorer \<Rightarrow> explorer \<Rightarrow> bool" for impatient E origin where
  ex_type: "ex_step impatient E origin s (s\<lparr>ex_blobId := text\<rparr>)"
| ex_key: "impatient \<or> \<not> ex_loading s \<Longrightarrow> ex_step impatient E origin s (handleKeyDown key s)"
| ex_press: "explorer_view s = Inr v \<Longrightarrow> h \<in> set (view_handlers v) \<Longrightarrow>
    ex_step impatient E origin s (press origin h s)"
| ex_arrive: "call \<in> set (ex_pending s) \<Longrightarrow> ex_step impatient E origin s (resume E call r s)"

definition ex_reachable :: "bool \<Rightarrow> env \<Rightarrow> jsstr \<Rightarrow> explorer \<Rightarrow> bool" where
  "ex_reachable impatient E origin = (ex_step impatient E origin)\<^sup>*\<^sup>* initial_explorer"

section \<open>Invariants of the explorer\<close>

lemma emit_sel [simp]:
  "ex_blobId (emit e s) = ex_blobId s" "ex_loading (emit e s) = ex_loading s"
  "ex_blobInfo (emit e s) = ex_blobInfo s" "ex_previewUrl (emit e s) = ex_previewUrl s"
  "ex_pending (emit e s) = ex_pending s" "ex_effects (emit e s) = ex_effects s @ [e]"
  by (simp_all add: emit_def)

lemma info_id_emit [simp]: "info_id (emit e s) = info_id s"
  by (simp add: info_id_def)

text \<open>Which buttons can be pressed: the four actions need information that is loaded and no running call.\<close>

lemma explorer_handlers:
  assumes "explorer_view s = Inr v" "h \<in> set (view_handlers v)"
  shows "h = FetchInfo \<and> \<not> ex_loading s \<or> h \<noteq> FetchInfo \<and> truthy_val (ex_blobInfo s) \<and> \<not> ex_loading s"
proof -
  have p: "view_handlers x = []" if "x \<in> set (PreviewSection c t)" for x :: "ex_handler view" and c t
    using that by (auto simp: PreviewSection_def Let_def split: if_splits)
  have st: "view_handlers x = []" if "stat_cards i = Inr vs" "x \<in> set vs" for x i vs
    using that by (auto simp: stat_cards_def StatCard_def r_bind_Inr_iff)
  show ?thesis
    using assms p st
    by (cases h) (fastforce simp: explorer_view_def explorer_content_def r_bind_Inr_iff split: if_splits)+
qed

definition first_info_error :: effect where
  "first_info_error = ToastError (js ''Please fetch blob info first'')"

definition explorer_ok :: "explorer \<Rightarrow> bool" where
  "explorer_ok s \<longleftrightarrow>
     (ex_pending s = [] \<longrightarrow> \<not> ex_loading s) \<and> first_info_error \<notin> set (ex_effects s)"

lemmas ex_defs = fetchBlobInfo_def viewBlob_def downloadBlob_start_def shareBlob_def copyDirectLink_def
  handleKeyDown_def press_def resume_def fetchBlobInfo_resume_def downloadBlob_resume_def show_error_def

lemma error_prefix:
  "js ''Error: '' @ m \<noteq> js ''Please fetch blob info first''" "js ''Please fetch blob info first'' \<noteq> js ''Error: '' @ m"
  by (simp_all add: js_def)

lemma explorer_ok_step: "ex_step b E origin s s' \<Longrightarrow> explorer_ok s \<Longrightarrow> explorer_ok s'"
proof (induction rule: ex_step.induct)
  case (ex_press s v h)
  from explorer_handlers [OF ex_press(1,2)] ex_press(3) show ?case
    by (cases h) (auto simp: explorer_ok_def ex_defs first_info_error_def)
next
  case (ex_arrive call s r)
  show ?case
    using ex_arrive
    by - (cases call; auto simp: error_prefix explorer_ok_def ex_defs first_info_error_def Let_def split: sum.splits)
qed (auto simp: explorer_ok_def ex_defs first_info_error_def)

lemma ex_reachable_ok: "ex_reachable b E origin s \<Longrightarrow> explorer_ok s"
  unfolding ex_reachable_def
proof (induction rule: rtranclp_induct)
  case base
  show ?case by (simp add: explorer_ok_def initial_explorer_def)
qed (rule explorer_ok_step)

text \<open>
  C24. The explorer never hangs and its view protects its handlers, in every order of typing, pressing
  and arriving responses: when no call is running the spinner is not shown and the page offers the
  fetch button, and the message that asks for blob information first is never needed.
\<close>
theorem explorer_never_stuck:
  assumes "ex_reachable b E origin s"
  shows "(ex_pending s = [] \<longrightarrow> (\<forall>v. explorer_view s = Inr v \<longrightarrow>
        FetchInfo \<in> set (view_handlers v) \<and> ''spinner'' \<notin> set (view_tags v)))
    \<and> ToastError (js ''Please fetch blob info first'') \<notin> set (ex_effects s)"
proof -
  have ok: "explorer_ok s" by (rule ex_reachable_ok [OF assms])
  have p: "''spinner'' \<notin> set (view_tags x)" if "x \<in> set (PreviewSection c t)" for x :: "ex_handler view" and c t
    using that by (auto simp: PreviewSection_def Let_def split: if_splits)
  have st: "''spinner'' \<notin> set (view_tags x)" if "stat_cards i = Inr vs" "x \<in> set vs" for x i vs
    using that by (auto simp: stat_cards_def StatCard_def r_bind_Inr_iff)
  have "FetchInfo \<in> set (view_handlers v) \<and> ''spinner'' \<notin> set (view_tags v)"
    if "ex_pending s = []" "explorer_view s = Inr v" for v
    using that ok p st
    by (auto simp: explorer_ok_def explorer_view_def explorer_content_def r_bind_Inr_iff split: if_splits)
  then show ?thesis using ok by (simp add: explorer_ok_def first_info_error_def)
qed

section \<open>One call at a time\<close>

definition patient_ok :: "explorer \<Rightarrow> bool" where
  "patient_ok s \<longleftrightarrow>
     (if ex_loading s then length (ex_pending s) = 1 else ex_pending s = [])
     \<and> (\<forall>u. ex_previewUrl s = Some u \<longrightarrow> u = cdnBase @ js ''/'' @ info_id s)
     \<and> (\<forall>u. InfoCall u \<in> set (ex_pending s) \<longrightarrow> ex_previewUrl s = None)"

lemma patient_ok_step: "ex_step False E origin s s' \<Longrightarrow> patient_ok s \<Longrightarrow> patient_ok s'"
proof (induction rule: ex_step.induct)
  case (ex_type s t)
  then show ?case by (auto simp: patient_ok_def info_id_def split: if_splits)
next
  case (ex_key s key)
  then show ?case by (auto simp: patient_ok_def ex_defs info_id_def)
next
  case (ex_press s v h)
  from explorer_handlers [OF ex_press(1,2)] ex_press(3) show ?case
    by (cases h) (auto simp: patient_ok_def ex_defs info_id_def)
next
  case (ex_arrive call s r)
  then have "ex_pending s = [call]"
    by (auto simp: patient_ok_def length_Suc_conv split: if_splits)
  with ex_arrive show ?case
    by - (cases call; auto simp: patient_ok_def ex_defs Let_def info_id_def split: sum.splits if_splits)
qed


section \<open>Concrete runs\<close>

definition info_of :: "string \<Rightarrow> json" where
  "info_of i = JObj [(js ''id'', JStr (js i))]"

definition info_answer :: "string \<Rightarrow> fetch_result" where
  "info_answer i = Inr (json_response (info_of i))"

lemma info_answer_resume:
  "fetchBlobInfo_resume E (info_answer i) s =
     (emit (ToastSuccess (js ''Blob info loaded successfully'')) (s\<lparr>ex_blobInfo := Some (info_of i)\<rparr>))\<lparr>ex_loading := False\<rparr>"
proof -
  have "json_ok (info_of i)" by (simp add: info_of_def)
  from json_response_read [OF this] show ?thesis
    by (simp add: fetchBlobInfo_resume_def info_answer_def ok_or_throw_def)
qed

lemma view_button:
  assumes "ex_blobInfo s = Some (info_of i)" "\<not> ex_loading s"
  shows "\<exists>v. explorer_view s = Inr v \<and> ViewBlob \<in> set (view_handlers v)"
  using assms
  by (simp add: explorer_view_def explorer_content_def stat_cards_def truncateId_def info_of_def get_prop_def)

abbreviation run_of :: "bool \<Rightarrow> explorer \<Rightarrow> bool" where
  "run_of b \<equiv> ex_reachable b (fixed_env 200 []) (js ''http://h'')"

lemma ex_continue: "run_of b s \<Longrightarrow> ex_step b (fixed_env 200 []) (js ''http://h'') s s' \<Longrightarrow> run_of b s'"
  unfolding ex_reachable_def by (rule rtranclp.rtrancl_into_rtrancl)

lemma ex_start: "run_of b initial_explorer"
  by (simp add: ex_reachable_def)

definition asked :: "string \<Rightarrow> explorer \<Rightarrow> explorer" where
  "asked i s = handleKeyDown (js ''Enter'') (s\<lparr>ex_blobId := js i\<rparr>)"

lemma run_asked: "run_of b s \<Longrightarrow> b \<or> \<not> ex_loading s \<Longrightarrow> run_of b (asked i s)"
  unfolding asked_def by (rule ex_continue [OF ex_continue [OF _ ex_type] ex_key]) simp_all

definition info_call :: "string \<Rightarrow> ex_call" where
  "info_call i = InfoCall (apiBase @ js ''/blob/'' @ js i @ js ''/info'')"

definition answered :: "string \<Rightarrow> explorer \<Rightarrow> explorer" where
  "answered i s = resume (fixed_env 200 []) (info_call i) (info_answer i) s"

lemma run_answered: "run_of b s \<Longrightarrow> info_call i \<in> set (ex_pending s) \<Longrightarrow> run_of b (answered i s)"
  unfolding answered_def by (rule ex_continue [OF _ ex_arrive])

lemma run_viewed:
  assumes "run_of b s" "ex_blobInfo s = Some (info_of i)" "\<not> ex_loading s"
  shows "run_of b (viewBlob s)"
proof -
  obtain v where "explorer_view s = Inr v" "ViewBlob \<in> set (view_handlers v)"
    using view_button [OF assms(2,3)] by blast
  from ex_continue [OF assms(1) ex_press [OF this]] show ?thesis by (simp add: press_def)
qed

lemma asked_eq:
  "trim (js i) \<noteq> [] \<Longrightarrow> asked i s = s\<lparr>ex_blobId := js i, ex_loading := True, ex_blobInfo := Some JNull,
     ex_previewUrl := None, ex_pending := ex_pending s @ [info_call i]\<rparr>"
  by (simp add: asked_def handleKeyDown_def fetchBlobInfo_def info_call_def)

lemma answered_sel:
  "ex_blobInfo (answered i s) = Some (info_of i)" "\<not> ex_loading (answered i s)"
  "ex_pending (answered i s) = remove1 (info_call i) (ex_pending s)"
  "ex_previewUrl (answered i s) = ex_previewUrl s"
  by (simp_all add: answered_def resume_def info_call_def info_answer_resume)

lemma trim_ab: "trim (js ''a'') \<noteq> []" "trim (js ''b'') \<noteq> []"
  by (simp_all add: trim_def is_js_ws_def js_def ju_def)

theorem explorer_never_stuck_witness:
  "\<exists>s. run_of True s \<and> ex_blobInfo s = Some (info_of ''a'') \<and>
     (\<forall>v. explorer_view s = Inr v \<longrightarrow> FetchInfo \<in> set (view_handlers v))"
proof -
  let ?s = "answered ''a'' (asked ''a'' initial_explorer)"
  have r: "run_of True ?s"
    by (intro run_answered run_asked ex_start) (simp_all add: asked_eq trim_ab)
  moreover have "ex_pending ?s = []"
    by (simp add: answered_sel asked_eq trim_ab) (simp add: initial_explorer_def)
  ultimately show ?thesis
    using explorer_never_stuck [OF r] answered_sel(1) [of "''a''"] by blast
qed


text \<open>
  With the Enter key a second request can be started while the first is running, and then the page
  can show the information of one blob above the preview of another.
\<close>
lemma explorer_enter_race:
  "\<exists>s. run_of True s \<and> ex_pending s = [] \<and> opt_prop ''id'' (ex_blobInfo s) = Some (JStr (js ''b''))
     \<and> ex_previewUrl s = Some (cdnBase @ js ''/'' @ js ''a'')"
proof -
  let ?s2 = "asked ''b'' (asked ''a'' initial_explorer)"
  let ?s3 = "viewBlob (answered ''a'' ?s2)"
  have d: "info_call ''b'' \<noteq> info_call ''a''" by (simp add: info_call_def)
  have "run_of True ?s2" by (intro run_asked ex_start) simp_all
  then have "run_of True (answered ''a'' ?s2)"
    by (rule run_answered) (simp add: asked_eq trim_ab)
  then have r3: "run_of True ?s3" by (rule run_viewed) (rule answered_sel)+
  have p3: "ex_pending ?s3 = [info_call ''b'']" "ex_previewUrl ?s3 = Some (cdnBase @ js ''/'' @ js ''a'')"
    using d
    by (simp_all add: viewBlob_def answered_sel asked_eq trim_ab info_id_def)
      (simp_all add: initial_explorer_def info_of_def val_text_def)
  have "run_of True (answered ''b'' ?s3)" by (rule run_answered [OF r3]) (simp add: p3)
  then show ?thesis
    by (intro exI [of _ "answered ''b'' ?s3"]) (simp add: answered_sel p3, simp add: info_of_def)
qed

end
