(* ===== verification/Share_Page.thy ===== *)
theory Share_Page
  imports Explorer
begin

text \<open>
  \<^verbatim>\<open>src/blob_gateway/ui/src/pages/SharePage.tsx\<close>: the page a shared link opens. The route
  parameter may change while the page is mounted, which runs its effect again. Also here: what the
  formatting functions and the file name of a download guarantee.
\<close>

section \<open>The page\<close>

record share =
  sh_id :: "jsstr option"
  sh_loading :: bool
  sh_blobInfo :: jsval
  sh_pending :: "jsstr list"
  sh_effects :: "effect list"

definition contentId :: "share \<Rightarrow> jsstr" where
  "contentId s = or_str (sh_id s) []"

definition share_fetch :: "share \<Rightarrow> share" where
  "share_fetch s =
     (if contentId s = [] then s
      else s\<lparr>sh_pending := sh_pending s @ [apiBase @ js ''/blob/'' @ contentId s @ js ''/info'']\<rparr>)"

text \<open>Mounting the page, and a new route parameter: both run the effect.\<close>

definition share_mount :: "jsstr option \<Rightarrow> share" where
  "share_mount i =
     share_fetch \<lparr>sh_id = i, sh_loading = True, sh_blobInfo = Some JNull, sh_pending = [], sh_effects = []\<rparr>"

definition share_navigate :: "jsstr option \<Rightarrow> share \<Rightarrow> share" where
  "share_navigate i s =
     (if or_str i [] = contentId s then s\<lparr>sh_id := i\<rparr> else share_fetch (s\<lparr>sh_id := i\<rparr>))"

definition share_resume :: "env \<Rightarrow> jsstr \<Rightarrow> fetch_result \<Rightarrow> share \<Rightarrow> share" where
  "share_resume E call r s =
     (let s1 = s\<lparr>sh_pending := remove1 call (sh_pending s)\<rparr>
      in (case r_bind (ok_or_throw r) (resp_json E) of
            Inl error \<Rightarrow> s1\<lparr>sh_effects := sh_effects s1 @ [show_error error]\<rparr>
          | Inr info \<Rightarrow> s1\<lparr>sh_blobInfo := Some info\<rparr>)\<lparr>sh_loading := False\<rparr>)"

definition directLink :: "jsstr \<Rightarrow> share \<Rightarrow> jsstr" where
  "directLink origin s = origin @ cdnBase @ js ''/'' @ contentId s"

definition embedCode :: "jsstr \<Rightarrow> share \<Rightarrow> jsstr" where
  "embedCode origin s =
     js ''<img src='' @ [quote_char] @ directLink origin s @ [quote_char] @ js '' alt='' @ [quote_char]
       @ js ''ONVM Content'' @ [quote_char] @ js ''>''"

definition handleCopyDirectLink :: "jsstr \<Rightarrow> share \<Rightarrow> share" where
  "handleCopyDirectLink origin s =
     s\<lparr>sh_effects := sh_effects s
        @ [Clipboard (directLink origin s), ToastSuccess (js ''Direct link copied to clipboard!'')]\<rparr>"

definition handleCopyEmbedCode :: "jsstr \<Rightarrow> share \<Rightarrow> share" where
  "handleCopyEmbedCode origin s =
     s\<lparr>sh_effects := sh_effects s
        @ [Clipboard (embedCode origin s), ToastSuccess (js ''Embed code copied to clipboard!'')]\<rparr>"

section \<open>What the page shows\<close>

datatype share_handler = CopyDirect | CopyEmbed

definition share_content :: "jsstr \<Rightarrow> share \<Rightarrow> share_handler view" where
  "share_content origin s =
     (let info = sh_blobInfo s;
          mimeType = or_val (opt_prop ''detected_mime_type'' info)
            (or_val (opt_prop ''mime_type'' info) (Some (JStr (js ''application/octet-stream''))))
      in El ''div'' []
           [El ''a'' [(''href'', js ''/'')] [Txt (js ''Back to Explorer'')],
            El ''h1'' [] [Txt (js ''Shared''), Txt (js ''Content'')],
            Txt (js ''Decentralized Content Delivery Network''),
            El ''stats'' []
              [StatCard ''Content ID'' (truncate_text (contentId s) 12), StatCard ''Type'' (val_text mimeType),
               StatCard ''Size'' (formatSize (opt_prop ''size'' info))],
            El ''preview'' [] (PreviewSection (Some (directLink origin s)) (Some (val_text mimeType))),
            El ''actions'' []
              [El ''a'' [(''href'', directLink origin s), (''download'', [])] [Txt (js ''Download'')],
               Btn CopyDirect False [Txt (js ''Copy Direct Link'')],
               Btn CopyEmbed False [Txt (js ''Copy Embed Code'')]],
            El ''h3'' [] [Txt (js ''Share Links'')],
            El ''label'' [] [Txt (js ''Direct Link'')],
            El ''input'' [(''value'', directLink origin s), (''aria-label'', js ''Direct link'')] [],
            El ''label'' [] [Txt (js ''Embed Code'')],
            El ''input'' [(''value'', embedCode origin s), (''aria-label'', js ''Embed code'')] [],
            Txt (js ''Powered by ONVM Decentralized Network'')])"

definition share_view :: "jsstr \<Rightarrow> share \<Rightarrow> share_handler view" where
  "share_view origin s =
     (if sh_loading s then El ''div'' [] [El ''spinner'' [] []]
      else if \<not> truthy_val (sh_blobInfo s) then
        El ''div'' [] [Txt (js ''Blob not found''), El ''a'' [(''href'', js ''/'')] [Txt (js ''Back to Explorer'')]]
      else share_content origin s)"

section \<open>Runs of the page\<close>

inductive share_step :: "env \<Rightarrow> jsstr \<Rightarrow> share \<Rightarrow> share \<Rightarrow> bool" for E origin where
  share_go: "share_step E origin s (share_navigate i s)"
| share_arrive: "call \<in> set (sh_pending s) \<Longrightarrow> share_step E origin s (share_resume E call r s)"
| share_direct: "CopyDirect \<in> set (view_handlers (share_view origin s)) \<Longrightarrow>
    share_step E origin s (handleCopyDirectLink origin s)"
| share_embed: "CopyEmbed \<in> set (view_handlers (share_view origin s)) \<Longrightarrow>
    share_step E origin s (handleCopyEmbedCode origin s)"

definition share_reachable :: "env \<Rightarrow> jsstr \<Rightarrow> share \<Rightarrow> bool" where
  "share_reachable E origin s \<longleftrightarrow> (\<exists>i. (share_step E origin)\<^sup>*\<^sup>* (share_mount i) s)"

text \<open>The spinner stays only while a call runs, unless no identifier was ever given.\<close>

definition share_ok :: "share \<Rightarrow> bool" where
  "share_ok s \<longleftrightarrow> (sh_loading s \<and> sh_pending s = [] \<longrightarrow> contentId s = [])"

lemma share_step_ok: "share_step E origin s s' \<Longrightarrow> share_ok s \<Longrightarrow> share_ok s'"
  by (induction rule: share_step.induct)
    (auto simp: share_ok_def share_navigate_def share_fetch_def share_resume_def contentId_def
      handleCopyDirectLink_def handleCopyEmbedCode_def Let_def split: sum.splits)

lemma share_reachable_ok: "share_reachable E origin s \<Longrightarrow> share_ok s"
proof -
  assume "share_reachable E origin s"
  then obtain i where "(share_step E origin)\<^sup>*\<^sup>* (share_mount i) s" by (auto simp: share_reachable_def)
  then show ?thesis
  proof (induction rule: rtranclp_induct)
    case base
    show ?case by (simp add: share_ok_def share_mount_def share_fetch_def contentId_def)
  qed (rule share_step_ok)
qed

text \<open>
  The share page finishes loading for every link that names a blob: in every reachable state with
  an identifier and no running call it shows the content or the not-found message, never the spinner.
\<close>
lemma share_page_settles:
  assumes "share_reachable E origin s" "contentId s \<noteq> []" "sh_pending s = []"
  shows "share_view origin s =
    (if truthy_val (sh_blobInfo s) then share_content origin s
     else El ''div'' [] [Txt (js ''Blob not found''), El ''a'' [(''href'', js ''/'')] [Txt (js ''Back to Explorer'')]])"
  using share_reachable_ok [OF assms(1)] assms(2,3) by (simp add: share_ok_def share_view_def)

lemma share_page_settles_witness:
  "share_view (js ''http://h'') (share_resume (fixed_env 200 []) (apiBase @ js ''/blob/'' @ js ''a'' @ js ''/info'')
     (Inl (native CTypeError [])) (share_mount (Some (js ''a'')))) =
   El ''div'' [] [Txt (js ''Blob not found''), El ''a'' [(''href'', js ''/'')] [Txt (js ''Back to Explorer'')]]"
proof -
  let ?c = "apiBase @ js ''/blob/'' @ js ''a'' @ js ''/info''"
  let ?s = "share_resume (fixed_env 200 []) ?c (Inl (native CTypeError [])) (share_mount (Some (js ''a'')))"
  have m: "share_mount (Some (js ''a'')) =
      \<lparr>sh_id = Some (js ''a''), sh_loading = True, sh_blobInfo = Some JNull, sh_pending = [?c], sh_effects = []\<rparr>"
    by (simp add: share_mount_def share_fetch_def contentId_def or_str_def)
  have "share_step (fixed_env 200 []) (js ''http://h'') (share_mount (Some (js ''a''))) ?s"
    by (rule share_arrive) (simp add: m)
  then have "share_reachable (fixed_env 200 []) (js ''http://h'') ?s"
    unfolding share_reachable_def by (blast intro: r_into_rtranclp)
  from share_page_settles [OF this] show ?thesis
    by (simp add: share_resume_def m ok_or_throw_def contentId_def or_str_def Let_def)
qed

text \<open>
  Without an identifier in the link the page shows the spinner for good: nothing was requested, no
  button is offered, and the only thing that can happen is that another link is opened.
\<close>
lemma share_without_id:
  assumes "or_str i [] = []"
  shows "share_view origin (share_mount i) = El ''div'' [] [El ''spinner'' [] []]
    \<and> (\<forall>s. share_step E origin (share_mount i) s \<longrightarrow> (\<exists>j. s = share_navigate j (share_mount i)))"
  using assms
  by (auto simp: share_mount_def share_fetch_def contentId_def share_view_def elim!: share_step.cases)

lemma share_without_id_witness:
  "share_view [] (share_mount None) = El ''div'' [] [El ''spinner'' [] []]"
  using share_without_id [of None "[]"] by (simp add: or_str_def)

text \<open>
  Sharing agrees with copying: the page that the explorer's share button opens offers as its direct
  link exactly what the explorer's link button copies.
\<close>
lemma share_link_agrees:
  assumes "ex_blobInfo s = Some (JObj kvs)" "obj_get kvs (js ''id'') = Some (JStr i)" "i \<noteq> []"
  shows "ex_effects (shareBlob s) = ex_effects s @ [Navigate (js ''/share/'' @ i)]
    \<and> Clipboard (directLink origin (share_mount (Some i))) \<in> set (ex_effects (copyDirectLink origin s))"
  using assms
  by (simp add: shareBlob_def copyDirectLink_def info_id_def val_text_def directLink_def share_mount_def
      share_fetch_def contentId_def or_str_def)

lemma share_link_agrees_witness:
  "Clipboard (js ''http://h'' @ cdnBase @ js ''/'' @ js ''b1'') \<in>
     set (ex_effects (copyDirectLink (js ''http://h'') (initial_explorer\<lparr>ex_blobInfo := Some (info_of ''b1'')\<rparr>)))"
  using share_link_agrees [of "initial_explorer\<lparr>ex_blobInfo := Some (info_of ''b1'')\<rparr>" _ "js ''b1''" "js ''http://h''"]
  by (simp add: info_of_def directLink_def share_mount_def share_fetch_def contentId_def or_str_def)

section \<open>Formatting\<close>

lemma hundredths_near: "\<bar>of_int (hundredths x) / 100 - x\<bar> \<le> 1 / 200"
proof -
  have "of_int (hundredths x) \<le> 100 * x + 1 / 2" "100 * x + 1 / 2 < of_int (hundredths x) + 1"
    unfolding hundredths_def by linarith+
  then show ?thesis unfolding abs_le_iff by linarith
qed

lemma hundredths_range:
  assumes "1 \<le> x" "x < 1024"
  shows "100 \<le> hundredths x" "hundredths x \<le> 102400"
  using assms unfolding hundredths_def by (simp_all add: le_floor_iff floor_le_iff)

text \<open>
  The printed size is right: below one kilobyte it is the exact number of bytes, otherwise two
  decimals of a unit in which the value is at least 1.00, off by at most half a hundredth; in
  kilobytes and megabytes it is at most 1024.00.
\<close>
lemma formatSize_accurate:
  assumes "0 \<le> n"
  shows "if n < 1024 then formatSize (Some (JNum (of_int n))) = show_int n @ js '' B''
    else \<exists>h unit p. formatSize (Some (JNum (of_int n))) = fixed2 h @ unit \<and> 100 \<le> h
      \<and> (unit, p) \<in> {(js '' KB'', 1), (js '' MB'', 2), (js '' GB'', 3)}
      \<and> \<bar>of_int h / 100 - (of_int n :: rat) / 1024 ^ p\<bar> \<le> 1 / 200 \<and> (p < 3 \<longrightarrow> h \<le> 102400)"
proof (cases "n < 1024")
  case True
  then show ?thesis by (simp add: formatSize_def lt_number_def val_number_def val_text_def)
next
  case False
  let ?n = "of_int n :: rat"
  have lt: "lt_number (Some (JNum ?n)) (of_int k) \<longleftrightarrow> n < k" for k
    by (simp add: lt_number_def val_number_def)
  note lts = lt [of 1024] lt [of 1048576] lt [of 1073741824]
  consider (kb) "n < 1048576" | (mb) "1048576 \<le> n" "n < 1073741824" | (gb) "1073741824 \<le> n" by linarith
  then have "\<exists>h unit p. formatSize (Some (JNum ?n)) = fixed2 h @ unit \<and> 100 \<le> h
      \<and> (unit, p) \<in> {(js '' KB'', 1), (js '' MB'', 2), (js '' GB'', 3)}
      \<and> \<bar>of_int h / 100 - ?n / 1024 ^ p\<bar> \<le> 1 / 200 \<and> (p < 3 \<longrightarrow> h \<le> 102400)"
  proof cases
    case kb
    have r: "1 \<le> ?n / 1024" "?n / 1024 < 1024" using False kb by (simp_all add: field_simps)
    show ?thesis
      using False kb lts hundredths_range [OF r] hundredths_near [of "?n / 1024"]
      by (intro exI [of _ "hundredths (?n / 1024)"] exI [of _ "js '' KB''"] exI [of _ 1])
        (simp add: formatSize_def toFixed2_def val_number_def)
  next
    case mb
    have r: "1 \<le> ?n / 1048576" "?n / 1048576 < 1024" using mb by (simp_all add: field_simps)
    show ?thesis
      using mb lts hundredths_range [OF r] hundredths_near [of "?n / 1048576"]
      by (intro exI [of _ "hundredths (?n / 1048576)"] exI [of _ "js '' MB''"] exI [of _ 2])
        (simp add: formatSize_def toFixed2_def val_number_def)
  next
    case gb
    have "1 \<le> ?n / 1073741824" using gb by (simp add: field_simps)
    then have "100 \<le> hundredths (?n / 1073741824)" by (simp add: hundredths_def le_floor_iff)
    then show ?thesis
      using gb lts hundredths_near [of "?n / 1073741824"]
      by (intro exI [of _ "hundredths (?n / 1073741824)"] exI [of _ "js '' GB''"] exI [of _ 3])
        (simp add: formatSize_def toFixed2_def val_number_def)
  qed
  with False show ?thesis by simp
qed

lemma formatSize_accurate_witness:
  "formatSize (Some (JNum 500)) = show_int 500 @ js '' B''"
  using formatSize_accurate [of 500] by simp

section \<open>File names\<close>

lemma filename_here_marker:
  assumes "name \<noteq> []" "quote_char \<notin> set name"
  shows "filename_here (js ''filename='' @ [quote_char] @ name @ [quote_char] @ rest) = Some name"
proof -
  have t: "takeWhile (\<lambda>u. u \<noteq> quote_char) (name @ quote_char # rest) = name"
    using assms(2) by (induction name) auto
  show ?thesis
    using assms t by (simp add: filename_here_def Let_def starts_with_def)
qed

lemma match_filename_skip: "102 \<notin> set p \<Longrightarrow> match_filename (p @ s) = match_filename s"
proof (induction p)
  case (Cons u p)
  then have "filename_here (u # p @ s) = None"
    by (auto simp: filename_here_def Let_def starts_with_def js_def ju_def)
  with Cons show ?case by simp
qed simp

text \<open>
  A download is saved under the name that the gateway gives in its content disposition, and under
  \<^verbatim>\<open>download\<close> when there is none.
\<close>
lemma download_file_name:
  assumes "name \<noteq> []" "quote_char \<notin> set name"
    and "header_get resp ''content-disposition'' =
      Some (js ''attachment; '' @ js ''filename='' @ [quote_char] @ name @ [quote_char] @ rest)"
  shows "download_name resp = name"
proof -
  let ?m = "js ''filename='' @ [quote_char] @ name @ [quote_char] @ rest"
  have "match_filename ?m = Some name"
    using filename_here_marker [OF assms(1,2), of rest] by (cases ?m) simp_all
  moreover have "match_filename (js ''attachment; '' @ ?m) = match_filename ?m"
    by (rule match_filename_skip) (simp add: js_def ju_def)
  ultimately show ?thesis
    using assms(3) by (simp add: download_name_def)
qed

definition named_response :: http_response where
  "named_response = \<lparr>rs_status = 200, rs_statusText = [],
     rs_headers = [(js ''content-disposition'', js ''attachment; '' @ js ''filename='' @ [quote_char] @ js ''a.txt'' @ [quote_char] @ [])],
     rs_body = Inr []\<rparr>"

lemma download_file_name_witness: "download_name named_response = js ''a.txt''"
  by (rule download_file_name [where rest = "[]"])
    (simp_all add: named_response_def header_get_def quote_char_def, simp add: js_def ju_def)

end
