(* ===== verification/Js_Text.thy ===== *)
theory Js_Text
  imports Views "HOL-Library.Sublist"
begin

text \<open>
  Operations on text that several pages use: splitting, letter case, searching and initials, with the
  TypeError of a method that is called on a value that is no text.
\<close>

section \<open>Elements of a view\<close>

text \<open>The texts under each element with a given tag, in the order of the page.\<close>

fun texts_under :: "string \<Rightarrow> 'h view \<Rightarrow> jsstr list" where
  "texts_under tag (Txt s) = []"
| "texts_under tag (El n as vs) = (if n = tag then concat (map view_texts vs) else concat (map (texts_under tag) vs))"
| "texts_under tag (Btn h d vs) = concat (map (texts_under tag) vs)"
| "texts_under tag (Area h vs) = concat (map (texts_under tag) vs)"

section \<open>Splitting\<close>

text \<open>\<^verbatim>\<open>s.split(c)\<close> for a separator of one unit.\<close>

fun js_split :: "unit16 \<Rightarrow> jsstr \<Rightarrow> jsstr list" where
  "js_split c [] = [[]]"
| "js_split c (u # s) =
     (if u = c then [] # js_split c s else (case js_split c s of p # ps \<Rightarrow> (u # p) # ps | [] \<Rightarrow> [[u]]))"

lemma js_split_parts: "js_split c s \<noteq> [] \<and> (c \<in> set s \<longrightarrow> (\<exists>p q ps. js_split c s = p # q # ps))"
  by (induction s) (auto split: list.split simp: neq_Nil_conv)

text \<open>\<^verbatim>\<open>name.split(" ").map((n) => n[0]).join("")\<close>: an empty part has no first unit and adds nothing.\<close>

definition word_initials :: "jsstr \<Rightarrow> jsstr" where
  "word_initials name = concat (map (take 1) (js_split 32 name))"

section \<open>Letter case\<close>

text \<open>
  \<^verbatim>\<open>toUpperCase\<close> and \<^verbatim>\<open>toLowerCase\<close>, exact on Latin-1; the mapping of the remaining letters is
  left out.
\<close>

definition upper_unit :: "unit16 \<Rightarrow> jsstr" where
  "upper_unit u =
     (if u = 0xDF then js ''SS''
      else if u = 0xB5 then [0x39C]
      else if u = 0xFF then [0x178]
      else if 97 \<le> u \<and> u \<le> 122 \<or> 0xE0 \<le> u \<and> u \<le> 0xFE \<and> u \<noteq> 0xF7 then [u - 32]
      else [u])"

definition toUpperCase :: "jsstr \<Rightarrow> jsstr" where
  "toUpperCase s = concat (map upper_unit s)"

definition lower_unit :: "unit16 \<Rightarrow> unit16" where
  "lower_unit u = (if 65 \<le> u \<and> u \<le> 90 \<or> 0xC0 \<le> u \<and> u \<le> 0xDE \<and> u \<noteq> 0xD7 then u + 32 else u)"

definition toLowerCase :: "jsstr \<Rightarrow> jsstr" where
  "toLowerCase s = map lower_unit s"

section \<open>Searching\<close>

text \<open>\<^verbatim>\<open>s.includes(q)\<close>.\<close>

fun js_includes :: "jsstr \<Rightarrow> jsstr \<Rightarrow> bool" where
  "js_includes [] q = (q = [])"
| "js_includes (u # s) q = (take (length q) (u # s) = q \<or> js_includes s q)"

lemma prefix_take: "prefix q s \<longleftrightarrow> take (length q) s = q"
  by (metis append_eq_conv_conj prefix_def append_take_drop_id)

lemma js_includes_sublist: "js_includes s q \<longleftrightarrow> sublist q s"
  by (induction s) (auto simp: sublist_Cons_right prefix_take)

text \<open>The search of the lists: a text contains the query, whatever the case of the letters.\<close>

definition text_matches :: "jsstr \<Rightarrow> jsstr \<Rightarrow> bool" where
  "text_matches query s = js_includes (toLowerCase s) (toLowerCase query)"

lemma text_matches_Nil [simp]: "text_matches [] s"
  by (simp add: text_matches_def js_includes_sublist toLowerCase_def)

text \<open>The receiver of a method of strings or of arrays: any other value has no such method.\<close>

definition string_receiver :: "string \<Rightarrow> jsval \<Rightarrow> exn + jsstr" where
  "string_receiver meth v =
     (case v of
        Some (JStr s) \<Rightarrow> Inr s
      | _ \<Rightarrow> r_bind (get_prop meth v) (\<lambda>_. Inl (native CTypeError (js meth @ js '' is not a function''))))"

lemma string_receiver_JStr [simp]: "string_receiver meth (Some (JStr s)) = Inr s"
  by (simp add: string_receiver_def)

definition array_receiver :: "string \<Rightarrow> jsval \<Rightarrow> exn + json list" where
  "array_receiver meth v =
     (case v of
        Some (JArr vs) \<Rightarrow> Inr vs
      | _ \<Rightarrow> r_bind (get_prop meth v) (\<lambda>_. Inl (native CTypeError (js meth @ js '' is not a function''))))"

lemma array_receiver_JArr [simp]: "array_receiver meth (Some (JArr vs)) = Inr vs"
  by (simp add: array_receiver_def)

text \<open>\<^verbatim>\<open>xs.filter(p)\<close> with a predicate that may throw.\<close>

fun r_filter :: "('a \<Rightarrow> exn + bool) \<Rightarrow> 'a list \<Rightarrow> exn + 'a list" where
  "r_filter p [] = Inr []"
| "r_filter p (x # xs) =
     r_bind (p x) (\<lambda>b. r_bind (r_filter p xs) (\<lambda>ys. Inr (if b then x # ys else ys)))"

lemma r_filter_pure: "(\<And>x. x \<in> set xs \<Longrightarrow> p x = Inr (q x)) \<Longrightarrow> r_filter p xs = Inr (filter q xs)"
  by (induction xs) auto

text \<open>\<^verbatim>\<open>xs.find(p)\<close> with a predicate that may throw.\<close>

fun r_find :: "('a \<Rightarrow> exn + bool) \<Rightarrow> 'a list \<Rightarrow> exn + 'a option" where
  "r_find p [] = Inr None"
| "r_find p (x # xs) = r_bind (p x) (\<lambda>b. if b then Inr (Some x) else r_find p xs)"

lemma r_find_pure: "(\<And>x. x \<in> set xs \<Longrightarrow> p x = Inr (q x)) \<Longrightarrow> r_find p xs = Inr (List.find q xs)"
  by (induction xs) auto

lemma r_mapM_pure: "(\<And>x. x \<in> set xs \<Longrightarrow> f x = Inr (g x)) \<Longrightarrow> r_mapM f xs = Inr (map g xs)"
  by (induction xs) auto

end
