(* ===== verification/Post_Card.thy ===== *)
theory Post_Card
  imports Nbook_Session Js_Text
begin

text \<open>
  \<^verbatim>\<open>wasm_programs/nbook/ui/components/feed/post-card.tsx\<close>: one post of the social network with its
  handlers, its effects and what it shows. The state has the component's hooks, the module variable
  \<^verbatim>\<open>cachedFollowing\<close> and the world of the page. Handlers and effects run to completion one after
  the other; \<^verbatim>\<open>cachedFollowingPromise\<close>, which only matters while a call is running, and the
  propagation of click events are left out: every button of the card stops its event, so none reaches
  the click handler of the card. The user at the time of rendering is an argument.
\<close>

section \<open>State\<close>

record post_card =
  pc_post :: Post
  pc_localPost :: Post
  pc_isLiking :: bool
  pc_bookmarked :: bool
  pc_attachments :: "(jsstr \<times> jsstr) list"
  pc_attachmentErrors :: "(jsstr \<times> jsstr) list"
  pc_captured :: "(jsstr \<times> jsstr) list"
  pc_showCommentBox :: bool
  pc_commentText :: jsstr
  pc_isCommenting :: bool
  pc_sharing :: bool
  pc_shareOpen :: bool
  pc_isFollowingAuthor :: "bool option"
  pc_followBusy :: bool
  pc_detailOpen :: bool
  cachedFollowing :: "jsval list option"
  pc_effects :: "effect list"
  pc_world :: world

type_synonym 'a card = "(post_card, 'a) js"

definition new_PostCard :: "Post \<Rightarrow> jsval list option \<Rightarrow> world \<Rightarrow> post_card" where
  "new_PostCard post cache w =
     \<lparr>pc_post = post, pc_localPost = post, pc_isLiking = False, pc_bookmarked = False, pc_attachments = [],
      pc_attachmentErrors = [], pc_captured = [], pc_showCommentBox = False, pc_commentText = [], pc_isCommenting = False,
      pc_sharing = False, pc_shareOpen = False, pc_isFollowingAuthor = None, pc_followBusy = False,
      pc_detailOpen = False, cachedFollowing = cache, pc_effects = [], pc_world = w\<rparr>"

definition on_page :: "(world, 'a) js \<Rightarrow> 'a card" where
  [js_monad]: "on_page = js_zoom pc_world (\<lambda>w s. s\<lparr>pc_world := w\<rparr>)"

definition card_emit :: "effect \<Rightarrow> unit card" where
  [js_monad]: "card_emit e = js_modify (\<lambda>s. s\<lparr>pc_effects := pc_effects s @ [e]\<rparr>)"

abbreviation failure_notice :: "string \<Rightarrow> exn \<Rightarrow> effect" where
  "failure_notice title e \<equiv> Notice (js title) (Some (error_text e (js ''Please try again.''))) True"

section \<open>Following\<close>

definition getFollowingSet :: "env \<Rightarrow> NbookONVMClient \<Rightarrow> jsval \<Rightarrow> jsval list card" where
  "getFollowingSet E client username =
     js_bind (js_gets cachedFollowing) (\<lambda>cached.
     case cached of
       Some s \<Rightarrow> js_ret s
     | None \<Rightarrow>
         js_bind (on_page (listFollowing E client username 500)) (\<lambda>users.
         js_bind (js_modify (\<lambda>s. s\<lparr>cachedFollowing := Some (map us_username users)\<rparr>)) (\<lambda>_.
         js_ret (map us_username users))))"

definition cannot_follow :: "jsval \<Rightarrow> Post \<Rightarrow> bool" where
  "cannot_follow currentUser p \<longleftrightarrow>
     \<not> truthy_val currentUser \<or> \<not> truthy_val (po_author p) \<or> currentUser = po_author p"

definition set_following :: "bool \<Rightarrow> unit card" where
  "set_following b = js_modify (\<lambda>s. s\<lparr>pc_isFollowingAuthor := Some b\<rparr>)"

definition loadFollowState :: "env \<Rightarrow> NbookONVMClient \<Rightarrow> jsval \<Rightarrow> bool \<Rightarrow> unit card" where
  "loadFollowState E client currentUser cancelled =
     js_bind (js_gets pc_localPost) (\<lambda>localPost.
     if cannot_follow currentUser localPost then set_following False
     else
       js_catch
         (js_bind (getFollowingSet E client currentUser) (\<lambda>following.
          if \<not> cancelled then set_following (po_author localPost \<in> set following) else js_ret ()))
         (\<lambda>error.
          js_bind (if \<not> cancelled then set_following False else js_ret ()) (\<lambda>_. card_emit (ConsoleWarn error))))"

definition toggle_follow :: "env \<Rightarrow> NbookONVMClient \<Rightarrow> jsval \<Rightarrow> bool \<Rightarrow> unit card" where
  "toggle_follow E client author following =
     (if following then
        js_bind (on_page (unfollowUser E client author)) (\<lambda>_.
        js_bind (js_modify (\<lambda>s. s\<lparr>cachedFollowing := map_option (removeAll author) (cachedFollowing s),
            pc_isFollowingAuthor := Some False\<rparr>)) (\<lambda>_.
        card_emit (Notice (js ''Unfollowed '' @ val_text author) None False)))
      else
        js_bind (on_page (followUser E client author)) (\<lambda>_.
        js_bind (js_modify (\<lambda>s. s\<lparr>cachedFollowing := map_option (List.insert author) (cachedFollowing s),
            pc_isFollowingAuthor := Some True\<rparr>)) (\<lambda>_.
        card_emit (Notice (js ''Following '' @ val_text author) None False))))"

definition handleFollowToggle :: "env \<Rightarrow> NbookONVMClient \<Rightarrow> jsval \<Rightarrow> unit card" where
  "handleFollowToggle E client currentUser =
     js_bind (js_gets pc_localPost) (\<lambda>localPost.
     js_bind (js_gets pc_isFollowingAuthor) (\<lambda>isFollowingAuthor.
     if cannot_follow currentUser localPost then
       card_emit (Notice (js ''Please log in'') (Some (js ''Sign in to follow users.'')) False)
     else
       (case isFollowingAuthor of
          None \<Rightarrow> js_ret ()
        | Some f \<Rightarrow>
            js_bind (js_modify (\<lambda>s. s\<lparr>pc_followBusy := True\<rparr>)) (\<lambda>_.
            js_finally
              (js_catch
                (js_bind (getFollowingSet E client currentUser) (\<lambda>_. toggle_follow E client (po_author localPost) f))
                (\<lambda>error. card_emit (failure_notice ''Follow action failed'' error)))
              (\<lambda>s. s\<lparr>pc_followBusy := False\<rparr>)))))"

section \<open>Likes, comments and deletion\<close>

definition handleLike :: "env \<Rightarrow> NbookONVMClient \<Rightarrow> unit card" where
  "handleLike E client =
     js_bind (js_gets pc_isLiking) (\<lambda>isLiking.
     if isLiking then js_ret ()
     else
       js_bind (js_modify (\<lambda>s. s\<lparr>pc_isLiking := True\<rparr>)) (\<lambda>_.
       js_finally
         (js_catch
           (js_bind (js_gets pc_localPost) (\<lambda>localPost.
            js_bind (on_page (likePost E client (po_id localPost))) (\<lambda>updated.
            js_modify (\<lambda>s. s\<lparr>pc_localPost := updated\<rparr>))))
           (\<lambda>error. js_bind (card_emit (ConsoleError error)) (\<lambda>_.
              card_emit (failure_notice ''Failed to like'' error))))
         (\<lambda>s. s\<lparr>pc_isLiking := False\<rparr>)))"

definition handleComment :: "env \<Rightarrow> NbookONVMClient \<Rightarrow> unit card" where
  "handleComment E client =
     js_bind (js_gets pc_commentText) (\<lambda>commentText.
     if trim commentText = [] then js_ret ()
     else
       js_bind (js_modify (\<lambda>s. s\<lparr>pc_isCommenting := True\<rparr>)) (\<lambda>_.
       js_finally
         (js_catch
           (js_bind (js_gets pc_localPost) (\<lambda>localPost.
            js_bind (on_page (commentOnPost E client (po_id localPost) (trim commentText))) (\<lambda>updated.
            js_modify (\<lambda>s. s\<lparr>pc_localPost := updated, pc_commentText := [], pc_showCommentBox := False\<rparr>))))
           (\<lambda>e. card_emit (failure_notice ''Failed to comment'' e)))
         (\<lambda>s. s\<lparr>pc_isCommenting := False\<rparr>)))"

text \<open>\<open>hasOnUpdate\<close> says whether the property \<^verbatim>\<open>onUpdate\<close>, which is optional, was given.\<close>

definition handleDelete :: "env \<Rightarrow> NbookONVMClient \<Rightarrow> bool \<Rightarrow> unit card" where
  "handleDelete E client hasOnUpdate =
     js_catch
       (js_bind (js_gets pc_localPost) (\<lambda>localPost.
        js_bind (on_page (deletePost E client (po_id localPost))) (\<lambda>_.
        js_bind (card_emit (Notice (js ''Post deleted'') None False)) (\<lambda>_.
        if hasOnUpdate then card_emit (Callback ''onUpdate'') else js_ret ()))))
       (\<lambda>e. card_emit (failure_notice ''Delete failed'' e))"

section \<open>Effects\<close>

definition receive_post :: "Post \<Rightarrow> post_card \<Rightarrow> post_card" where
  "receive_post p s = s\<lparr>pc_post := p, pc_localPost := p\<rparr>"

definition loadAuthorProfile :: "env \<Rightarrow> NbookONVMClient \<Rightarrow> bool \<Rightarrow> unit card" where
  "loadAuthorProfile E client cancelled =
     js_bind (js_gets pc_localPost) (\<lambda>localPost.
     if \<not> truthy_val (po_author localPost) \<or> truthy_val (po_avatarBlobId localPost) then js_ret ()
     else
       js_catch
         (js_bind (on_page (getProfile E client (po_author localPost))) (\<lambda>p.
          if \<not> cancelled \<and> truthy_val (pv_avatarBlobId p) then
            js_modify (\<lambda>s. s\<lparr>pc_localPost := (pc_localPost s)\<lparr>po_avatarBlobId := pv_avatarBlobId p\<rparr>\<rparr>)
          else js_ret ()))
         (\<lambda>e. card_emit (ConsoleWarn e)))"

text \<open>
  The attachments of a post; one whose attachments are no array, which the program never sends, is
  refused at once.
\<close>

definition post_attachments :: "Post \<Rightarrow> exn + json list" where
  "post_attachments p =
     (if nullish (po_attachments p) then Inr [] else js_array ''localPost.attachments'' (po_attachments p))"

text \<open>
  The loading loop: \<open>objectURL\<close> stands for \<^verbatim>\<open>URL.createObjectURL\<close> and \<open>cancelled i\<close> says whether
  the clean-up ran before the check of the \<open>i\<close>-th attachment.
\<close>

fun load_loop ::
  "env \<Rightarrow> NbookONVMClient \<Rightarrow> (bytes \<Rightarrow> jsstr) \<Rightarrow> (nat \<Rightarrow> bool) \<Rightarrow> nat \<Rightarrow> json list \<Rightarrow> (jsstr \<times> jsstr) list \<Rightarrow>
     (jsstr \<times> jsstr) list \<Rightarrow> (world, ((jsstr \<times> jsstr) list \<times> (jsstr \<times> jsstr) list) option) js" where
  "load_loop E client objectURL cancelled i [] nxt errs = js_ret (Some (nxt, errs))"
| "load_loop E client objectURL cancelled i (att # atts) nxt errs =
     js_bind (js_lift (get_prop ''blob_id_hex'' (Some att))) (\<lambda>b.
     js_bind (js_catch (js_bind (fetchBlob_api E client b) (\<lambda>r. js_ret (Inr r))) (\<lambda>e. js_ret (Inl e))) (\<lambda>r.
     case r of
       Inl e \<Rightarrow>
         load_loop E client objectURL cancelled (Suc i) atts nxt
           (obj_put (val_text b) (error_text e (js ''failed to load'')) errs)
     | Inr (blob, contentType) \<Rightarrow>
         if cancelled i then js_ret None
         else
           load_loop E client objectURL cancelled (Suc i) atts
             (obj_put (val_text b) (objectURL blob @ [124]
                @ or_str (Some contentType) (js ''application/octet-stream'')) nxt) errs))"

definition load :: "env \<Rightarrow> NbookONVMClient \<Rightarrow> (bytes \<Rightarrow> jsstr) \<Rightarrow> (nat \<Rightarrow> bool) \<Rightarrow> unit card" where
  "load E client objectURL cancelled =
     js_bind (js_modify (\<lambda>s. s\<lparr>pc_captured := pc_attachments s\<rparr>)) (\<lambda>_.
     js_bind (js_gets pc_localPost) (\<lambda>localPost.
     js_bind (js_lift (post_attachments localPost)) (\<lambda>atts.
     if atts = [] then js_ret ()
     else
       js_bind (on_page (load_loop E client objectURL cancelled 0 atts [] [])) (\<lambda>r.
       case r of
         None \<Rightarrow> js_ret ()
       | Some (nxt, errs) \<Rightarrow>
           if cancelled (length atts) then js_ret ()
           else js_modify (\<lambda>s. s\<lparr>pc_attachments := nxt, pc_attachmentErrors := errs\<rparr>)))))"

text \<open>
  The clean-up of the loading effect closes over the attachments of the rendering in which the effect
  ran, which \<open>load\<close> keeps in \<open>pc_captured\<close>.
\<close>

definition load_cleanup :: "unit card" where
  "load_cleanup =
     js_modify (\<lambda>s. s\<lparr>pc_effects :=
       pc_effects s @ map (\<lambda>(k, u). RevokeObjectURL (hd (js_split 124 u))) (pc_captured s)\<rparr>)"

section \<open>Sharing\<close>

definition shareUrl :: "jsstr \<Rightarrow> Post \<Rightarrow> exn + jsstr" where
  "shareUrl base p =
     r_bind (encodeURIComponent (val_text (nullish_or (po_id p) (JStr [])))) (\<lambda>i.
     Inr (base @ js ''/feed?post='' @ i))"

text \<open>The clipboard and the share sheet may refuse; \<open>r\<close> is what they return.\<close>

definition copyLink :: "jsstr \<Rightarrow> exn + unit \<Rightarrow> unit card" where
  "copyLink url r =
     js_catch
       (js_bind (card_emit (Clipboard url)) (\<lambda>_.
        js_bind (js_lift r) (\<lambda>_. card_emit (Notice (js ''Link copied'') None False))))
       (\<lambda>e. card_emit (failure_notice ''Copy failed'' e))"

definition copyAttachmentId :: "jsval \<Rightarrow> exn + unit \<Rightarrow> unit card" where
  "copyAttachmentId i r =
     js_catch
       (js_bind (card_emit (Clipboard (val_text i))) (\<lambda>_.
        js_bind (js_lift r) (\<lambda>_. card_emit (Notice (js ''Attachment ID copied'') None False))))
       (\<lambda>e. card_emit (Notice (js ''Copy failed'') (Some (js ''Could not copy attachment id.'')) True))"

definition deviceShare :: "jsstr \<Rightarrow> exn + unit \<Rightarrow> unit card" where
  "deviceShare url r =
     js_bind (js_modify (\<lambda>s. s\<lparr>pc_sharing := True\<rparr>)) (\<lambda>_.
     js_finally
       (js_catch
         (js_bind (js_gets pc_localPost) (\<lambda>localPost.
          js_bind (card_emit (ShareSheet (js ''Check this post'') (po_text localPost) url)) (\<lambda>_. js_lift r)))
         (\<lambda>e. if is_Error e \<and> class_name (exn_class e) = js ''AbortError'' then js_ret ()
              else card_emit (failure_notice ''Share failed'' e)))
       (\<lambda>s. s\<lparr>pc_sharing := False\<rparr>))"

section \<open>Formatting\<close>

text \<open>
  The quotients of times and sizes are exact, as they are in the program for the values that occur.
\<close>

definition initials :: "post_card \<Rightarrow> exn + jsstr" where
  "initials s =
     (let author = or_val (po_author (pc_localPost s)) (po_author (pc_post s))
      in if \<not> truthy_val author then Inr (js ''NB'')
         else case author of
           Some (JStr a) \<Rightarrow> Inr (toUpperCase (take 2 a))
         | _ \<Rightarrow> Inl (native CTypeError (js ''author.substring is not a function'')))"

definition formatTimestamp :: "int \<Rightarrow> jsval \<Rightarrow> jsstr" where
  "formatTimestamp now timestamp =
     (case val_number timestamp of
        None \<Rightarrow> js ''NaNd ago''
      | Some t \<Rightarrow>
          (let diff = of_int now - t;
               minutes = \<lfloor>diff / 60000\<rfloor>;
               hours = \<lfloor>diff / 3600000\<rfloor>;
               days = \<lfloor>diff / 86400000\<rfloor>
           in if minutes < 1 then js ''just now''
              else if minutes < 60 then show_int minutes @ js ''m ago''
              else if hours < 24 then show_int hours @ js ''h ago''
              else show_int days @ js ''d ago''))"

section \<open>What the card shows\<close>

datatype card_handler =
    OpenDetail | ToggleFollow | MoreMenu | CopyAttachment jsval | Like | ToggleComments | OpenShare | DeletePost
  | ToggleBookmark | CancelComment | PostComment | CloseDetail | ShowComments | ClearComment
  | CloseShare | CopyShareLink | ShareViaDevice

type_synonym card_view = "card_handler view"

definition avatar_view :: "post_card \<Rightarrow> exn + card_view" where
  "avatar_view s =
     r_bind (initials s) (\<lambda>i.
     Inr (El ''avatar'' []
       (show_if (truthy_val (po_avatarBlobId (pc_localPost s)))
          [El ''img'' ((''src'', js ''/api/onvm/blob/'' @ val_text (po_avatarBlobId (pc_localPost s)))
             # attr ''alt'' (po_author (pc_localPost s))) []]
        @ [Txt i])))"

definition author_text :: "post_card \<Rightarrow> exn + jsstr" where
  "author_text s = react_text (nullish_or (po_author (pc_localPost s)) (JStr (js ''unknown'')))"

definition posted_at :: "int \<Rightarrow> post_card \<Rightarrow> jsstr" where
  "posted_at now s = formatTimestamp now (nullish_or (po_createdAt (pc_localPost s)) (JNum 0))"

definition follow_button :: "jsval \<Rightarrow> post_card \<Rightarrow> card_view list" where
  "follow_button currentUser s =
     show_if (\<not> cannot_follow currentUser (pc_localPost s))
       [Btn ToggleFollow (pc_followBusy s)
          [Txt (if pc_followBusy s then js ''...''
                else if pc_isFollowingAuthor s = Some True then js ''Unfollow'' else js ''Follow'')]]"

definition card_header :: "int \<Rightarrow> jsval \<Rightarrow> post_card \<Rightarrow> exn + card_view list" where
  "card_header now currentUser s =
     r_bind (avatar_view s) (\<lambda>avatar.
     r_bind (encodeURIComponent (val_text (nullish_or (po_author (pc_localPost s)) (JStr [])))) (\<lambda>user.
     r_bind (author_text s) (\<lambda>author.
     Inr ([avatar, El ''a'' [(''href'', js ''/profile?user='' @ user)] [Txt author],
           El ''span'' [] [Txt ([0xB7, 32] @ posted_at now s)]]
          @ follow_button currentUser s
          @ [Btn MoreMenu False []]))))"

text \<open>
  An attachment. Identifiers are names of stored objects, never property names of the prototype of
  the two tables; one that is an array or an object, which the program never sends, is shown as a
  value.
\<close>

definition shortId :: "jsval \<Rightarrow> exn + jsstr" where
  "shortId b =
     r_bind (get_prop ''length'' b) (\<lambda>_.
     case b of
       Some (JStr i) \<Rightarrow> Inr (if length i > 16 then take 8 i @ [0x2026] @ drop (length i - 6) i else i)
     | _ \<Rightarrow> react_text b)"

definition rounded_kb :: "jsval \<Rightarrow> jsstr" where
  "rounded_kb sz =
     (case val_number sz of None \<Rightarrow> js ''NaN'' | Some r \<Rightarrow> show_int \<lfloor>r / 1024 + 1 / 2\<rfloor>)"

definition media_view :: "jsstr \<Rightarrow> jsstr \<Rightarrow> 'h view" where
  "media_view url ct =
     (if starts_with ct (js ''image/'') then El ''img'' [(''src'', url), (''alt'', js ''attachment'')] []
      else if starts_with ct (js ''audio/'') then
        El ''audio'' [] [El ''source'' [(''src'', url), (''type'', ct)] [],
          Txt (js ''Your browser does not support the audio element.'')]
      else if starts_with ct (js ''video/'') then
        El ''video'' [] [El ''source'' [(''src'', url), (''type'', ct)] [],
          Txt (js ''Your browser does not support the video tag.'')]
      else El ''a'' [(''href'', url), (''download'', js ''true'')]
        [Txt (js ''Download attachment ('' @ or_str (Some ct) (js ''file'') @ js '')'')])"

definition stored_view :: "jsstr \<Rightarrow> jsstr option \<Rightarrow> jsstr option \<Rightarrow> exn + 'h view" where
  "stored_view loading err stored =
     (if truthy err then Inr (El ''error'' [] [Txt (js ''Failed to load: '' @ the err)])
      else if \<not> truthy stored then Inr (El ''loading'' [] [Txt loading])
      else case js_split 124 (the stored) of
        url # ct # _ \<Rightarrow> if url = [] then Inr (El ''loading'' [] [Txt loading]) else Inr (media_view url ct)
      | _ \<Rightarrow> Inl (native CTypeError (js ''Cannot read properties of undefined (reading startsWith)'')))"

definition attachment_view :: "jsstr \<Rightarrow> post_card \<Rightarrow> json \<Rightarrow> exn + card_view" where
  "attachment_view loading s att =
     r_bind (get_prop ''blob_id_hex'' (Some att)) (\<lambda>b.
     r_bind (shortId b) (\<lambda>short.
     r_bind (stored_view loading (obj_get (pc_attachmentErrors s) (val_text b))
               (obj_get (pc_attachments s) (val_text b))) (\<lambda>media.
     Inr (El ''attachment'' []
       [El ''span'' [] [Txt short],
        El ''span'' [] [Txt (js ''('' @ rounded_kb (opt_prop ''size'' (Some att)) @ js '' KB)'')],
        Btn (CopyAttachment b) False [Txt (js ''Copy'')], media]))))"

definition card_attachments :: "post_card \<Rightarrow> exn + card_view list" where
  "card_attachments s =
     r_bind (post_attachments (pc_localPost s)) (r_mapM (attachment_view (js ''Loading attachment'' @ [0x2026]) s))"

definition like_count :: "post_card \<Rightarrow> exn + jsstr" where
  "like_count s = react_text (nullish_or (po_likes (pc_localPost s)) (JNum 0))"

definition comment_count :: "post_card \<Rightarrow> jsstr" where
  "comment_count s = show_int (int (length (po_comments (pc_localPost s))))"

definition is_author :: "jsval \<Rightarrow> Post \<Rightarrow> bool" where
  "is_author currentUser p \<longleftrightarrow> truthy_val currentUser \<and> currentUser = po_author p"

definition card_actions :: "jsval \<Rightarrow> post_card \<Rightarrow> exn + card_view" where
  "card_actions currentUser s =
     r_bind (like_count s) (\<lambda>likes.
     Inr (El ''actions'' []
       ([Btn Like (pc_isLiking s) [Txt likes], Btn ToggleComments False [Txt (comment_count s)],
         Btn OpenShare False []]
        @ show_if (is_author currentUser (pc_localPost s)) [Btn DeletePost False [Txt (js ''Delete'')]]
        @ [Btn ToggleBookmark False [El (if pc_bookmarked s then ''bookmark filled'' else ''bookmark'') [] []]])))"

definition comment_field :: "post_card \<Rightarrow> card_view" where
  "comment_field s =
     El ''textarea'' [(''value'', pc_commentText s), (''placeholder'', js ''Add a comment''),
       (''maxLength'', js ''1024'')] []"

definition post_button :: "post_card \<Rightarrow> card_view" where
  "post_button s =
     Btn PostComment (pc_isCommenting s \<or> trim (pc_commentText s) = [])
       [Txt (if pc_isCommenting s then js ''Posting...'' else js ''Post'')]"

definition comment_box :: "post_card \<Rightarrow> card_view list" where
  "comment_box s =
     show_if (pc_showCommentBox s)
       [comment_field s, Btn CancelComment False [Txt (js ''Cancel'')], post_button s]"

definition comment_line :: "CommentView \<Rightarrow> exn + card_view" where
  "comment_line c =
     r_bind (react_text (cm_author c)) (\<lambda>a.
     r_bind (react_text (cm_text c)) (\<lambda>t.
     Inr (El ''comment'' [] [El ''span'' [] [Txt a], Txt (js '': ''), El ''span'' [] [Txt t]])))"

definition main_card :: "int \<Rightarrow> jsval \<Rightarrow> post_card \<Rightarrow> exn + card_view" where
  "main_card now currentUser s =
     r_bind (card_header now currentUser s) (\<lambda>header.
     r_bind (react_text (nullish_or (po_text (pc_post s)) (JStr []))) (\<lambda>body.
     r_bind (card_attachments s) (\<lambda>atts.
     r_bind (card_actions currentUser s) (\<lambda>actions.
     r_bind (r_mapM comment_line (po_comments (pc_localPost s))) (\<lambda>comments.
     Inr (Area OpenDetail
       (header @ [El ''p'' [] [Txt body]] @ atts @ [actions] @ comment_box s @ comments)))))))"

section \<open>The windows of the card\<close>

definition detail_header :: "int \<Rightarrow> jsval \<Rightarrow> post_card \<Rightarrow> exn + card_view list" where
  "detail_header now currentUser s =
     r_bind (avatar_view s) (\<lambda>avatar.
     r_bind (author_text s) (\<lambda>author.
     Inr ([avatar, El ''div'' [] [Txt author], El ''div'' [] [Txt (posted_at now s)]]
          @ follow_button currentUser s
          @ [Btn CloseDetail False [Txt (js ''Close'')]])))"

definition detail_attachments :: "post_card \<Rightarrow> exn + card_view list" where
  "detail_attachments s =
     r_bind (post_attachments (pc_localPost s)) (r_mapM (attachment_view (js ''Loading attachment...'') s))"

definition detail_actions :: "post_card \<Rightarrow> exn + card_view list" where
  "detail_actions s =
     r_bind (like_count s) (\<lambda>likes.
     Inr [El ''counts'' [] [Txt likes, Txt (comment_count s)],
          El ''actions'' []
            [Btn Like (pc_isLiking s) [Txt likes], Btn ShowComments False [Txt (comment_count s)],
             Btn OpenShare False []]])"

definition detail_comment_box :: "post_card \<Rightarrow> card_view list" where
  "detail_comment_box s = [comment_field s, Btn ClearComment False [Txt (js ''Clear'')], post_button s]"

definition detail_comment :: "int \<Rightarrow> CommentView \<Rightarrow> exn + card_view" where
  "detail_comment now c =
     r_bind (react_text (cm_author c)) (\<lambda>a.
     r_bind (react_text (cm_text c)) (\<lambda>t.
     Inr (El ''comment'' []
       [El ''span'' [] [Txt a], El ''span'' [] [Txt ([0xB7, 32] @ formatTimestamp now (cm_createdAt c))],
        El ''p'' [] [Txt t]])))"

definition detail_comments :: "int \<Rightarrow> post_card \<Rightarrow> exn + card_view list" where
  "detail_comments now s =
     (if po_comments (pc_localPost s) = [] then Inr [El ''div'' [] [Txt (js ''No comments yet.'')]]
      else r_mapM (detail_comment now) (po_comments (pc_localPost s)))"

definition detail_window :: "int \<Rightarrow> jsval \<Rightarrow> post_card \<Rightarrow> exn + card_view list" where
  "detail_window now currentUser s =
     (if \<not> pc_detailOpen s then Inr []
      else
        r_bind (detail_header now currentUser s) (\<lambda>header.
        r_bind (react_text (nullish_or (po_text (pc_localPost s)) (JStr []))) (\<lambda>body.
        r_bind (detail_attachments s) (\<lambda>atts.
        r_bind (detail_actions s) (\<lambda>actions.
        r_bind (detail_comments now s) (\<lambda>comments.
        Inr [Area CloseDetail
               (header @ [El ''p'' [] [Txt body]] @ atts @ actions @ detail_comment_box s @ comments)]))))))"

definition share_window :: "post_card \<Rightarrow> card_view list" where
  "share_window s =
     show_if (pc_shareOpen s)
       [Area CloseShare
          [Txt (js ''Share post''), Btn CloseShare False [Txt (js ''Close'')],
           Btn CopyShareLink False [Txt (js ''Copy link'')],
           Btn ShareViaDevice (pc_sharing s) [Txt (js ''Share via device...'')]]]"

definition PostCard_view :: "int \<Rightarrow> jsstr \<Rightarrow> jsval \<Rightarrow> post_card \<Rightarrow> exn + card_view" where
  "PostCard_view now origin currentUser s =
     r_bind (shareUrl origin (pc_localPost s)) (\<lambda>_.
     r_bind (main_card now currentUser s) (\<lambda>card.
     r_bind (detail_window now currentUser s) (\<lambda>detail.
     Inr (El ''fragment'' [] (card # detail @ share_window s)))))"

section \<open>Runs of the card\<close>

text \<open>
  What a press does. The last two arguments are what the clipboard and the share sheet answer.
\<close>

definition press_card ::
  "env \<Rightarrow> NbookONVMClient \<Rightarrow> jsval \<Rightarrow> bool \<Rightarrow> bool \<Rightarrow> jsstr \<Rightarrow> exn + unit \<Rightarrow> exn + unit \<Rightarrow> card_handler \<Rightarrow> unit card" where
  "press_card E client currentUser disableModal hasOnUpdate url clip sheet h =
     (case h of
        OpenDetail \<Rightarrow> js_modify (\<lambda>s. if \<not> disableModal then s\<lparr>pc_detailOpen := True\<rparr> else s)
      | ToggleFollow \<Rightarrow> handleFollowToggle E client currentUser
      | MoreMenu \<Rightarrow> js_ret ()
      | CopyAttachment b \<Rightarrow> copyAttachmentId b clip
      | Like \<Rightarrow> handleLike E client
      | ToggleComments \<Rightarrow> js_modify (\<lambda>s. s\<lparr>pc_showCommentBox := \<not> pc_showCommentBox s\<rparr>)
      | OpenShare \<Rightarrow> js_modify (\<lambda>s. s\<lparr>pc_shareOpen := True\<rparr>)
      | DeletePost \<Rightarrow> handleDelete E client hasOnUpdate
      | ToggleBookmark \<Rightarrow> js_modify (\<lambda>s. s\<lparr>pc_bookmarked := \<not> pc_bookmarked s\<rparr>)
      | CancelComment \<Rightarrow> js_modify (\<lambda>s. s\<lparr>pc_commentText := [], pc_showCommentBox := False\<rparr>)
      | PostComment \<Rightarrow> handleComment E client
      | CloseDetail \<Rightarrow> js_modify (\<lambda>s. s\<lparr>pc_detailOpen := False\<rparr>)
      | ShowComments \<Rightarrow> js_modify (\<lambda>s. s\<lparr>pc_showCommentBox := True\<rparr>)
      | ClearComment \<Rightarrow> js_modify (\<lambda>s. s\<lparr>pc_commentText := []\<rparr>)
      | CloseShare \<Rightarrow> js_modify (\<lambda>s. s\<lparr>pc_shareOpen := False\<rparr>)
      | CopyShareLink \<Rightarrow> copyLink url clip
      | ShareViaDevice \<Rightarrow> deviceShare url sheet)"

text \<open>
  Presses on what the view offers, typing, a new post from the parent, and the effects. An effect that
  throws leaves the state it reached.
\<close>

inductive card_step :: "env \<Rightarrow> NbookONVMClient \<Rightarrow> jsstr \<Rightarrow> post_card \<Rightarrow> post_card \<Rightarrow> bool" for E client origin where
  cs_press: "PostCard_view now origin user s = Inr v \<Longrightarrow> h \<in> set (view_handlers v) \<Longrightarrow>
    shareUrl origin (pc_localPost s) = Inr url \<Longrightarrow>
    press_card E client user disableModal hasOnUpdate url clip sheet h s = (r, s') \<Longrightarrow> card_step E client origin s s'"
| cs_type: "length t \<le> 1024 \<Longrightarrow> card_step E client origin s (s\<lparr>pc_commentText := t\<rparr>)"
| cs_post: "card_step E client origin s (receive_post p s)"
| cs_load: "load E client objectURL cancelled s = (r, s') \<Longrightarrow> card_step E client origin s s'"
| cs_cleanup: "load_cleanup s = (r, s') \<Longrightarrow> card_step E client origin s s'"
| cs_profile: "loadAuthorProfile E client c s = (r, s') \<Longrightarrow> card_step E client origin s s'"
| cs_follow: "loadFollowState E client user c s = (r, s') \<Longrightarrow> card_step E client origin s s'"

section \<open>Properties\<close>

definition at_rest :: "post_card \<Rightarrow> bool" where
  "at_rest s \<longleftrightarrow>
     \<not> pc_isLiking s \<and> \<not> pc_isCommenting s \<and> \<not> pc_sharing s \<and> \<not> pc_followBusy s \<and> length (pc_commentText s) \<le> 1024"

lemmas card_ops = handleLike_def handleComment_def handleDelete_def handleFollowToggle_def toggle_follow_def
  getFollowingSet_def copyLink_def copyAttachmentId_def deviceShare_def set_following_def

lemmas card_effects = load_def load_cleanup_def loadAuthorProfile_def loadFollowState_def receive_post_def

lemma press_returns: "fst (press_card E client user disableModal hasOnUpdate url clip sheet h s) = Inr ()"
  by (cases h) (auto simp: press_card_def card_ops js_monad split: prod.split sum.split option.split)

lemma press_rests:
  "at_rest s \<Longrightarrow> at_rest (snd (press_card E client user disableModal hasOnUpdate url clip sheet h s))"
  by (cases h) (auto simp: press_card_def card_ops js_monad at_rest_def split: prod.split sum.split option.split)

lemma effects_rest:
  "at_rest s \<Longrightarrow> at_rest (snd (load E client objectURL cancelled s))"
  "at_rest s \<Longrightarrow> at_rest (snd (load_cleanup s))"
  "at_rest s \<Longrightarrow> at_rest (snd (loadAuthorProfile E client c s))"
  "at_rest s \<Longrightarrow> at_rest (snd (loadFollowState E client user c s))"
  "at_rest (receive_post p s) = at_rest s"
  by (auto simp: card_effects getFollowingSet_def set_following_def js_monad at_rest_def
      split: prod.split sum.split option.split)

lemma step_rests: "card_step E client origin s s' \<Longrightarrow> at_rest s \<Longrightarrow> at_rest s'"
proof (induction rule: card_step.induct)
  case (cs_press now user s v h url disableModal hasOnUpdate clip sheet r s')
  then show ?case using press_rests [of s E client user disableModal hasOnUpdate url clip sheet h] by simp
next
  case (cs_type t s)
  then show ?case by (simp add: at_rest_def)
qed (metis effects_rest snd_conv)+

lemma run_rests: "(card_step E client origin)\<^sup>*\<^sup>* s s' \<Longrightarrow> at_rest s \<Longrightarrow> at_rest s'"
  by (induction rule: rtranclp_induct) (auto intro: step_rests)

lemma new_card_rests: "at_rest (new_PostCard p cache w)"
  by (simp add: at_rest_def new_PostCard_def)

text \<open>Which handlers the parts of the card offer.\<close>

lemma r_mapM_elem: "r_mapM f xs = Inr vs \<Longrightarrow> v \<in> set vs \<Longrightarrow> \<exists>x. f x = Inr v"
  by (induction xs arbitrary: vs) (auto simp: r_bind_Inr_iff)

lemma media_handlers: "stored_view l err st = Inr v \<Longrightarrow> view_handlers v = []"
  by (auto simp: stored_view_def media_view_def split: if_splits list.splits)

lemma attachment_handlers: "attachment_view l s att = Inr v \<Longrightarrow> h \<in> set (view_handlers v) \<Longrightarrow> \<exists>b. h = CopyAttachment b"
  by (auto simp: attachment_view_def r_bind_Inr_iff media_handlers)

lemma attachments_handlers:
  assumes "v \<in> set vs" "h \<in> set (view_handlers v)" "card_attachments s = Inr vs \<or> detail_attachments s = Inr vs"
  shows "\<exists>b. h = CopyAttachment b"
proof -
  have "\<exists>l x. attachment_view l s x = Inr v"
    using assms(1,3) by (auto simp: card_attachments_def detail_attachments_def r_bind_Inr_iff dest!: r_mapM_elem)
  then show ?thesis using attachment_handlers assms(2) by blast
qed

lemma comments_handlers:
  "r_mapM comment_line cs = Inr vs \<Longrightarrow> v \<in> set vs \<Longrightarrow> view_handlers v = []"
  "r_mapM (detail_comment now) cs = Inr vs \<Longrightarrow> v \<in> set vs \<Longrightarrow> view_handlers v = []"
  by (auto simp: r_bind_Inr_iff comment_line_def detail_comment_def dest!: r_mapM_elem)

abbreviation handlers :: "card_view list \<Rightarrow> card_handler set" where
  "handlers vs \<equiv> (\<Union>v\<in>set vs. set (view_handlers v))"

definition follow_handlers :: "jsval \<Rightarrow> post_card \<Rightarrow> card_handler set" where
  "follow_handlers user s =
     (if cannot_follow user (pc_localPost s) \<or> pc_followBusy s then {} else {ToggleFollow})"

definition post_handlers :: "post_card \<Rightarrow> card_handler set" where
  "post_handlers s = (if pc_isCommenting s \<or> trim (pc_commentText s) = [] then {} else {PostComment})"

definition like_handlers :: "post_card \<Rightarrow> card_handler set" where
  "like_handlers s = (if pc_isLiking s then {} else {Like})"

lemma avatar_handlers: "avatar_view s = Inr v \<Longrightarrow> view_handlers v = []"
  by (auto simp: avatar_view_def r_bind_Inr_iff)

lemma card_header_handlers:
  "card_header now user s = Inr vs \<Longrightarrow> handlers vs = insert MoreMenu (follow_handlers user s)"
  unfolding card_header_def r_bind_Inr_iff
  by (elim exE conjE) (auto simp: avatar_handlers follow_button_def follow_handlers_def)

lemma detail_header_handlers:
  "detail_header now user s = Inr vs \<Longrightarrow> handlers vs = insert CloseDetail (follow_handlers user s)"
  unfolding detail_header_def r_bind_Inr_iff
  by (elim exE conjE) (auto simp: avatar_handlers follow_button_def follow_handlers_def)

lemma card_actions_handlers:
  "card_actions user s = Inr v \<Longrightarrow> set (view_handlers v) =
     like_handlers s \<union> {ToggleComments, OpenShare, ToggleBookmark}
       \<union> (if is_author user (pc_localPost s) then {DeletePost} else {})"
  by (auto simp: card_actions_def r_bind_Inr_iff like_handlers_def)

lemma detail_actions_handlers:
  "detail_actions s = Inr vs \<Longrightarrow> handlers vs = like_handlers s \<union> {ShowComments, OpenShare}"
  by (auto simp: detail_actions_def r_bind_Inr_iff like_handlers_def)

lemma comment_field_handlers: "view_handlers (comment_field s) = []"
  by (simp add: comment_field_def)

lemma post_button_handlers: "set (view_handlers (post_button s)) = post_handlers s"
  unfolding post_button_def post_handlers_def view_handlers.simps by (simp only: if_distrib [of set] list.set)

lemma comment_box_handlers:
  "handlers (comment_box s) = (if pc_showCommentBox s then insert CancelComment (post_handlers s) else {})"
  "handlers (detail_comment_box s) = insert ClearComment (post_handlers s)"
  by (cases "pc_showCommentBox s"; simp add: comment_box_def detail_comment_box_def comment_field_handlers post_button_handlers)+

lemma attachments_handlers_range:
  "card_attachments s = Inr vs \<Longrightarrow> handlers vs \<subseteq> range CopyAttachment"
  "detail_attachments s = Inr vs \<Longrightarrow> handlers vs \<subseteq> range CopyAttachment"
  using attachments_handlers by blast+

lemma comments_handlers_empty:
  "r_mapM comment_line cs = Inr vs \<Longrightarrow> handlers vs = {}"
  "detail_comments now s = Inr vs \<Longrightarrow> handlers vs = {}"
  by (auto simp: comments_handlers detail_comments_def split: if_splits)

lemma main_card_handlers:
  assumes "main_card now user s = Inr v"
  obtains A where "A \<subseteq> range CopyAttachment"
    "set (view_handlers v) = insert OpenDetail (insert MoreMenu (follow_handlers user s) \<union> A
       \<union> (like_handlers s \<union> {ToggleComments, OpenShare, ToggleBookmark}
            \<union> (if is_author user (pc_localPost s) then {DeletePost} else {}))
       \<union> (if pc_showCommentBox s then insert CancelComment (post_handlers s) else {}))"
proof -
  from assms obtain hd body atts actions comments where
    parts: "card_header now user s = Inr hd" "card_attachments s = Inr atts" "card_actions user s = Inr actions"
      "r_mapM comment_line (po_comments (pc_localPost s)) = Inr comments" and
    v: "v = Area OpenDetail (hd @ [El ''p'' [] [Txt body]] @ atts @ [actions] @ comment_box s @ comments)"
    unfolding main_card_def r_bind_Inr_iff sum.inject by blast
  have "set (view_handlers v) = insert OpenDetail
      (handlers hd \<union> handlers atts \<union> set (view_handlers actions) \<union> handlers (comment_box s) \<union> handlers comments)"
    by (simp add: v Un_assoc)
  then show ?thesis
    using that [OF attachments_handlers_range(1) [OF parts(2)]]
    unfolding card_header_handlers [OF parts(1)] card_actions_handlers [OF parts(3)] comment_box_handlers
      comments_handlers_empty(1) [OF parts(4)] Un_empty_right by blast
qed

lemma detail_window_handlers:
  assumes "detail_window now user s = Inr vs" "pc_detailOpen s"
  obtains A where "A \<subseteq> range CopyAttachment"
    "handlers vs = insert CloseDetail (insert CloseDetail (follow_handlers user s) \<union> A
       \<union> (like_handlers s \<union> {ShowComments, OpenShare}) \<union> insert ClearComment (post_handlers s))"
proof -
  from assms obtain hd body atts actions comments where
    parts: "detail_header now user s = Inr hd" "detail_attachments s = Inr atts" "detail_actions s = Inr actions"
      "detail_comments now s = Inr comments" and
    v: "vs = [Area CloseDetail (hd @ [El ''p'' [] [Txt body]] @ atts @ actions @ detail_comment_box s @ comments)]"
    by (simp only: detail_window_def not_True_eq_False if_False r_bind_Inr_iff sum.inject) blast
  have "handlers vs = insert CloseDetail
      (handlers hd \<union> handlers atts \<union> handlers actions \<union> handlers (detail_comment_box s) \<union> handlers comments)"
    by (simp add: v Un_assoc)
  then show ?thesis
    using that [OF attachments_handlers_range(2) [OF parts(2)]]
    unfolding detail_header_handlers [OF parts(1)] detail_actions_handlers [OF parts(3)] comment_box_handlers
      comments_handlers_empty(2) [OF parts(4)] Un_empty_right by blast
qed

lemma card_view_handlers:
  assumes "PostCard_view now origin user s = Inr v"
  obtains c d where "main_card now user s = Inr c" "detail_window now user s = Inr d"
    "set (view_handlers v) = set (view_handlers c) \<union> handlers d \<union> handlers (share_window s)"
proof -
  from assms obtain c d where "main_card now user s = Inr c" "detail_window now user s = Inr d"
    and v: "v = El ''fragment'' [] (c # d @ share_window s)"
    unfolding PostCard_view_def r_bind_Inr_iff sum.inject by blast
  moreover have "set (view_handlers v) = set (view_handlers c) \<union> handlers d \<union> handlers (share_window s)"
    by (simp add: v Un_assoc)
  ultimately show ?thesis using that by blast
qed

lemma share_window_handlers: "handlers (share_window s) \<subseteq> {CloseShare, CopyShareLink, ShareViaDevice}"
  by (auto simp: share_window_def split: if_splits)

lemma detail_window_subset:
  assumes "detail_window now user s = Inr d"
  shows "handlers d \<subseteq> {CloseDetail, ShowComments, OpenShare, ClearComment} \<union> follow_handlers user s
    \<union> like_handlers s \<union> post_handlers s \<union> range CopyAttachment"
proof (cases "pc_detailOpen s")
  case True
  from detail_window_handlers [OF assms True] show ?thesis by blast
next
  case False
  then show ?thesis using assms by (simp add: detail_window_def)
qed

lemma part_handlers:
  "h \<in> follow_handlers user s \<longleftrightarrow> h = ToggleFollow \<and> \<not> cannot_follow user (pc_localPost s) \<and> \<not> pc_followBusy s"
  "h \<in> like_handlers s \<longleftrightarrow> h = Like \<and> \<not> pc_isLiking s"
  "h \<in> post_handlers s \<longleftrightarrow> h = PostComment \<and> \<not> pc_isCommenting s \<and> trim (pc_commentText s) \<noteq> []"
  by (simp_all add: follow_handlers_def like_handlers_def post_handlers_def)

lemma in_if: "h \<in> (if b then X else {}) \<longleftrightarrow> b \<and> h \<in> X"
  by simp

lemma card_offers:
  assumes "PostCard_view now origin user s = Inr v"
  shows "h \<in> {DeletePost, ToggleFollow, Like} \<Longrightarrow> h \<in> set (view_handlers v) \<longleftrightarrow>
      h = DeletePost \<and> is_author user (pc_localPost s) \<or> h \<in> follow_handlers user s \<or> h \<in> like_handlers s"
    and "PostComment \<in> set (view_handlers v) \<Longrightarrow> PostComment \<in> post_handlers s"
proof -
  obtain c d where c: "main_card now user s = Inr c" and d: "detail_window now user s = Inr d"
    and v: "set (view_handlers v) = set (view_handlers c) \<union> handlers d \<union> handlers (share_window s)"
    using card_view_handlers [OF assms] .
  obtain A where A: "A \<subseteq> range CopyAttachment" and
    m: "set (view_handlers c) = insert OpenDetail (insert MoreMenu (follow_handlers user s) \<union> A
       \<union> (like_handlers s \<union> {ToggleComments, OpenShare, ToggleBookmark}
            \<union> (if is_author user (pc_localPost s) then {DeletePost} else {}))
       \<union> (if pc_showCommentBox s then insert CancelComment (post_handlers s) else {}))"
    using main_card_handlers [OF c] .
  have out: "h \<in> handlers d \<union> handlers (share_window s) \<Longrightarrow>
      h \<in> {CloseDetail, ShowComments, OpenShare, ClearComment, CloseShare, CopyShareLink, ShareViaDevice}
        \<union> follow_handlers user s \<union> like_handlers s \<union> post_handlers s \<union> range CopyAttachment" for h
    using detail_window_subset [OF d] share_window_handlers [of s] by blast
  have iff: "h \<in> set (view_handlers v) \<longleftrightarrow> h \<in> set (view_handlers c) \<or> h \<in> handlers d \<union> handlers (share_window s)" for h
    unfolding v by blast
  show "h \<in> set (view_handlers v) \<longleftrightarrow>
      h = DeletePost \<and> is_author user (pc_localPost s) \<or> h \<in> follow_handlers user s \<or> h \<in> like_handlers s"
    if h: "h \<in> {DeletePost, ToggleFollow, Like}" for h
  proof -
    have plain: "h \<notin> range CopyAttachment" "h \<notin> A" "h \<notin> post_handlers s"
      "h \<notin> {OpenDetail, MoreMenu, ToggleComments, OpenShare, ToggleBookmark, CancelComment, CloseDetail,
         ShowComments, ClearComment, CloseShare, CopyShareLink, ShareViaDevice}"
      using h A by (auto simp: part_handlers(3))
    have "h \<in> handlers d \<union> handlers (share_window s) \<Longrightarrow> h \<in> follow_handlers user s \<or> h \<in> like_handlers s"
      using out [of h] plain by blast
    moreover have "h \<in> set (view_handlers c) \<longleftrightarrow>
        h = DeletePost \<and> is_author user (pc_localPost s) \<or> h \<in> follow_handlers user s \<or> h \<in> like_handlers s"
      unfolding m insert_iff Un_iff in_if using plain by blast
    ultimately show ?thesis using iff [of h] by blast
  qed
  assume p: "PostComment \<in> set (view_handlers v)"
  have plain: "PostComment \<notin> A" "PostComment \<notin> follow_handlers user s" "PostComment \<notin> like_handlers s"
    using A by (auto simp: part_handlers)
  have "PostComment \<in> handlers d \<union> handlers (share_window s) \<Longrightarrow> PostComment \<in> post_handlers s"
    using out [of PostComment] plain by blast
  moreover have "PostComment \<in> set (view_handlers c) \<Longrightarrow> PostComment \<in> post_handlers s"
    unfolding m insert_iff Un_iff in_if using plain by blast
  ultimately show "PostComment \<in> post_handlers s" using p iff [of PostComment] by blast
qed

text \<open>A post and two users for the concrete cases.\<close>

abbreviation str_val :: "string \<Rightarrow> jsval" where
  "str_val s \<equiv> Some (JStr (js s))"

definition demo_post :: Post where
  "demo_post =
     \<lparr>po_id = str_val ''p7'', po_author = str_val ''bob'', po_displayName = None, po_avatarBlobId = None,
      po_text = str_val ''hi'', po_attachments = Some (JArr []), po_createdAt = Some (JNum 1700000000000),
      po_likes = Some (JNum 3), po_comments = []\<rparr>"

abbreviation demo_card :: "jsval list option \<Rightarrow> post_card" where
  "demo_card cache \<equiv> new_PostCard demo_post cache fresh_world"

lemma demo_view: "\<exists>v. PostCard_view 1700000060000 (js ''https://nb'') user (demo_card cache) = Inr v"
  by (simp add: PostCard_view_def shareUrl_def main_card_def card_header_def avatar_view_def initials_def
      author_text_def card_attachments_def post_attachments_def card_actions_def like_count_def detail_window_def
      new_PostCard_def demo_post_def nullish_or_def nullish_def react_text_def val_text_def or_val_def js_array_def
      encodeURIComponent_def hi_sur_def lo_sur_def js_def ju_def)



text \<open>
  C27. Who may do what: the card offers deletion exactly to the author, following exactly to a signed-in
  user other than the author while no follow call is running, and sending a comment only when the
  comment is not blank and none is being sent.
\<close>

theorem card_permissions:
  assumes "PostCard_view now origin user s = Inr v"
  shows "(DeletePost \<in> set (view_handlers v) \<longleftrightarrow> truthy_val user \<and> user = po_author (pc_localPost s))
    \<and> (ToggleFollow \<in> set (view_handlers v) \<longleftrightarrow> truthy_val user \<and> truthy_val (po_author (pc_localPost s))
         \<and> user \<noteq> po_author (pc_localPost s) \<and> \<not> pc_followBusy s)
    \<and> (PostComment \<in> set (view_handlers v) \<longrightarrow> trim (pc_commentText s) \<noteq> [] \<and> \<not> pc_isCommenting s)"
  using card_offers(1) [OF assms, of DeletePost] card_offers(1) [OF assms, of ToggleFollow] card_offers(2) [OF assms]
  by (auto simp: part_handlers is_author_def cannot_follow_def)

theorem card_permissions_witness:
  "\<exists>v. PostCard_view 1700000060000 (js ''https://nb'') (str_val ''bob'') (demo_card None) = Inr v
     \<and> DeletePost \<in> set (view_handlers v) \<and> ToggleFollow \<notin> set (view_handlers v)"
proof -
  obtain v where v: "PostCard_view 1700000060000 (js ''https://nb'') (str_val ''bob'') (demo_card None) = Inr v"
    using demo_view by blast
  from card_permissions [OF v] have "DeletePost \<in> set (view_handlers v)" "ToggleFollow \<notin> set (view_handlers v)"
    by (simp_all add: new_PostCard_def demo_post_def js_def)
  with v show ?thesis by blast
qed

text \<open>What the program promises about the users someone follows: a call that succeeds toggles the author.\<close>

definition follow_spec :: "jsval \<Rightarrow> bool \<Rightarrow> jsval set \<Rightarrow> jsval set" where
  "follow_spec author ok F = (if \<not> ok then F else if author \<in> F then F - {author} else insert author F)"

definition follow_call :: "env \<Rightarrow> NbookONVMClient \<Rightarrow> jsval \<Rightarrow> bool \<Rightarrow> (world, unit) js" where
  "follow_call E client author following =
     (if following then unfollowUser E client author else followUser E client author)"

text \<open>
  C28. The follow button refines that set: when the cached set is loaded and the button shows it, a press
  makes exactly the one call that fits, the cached set becomes what the specification says, also when
  the call fails, and the button still shows it.
\<close>

theorem follow_toggle_refines:
  assumes "cachedFollowing s = Some fs" "a = po_author (pc_localPost s)"
    "pc_isFollowingAuthor s = Some (a \<in> set fs)" "\<not> cannot_follow user (pc_localPost s)"
    "follow_call E client a (a \<in> set fs) (pc_world s) = (r, w)"
    "s' = snd (handleFollowToggle E client user s)"
  shows "map_option set (cachedFollowing s') = Some (follow_spec a (\<exists>u. r = Inr u) (set fs))
    \<and> pc_isFollowingAuthor s' = Some (a \<in> follow_spec a (\<exists>u. r = Inr u) (set fs))
    \<and> pc_world s' = w \<and> \<not> pc_followBusy s'"
  using assms
  by (auto simp: handleFollowToggle_def getFollowingSet_def toggle_follow_def follow_call_def follow_spec_def js_monad
      split: prod.splits sum.splits if_splits)

theorem follow_toggle_refines_witness:
  "map_option set (cachedFollowing (snd (handleFollowToggle (fixed_env 200 ''x'') demo_nbook (str_val ''ada'')
     ((demo_card (Some [str_val ''bob'']))\<lparr>pc_isFollowingAuthor := Some True\<rparr>)))) = Some {str_val ''bob''}"
proof -
  let ?s = "(demo_card (Some [str_val ''bob'']))\<lparr>pc_isFollowingAuthor := Some True\<rparr>"
  have "getSession (fixed_env 200 ''x'') fresh_world = (Inr None, fresh_world)"
    by (simp add: getSession_def js_monad has_window_def getItem_def fresh_world_def)
  then have "follow_call (fixed_env 200 ''x'') demo_nbook (str_val ''bob'') (str_val ''bob'' \<in> set [str_val ''bob''])
      (pc_world ?s) = (Inl not_authenticated, fresh_world)"
    by (simp add: follow_call_def unfollowUser_def token.refuse new_PostCard_def)
  from follow_toggle_refines [OF _ _ _ _ this refl, of "str_val ''ada''"] show ?thesis
    by (simp add: new_PostCard_def demo_post_def cannot_follow_def follow_spec_def js_def ju_def)
qed

text \<open>
  The cached set is not tied to a user: once it is loaded, the card of a post shows every signed-in
  user the same answer, and asks nobody.
\<close>

lemma following_cache_stale:
  assumes "cachedFollowing s = Some fs" "\<not> cannot_follow alice (pc_localPost s)" "\<not> cannot_follow carol (pc_localPost s)"
  shows "loadFollowState E client alice False s = loadFollowState E client carol False s
    \<and> pc_isFollowingAuthor (snd (loadFollowState E client carol False s)) =
        Some (po_author (pc_localPost s) \<in> set fs)
    \<and> pc_world (snd (loadFollowState E client carol False s)) = pc_world s"
  using assms by (simp add: loadFollowState_def getFollowingSet_def set_following_def js_monad)

lemma following_cache_stale_witness:
  "pc_isFollowingAuthor (snd (loadFollowState (fixed_env 200 ''x'') demo_nbook (str_val ''carol'') False
     (demo_card (Some [str_val ''bob''])))) = Some True"
  using following_cache_stale [of "demo_card (Some [str_val ''bob''])" "[str_val ''bob'']" "str_val ''alice''"
      "str_val ''carol''" "fixed_env 200 ''x''" demo_nbook]
  by (simp add: new_PostCard_def demo_post_def cannot_follow_def js_def ju_def)

text \<open>
  The clean-up of a load revokes the object URLs stored before that load and never those the load
  itself created, so the ones loaded last are not given back when the card is removed.
\<close>

lemma object_urls_leak:
  "pc_effects (snd (load_cleanup (snd (load E client objectURL cancelled s)))) =
     pc_effects s @ map (\<lambda>(k, u). RevokeObjectURL (hd (js_split 124 u))) (pc_attachments s)"
  by (simp add: load_def load_cleanup_def js_monad split: prod.split sum.split option.split)

section \<open>Types and the loading loop\<close>

text \<open>A value of the interface \<^verbatim>\<open>Post\<close>, with identifiers that are well-formed text.\<close>

fun text_val :: "jsval \<Rightarrow> bool" where
  "text_val (Some (JStr s)) = True"
| "text_val _ = False"

fun name_val :: "jsval \<Rightarrow> bool" where
  "name_val (Some (JStr s)) = wf_str s"
| "name_val _ = False"

fun number_val :: "jsval \<Rightarrow> bool" where
  "number_val (Some (JNum r)) = True"
| "number_val _ = False"

fun attachment_val :: "json \<Rightarrow> bool" where
  "attachment_val (JObj kvs) = text_val (opt_prop ''blob_id_hex'' (Some (JObj kvs)))"
| "attachment_val _ = False"

definition typed_post :: "Post \<Rightarrow> bool" where
  "typed_post p \<longleftrightarrow>
     name_val (po_id p) \<and> name_val (po_author p) \<and> text_val (po_text p) \<and> number_val (po_likes p)
     \<and> (\<exists>atts. po_attachments p = Some (JArr atts) \<and> list_all attachment_val atts)
     \<and> list_all (\<lambda>c. text_val (cm_author c) \<and> text_val (cm_text c)) (po_comments p)"

definition stored_ok :: "(jsstr \<times> jsstr) list \<Rightarrow> bool" where
  "stored_ok xs \<longleftrightarrow> (\<forall>(k, u) \<in> set xs. 124 \<in> set u)"

lemma text_val_cases: "text_val v \<Longrightarrow> \<exists>s. v = Some (JStr s)"
  by (cases v rule: text_val.cases) auto

lemma name_val_cases: "name_val v \<Longrightarrow> \<exists>s. v = Some (JStr s) \<and> wf_str s"
  by (cases v rule: name_val.cases) auto

lemma number_val_cases: "number_val v \<Longrightarrow> \<exists>r. v = Some (JNum r)"
  by (cases v rule: number_val.cases) auto

lemma attachment_val_cases:
  "attachment_val att \<Longrightarrow> \<exists>i. get_prop ''blob_id_hex'' (Some att) = Inr (Some (JStr i))"
  by (cases att) (auto simp: get_prop_def dest: text_val_cases)

lemma stored_ok_Nil: "stored_ok []"
  by (simp add: stored_ok_def)

lemma stored_ok_put: "stored_ok xs \<Longrightarrow> 124 \<in> set u \<Longrightarrow> stored_ok (obj_put k u xs)"
  by (induction xs) (auto simp: stored_ok_def)

lemma stored_ok_get: "stored_ok xs \<Longrightarrow> obj_get xs k = Some u \<Longrightarrow> 124 \<in> set u"
  by (auto simp: stored_ok_def dest: map_of_SomeD)

lemma stored_view_total:
  assumes "\<forall>u. stored = Some u \<longrightarrow> 124 \<in> set u"
  shows "\<exists>v. stored_view l err stored = Inr v"
  using assms js_split_parts [of 124 "the stored"]
  by (cases stored) (auto simp: stored_view_def)

lemma r_mapM_total: "\<forall>x \<in> set xs. \<exists>y. f x = Inr y \<Longrightarrow> \<exists>ys. r_mapM f xs = Inr ys"
  by (induction xs) fastforce+

lemma attachment_view_total:
  assumes "attachment_val att" "stored_ok (pc_attachments s)"
  shows "\<exists>v. attachment_view l s att = Inr v"
proof -
  obtain i where i: "get_prop ''blob_id_hex'' (Some att) = Inr (Some (JStr i))"
    using attachment_val_cases [OF assms(1)] by blast
  have "\<exists>m :: card_view. stored_view l (obj_get (pc_attachmentErrors s) i) (obj_get (pc_attachments s) i) = Inr m"
    by (rule stored_view_total) (blast intro: stored_ok_get [OF assms(2)])
  then obtain m :: card_view where
    m: "stored_view l (obj_get (pc_attachmentErrors s) i) (obj_get (pc_attachments s) i) = Inr m" by blast
  have "\<exists>t. shortId (Some (JStr i)) = Inr t" by (simp add: shortId_def get_prop_def)
  with i m show ?thesis by (auto simp: attachment_view_def val_text_def)
qed

lemma main_card_total:
  assumes "typed_post (pc_post s)" "typed_post (pc_localPost s)" "stored_ok (pc_attachments s)"
  shows "\<exists>v. main_card now user s = Inr v" and "\<exists>vs. detail_window now user s = Inr vs"
    and "\<exists>u. shareUrl origin (pc_localPost s) = Inr u"
proof -
  let ?p = "pc_localPost s"
  obtain i where i: "po_id ?p = Some (JStr i)" "wf_str i"
    using assms(2) name_val_cases unfolding typed_post_def by blast
  obtain a where a: "po_author ?p = Some (JStr a)" "wf_str a"
    using assms(2) name_val_cases unfolding typed_post_def by blast
  obtain a0 where a0: "po_author (pc_post s) = Some (JStr a0)"
    using assms(1) name_val_cases unfolding typed_post_def by blast
  obtain t0 where t0: "po_text (pc_post s) = Some (JStr t0)"
    using assms(1) text_val_cases unfolding typed_post_def by blast
  obtain t where t: "po_text ?p = Some (JStr t)"
    using assms(2) text_val_cases unfolding typed_post_def by blast
  obtain k where k: "po_likes ?p = Some (JNum k)"
    using assms(2) number_val_cases unfolding typed_post_def by blast
  obtain atts where atts: "po_attachments ?p = Some (JArr atts)" "list_all attachment_val atts"
    using assms(2) unfolding typed_post_def by blast
  have av: "\<exists>vs. r_mapM (attachment_view l s) atts = Inr vs" for l
    using atts(2) attachment_view_total [OF _ assms(3)] by (intro r_mapM_total) (auto simp: list_all_iff)
  have cm: "\<exists>ca ct. cm_author c = Some (JStr ca) \<and> cm_text c = Some (JStr ct)" if "c \<in> set (po_comments ?p)" for c
    using that assms(2) text_val_cases unfolding typed_post_def list_all_iff by blast
  have c1: "\<exists>vs. r_mapM comment_line (po_comments ?p) = Inr vs"
    by (rule r_mapM_total) (auto dest!: cm simp: comment_line_def react_text_def)
  have c2: "\<exists>vs. r_mapM (detail_comment now) (po_comments ?p) = Inr vs"
    by (rule r_mapM_total) (auto dest!: cm simp: detail_comment_def react_text_def)
  have ini: "\<exists>x. initials s = Inr x"
    using a a0 by (auto simp: initials_def Let_def or_val_def)
  have parts: "\<exists>v. avatar_view s = Inr v" "\<exists>x. author_text s = Inr x" "\<exists>x. like_count s = Inr x"
    "\<exists>vs. card_attachments s = Inr vs" "\<exists>vs. detail_attachments s = Inr vs"
    using ini a k atts(1) av
    by (auto simp: avatar_view_def author_text_def like_count_def card_attachments_def detail_attachments_def
        post_attachments_def nullish_or_def nullish_def react_text_def js_array_def)
  show "\<exists>v. main_card now user s = Inr v"
    using parts a t0 c1
    by (auto simp: main_card_def card_header_def card_actions_def nullish_or_def nullish_def react_text_def
        encodeURIComponent_def val_text_def)
  show "\<exists>vs. detail_window now user s = Inr vs"
    using parts t c2
    by (auto simp: detail_window_def detail_header_def detail_actions_def detail_comments_def nullish_or_def
        nullish_def react_text_def)
  show "\<exists>u. shareUrl origin (pc_localPost s) = Inr u"
    using i by (simp add: shareUrl_def nullish_or_def nullish_def encodeURIComponent_def val_text_def)
qed

lemma load_loop_stored:
  "load_loop E client objectURL cancelled i atts nxt errs w = (Inr (Some (n, e)), w') \<Longrightarrow> stored_ok nxt \<Longrightarrow> stored_ok n"
  by (induction E client objectURL cancelled i atts nxt errs arbitrary: w rule: load_loop.induct)
    (auto simp: js_monad stored_ok_put split: prod.splits sum.splits if_splits)

lemma press_attachments:
  "pc_attachments (snd (press_card E client user disableModal hasOnUpdate url clip sheet h s)) = pc_attachments s"
  by (cases h) (auto simp: press_card_def card_ops js_monad split: prod.split sum.split option.split)

lemma effects_attachments:
  "pc_attachments (snd (load_cleanup s)) = pc_attachments s"
  "pc_attachments (snd (loadAuthorProfile E client c s)) = pc_attachments s"
  "pc_attachments (snd (loadFollowState E client user c s)) = pc_attachments s"
  "pc_attachments (receive_post p s) = pc_attachments s"
  by (auto simp: card_effects getFollowingSet_def set_following_def js_monad split: prod.split sum.split option.split)

lemma load_stored: "stored_ok (pc_attachments s) \<Longrightarrow> stored_ok (pc_attachments (snd (load E client objectURL cancelled s)))"
  by (auto simp: load_def js_monad stored_ok_Nil split: prod.split sum.split option.split dest!: load_loop_stored)

lemma step_stored: "card_step E client origin s s' \<Longrightarrow> stored_ok (pc_attachments s) \<Longrightarrow> stored_ok (pc_attachments s')"
proof (induction rule: card_step.induct)
  case (cs_press now user s v h url disableModal hasOnUpdate clip sheet r s')
  then show ?case
    using press_attachments [of E client user disableModal hasOnUpdate url clip sheet h s] by simp
next
  case (cs_load objectURL cancelled s r s')
  then show ?case using load_stored [of s E client objectURL cancelled] by simp
next
  case (cs_cleanup s r s')
  then show ?case using effects_attachments(1) [of s] by simp
next
  case (cs_profile c s r s')
  then show ?case using effects_attachments(2) [of E client c s] by simp
next
  case (cs_follow user c s r s')
  then show ?case using effects_attachments(3) [of E client user c s] by simp
qed (simp_all add: effects_attachments)

lemma run_stored:
  "(card_step E client origin)\<^sup>*\<^sup>* s s' \<Longrightarrow> stored_ok (pc_attachments s) \<Longrightarrow> stored_ok (pc_attachments s')"
  by (induction rule: rtranclp_induct) (auto intro: step_stored)



lemma fetchBlob_sends: "length (w_sent (snd (fetchBlob_api E client b w))) = Suc (length (w_sent w))"
  by (auto simp: fetchBlob_api_def nb_fetchBlob_def fetch_def js_monad Let_def split: sum.split)

abbreviation blob_key :: "json \<Rightarrow> jsstr" where
  "blob_key att \<equiv> val_text (opt_prop ''blob_id_hex'' (Some att))"

lemma attachment_key: "attachment_val att \<Longrightarrow> get_prop ''blob_id_hex'' (Some att) = Inr (opt_prop ''blob_id_hex'' (Some att))"
  by (cases att) (simp_all add: get_prop_def)

lemma load_loop_step:
  assumes "attachment_val att" "\<forall>i. \<not> cancelled i"
  obtains nxt1 errs1 w1 where
    "load_loop E client objectURL cancelled i (att # atts) nxt errs w =
       load_loop E client objectURL cancelled (Suc i) atts nxt1 errs1 w1"
    "insert (blob_key att) (fst ` set nxt \<union> fst ` set errs) = fst ` set nxt1 \<union> fst ` set errs1"
    "length (w_sent w1) = Suc (length (w_sent w))"
proof (cases "fetchBlob_api E client (opt_prop ''blob_id_hex'' (Some att)) w")
  case (Pair r w1)
  have sent: "length (w_sent w1) = Suc (length (w_sent w))"
    using fetchBlob_sends [of E client "opt_prop ''blob_id_hex'' (Some att)" w] Pair by simp
  show ?thesis
  proof (cases r)
    case (Inl e)
    show ?thesis
      by (rule that [of nxt "obj_put (blob_key att) (error_text e (js ''failed to load'')) errs" w1])
        (use assms Pair Inl sent in \<open>simp_all add: js_monad attachment_key dom_update\<close>)
  next
    case (Inr x)
    obtain blob ct where "x = (blob, ct)" by (cases x)
    then show ?thesis
      by (intro that [of "obj_put (blob_key att) (objectURL blob @ [124]
            @ or_str (Some ct) (js ''application/octet-stream'')) nxt" errs w1])
        (use assms Pair Inr sent in \<open>simp_all add: js_monad attachment_key dom_update\<close>)
  qed
qed

lemma load_loop_settles:
  assumes "list_all attachment_val atts" "\<forall>i. \<not> cancelled i"
  shows "\<exists>n e w'. load_loop E client objectURL cancelled i atts nxt errs w = (Inr (Some (n, e)), w')
    \<and> fst ` set n \<union> fst ` set e = blob_key ` set atts \<union> fst ` set nxt \<union> fst ` set errs
    \<and> length (w_sent w') = length (w_sent w) + length atts"
  using assms(1)
proof (induction atts arbitrary: i nxt errs w)
  case Nil
  then show ?case by (simp add: js_monad)
next
  case (Cons att atts)
  then have "attachment_val att" and rest: "list_all attachment_val atts" by simp_all
  from this(1) assms(2) obtain nxt1 errs1 w1 where
    step: "load_loop E client objectURL cancelled i (att # atts) nxt errs w =
       load_loop E client objectURL cancelled (Suc i) atts nxt1 errs1 w1"
    and ks: "insert (blob_key att) (fst ` set nxt \<union> fst ` set errs) = fst ` set nxt1 \<union> fst ` set errs1"
    and sent: "length (w_sent w1) = Suc (length (w_sent w))"
    by (rule load_loop_step)
  obtain n e w' where "load_loop E client objectURL cancelled (Suc i) atts nxt1 errs1 w1 = (Inr (Some (n, e)), w')"
    and k: "fst ` set n \<union> fst ` set e = blob_key ` set atts \<union> (fst ` set nxt1 \<union> fst ` set errs1)"
    and "length (w_sent w') = length (w_sent w1) + length atts"
    using Cons.IH [OF rest, of "Suc i" nxt1 errs1 w1] by (auto simp: Un_assoc)
  moreover have "fst ` set n \<union> fst ` set e = blob_key ` set (att # atts) \<union> fst ` set nxt \<union> fst ` set errs"
    unfolding k ks [symmetric] by auto
  ultimately show ?case using step sent by auto
qed



end
