(* ===== verification/Merkle.thy ===== *)
theory Merkle
  imports Js_Prelude "HOL-Library.List_Lexorder" "HOL-Library.Multiset"
begin

text \<open>
  The state commitments of the node, \<^verbatim>\<open>src/merkle/mod.rs\<close>: the sorted Merkle root and the sparse
  Merkle tree over 256-bit key hashes with its proofs. The hash function, \<^verbatim>\<open>hash_bytes\<close> over the
  package blake3, is the argument \<open>H\<close>; what the code relies on is that its results have 32 bytes. A
  hash map gives its entries in any order: \<open>iter\<close> is that order, a permutation.
\<close>

unbundle bit_operations_syntax

section \<open>Hashing\<close>

type_synonym hash_fun = "8 word list \<Rightarrow> 8 word list"

definition ascii_bytes :: "string \<Rightarrow> 8 word list" where
  "ascii_bytes s = map (\<lambda>c. of_nat (of_char c)) s"

definition hash_pair :: "hash_fun \<Rightarrow> 8 word list \<Rightarrow> 8 word list \<Rightarrow> 8 word list" where
  "hash_pair H a b = H (a @ b)"

definition leaf_input :: "8 word list \<Rightarrow> 8 word list \<Rightarrow> 8 word list" where
  "leaf_input key_hash value_hash = ascii_bytes ''leaf'' @ key_hash @ value_hash"

definition hash_leaf :: "hash_fun \<Rightarrow> 8 word list \<Rightarrow> 8 word list \<Rightarrow> 8 word list" where
  "hash_leaf H key_hash value_hash = H (leaf_input key_hash value_hash)"

definition node_input :: "8 word list \<Rightarrow> 8 word list \<Rightarrow> 8 word list" where
  "node_input left right = ascii_bytes ''node'' @ left @ right"

definition hash_internal :: "hash_fun \<Rightarrow> 8 word list \<Rightarrow> 8 word list \<Rightarrow> 8 word list" where
  "hash_internal H left right = H (node_input left right)"

definition bit_at :: "8 word list \<Rightarrow> nat \<Rightarrow> bool" where
  "bit_at key_hash depth \<longleftrightarrow> drop_bit (7 - depth mod 8) (key_hash ! (depth div 8)) AND 1 = 1"

section \<open>The sorted tree\<close>

text \<open>One round of the loop: the chunks of two, after the last node of an odd row was repeated.\<close>

fun pair_up :: "hash_fun \<Rightarrow> 8 word list list \<Rightarrow> 8 word list list" where
  "pair_up H (a # b # ns) = hash_pair H a b # pair_up H ns"
| "pair_up H ns = []"

definition pad_row :: "8 word list list \<Rightarrow> 8 word list list" where
  "pad_row ns = (if length ns mod 2 = 1 then ns @ [last ns] else ns)"

lemma length_pair_up: "length (pair_up H ns) = length ns div 2"
  by (induction H ns rule: pair_up.induct) auto

lemma length_pad_row: "length (pad_row ns) = length ns + length ns mod 2"
  by (auto simp: pad_row_def)

lemma row_shrinks: "1 < length ns \<Longrightarrow> length (pair_up H (pad_row ns)) < length ns"
  unfolding length_pair_up length_pad_row by presburger

function reduce :: "hash_fun \<Rightarrow> 8 word list list \<Rightarrow> 8 word list" where
  "reduce H nodes = (if length nodes > 1 then reduce H (pair_up H (pad_row nodes)) else nodes ! 0)"
  by pat_completeness auto
termination
  by (relation "measure (\<lambda>(H, ns). length ns)") (simp_all add: row_shrinks)

declare reduce.simps [simp del]

definition merkle_root :: "hash_fun \<Rightarrow> (8 word list \<times> 8 word list) list \<Rightarrow> 8 word list" where
  "merkle_root H pairs =
     (if pairs = [] then H (ascii_bytes ''onvm-empty-root'')
      else reduce H (sort (map (\<lambda>(k, v). hash_pair H (H k) (H v)) pairs)))"

section \<open>The sparse tree\<close>

type_synonym smt_leaves = "(8 word list \<times> 8 word list) list"

definition SMT_EMPTY :: "8 word list" where
  "SMT_EMPTY = ascii_bytes ''onvm-smt-empty-onvm-smt-empty!!'' @ [0]"

fun dedup_leaves :: "hash_fun \<Rightarrow> smt_leaves \<Rightarrow> (8 word list \<times> 8 word list) list \<Rightarrow> smt_leaves" where
  "dedup_leaves H m [] = m"
| "dedup_leaves H m ((k, v) # pairs) =
     dedup_leaves H (AList.update (H k) (hash_leaf H (H k) (H v)) m) pairs"

text \<open>The level never exceeds 256: the recursion starts at 0 and stops there.\<close>

function compute_smt_root :: "hash_fun \<Rightarrow> nat \<Rightarrow> smt_leaves \<Rightarrow> 8 word list" where
  "compute_smt_root H level leaves =
     (if leaves = [] then SMT_EMPTY
      else if level \<ge> 256 then snd (leaves ! 0)
      else
        (let left = filter (\<lambda>(k, v). \<not> bit_at k level) leaves;
             right = filter (\<lambda>(k, v). bit_at k level) leaves
         in hash_internal H (compute_smt_root H (level + 1) left) (compute_smt_root H (level + 1) right)))"
  by pat_completeness auto
termination
  by (relation "measure (\<lambda>(H, level, leaves). 256 - level)") auto

function compute_smt_with_proof ::
  "hash_fun \<Rightarrow> nat \<Rightarrow> smt_leaves \<Rightarrow> 8 word list \<Rightarrow> 8 word list \<times> 8 word list list" where
  "compute_smt_with_proof H level leaves target =
     (if leaves = [] then (SMT_EMPTY, replicate (256 - level) SMT_EMPTY)
      else if level \<ge> 256 then (snd (leaves ! 0), [])
      else
        (let left = filter (\<lambda>(k, v). \<not> bit_at k level) leaves;
             right = filter (\<lambda>(k, v). bit_at k level) leaves;
             bit = bit_at target level;
             (keep, sibling) = (if bit then (right, left) else (left, right));
             (keep_hash, proof) = compute_smt_with_proof H (level + 1) keep target;
             sibling_hash = compute_smt_root H (level + 1) sibling
         in (if bit then hash_internal H sibling_hash keep_hash else hash_internal H keep_hash sibling_hash,
             proof @ [sibling_hash])))"
  by pat_completeness auto
termination
  by (relation "measure (\<lambda>(H, level, leaves, target). 256 - level)") auto

declare compute_smt_root.simps [simp del] compute_smt_with_proof.simps [simp del]

definition sparse_merkle_root ::
  "hash_fun \<Rightarrow> (smt_leaves \<Rightarrow> smt_leaves) \<Rightarrow> (8 word list \<times> 8 word list) list \<Rightarrow> 8 word list" where
  "sparse_merkle_root H iter pairs =
     (let m = dedup_leaves H [] pairs
      in if m = [] then SMT_EMPTY else compute_smt_root H 0 (iter m))"

definition sparse_merkle_proof ::
  "hash_fun \<Rightarrow> (smt_leaves \<Rightarrow> smt_leaves) \<Rightarrow> (8 word list \<times> 8 word list) list \<Rightarrow> 8 word list \<Rightarrow>
     8 word list \<times> 8 word list list" where
  "sparse_merkle_proof H iter pairs key =
     compute_smt_with_proof H 0 (iter (dedup_leaves H [] pairs)) (H key)"

definition verify_step :: "hash_fun \<Rightarrow> bool \<Rightarrow> 8 word list \<Rightarrow> 8 word list \<Rightarrow> 8 word list" where
  "verify_step H right node sibling = (if right then hash_internal H sibling node else hash_internal H node sibling)"

fun verify_path :: "hash_fun \<Rightarrow> 8 word list \<Rightarrow> nat \<Rightarrow> 8 word list \<Rightarrow> 8 word list list \<Rightarrow> 8 word list" where
  "verify_path H key_hash offset node [] = node"
| "verify_path H key_hash offset node (sibling # proof) =
     verify_path H key_hash (Suc offset) (verify_step H (bit_at key_hash (255 - offset)) node sibling) proof"

definition verify_sparse_merkle_proof ::
  "hash_fun \<Rightarrow> 8 word list \<Rightarrow> 8 word list \<Rightarrow> 8 word list list \<Rightarrow> 8 word list \<Rightarrow> bool" where
  "verify_sparse_merkle_proof H key value proof expected_root \<longleftrightarrow>
     verify_path H (H key) 0 (hash_leaf H (H key) (H value)) proof = expected_root"

section \<open>Bits and key hashes\<close>

lemma bit_at_bit: "bit_at k d \<longleftrightarrow> bit (k ! (d div 8)) (7 - d mod 8)"
  by (simp add: bit_at_def bit_iff_odd_drop_bit and_one_eq odd_iff_mod_2_eq_one)

lemma key_hash_eqI:
  assumes "length a = 32" "length b = 32" "\<forall>d < 256. bit_at a d = bit_at b d"
  shows "a = b"
proof (rule nth_equalityI)
  show "length a = length b" using assms by simp
  fix i assume i: "i < length a"
  show "a ! i = b ! i"
  proof (rule bit_word_eqI)
    fix n assume "n < LENGTH(8)"
    then have n: "n < 8" by simp
    define m where "m = 7 - n"
    have m: "m < 8" "7 - m = n" using n by (simp_all add: m_def)
    let ?d = "8 * i + m"
    have d: "?d < 256" "?d div 8 = i" "?d mod 8 = m" using i m(1) assms(1) by simp_all
    have "bit_at a ?d = bit_at b ?d" using assms(3) d(1) by blast
    then show "bit (a ! i) n = bit (b ! i) n" unfolding bit_at_bit d(2,3) m(2) .
  qed
qed

section \<open>The root does not depend on the order\<close>

text \<open>Leaves with distinct 32-byte keys that agree on the bits before a level.\<close>

definition prefix_ok :: "nat \<Rightarrow> smt_leaves \<Rightarrow> bool" where
  "prefix_ok level leaves \<longleftrightarrow>
     distinct (map fst leaves) \<and> (\<forall>k \<in> fst ` set leaves. length k = 32)
     \<and> (\<forall>k \<in> fst ` set leaves. \<forall>k' \<in> fst ` set leaves. \<forall>d < level. bit_at k d = bit_at k' d)"

lemma prefix_ok_halves:
  assumes "prefix_ok level leaves"
  shows "prefix_ok (level + 1) (filter (\<lambda>(k, v). bit_at k level) leaves)"
    and "prefix_ok (level + 1) (filter (\<lambda>(k, v). \<not> bit_at k level) leaves)"
proof -
  have half: "prefix_ok (level + 1) (filter (\<lambda>(k, v). bit_at k level = b) leaves)" for b
    unfolding prefix_ok_def
  proof (intro conjI ballI allI impI)
    let ?h = "filter (\<lambda>(k, v). bit_at k level = b) leaves"
    have sub: "fst ` set ?h \<subseteq> fst ` set leaves" and at: "k \<in> fst ` set ?h \<Longrightarrow> bit_at k level = b" for k by auto
    show "distinct (map fst ?h)" using assms by (simp add: prefix_ok_def distinct_map_filter)
    show "length k = 32" if "k \<in> fst ` set ?h" for k using that sub assms unfolding prefix_ok_def by blast
    show "bit_at k d = bit_at k' d" if "k \<in> fst ` set ?h" "k' \<in> fst ` set ?h" "d < level + 1" for k k' d
    proof (cases "d = level")
      case True
      then show ?thesis using at that(1,2) by blast
    next
      case False
      then have "d < level" using that(3) by simp
      moreover have "k \<in> fst ` set leaves" "k' \<in> fst ` set leaves" using that(1,2) sub by blast+
      ultimately show ?thesis using assms unfolding prefix_ok_def by blast
    qed
  qed
  show "prefix_ok (level + 1) (filter (\<lambda>(k, v). bit_at k level) leaves)"
    "prefix_ok (level + 1) (filter (\<lambda>(k, v). \<not> bit_at k level) leaves)"
    using half [of True] half [of False] by simp_all
qed

lemma prefix_ok_single:
  assumes "prefix_ok level leaves" "256 \<le> level" "x \<in> set leaves"
  shows "leaves = [x]"
proof -
  have same: "fst y = fst x" if "y \<in> set leaves" for y
  proof (rule key_hash_eqI)
    show "length (fst y) = 32" "length (fst x) = 32" using assms that by (auto simp: prefix_ok_def)
    show "\<forall>d < 256. bit_at (fst y) d = bit_at (fst x) d"
      using assms that unfolding prefix_ok_def by (meson image_eqI less_le_trans)
  qed
  show ?thesis
  proof (cases leaves)
    case (Cons y ys)
    then have "ys = []" using assms(1) same by (cases ys) (auto simp: prefix_ok_def)
    with Cons assms(3) show ?thesis by simp
  qed (use assms in simp)
qed

lemma prefix_ok_mset:
  assumes "mset xs = mset ys"
  shows "prefix_ok level xs = prefix_ok level ys"
proof -
  have "mset (map fst xs) = mset (map fst ys)" using assms by simp
  then have "distinct (map fst xs) = distinct (map fst ys)" by (rule mset_eq_imp_distinct_iff)
  moreover have "set xs = set ys" using assms by (rule mset_eq_setD)
  ultimately show ?thesis by (simp only: prefix_ok_def)
qed

lemma compute_smt_root_order:
  "prefix_ok level xs \<Longrightarrow> mset xs = mset ys \<Longrightarrow> compute_smt_root H level xs = compute_smt_root H level ys"
proof (induction H level xs arbitrary: ys rule: compute_smt_root.induct)
  case (1 H level xs)
  show ?case
  proof (cases "xs = [] \<or> 256 \<le> level")
    case True
    have "xs = ys"
    proof (cases xs)
      case Nil
      then show ?thesis using "1.prems"(2) by simp
    next
      case (Cons x r)
      then have x: "x \<in> set xs" "x \<in> set ys" "256 \<le> level"
        using True mset_eq_setD [OF "1.prems"(2)] by auto
      then show ?thesis
        using prefix_ok_single [OF "1.prems"(1) x(3,1)] prefix_ok_single [of level ys x]
          "1.prems"(1) prefix_ok_mset [OF "1.prems"(2)] by simp
    qed
    then show ?thesis by simp
  next
    case False
    then have ne: "xs \<noteq> []" "\<not> 256 \<le> level" "ys \<noteq> []" using "1.prems"(2) by auto
    have "compute_smt_root H (level + 1) (filter (\<lambda>(k, v). \<not> bit_at k level) xs) =
        compute_smt_root H (level + 1) (filter (\<lambda>(k, v). \<not> bit_at k level) ys)"
      "compute_smt_root H (level + 1) (filter (\<lambda>(k, v). bit_at k level) xs) =
        compute_smt_root H (level + 1) (filter (\<lambda>(k, v). bit_at k level) ys)"
      using "1.IH" ne prefix_ok_halves [OF "1.prems"(1)] "1.prems"(2) by (simp_all add: mset_filter)
    with ne show ?thesis
      by (simp add: compute_smt_root.simps [of H level xs] compute_smt_root.simps [of H level ys] Let_def)
  qed
qed

lemma dedup_leaves_keys:
  assumes "\<And>x. length (H x) = 32"
  shows "distinct (map fst m) \<and> (\<forall>k \<in> fst ` set m. length k = 32) \<Longrightarrow>
    distinct (map fst (dedup_leaves H m pairs)) \<and> (\<forall>k \<in> fst ` set (dedup_leaves H m pairs). length k = 32)"
proof (induction pairs arbitrary: m)
  case (Cons p pairs)
  obtain k v where p: "p = (k, v)" by (cases p)
  show ?case
    unfolding p dedup_leaves.simps
    by (rule Cons.IH) (use Cons.prems assms in \<open>simp add: distinct_update dom_update\<close>)
qed simp

lemma dedup_prefix_ok:
  assumes "\<And>x. length (H x) = 32"
  shows "prefix_ok 0 (dedup_leaves H [] pairs)"
  using dedup_leaves_keys [OF assms, where m = "[]" and pairs = pairs] by (simp add: prefix_ok_def)

section \<open>Proofs\<close>

lemma with_proof_root:
  "level \<le> 256 \<Longrightarrow> fst (compute_smt_with_proof H level leaves t) = compute_smt_root H level leaves
     \<and> length (snd (compute_smt_with_proof H level leaves t)) = 256 - level"
proof (induction "256 - level" arbitrary: level leaves)
  case 0
  then have "level = 256" by simp
  then show ?case
    by (simp add: compute_smt_with_proof.simps [of H 256 leaves] compute_smt_root.simps [of H 256 leaves])
next
  case (Suc n)
  have l: "level < 256" "n = 256 - (level + 1)" "level + 1 \<le> 256" using Suc.hyps(2) by simp_all
  note IH = Suc.hyps(1) [OF l(2,3)]
  show ?case
  proof (cases "leaves = []")
    case True
    then show ?thesis
      by (simp add: compute_smt_with_proof.simps [of H level "[]"] compute_smt_root.simps [of H level "[]"])
  next
    case False
    then show ?thesis
      using l IH [of "filter (\<lambda>(k, v). bit_at k level) leaves"] IH [of "filter (\<lambda>(k, v). \<not> bit_at k level) leaves"]
      by (simp add: compute_smt_with_proof.simps [of H level leaves] compute_smt_root.simps [of H level leaves]
          Let_def split_beta)
  qed
qed

lemma verify_path_append:
  "verify_path H kh i n (p @ q) = verify_path H kh (i + length p) (verify_path H kh i n p) q"
  by (induction p arbitrary: i n) simp_all

lemma with_proof_verifies:
  "level \<le> 256 \<Longrightarrow> prefix_ok level leaves \<Longrightarrow> (t, l) \<in> set leaves \<Longrightarrow>
     verify_path H t 0 l (snd (compute_smt_with_proof H level leaves t)) = compute_smt_root H level leaves"
proof (induction "256 - level" arbitrary: level leaves)
  case 0
  then have "leaves = [(t, l)]" using prefix_ok_single [of level leaves "(t, l)"] by simp
  moreover have "level = 256" using 0 by simp
  ultimately show ?case
    by (simp add: compute_smt_with_proof.simps [of H 256 "[(t, l)]"] compute_smt_root.simps [of H 256 "[(t, l)]"])
next
  case (Suc n)
  let ?half = "filter (\<lambda>(k, v). bit_at k level = bit_at t level) leaves"
  have l: "level < 256" "n = 256 - (level + 1)" "level + 1 \<le> 256" using Suc.hyps(2) by simp_all
  have "prefix_ok (level + 1) ?half" using prefix_ok_halves [OF Suc.prems(2)] by (cases "bit_at t level") simp_all
  moreover have "(t, l) \<in> set ?half" using Suc.prems(3) by simp
  ultimately have IH: "verify_path H t 0 l (snd (compute_smt_with_proof H (level + 1) ?half t)) =
      compute_smt_root H (level + 1) ?half"
    using Suc.hyps(1) l by blast
  have len: "length (snd (compute_smt_with_proof H (level + 1) ?half t)) = 255 - level"
    using with_proof_root [OF l(3)] by simp
  have ne: "leaves \<noteq> []" using Suc.prems(3) by auto
  show ?case
    using l ne IH len with_proof_root [OF l(3), of H ?half t]
    by (cases "bit_at t level")
      (simp_all add: compute_smt_with_proof.simps [of H level leaves] compute_smt_root.simps [of H level leaves]
        Let_def split_beta verify_path_append verify_step_def)
qed

lemma dedup_leaves_append: "dedup_leaves H m (ps @ qs) = dedup_leaves H (dedup_leaves H m ps) qs"
  by (induction H m ps rule: dedup_leaves.induct) simp_all

lemma dedup_leaves_other:
  "\<forall>(k, v) \<in> set ps. H k \<noteq> h \<Longrightarrow> map_of (dedup_leaves H m ps) h = map_of m h"
  by (induction H m ps rule: dedup_leaves.induct) (auto simp: update_conv')

lemma dedup_leaves_last:
  assumes "\<forall>(k', v') \<in> set post. H k' \<noteq> H k"
  shows "(H k, hash_leaf H (H k) (H v)) \<in> set (dedup_leaves H [] (pre @ (k, v) # post))"
  by (rule map_of_SomeD) (simp add: dedup_leaves_append dedup_leaves_other [OF assms] update_conv')

lemma update_fresh: "k \<notin> fst ` set m \<Longrightarrow> AList.update k v m = m @ [(k, v)]"
  by (induction m) auto

lemma dedup_leaves_distinct:
  "distinct (map (H \<circ> fst) ps) \<Longrightarrow> (\<forall>p \<in> set ps. H (fst p) \<notin> fst ` set m) \<Longrightarrow>
     dedup_leaves H m ps = m @ map (\<lambda>(k, v). (H k, hash_leaf H (H k) (H v))) ps"
proof (induction ps arbitrary: m)
  case (Cons p ps)
  obtain k v where p: "p = (k, v)" by (cases p)
  let ?e = "(H k, hash_leaf H (H k) (H v))"
  have "dedup_leaves H (m @ [?e]) ps = (m @ [?e]) @ map (\<lambda>(k, v). (H k, hash_leaf H (H k) (H v))) ps"
    using Cons.prems by (intro Cons.IH) (force simp: p)+
  moreover have "AList.update (H k) (hash_leaf H (H k) (H v)) m = m @ [?e]"
    using Cons.prems(2) by (intro update_fresh) (simp add: p)
  ultimately show ?case by (simp add: p)
qed simp

text \<open>
  C11. State proofs are complete: for a pair of the state that no later pair overwrites, the proof the
  node builds has 256 siblings, comes with the state root, and is accepted.
\<close>

theorem smt_proof_complete:
  assumes "\<And>x. length (H x) = 32" "\<And>xs. mset (iter xs) = mset xs"
    "pairs = pre @ (key, v) # post" "\<forall>(k', v') \<in> set post. H k' \<noteq> H key"
    "sparse_merkle_proof H iter pairs key = (rt, pf)"
  shows "rt = sparse_merkle_root H iter pairs \<and> length pf = 256
    \<and> verify_sparse_merkle_proof H key v pf rt"
proof -
  let ?m = "dedup_leaves H [] pairs"
  have mem: "(H key, hash_leaf H (H key) (H v)) \<in> set ?m"
    unfolding assms(3) by (rule dedup_leaves_last [OF assms(4)])
  have "set (iter ?m) = set ?m" using assms(2) by (rule mset_eq_setD)
  with mem have mem': "(H key, hash_leaf H (H key) (H v)) \<in> set (iter ?m)" by simp
  have ok: "prefix_ok 0 (iter ?m)" unfolding prefix_ok_mset [OF assms(2)] by (rule dedup_prefix_ok [OF assms(1)])
  have c: "compute_smt_with_proof H 0 (iter ?m) (H key) = (rt, pf)"
    using assms(5) by (simp add: sparse_merkle_proof_def)
  have "?m \<noteq> []" using mem by auto
  then show ?thesis
    using with_proof_root [of 0 H "iter ?m" "H key"] with_proof_verifies [OF _ ok mem', of H] c
    by (simp add: sparse_merkle_root_def verify_sparse_merkle_proof_def)
qed

theorem smt_proof_complete_witness:
  "\<exists>rt pf. sparse_merkle_proof (\<lambda>_. replicate 32 7) rev [([1], [2])] [1] = (rt, pf) \<and> length pf = 256
     \<and> verify_sparse_merkle_proof (\<lambda>_. replicate 32 7) [1] [2] pf rt"
proof -
  obtain rt pf where p: "sparse_merkle_proof (\<lambda>_. replicate 32 7) rev [([1], [2])] [1] = (rt, pf)"
    by (rule prod.exhaust)
  have "rt = sparse_merkle_root (\<lambda>_. replicate 32 7) rev [([1], [2])] \<and> length pf = 256
      \<and> verify_sparse_merkle_proof (\<lambda>_. replicate 32 7) [1] [2] pf rt"
    by (rule smt_proof_complete [OF _ _ _ _ p, where pre = "[]" and post = "[]"]) simp_all
  with p show ?thesis by blast
qed

text \<open>The inputs that checking a proof hashes.\<close>

definition step_input :: "bool \<Rightarrow> 8 word list \<Rightarrow> 8 word list \<Rightarrow> 8 word list" where
  "step_input right node sibling = (if right then node_input sibling node else node_input node sibling)"

fun path_inputs :: "hash_fun \<Rightarrow> 8 word list \<Rightarrow> nat \<Rightarrow> 8 word list \<Rightarrow> 8 word list list \<Rightarrow> 8 word list set" where
  "path_inputs H kh i n [] = {}"
| "path_inputs H kh i n (s # p) =
     insert (step_input (bit_at kh (255 - i)) n s)
       (path_inputs H kh (Suc i) (verify_step H (bit_at kh (255 - i)) n s) p)"

definition proof_inputs :: "hash_fun \<Rightarrow> 8 word list \<Rightarrow> 8 word list \<Rightarrow> 8 word list list \<Rightarrow> 8 word list set" where
  "proof_inputs H key v p =
     {v, leaf_input (H key) (H v)} \<union> path_inputs H (H key) 0 (hash_leaf H (H key) (H v)) p"

lemma verify_step_input: "verify_step H b n s = H (step_input b n s)"
  by (simp add: verify_step_def step_input_def hash_internal_def)

lemma step_input_inject:
  "length n = length m \<Longrightarrow> length s = length s' \<Longrightarrow> length n = length s \<Longrightarrow> step_input b n s = step_input b m s' \<Longrightarrow> n = m \<and> s = s'"
  by (cases b) (auto simp: step_input_def node_input_def)

lemma verify_path_inject:
  assumes "\<And>x. length (H x) = 32"
  shows "length p = length q \<Longrightarrow> \<forall>s \<in> set p \<union> set q. length s = 32 \<Longrightarrow> length n = 32 \<Longrightarrow> length m = 32 \<Longrightarrow>
    inj_on H (path_inputs H kh i n p \<union> path_inputs H kh i m q) \<Longrightarrow>
    verify_path H kh i n p = verify_path H kh i m q \<Longrightarrow> n = m \<and> p = q"
proof (induction p q arbitrary: i n m rule: list_induct2)
  case (Cons s p s' q)
  let ?b = "bit_at kh (255 - i)"
  let ?n = "verify_step H ?b n s" and ?m = "verify_step H ?b m s'"
  have "inj_on H (path_inputs H kh (Suc i) ?n p \<union> path_inputs H kh (Suc i) ?m q)"
    using Cons.prems(4) by (rule inj_on_subset) auto
  then have "?n = ?m \<and> p = q"
    using Cons.prems assms by (intro Cons.IH [where i = "Suc i"]) (simp_all add: verify_step_input)
  then have eq: "p = q" "H (step_input ?b n s) = H (step_input ?b m s')" by (simp_all add: verify_step_input)
  have "step_input ?b n s = step_input ?b m s'"
    using Cons.prems(4) eq(2) by (rule inj_onD) simp_all
  then show ?case using step_input_inject [of n m s s' ?b] Cons.prems eq(1) by simp
qed simp

text \<open>
  C12. State proofs are binding: two proofs of the same length accepted for the same key and root prove
  the same value, and are the same proof, unless the hash function collides on the inputs that checking
  the two hashes.
\<close>

theorem smt_proof_binding:
  assumes "\<And>x. length (H x) = 32" "length p = length q" "\<forall>s \<in> set p \<union> set q. length s = 32"
    "verify_sparse_merkle_proof H key v p rt" "verify_sparse_merkle_proof H key w q rt"
    "inj_on H (proof_inputs H key v p \<union> proof_inputs H key w q)"
  shows "v = w \<and> p = q"
proof -
  have accepted: "verify_path H (H key) 0 (hash_leaf H (H key) (H v)) p =
      verify_path H (H key) 0 (hash_leaf H (H key) (H w)) q"
    using assms(4,5) by (simp add: verify_sparse_merkle_proof_def)
  have "inj_on H (path_inputs H (H key) 0 (hash_leaf H (H key) (H v)) p
      \<union> path_inputs H (H key) 0 (hash_leaf H (H key) (H w)) q)"
    using assms(6) by (rule inj_on_subset) (auto simp: proof_inputs_def)
  then have l: "hash_leaf H (H key) (H v) = hash_leaf H (H key) (H w) \<and> p = q"
    using assms(2,3) accepted
    by (intro verify_path_inject [OF assms(1), where i = 0]) (simp_all add: hash_leaf_def assms(1))
  have "leaf_input (H key) (H v) = leaf_input (H key) (H w)"
    using assms(6) l [THEN conjunct1] unfolding hash_leaf_def by (rule inj_onD) (simp_all add: proof_inputs_def)
  then have "H v = H w" by (simp add: leaf_input_def)
  with assms(6) have "v = w" by (rule inj_onD) (simp_all add: proof_inputs_def)
  with l show ?thesis by simp
qed

text \<open>
  C13. The state root depends on the state alone: the sorted root is the same for every order of the
  pairs, and the sparse root is the same for every order in which the hash map yields its entries, and,
  for keys with different hashes, for every order of the pairs.
\<close>

theorem roots_ignore_order:
  assumes "\<And>x. length (H x) = 32" "\<And>xs. mset (i xs) = mset xs" "\<And>xs. mset (j xs) = mset xs"
    "mset ps = mset qs"
  shows "merkle_root H ps = merkle_root H qs
    \<and> sparse_merkle_root H i ps = sparse_merkle_root H j ps
    \<and> (distinct (map (H \<circ> fst) ps) \<longrightarrow> sparse_merkle_root H i ps = sparse_merkle_root H j qs)"
proof -
  let ?leaf = "\<lambda>(k, v). hash_pair H (H k) (H v)"
  have "mset (map ?leaf ps) = mset (map ?leaf qs)" using assms(4) by simp
  then have "sort (map ?leaf ps) = sort (map ?leaf qs)" by (intro properties_for_sort) simp_all
  then have r: "merkle_root H ps = merkle_root H qs" using assms(4) by (auto simp: merkle_root_def)
  have any: "sparse_merkle_root H i ps = sparse_merkle_root H j qs"
    if m: "mset (dedup_leaves H [] ps) = mset (dedup_leaves H [] qs)" for qs
  proof -
    have "compute_smt_root H 0 (i (dedup_leaves H [] ps)) = compute_smt_root H 0 (j (dedup_leaves H [] qs))"
    proof (rule compute_smt_root_order)
      show "prefix_ok 0 (i (dedup_leaves H [] ps))"
        unfolding prefix_ok_mset [OF assms(2)] by (rule dedup_prefix_ok [OF assms(1)])
      show "mset (i (dedup_leaves H [] ps)) = mset (j (dedup_leaves H [] qs))"
        unfolding assms(2,3) by (rule m)
    qed
    moreover have "dedup_leaves H [] ps = [] \<longleftrightarrow> dedup_leaves H [] qs = []" using m by (metis mset_zero_iff)
    ultimately show ?thesis by (simp add: sparse_merkle_root_def)
  qed
  have "mset (dedup_leaves H [] ps) = mset (dedup_leaves H [] qs)" if d: "distinct (map (H \<circ> fst) ps)"
  proof -
    have "mset (map (H \<circ> fst) ps) = mset (map (H \<circ> fst) qs)" using assms(4) by simp
    then have "distinct (map (H \<circ> fst) qs)" using d mset_eq_imp_distinct_iff by blast
    with d assms(4) show ?thesis by (simp add: dedup_leaves_distinct)
  qed
  with r any show ?thesis by blast
qed

text \<open>
  A toy hash for the concrete case: the length and the last 31 bytes backwards. A proof for the value 1
  is not accepted for the value 2.
\<close>

definition demo_hash :: hash_fun where
  "demo_hash x = of_nat (length x) # take 31 (rev x @ replicate 31 0)"

definition demo_key :: "8 word list" where
  "demo_key = 1 # replicate 30 0"

definition demo_root :: "8 word list" where
  "demo_root = verify_path demo_hash (demo_hash demo_key) 0
     (hash_leaf demo_hash (demo_hash demo_key) (demo_hash [1])) [replicate 32 0]"

lemma length_demo_hash: "length (demo_hash x) = 32"
  by (simp add: demo_hash_def)

lemma demo_hash_injective:
  "inj_on demo_hash (proof_inputs demo_hash demo_key [1] [replicate 32 0]
     \<union> proof_inputs demo_hash demo_key [2] [replicate 32 0])"
proof -
  let ?L = "[[1], [2], leaf_input (demo_hash demo_key) (demo_hash [1]), leaf_input (demo_hash demo_key) (demo_hash [2]),
    step_input (bit_at (demo_hash demo_key) 255) (hash_leaf demo_hash (demo_hash demo_key) (demo_hash [1])) (replicate 32 0),
    step_input (bit_at (demo_hash demo_key) 255) (hash_leaf demo_hash (demo_hash demo_key) (demo_hash [2])) (replicate 32 0)]"
  have "proof_inputs demo_hash demo_key [1] [replicate 32 0] \<union> proof_inputs demo_hash demo_key [2] [replicate 32 0]
      = set ?L"
    by (auto simp: proof_inputs_def)
  moreover have "distinct (map demo_hash ?L)" by code_simp
  ultimately show ?thesis by (simp only: distinct_map)
qed

theorem smt_proof_binding_witness:
  "verify_sparse_merkle_proof demo_hash demo_key [1] [replicate 32 0] demo_root
   \<and> \<not> verify_sparse_merkle_proof demo_hash demo_key [2] [replicate 32 0] demo_root"
proof -
  have r: "verify_sparse_merkle_proof demo_hash demo_key [1] [replicate 32 0] demo_root"
    by (simp add: verify_sparse_merkle_proof_def demo_root_def)
  moreover have "\<not> verify_sparse_merkle_proof demo_hash demo_key [2] [replicate 32 0] demo_root"
  proof
    assume v2: "verify_sparse_merkle_proof demo_hash demo_key [2] [replicate 32 0] demo_root"
    have "[1] = ([2] :: 8 word list) \<and> [replicate 32 0] = [replicate 32 (0 :: 8 word)]"
      by (rule smt_proof_binding [OF length_demo_hash _ _ r v2 demo_hash_injective]) simp_all
    then show False by simp
  qed
  ultimately show ?thesis by blast
qed

theorem roots_ignore_order_witness:
  "merkle_root demo_hash [([1], [2]), ([3], [4])] = merkle_root demo_hash [([3], [4]), ([1], [2])]
   \<and> sparse_merkle_root demo_hash id [([1], [2]), ([3], [4])] =
     sparse_merkle_root demo_hash rev [([3], [4]), ([1], [2])]"
proof -
  have d: "distinct (map (demo_hash \<circ> fst) [([1], [2]), ([3], [4] :: 8 word list)])"
    by (simp add: demo_hash_def)
  have m: "mset [([1], [2]), ([3], [4])] = mset [([3], [4]), ([1 :: 8 word], [2 :: 8 word])]"
    by (simp add: add_mset_commute)
  have i: "mset (id xs) = mset xs" "mset (rev xs) = mset xs" for xs :: smt_leaves by simp_all
  from roots_ignore_order [where H = demo_hash, OF length_demo_hash i m] d show ?thesis by blast
qed

end
