(* ===== verification/Sign_In.thy ===== *)
theory Sign_In
  imports Nbook_Session Views
begin

text \<open>
  \<^verbatim>\<open>wasm_programs/nbook/ui/app/login/page.tsx\<close> and \<^verbatim>\<open>app/register/page.tsx\<close>: the two forms that
  start a session. The register form extends the login form by the confirmation. The button is disabled
  while a submission runs and the fields are required, so submissions do not overlap and a handler runs
  to completion; what is typed meanwhile does not reach it.
\<close>

section \<open>The forms\<close>

record login_form =
  lf_username :: jsstr
  lf_password :: jsstr
  lf_isLoading :: bool
  lf_effects :: "effect list"
  lf_world :: world

record register_form = login_form +
  rf_confirmPassword :: jsstr

definition new_LoginPage :: "world \<Rightarrow> login_form" where
  "new_LoginPage w =
     \<lparr>lf_username = [], lf_password = [], lf_isLoading = False, lf_effects = [], lf_world = w\<rparr>"

definition new_RegisterPage :: "world \<Rightarrow> register_form" where
  "new_RegisterPage w =
     \<lparr>lf_username = [], lf_password = [], lf_isLoading = False, lf_effects = [], lf_world = w,
      rf_confirmPassword = []\<rparr>"

definition on_form :: "(world, 'a) js \<Rightarrow> ('s login_form_scheme, 'a) js" where
  [js_monad]: "on_form = js_zoom lf_world (\<lambda>w s. s\<lparr>lf_world := w\<rparr>)"

definition form_emit :: "effect \<Rightarrow> ('s login_form_scheme, unit) js" where
  [js_monad]: "form_emit e = js_modify (\<lambda>s. s\<lparr>lf_effects := lf_effects s @ [e]\<rparr>)"

text \<open>Typing into the fields.\<close>

definition setUsername :: "jsstr \<Rightarrow> 's login_form_scheme \<Rightarrow> 's login_form_scheme" where
  "setUsername v s = s\<lparr>lf_username := v\<rparr>"

definition setPassword :: "jsstr \<Rightarrow> 's login_form_scheme \<Rightarrow> 's login_form_scheme" where
  "setPassword v s = s\<lparr>lf_password := v\<rparr>"

definition setConfirmPassword :: "jsstr \<Rightarrow> register_form \<Rightarrow> register_form" where
  "setConfirmPassword v s = s\<lparr>rf_confirmPassword := v\<rparr>"

section \<open>Submitting\<close>

text \<open>
  What the two handlers share: the busy flag around the calls, the greeting and the way to the feed
  afterwards, and the report of an error.
\<close>

definition submit_with ::
  "(world, 'a) js \<Rightarrow> effect \<Rightarrow> (exn \<Rightarrow> effect) \<Rightarrow> ('s login_form_scheme, unit) js" where
  "submit_with calls greeting failure =
     js_seq (js_modify (\<lambda>s. s\<lparr>lf_isLoading := True\<rparr>))
       (js_finally
         (js_catch
           (js_bind (on_form calls) (\<lambda>_.
            js_seq (form_emit greeting) (form_emit (Navigate (js ''/feed'')))))
           (\<lambda>error. js_seq (form_emit (ConsoleError error)) (form_emit (failure error))))
         (\<lambda>s. s\<lparr>lf_isLoading := False\<rparr>))"

definition login_greeting :: effect where
  "login_greeting =
     Notice (js ''Welcome back!'') (Some (js ''You'' @ [39] @ js ''ve successfully logged in to nbook.'')) False"

definition login_failure :: "exn \<Rightarrow> effect" where
  "login_failure error =
     Notice (js ''Login failed'') (Some (error_text error (js ''Invalid username or password.''))) True"

definition login_handleSubmit :: "env \<Rightarrow> NbookONVMClient \<Rightarrow> (login_form, unit) js" where
  "login_handleSubmit E client =
     js_bind (js_gets lf_username) (\<lambda>username.
     js_bind (js_gets lf_password) (\<lambda>password.
     submit_with (auth_login E client username password) login_greeting login_failure))"

definition register_greeting :: effect where
  "register_greeting =
     Notice (js ''Account created!'') (Some (js ''Welcome to nbook. Let'' @ [39] @ js ''s get started!'')) False"

definition register_failure :: "exn \<Rightarrow> effect" where
  "register_failure error =
     Notice (js ''Registration failed'')
       (Some (error_text error (js ''Username might be taken. Please try another.''))) True"

definition register_calls :: "env \<Rightarrow> NbookONVMClient \<Rightarrow> jsstr \<Rightarrow> jsstr \<Rightarrow> (world, json) js" where
  "register_calls E client username password =
     js_seq (auth_register E client username password) (auth_login E client username password)"

definition mismatch_notice :: effect where
  "mismatch_notice =
     Notice (js ''Passwords don'' @ [39] @ js ''t match'') (Some (js ''Please make sure your passwords match.'')) True"

definition short_notice :: effect where
  "short_notice =
     Notice (js ''Password too short'') (Some (js ''Password must be at least 6 characters.'')) True"

definition register_handleSubmit :: "env \<Rightarrow> NbookONVMClient \<Rightarrow> (register_form, unit) js" where
  "register_handleSubmit E client =
     js_bind (js_gets lf_username) (\<lambda>username.
     js_bind (js_gets lf_password) (\<lambda>password.
     js_bind (js_gets rf_confirmPassword) (\<lambda>confirmPassword.
     if password \<noteq> confirmPassword then form_emit mismatch_notice
     else if length password < 6 then form_emit short_notice
     else submit_with (register_calls E client username password) register_greeting register_failure)))"

section \<open>What the pages show\<close>

datatype form_handler = Submit

definition input_view :: "string \<Rightarrow> string \<Rightarrow> string \<Rightarrow> string \<Rightarrow> jsstr \<Rightarrow> 'h view list" where
  "input_view label i type placeholder value =
     [El ''label'' [(''for'', js i)] [Txt (js label)],
      El ''input'' [(''id'', js i), (''type'', js type), (''placeholder'', js placeholder), (''value'', value),
        (''required'', [])] []]"

definition link_view :: "string \<Rightarrow> string \<Rightarrow> 'h view" where
  "link_view href label = El ''a'' [(''href'', js href)] [Txt (js label)]"

definition submit_button :: "string \<Rightarrow> string \<Rightarrow> 's login_form_scheme \<Rightarrow> form_handler view" where
  "submit_button label busy s =
     Btn Submit (lf_isLoading s)
       (if lf_isLoading s then [El ''spinner'' [] [], Txt (js busy)] else [Txt (js label)])"

definition LoginPage_view :: "login_form \<Rightarrow> form_handler view" where
  "LoginPage_view s =
     El ''div'' []
       [link_view ''/'' ''Back to home'',
        El ''card'' []
          [El ''h1'' [] [Txt (js ''Welcome back'')], El ''p'' [] [Txt (js ''Sign in to your account to continue'')],
           El ''form'' []
             (input_view ''Username'' ''username'' ''text'' ''Enter your username'' (lf_username s)
              @ [link_view ''/forgot-password'' ''Forgot password?'']
              @ input_view ''Password'' ''password'' ''password'' ''Enter your password'' (lf_password s)
              @ [submit_button ''Sign In'' ''Signing in...'' s]),
           Txt (js ''Don'' @ [39] @ js ''t have an account? ''), link_view ''/register'' ''Create one now'']]"

definition passwordRequirements :: "register_form \<Rightarrow> (jsstr \<times> bool) list" where
  "passwordRequirements s =
     [(js ''At least 6 characters'', length (lf_password s) \<ge> 6),
      (js ''Matches confirmation'', lf_password s = rf_confirmPassword s \<and> length (lf_password s) > 0)]"

definition requirements_view :: "register_form \<Rightarrow> 'h view list" where
  "requirements_view s =
     show_if (length (lf_password s) > 0)
       [El ''div'' []
          (El ''p'' [] [Txt (js ''Password requirements:'')]
           # map (\<lambda>(label, met). El ''requirement'' [] (show_if met [El ''check'' [] []] @ [Txt label]))
               (passwordRequirements s))]"

definition RegisterPage_view :: "register_form \<Rightarrow> form_handler view" where
  "RegisterPage_view s =
     El ''div'' []
       [link_view ''/'' ''Back to home'',
        El ''card'' []
          [El ''h1'' [] [Txt (js ''Create your account'')],
           El ''p'' [] [Txt (js ''Join thousands of users connecting worldwide'')],
           El ''form'' []
             (input_view ''Username'' ''username'' ''text'' ''Choose a username'' (lf_username s)
              @ input_view ''Password'' ''password'' ''password'' ''Create a strong password'' (lf_password s)
              @ input_view ''Confirm Password'' ''confirmPassword'' ''password'' ''Re-enter your password''
                  (rf_confirmPassword s)
              @ requirements_view s
              @ [submit_button ''Create Account'' ''Creating account...'' s]),
           Txt (js ''Already have an account? ''), link_view ''/login'' ''Sign in'']]"

section \<open>Properties\<close>

text \<open>
  What a submission does with its calls: all of them succeed, the greeting is shown and the page goes to
  the feed, or the first error is reported; the flag is reset in both cases.
\<close>

lemma submit_with_run:
  "submit_with calls greeting failure s =
     (case calls (lf_world s) of (r, w) \<Rightarrow>
        (Inr (), s\<lparr>lf_isLoading := False, lf_world := w,
           lf_effects := lf_effects s @
             (case r of Inl e \<Rightarrow> [ConsoleError e, failure e] | Inr x \<Rightarrow> [greeting, Navigate (js ''/feed'')])\<rparr>))"
  by (auto simp: submit_with_def js_monad split: prod.split sum.split)

text \<open>
  The outcome of the calls for a user: the session that is returned is stored, and nothing else changes in
  the storage, or there was an error and the storage is as before.
\<close>

definition session_outcome :: "jsstr \<Rightarrow> world \<Rightarrow> exn + json \<Rightarrow> world \<Rightarrow> bool" where
  "session_outcome u w r w' \<longleftrightarrow>
     (case r of
        Inl e \<Rightarrow> w_storage w' = w_storage w
      | Inr user \<Rightarrow> (\<exists>tok x. user = User_json u tok x)
          \<and> (\<forall>k. getItem k w' = (if k = session_key then Some (JSON_stringify user) else getItem k w)))"

lemma register_sends_one: "sends_one w (snd (auth_register E cl u p w))"
proof -
  have "sends_one w (snd (nb_register E cl u p w))" unfolding nb_register_def by (rule program_op_sends_one)
  then show ?thesis by (auto simp: auth_register_def js_monad split: prod.split sum.split)
qed

lemma login_outcome:
  assumes "has_window w" "auth_login E cl u p w = (r, w')"
  shows "session_outcome u w r w'"
proof -
  obtain r1 w1 where l: "nb_login E cl u p w = (r1, w1)" by fastforce
  then have k: "w_storage w1 = w_storage w" using login_sends_one [of w E cl u p] sends_one_keeps by simp
  then have win: "has_window w1" and same: "getItem k w1 = getItem k w" for k
    using assms(1) by (simp_all add: has_window_def getItem_def)
  show ?thesis
  proof (cases r1)
    case (Inl e)
    then show ?thesis using assms(2) l k by (auto simp: auth_login_def js_monad session_outcome_def)
  next
    case (Inr y)
    obtain tok x where "y = (tok, x)" by (cases y)
    then have "r = Inr (User_json u tok x)" "w' = setItem session_key (JSON_stringify (User_json u tok x)) w1"
      using Inr assms(2) l win by (auto simp: auth_login_def setSession_def js_monad)
    then show ?thesis using localStorage.get_put [OF win] same by (auto simp: session_outcome_def)
  qed
qed

lemma register_outcome:
  assumes "has_window w" "register_calls E cl u p w = (r, w')"
  shows "session_outcome u w r w'"
proof -
  obtain r1 w1 where g: "auth_register E cl u p w = (r1, w1)" by fastforce
  then have k: "w_storage w1 = w_storage w" using register_sends_one [of w E cl u p] sends_one_keeps by simp
  then have win: "has_window w1" and same: "getItem k w1 = getItem k w" for k
    using assms(1) by (simp_all add: has_window_def getItem_def)
  show ?thesis
  proof (cases r1)
    case (Inl e)
    then show ?thesis using assms(2) g k by (auto simp: register_calls_def js_monad session_outcome_def)
  next
    case (Inr y)
    then have "auth_login E cl u p w1 = (r, w')" using assms(2) g by (simp add: register_calls_def js_monad)
    from login_outcome [OF win this] show ?thesis
      unfolding session_outcome_def by (simp only: k same)
  qed
qed

text \<open>What a submission may have done to its form.\<close>

definition submitted :: "'s login_form_scheme \<Rightarrow> 's login_form_scheme \<Rightarrow> bool" where
  "submitted s s' \<longleftrightarrow>
     \<not> lf_isLoading s' \<and> lf_username s' = lf_username s \<and> lf_password s' = lf_password s
     \<and> ((\<exists>tok x greeting. lf_effects s' = lf_effects s @ [greeting, Navigate (js ''/feed'')]
           \<and> getItem session_key (lf_world s') = Some (JSON_stringify (User_json (lf_username s) tok x)))
        \<or> (\<exists>es title d. lf_effects s' = lf_effects s @ es @ [Notice title d True] \<and> (\<forall>u. Navigate u \<notin> set es)
           \<and> w_storage (lf_world s') = w_storage (lf_world s)))"

lemma submit_with_submitted:
  assumes "\<And>r w'. calls (lf_world s) = (r, w') \<Longrightarrow> session_outcome (lf_username s) (lf_world s) r w'"
    "\<And>e. \<exists>title d. failure e = Notice title d True"
  shows "fst (submit_with calls greeting failure s) = Inr () \<and> submitted s (snd (submit_with calls greeting failure s))"
proof -
  obtain r w where c: "calls (lf_world s) = (r, w)" by fastforce
  note o = assms(1) [OF c]
  show ?thesis
  proof (cases r)
    case (Inl e)
    obtain title d where "failure e = Notice title d True" using assms(2) by blast
    then show ?thesis
      using o c Inl by (auto simp: submit_with_run submitted_def session_outcome_def intro!: exI [of _ "[ConsoleError e]"])
  next
    case (Inr user)
    then show ?thesis using o c by (auto simp: submit_with_run submitted_def session_outcome_def)
  qed
qed

text \<open>
  C31. Signing in is all or nothing: every submission of the login form returns, resets its flag, and either
  stores the session of the user that was typed in and goes to the feed, or reports an error and leaves the
  storage as it was without leaving the page. A submission of the register form does the same, and sends
  nothing at all unless the password has six characters and matches its confirmation.
\<close>

theorem sign_in_all_or_nothing:
  assumes "has_window (lf_world s)" "has_window (lf_world t)" "\<not> lf_isLoading t"
  shows "(case login_handleSubmit E cl s of (r, s') \<Rightarrow> r = Inr () \<and> submitted s s')
    \<and> (case register_handleSubmit E cl t of (r, t') \<Rightarrow> r = Inr () \<and> submitted t t'
         \<and> (lf_password t \<noteq> rf_confirmPassword t \<or> length (lf_password t) < 6 \<longrightarrow> lf_world t' = lf_world t))"
proof -
  let ?l = "submit_with (auth_login E cl (lf_username s) (lf_password s)) login_greeting login_failure s"
  have l: "login_handleSubmit E cl s = ?l" by (simp add: login_handleSubmit_def js_monad)
  have "fst ?l = Inr () \<and> submitted s (snd ?l)"
    by (rule submit_with_submitted) (auto intro: login_outcome [OF assms(1)] simp: login_failure_def)
  moreover have "case register_handleSubmit E cl t of (r, t') \<Rightarrow> r = Inr () \<and> submitted t t'
      \<and> (lf_password t \<noteq> rf_confirmPassword t \<or> length (lf_password t) < 6 \<longrightarrow> lf_world t' = lf_world t)"
  proof (cases "lf_password t \<noteq> rf_confirmPassword t \<or> length (lf_password t) < 6")
    case True
    then show ?thesis
      using assms(3)
      by (auto simp: register_handleSubmit_def js_monad submitted_def mismatch_notice_def short_notice_def
          intro!: exI [of _ "[]"])
  next
    case False
    let ?r = "submit_with (register_calls E cl (lf_username t) (lf_password t)) register_greeting register_failure t"
    have "register_handleSubmit E cl t = ?r" using False by (auto simp: register_handleSubmit_def js_monad)
    moreover have "fst ?r = Inr () \<and> submitted t (snd ?r)"
      by (rule submit_with_submitted) (auto intro: register_outcome [OF assms(2)] simp: register_failure_def)
    ultimately show ?thesis using False by (simp add: split_beta)
  qed
  ultimately show ?thesis by (simp add: l split_beta)
qed

theorem sign_in_all_or_nothing_witness:
  "fst (login_handleSubmit (offline_env CTypeError) demo_nbook (new_LoginPage fresh_world)) = Inr ()
   \<and> lf_world (snd (register_handleSubmit (offline_env CTypeError) demo_nbook (new_RegisterPage fresh_world))) = fresh_world"
  using sign_in_all_or_nothing [of "new_LoginPage fresh_world" "new_RegisterPage fresh_world" "offline_env CTypeError"
      demo_nbook]
  by (simp add: split_beta) (simp add: new_LoginPage_def new_RegisterPage_def has_window_def fresh_world_def)

end
