(* ===== verification/Feed.thy ===== *)
theory Feed
  imports Post_Card
begin

text \<open>
  \<^verbatim>\<open>wasm_programs/nbook/ui/components/feed/feed-content.tsx\<close>: the list of posts with its two tabs. The
  function \<^verbatim>\<open>loadFeed\<close> is split where it awaits: the part before sends the request and adds the call,
  with the answer it will get, to the pending ones; the part after runs when that answer arrives, in any
  order. Each rendering has its own \<^verbatim>\<open>loadFeed\<close>, which keeps the tab of that rendering, and children may
  call an old one.
\<close>

section \<open>State\<close>

datatype FeedTab = Following | Discover

record feed_props =
  fp_initialTab :: FeedTab
  fp_fixedDiscover :: bool
  fp_title :: "jsstr option"
  fp_hideToggle :: bool

datatype feed_call = PostCall "exn + Post" | FeedCall FeedTab "exn + Post list"

record feed =
  fd_activeTab :: FeedTab
  fd_focusedPostId :: "jsstr option"
  fd_posts :: "Post list"
  fd_isLoading :: bool
  fd_unauthenticated :: bool
  fd_pending :: "feed_call list"
  fd_effects :: "effect list"
  fd_world :: world

definition new_FeedContent :: "feed_props \<Rightarrow> jsstr option \<Rightarrow> world \<Rightarrow> feed" where
  "new_FeedContent props focused w =
     \<lparr>fd_activeTab = (if fp_fixedDiscover props then Discover else fp_initialTab props),
      fd_focusedPostId = focused, fd_posts = [], fd_isLoading = True, fd_unauthenticated = False,
      fd_pending = [], fd_effects = [], fd_world = w\<rparr>"

section \<open>Loading\<close>

definition begin_call :: "(world, 'a) js \<Rightarrow> (exn + 'a \<Rightarrow> feed_call) \<Rightarrow> (feed, unit) js" where
  [js_monad]: "begin_call m mk s =
     (case m (fd_world s) of (r, w) \<Rightarrow> (Inr (), s\<lparr>fd_world := w, fd_pending := fd_pending s @ [mk r]\<rparr>))"

definition on_feed :: "(world, 'a) js \<Rightarrow> (feed, 'a) js" where
  [js_monad]: "on_feed = js_zoom fd_world (\<lambda>w s. s\<lparr>fd_world := w\<rparr>)"

definition loadFeed :: "env \<Rightarrow> NbookONVMClient \<Rightarrow> FeedTab \<Rightarrow> jsstr option \<Rightarrow> (feed, unit) js" where
  "loadFeed E client activeTab focusedPostId =
     (if truthy focusedPostId then
        js_seq (js_modify (\<lambda>s. s\<lparr>fd_isLoading := True, fd_unauthenticated := False\<rparr>))
          (begin_call (getPost E client (the focusedPostId)) PostCall)
      else
        js_bind (on_feed (getSession E)) (\<lambda>session.
        if \<not> truthy_val (opt_prop ''session'' session) then
          js_modify (\<lambda>s. s\<lparr>fd_unauthenticated := True, fd_isLoading := False\<rparr>)
        else
          js_seq (js_modify (\<lambda>s. s\<lparr>fd_unauthenticated := False, fd_isLoading := True\<rparr>))
            (begin_call (getFeed E client 20 (activeTab = Discover)) (FeedCall activeTab))))"

definition feed_failure :: "string \<Rightarrow> exn \<Rightarrow> effect list" where
  "feed_failure title error =
     [ConsoleError error, Notice (js title) (Some (error_text error (js ''Please try again.''))) True]"

definition loadFeed_resume :: "feed_call \<Rightarrow> feed \<Rightarrow> feed" where
  "loadFeed_resume call s =
     (case call of
        PostCall (Inr p) \<Rightarrow> s\<lparr>fd_posts := [p]\<rparr>
      | PostCall (Inl error) \<Rightarrow>
          s\<lparr>fd_effects := fd_effects s @ feed_failure ''Failed to load post'' error, fd_posts := []\<rparr>
      | FeedCall tab (Inr feedData) \<Rightarrow> s\<lparr>fd_posts := feedData\<rparr>
      | FeedCall tab (Inl error) \<Rightarrow>
          s\<lparr>fd_effects := fd_effects s @ feed_failure ''Failed to load feed'' error\<rparr>
     )\<lparr>fd_isLoading := False, fd_pending := remove1 call (fd_pending s)\<rparr>"

text \<open>
  The effect that runs when the component is mounted and when the tab or the focused post changes. With
  a fixed tab it first goes back to that tab, which runs it again.
\<close>

definition feed_effect :: "env \<Rightarrow> NbookONVMClient \<Rightarrow> feed_props \<Rightarrow> (feed, unit) js" where
  "feed_effect E client props =
     js_seq (js_modify (\<lambda>s. if fp_fixedDiscover props \<and> fd_activeTab s \<noteq> Discover
               then s\<lparr>fd_activeTab := Discover\<rparr> else s))
       (js_bind (js_gets fd_activeTab) (\<lambda>tab.
        js_bind (js_gets fd_focusedPostId) (\<lambda>focused. loadFeed E client tab focused)))"

definition setActiveTab :: "env \<Rightarrow> NbookONVMClient \<Rightarrow> feed_props \<Rightarrow> FeedTab \<Rightarrow> (feed, unit) js" where
  "setActiveTab E client props tab =
     js_bind (js_gets fd_activeTab) (\<lambda>old.
     if tab = old then js_ret ()
     else js_seq (js_modify (\<lambda>s. s\<lparr>fd_activeTab := tab\<rparr>)) (feed_effect E client props))"

definition focus_post :: "env \<Rightarrow> NbookONVMClient \<Rightarrow> feed_props \<Rightarrow> jsstr option \<Rightarrow> (feed, unit) js" where
  "focus_post E client props focused =
     js_bind (js_gets fd_focusedPostId) (\<lambda>old.
     if focused = old then js_ret ()
     else js_seq (js_modify (\<lambda>s. s\<lparr>fd_focusedPostId := focused\<rparr>)) (feed_effect E client props))"

section \<open>What the feed shows\<close>

datatype feed_handler = ToggleTab | ShowFollowing | ShowDiscover

definition headerTitle :: "feed_props \<Rightarrow> jsstr" where
  "headerTitle props =
     (if truthy (fp_title props) then the (fp_title props)
      else if fp_fixedDiscover props then js ''Discover'' else js ''Home'')"

definition tab_button :: "feed_handler \<Rightarrow> string \<Rightarrow> bool \<Rightarrow> feed_handler view" where
  "tab_button h label active = Btn h False (Txt (js label) # show_if active [El ''underline'' [] []])"

definition feed_header :: "feed_props \<Rightarrow> feed \<Rightarrow> feed_handler view list" where
  "feed_header props s =
     [El ''h1'' [] [Txt (headerTitle props)]]
     @ show_if (\<not> fp_hideToggle props)
         [Btn ToggleTab False
            [Txt (if fd_activeTab s = Following then js ''Switch to Discover'' else js ''Switch to Following'')]]
     @ show_if (\<not> fp_fixedDiscover props)
         [tab_button ShowFollowing ''Following'' (fd_activeTab s = Following),
          tab_button ShowDiscover ''Discover'' (fd_activeTab s = Discover)]"

text \<open>The composer and the cards are components of their own and appear by name.\<close>

definition feed_composer :: "feed \<Rightarrow> feed_handler view" where
  "feed_composer s =
     (if fd_unauthenticated s then El ''div'' [] [Txt (js ''Please log in to create a post.'')]
      else El ''CreatePostBox'' [] [])"

definition feed_list :: "feed \<Rightarrow> feed_handler view list" where
  "feed_list s =
     (if fd_unauthenticated s then [El ''p'' [] [Txt (js ''Log in to see your feed.'')]]
      else if fd_isLoading s then [El ''spinner'' [] []]
      else if fd_posts s = [] then [El ''p'' [] [Txt (js ''No posts yet. Be the first to share something!'')]]
      else map (\<lambda>p. El ''PostCard'' [(''key'', val_text (po_id p))] []) (fd_posts s))"

definition FeedContent_view :: "feed_props \<Rightarrow> feed \<Rightarrow> feed_handler view" where
  "FeedContent_view props s = El ''div'' [] (feed_header props s @ [feed_composer s] @ feed_list s)"

definition press_feed :: "env \<Rightarrow> NbookONVMClient \<Rightarrow> feed_props \<Rightarrow> feed_handler \<Rightarrow> (feed, unit) js" where
  "press_feed E client props h =
     (case h of
        ToggleTab \<Rightarrow>
          js_bind (js_gets fd_activeTab) (\<lambda>tab.
          setActiveTab E client props (if tab = Following then Discover else Following))
      | ShowFollowing \<Rightarrow> setActiveTab E client props Following
      | ShowDiscover \<Rightarrow> setActiveTab E client props Discover)"

section \<open>Runs\<close>

text \<open>
  A run: presses on what the view offers, navigation to another post, answers in any order, and a child
  that asks for a reload with the tab and post of some rendering.
\<close>

inductive feed_step :: "env \<Rightarrow> NbookONVMClient \<Rightarrow> feed_props \<Rightarrow> feed \<Rightarrow> feed \<Rightarrow> bool" for E client props where
  fs_press: "h \<in> set (view_handlers (FeedContent_view props s)) \<Longrightarrow> press_feed E client props h s = (r, s') \<Longrightarrow>
    feed_step E client props s s'"
| fs_focus: "focus_post E client props focused s = (r, s') \<Longrightarrow> feed_step E client props s s'"
| fs_reload: "loadFeed E client tab focused s = (r, s') \<Longrightarrow> feed_step E client props s s'"
| fs_answer: "call \<in> set (fd_pending s) \<Longrightarrow> feed_step E client props s (loadFeed_resume call s)"

definition mounted_feed :: "env \<Rightarrow> NbookONVMClient \<Rightarrow> feed_props \<Rightarrow> jsstr option \<Rightarrow> world \<Rightarrow> feed" where
  "mounted_feed E client props focused w = snd (feed_effect E client props (new_FeedContent props focused w))"

section \<open>A session that can be read\<close>

text \<open>The stored session is missing, empty, or the text of a value other than null.\<close>

definition session_readable :: "world \<Rightarrow> bool" where
  "session_readable w \<longleftrightarrow>
     (case getItem session_key w of
        None \<Rightarrow> True
      | Some d \<Rightarrow> d = [] \<or> (case JSON_parse d of None \<Rightarrow> False | Some user \<Rightarrow> user \<noteq> JNull))"

lemma readable_storage: "w_storage w' = w_storage w \<Longrightarrow> session_readable w' = session_readable w"
  by (simp add: session_readable_def getItem_def)

lemma sends_one_readable: "sends_one w w' \<Longrightarrow> session_readable w' = session_readable w"
  using sends_one_keeps readable_storage by blast

lemma readable_removed: "session_readable (removeItem session_key w)"
  by (simp add: session_readable_def getItem_def removeItem_def map_of_delete split: option.split)

lemma getSession_readable:
  assumes "session_readable w"
  shows "\<exists>x w'. getSession E w = (Inr x, w') \<and> session_readable w'"
proof (cases "getItem session_key w")
  case None
  then show ?thesis using assms by (simp add: getSession_absent)
next
  case (Some d)
  have clock: "session_readable (w\<lparr>w_clock := n\<rparr>)" for n
    using assms readable_storage [of "w\<lparr>w_clock := n\<rparr>" w] by simp
  show ?thesis
  proof (cases "d = []")
    case True
    then show ?thesis using assms Some by (simp add: getSession_def js_monad)
  next
    case False
    then obtain user where u: "JSON_parse d = Some user" "user \<noteq> JNull"
      using assms Some by (auto simp: session_readable_def split: option.splits)
    then obtain x where "get_prop ''expiresAt'' (Some user) = Inr x" by (cases user) (auto simp: get_prop_def)
    then show ?thesis
      using Some False u clock assms readable_removed
      by (auto simp: getSession_def clearSession_def js_monad parse_json_def Date_now_def)
  qed
qed

lemma getPost_readable: "session_readable w \<Longrightarrow> session_readable (snd (getPost E client i w))"
  unfolding getPost_def nb_getPost_def using sends_one_readable [OF program_op_sends_one] by blast

lemma getFeed_readable:
  assumes "session_readable w"
  shows "session_readable (snd (getFeed E client n d w))"
proof -
  obtain x w' where g: "getSession E w = (Inr x, w')" "session_readable w'"
    using getSession_readable [OF assms] by blast
  have "session_readable (snd (nb_getFeed E client tok n d w'))" for tok
    unfolding nb_getFeed_def using g(2) sends_one_readable [OF program_op_sends_one] by blast
  then show ?thesis using g by (simp add: getFeed_def with_token_def getSessionToken_def js_monad)
qed

section \<open>Properties\<close>

definition feed_inv :: "feed \<Rightarrow> bool" where
  "feed_inv s \<longleftrightarrow> session_readable (fd_world s) \<and> (fd_pending s = [] \<longrightarrow> \<not> fd_isLoading s)"

lemma loadFeed_inv:
  assumes "session_readable (fd_world s)"
  shows "fst (loadFeed E client tab focused s) = Inr () \<and> feed_inv (snd (loadFeed E client tab focused s))"
proof (cases "truthy focused")
  case True
  then show ?thesis
    using getPost_readable [OF assms, of E client "the focused"]
    by (simp add: loadFeed_def js_monad feed_inv_def split_beta)
next
  case False
  obtain x w' where g: "getSession E (fd_world s) = (Inr x, w')" "session_readable w'"
    using getSession_readable [OF assms] by blast
  then show ?thesis
    using False getFeed_readable [OF g(2), of E client 20 "tab = Discover"]
    by (simp add: loadFeed_def js_monad feed_inv_def split_beta)
qed

lemma feed_effect_inv:
  assumes "session_readable (fd_world s)"
  shows "fst (feed_effect E client props s) = Inr () \<and> feed_inv (snd (feed_effect E client props s))"
  using loadFeed_inv [of s] loadFeed_inv [of "s\<lparr>fd_activeTab := Discover\<rparr>"] assms
  by (simp add: feed_effect_def js_monad)

lemma setActiveTab_inv: "feed_inv s \<Longrightarrow> feed_inv (snd (setActiveTab E client props tab s))"
  using feed_effect_inv [of "s\<lparr>fd_activeTab := tab\<rparr>"] by (simp add: setActiveTab_def js_monad feed_inv_def)

lemma focus_post_inv: "feed_inv s \<Longrightarrow> feed_inv (snd (focus_post E client props focused s))"
  using feed_effect_inv [of "s\<lparr>fd_focusedPostId := focused\<rparr>"] by (simp add: focus_post_def js_monad feed_inv_def)

lemma press_feed_inv: "feed_inv s \<Longrightarrow> feed_inv (snd (press_feed E client props h s))"
  by (cases h) (simp_all add: press_feed_def js_monad setActiveTab_inv)

lemma resume_inv: "feed_inv s \<Longrightarrow> feed_inv (loadFeed_resume call s)"
  by (auto simp: loadFeed_resume_def feed_inv_def split: feed_call.split sum.split)

lemma feed_step_inv: "feed_step E client props s s' \<Longrightarrow> feed_inv s \<Longrightarrow> feed_inv s'"
proof (induction rule: feed_step.induct)
  case (fs_press h s r s')
  then show ?case using press_feed_inv [of s E client props h] by simp
next
  case (fs_focus focused s r s')
  then show ?case using focus_post_inv [of s E client props focused] by simp
next
  case (fs_reload tab focused s r s')
  then show ?case using loadFeed_inv [of s E client tab focused] by (simp add: feed_inv_def)
qed (rule resume_inv)

lemma feed_run_inv: "(feed_step E client props)\<^sup>*\<^sup>* s s' \<Longrightarrow> feed_inv s \<Longrightarrow> feed_inv s'"
  by (induction rule: rtranclp_induct) (auto intro: feed_step_inv)

lemma mounted_feed_inv: "session_readable w \<Longrightarrow> feed_inv (mounted_feed E client props focused w)"
  using feed_effect_inv [of "new_FeedContent props focused w" E client props]
  by (simp add: mounted_feed_def new_FeedContent_def)

lemma feed_list_spinner:
  "El ''spinner'' [] [] \<in> set (feed_list s) \<longleftrightarrow> \<not> fd_unauthenticated s \<and> fd_isLoading s"
  by (auto simp: feed_list_def)

text \<open>
  C32. The feed settles: from a page whose stored session can be read, in every order of presses,
  navigation, reloads by children and answers, the spinner is gone when no call is pending, and answering
  all pending calls takes exactly as many steps as there are.
\<close>

theorem feed_settles:
  assumes "session_readable w" "(feed_step E client props)\<^sup>*\<^sup>* (mounted_feed E client props focused w) s"
  shows "(fd_pending s = [] \<longrightarrow> El ''spinner'' [] [] \<notin> set (feed_list s))
    \<and> (\<forall>call \<in> set (fd_pending s). feed_step E client props s (loadFeed_resume call s)
         \<and> length (fd_pending (loadFeed_resume call s)) + 1 = length (fd_pending s))"
proof -
  have "feed_inv s" using feed_run_inv [OF assms(2) mounted_feed_inv [OF assms(1)]] .
  moreover have "length (fd_pending (loadFeed_resume call s)) + 1 = length (fd_pending s)"
    if "call \<in> set (fd_pending s)" for call
  proof -
    have "fd_pending (loadFeed_resume call s) = remove1 call (fd_pending s)" by (simp add: loadFeed_resume_def)
    with that show ?thesis using length_pos_if_in_set [OF that] by (simp add: length_remove1)
  qed
  ultimately show ?thesis
    by (auto simp: feed_list_spinner feed_inv_def intro: fs_answer)
qed

definition feed_page :: feed_props where
  "feed_page = \<lparr>fp_initialTab = Following, fp_fixedDiscover = False, fp_title = None, fp_hideToggle = False\<rparr>"

theorem feed_settles_witness:
  "let s = mounted_feed (offline_env CTypeError) demo_nbook feed_page (Some (js ''p7'')) fresh_world;
       s' = loadFeed_resume (hd (fd_pending s)) s
   in length (fd_pending s) = 1 \<and> fd_pending s' = [] \<and> El ''spinner'' [] [] \<notin> set (feed_list s')"
proof -
  let ?E = "offline_env CTypeError"
  let ?s = "mounted_feed ?E demo_nbook feed_page (Some (js ''p7'')) fresh_world"
  let ?s' = "loadFeed_resume (hd (fd_pending ?s)) ?s"
  obtain r w where "getPost ?E demo_nbook (js ''p7'') fresh_world = (r, w)" by fastforce
  then have one: "fd_pending ?s = [PostCall r]"
    by (simp add: mounted_feed_def feed_effect_def loadFeed_def js_monad new_FeedContent_def feed_page_def js_def)
  then have none: "fd_pending ?s' = []" by (simp add: loadFeed_resume_def)
  have ok: "session_readable fresh_world" by (simp add: session_readable_def getItem_def fresh_world_def)
  have "feed_step ?E demo_nbook feed_page ?s ?s'" using one by (intro fs_answer) simp
  then have "(feed_step ?E demo_nbook feed_page)\<^sup>*\<^sup>* ?s ?s'" by (rule r_into_rtranclp)
  from feed_settles [OF ok this] one none show ?thesis by (simp add: Let_def)
qed

text \<open>
  C33. Answers are not matched with what is shown: when the page goes from one post to another before the
  first has arrived, the answers may arrive in the other order, and then the page of the second post shows
  the first, with no call left that would correct it.
\<close>

theorem feed_answer_race:
  assumes "a \<noteq> []" "b \<noteq> []" "a \<noteq> b" "getPost E client a w = (Inr p, w1)" "getPost E client b w1 = (rb, w2)" "rb \<noteq> Inr p"
    "\<not> fp_fixedDiscover props"
  shows "\<exists>s. (feed_step E client props)\<^sup>*\<^sup>* (mounted_feed E client props (Some a) w) s
    \<and> fd_focusedPostId s = Some b \<and> fd_posts s = [p] \<and> \<not> fd_isLoading s \<and> fd_pending s = []"
proof -
  let ?s0 = "mounted_feed E client props (Some a) w"
  let ?s1 = "?s0\<lparr>fd_focusedPostId := Some b, fd_isLoading := True, fd_unauthenticated := False, fd_world := w2,
    fd_pending := [PostCall (Inr p), PostCall rb]\<rparr>"
  let ?s2 = "loadFeed_resume (PostCall rb) ?s1"
  let ?s3 = "loadFeed_resume (PostCall (Inr p)) ?s2"
  have tr: "truthy (Some a)" "truthy (Some b)" using assms(1,2) by simp_all
  have s0: "?s0 = (new_FeedContent props (Some a) w)\<lparr>fd_world := w1, fd_pending := [PostCall (Inr p)]\<rparr>"
    using assms tr
    by (simp add: mounted_feed_def feed_effect_def loadFeed_def js_monad new_FeedContent_def)
  have "focus_post E client props (Some b) ?s0 = (Inr (), ?s1)"
    using assms tr unfolding s0
    by (simp add: focus_post_def feed_effect_def loadFeed_def js_monad new_FeedContent_def)
  then have "feed_step E client props ?s0 ?s1" by (rule fs_focus)
  moreover have "feed_step E client props ?s1 ?s2" by (rule fs_answer) simp
  moreover note ne = assms(6)
  then have "fd_pending ?s2 = [PostCall (Inr p)]" by (simp add: loadFeed_resume_def)
  moreover from this have "feed_step E client props ?s2 ?s3" by (intro fs_answer) simp
  ultimately have run: "(feed_step E client props)\<^sup>*\<^sup>* ?s0 ?s3" by (meson converse_rtranclp_into_rtranclp rtranclp.rtrancl_refl)
  have "fd_focusedPostId ?s3 = Some b \<and> fd_posts ?s3 = [p] \<and> \<not> fd_isLoading ?s3 \<and> fd_pending ?s3 = []"
    using ne by (cases rb) (simp_all add: loadFeed_resume_def)
  with run show ?thesis by blast
qed

text \<open>A program that knows one post.\<close>

definition one_post :: "json \<Rightarrow> json" where
  "one_post req =
     (if opt_prop ''post_id'' (Some req) = Some (JStr (js ''p7''))
      then JObj [(js ''status'', JStr (js ''post'')), (js ''post'', JObj [(js ''comments'', JArr [])])]
      else JObj [(js ''status'', JStr (js ''error''))])"

lemma one_post_answers:
  assumes "i \<in> {js ''p7'', js ''p8''}"
  shows "fst (nb_executeProgram (program_env one_post) demo_nbook (GetPostRequest i) w) =
    Inr (one_post (Request_json (GetPostRequest i)))"
proof -
  have "latin1 (JSON_stringify (Request_json (GetPostRequest i)))" "json_ok (Request_json (GetPostRequest i))"
    using assms by (auto simp: stringify_eval)
  moreover have "json_ok (one_post q)" "latin1 (JSON_stringify (one_post q))"
    "truthy_val (opt_prop ''status'' (Some (one_post q)))" for q
    by (simp_all add: one_post_def stringify_eval)
  ultimately show ?thesis
    using executeProgram_reply [of "program_env one_post" one_post "GetPostRequest i" demo_nbook w]
    by (simp add: program_env_def)
qed

lemma one_post_get:
  "\<exists>p. fst (getPost (program_env one_post) demo_nbook (js ''p7'') w) = Inr p"
  "\<exists>e. fst (getPost (program_env one_post) demo_nbook (js ''p8'') w) = Inl e"
proof -
  obtain w1 where "nb_executeProgram (program_env one_post) demo_nbook (GetPostRequest (js ''p7'')) w =
      (Inr (one_post (Request_json (GetPostRequest (js ''p7'')))), w1)"
    using one_post_answers [of "js ''p7''" w] by (metis insertI1 prod.collapse)
  moreover have "one_post (Request_json (GetPostRequest (js ''p7''))) =
      JObj [(js ''status'', JStr (js ''post'')), (js ''post'', JObj [(js ''comments'', JArr [])])]"
    by (simp add: one_post_def obj_literal_def js_def ju_def)
  ultimately show "\<exists>p. fst (getPost (program_env one_post) demo_nbook (js ''p7'') w) = Inr p"
    by (simp add: getPost_def nb_getPost_def program_op_def js_monad has_status_def normalizePost_def get_prop_def
        js_array_def js_def ju_def)
  obtain w2 where "nb_executeProgram (program_env one_post) demo_nbook (GetPostRequest (js ''p8'')) w =
      (Inr (one_post (Request_json (GetPostRequest (js ''p8'')))), w2)"
    using one_post_answers [of "js ''p8''" w] by (metis insertI1 insertI2 prod.collapse)
  moreover have "one_post (Request_json (GetPostRequest (js ''p8''))) = JObj [(js ''status'', JStr (js ''error''))]"
    by (simp add: one_post_def obj_literal_def js_def ju_def)
  ultimately show "\<exists>e. fst (getPost (program_env one_post) demo_nbook (js ''p8'') w) = Inl e"
    by (simp add: getPost_def nb_getPost_def program_op_def js_monad has_status_def)
qed

theorem feed_answer_race_witness:
  "\<exists>s p. (feed_step (program_env one_post) demo_nbook feed_page)\<^sup>*\<^sup>*
       (mounted_feed (program_env one_post) demo_nbook feed_page (Some (js ''p7'')) fresh_world) s
     \<and> fd_focusedPostId s = Some (js ''p8'') \<and> fd_posts s = [p] \<and> fd_pending s = []"
proof -
  obtain p w1 where 1: "getPost (program_env one_post) demo_nbook (js ''p7'') fresh_world = (Inr p, w1)"
    using one_post_get(1) [of fresh_world] by (metis prod.collapse)
  obtain e w2 where 2: "getPost (program_env one_post) demo_nbook (js ''p8'') w1 = (Inl e, w2)"
    using one_post_get(2) [of w1] by (metis prod.collapse)
  have "js ''p7'' \<noteq> []" "js ''p8'' \<noteq> []" "js ''p7'' \<noteq> js ''p8''" "Inl e \<noteq> Inr p" "\<not> fp_fixedDiscover feed_page"
    by (simp_all add: js_def ju_def feed_page_def)
  from feed_answer_race [OF this(1-3) 1 2 this(4,5)] show ?thesis by blast
qed

end
