(* ===== verification/Composer.thy ===== *)
theory Composer
  imports Post_Card
begin

text \<open>
  \<^verbatim>\<open>wasm_programs/nbook/ui/components/feed/create-post-box.tsx\<close>: the box in which a post is written. A
  handler runs to completion; the flag \<^verbatim>\<open>isPosting\<close> keeps the post button from being pressed while a
  post or an upload runs. A chosen file is its name and its bytes.
\<close>

section \<open>State\<close>

record composer =
  cb_content :: jsstr
  cb_isFocused :: bool
  cb_isPosting :: bool
  cb_attachments :: "(jsval \<times> jsstr \<times> nat) list"
  cb_effects :: "effect list"
  cb_world :: world

type_synonym chosen_file = "jsstr \<times> bytes"

definition new_CreatePostBox :: "world \<Rightarrow> composer" where
  "new_CreatePostBox w =
     \<lparr>cb_content = [], cb_isFocused = False, cb_isPosting = False, cb_attachments = [], cb_effects = [], cb_world = w\<rparr>"

definition on_box :: "(world, 'a) js \<Rightarrow> (composer, 'a) js" where
  [js_monad]: "on_box = js_zoom cb_world (\<lambda>w s. s\<lparr>cb_world := w\<rparr>)"

definition box_emit :: "effect \<Rightarrow> (composer, unit) js" where
  [js_monad]: "box_emit e = js_modify (\<lambda>s. s\<lparr>cb_effects := cb_effects s @ [e]\<rparr>)"

text \<open>Typing into the text area, and focusing it.\<close>

definition setContent :: "jsstr \<Rightarrow> composer \<Rightarrow> composer" where
  "setContent v s = s\<lparr>cb_content := v\<rparr>"

definition focus_box :: "composer \<Rightarrow> composer" where
  "focus_box s = s\<lparr>cb_isFocused := True\<rparr>"

section \<open>Handlers\<close>

definition posted_notice :: effect where
  "posted_notice = Notice (js ''Posted!'') (Some (js ''Your post has been shared.'')) False"

definition handlePost :: "env \<Rightarrow> NbookONVMClient \<Rightarrow> bool \<Rightarrow> (composer, unit) js" where
  "handlePost E client hasOnPostCreated =
     js_bind (js_gets cb_content) (\<lambda>content.
     if trim content = [] then js_ret ()
     else
       js_seq (js_modify (\<lambda>s. s\<lparr>cb_isPosting := True\<rparr>))
         (js_finally
           (js_catch
             (js_bind (js_gets cb_attachments) (\<lambda>attachments.
              js_bind (on_box (createPost E client (trim content) (map fst attachments))) (\<lambda>_.
              js_seq (box_emit posted_notice)
                (js_seq (js_modify (\<lambda>s. s\<lparr>cb_content := [], cb_isFocused := False, cb_attachments := []\<rparr>))
                  (if hasOnPostCreated then box_emit (Callback ''onPostCreated'') else js_ret ())))))
             (\<lambda>error. js_seq (box_emit (ConsoleError error)) (box_emit (failure_notice ''Failed to post'' error))))
           (\<lambda>s. s\<lparr>cb_isPosting := False\<rparr>)))"

definition upload_file :: "env \<Rightarrow> NbookONVMClient \<Rightarrow> chosen_file \<Rightarrow> (world, jsval \<times> jsstr \<times> nat) js" where
  "upload_file E client file =
     js_bind (uploadBlob_api E client (snd file)) (\<lambda>blobId.
     js_ret (blobId, fst file, length (snd file)))"

definition handleFileSelect :: "env \<Rightarrow> NbookONVMClient \<Rightarrow> chosen_file list option \<Rightarrow> (composer, unit) js" where
  "handleFileSelect E client files =
     (if files = None \<or> files = Some [] then js_ret ()
      else
        js_seq (js_modify (\<lambda>s. s\<lparr>cb_isPosting := True\<rparr>))
          (js_finally
            (js_catch
              (js_bind (on_box (js_mapM (upload_file E client) (the files))) (\<lambda>uploads.
               js_modify (\<lambda>s. s\<lparr>cb_attachments := cb_attachments s @ uploads\<rparr>)))
              (\<lambda>e. box_emit (failure_notice ''Upload failed'' e)))
            (\<lambda>s. s\<lparr>cb_isPosting := False\<rparr>)))"

definition remove_attachment :: "nat \<Rightarrow> composer \<Rightarrow> composer" where
  "remove_attachment idx s =
     s\<lparr>cb_attachments := map fst (filter (\<lambda>(a, i). i \<noteq> idx) (zip (cb_attachments s) [0..<length (cb_attachments s)]))\<rparr>"

section \<open>What the box shows\<close>

definition getInitials :: "jsval \<Rightarrow> exn + jsstr" where
  "getInitials name =
     (if \<not> truthy_val name then Inr (js ''U'')
      else case name of
        Some (JStr n) \<Rightarrow> Inr (toUpperCase (take 2 n))
      | _ \<Rightarrow> Inl (native CTypeError (js ''name.substring is not a function'')))"

datatype box_handler = PostNow | PickFiles | RemoveAttachment nat

definition attachment_row :: "nat \<Rightarrow> jsval \<times> jsstr \<times> nat \<Rightarrow> box_handler view" where
  "attachment_row idx = (\<lambda>(i, name, sz).
     El ''attachment'' []
       [Txt (name @ js '' ('' @ rounded_kb (Some (JNum (of_nat sz))) @ js '' KB)''),
        Btn (RemoveAttachment idx) False []])"

definition box_toolbar :: "composer \<Rightarrow> box_handler view list" where
  "box_toolbar s =
     show_if (cb_isFocused s \<or> cb_content s \<noteq> [])
       [El ''input'' [(''type'', js ''file''), (''multiple'', [])] [], Btn PickFiles False [], El ''button'' [] [],
        El ''span'' [] [Txt (show_int (int (length (cb_content s))) @ js ''/2048'')],
        Btn PostNow (trim (cb_content s) = [] \<or> cb_isPosting s)
          [Txt (if cb_isPosting s then js ''Posting...'' else js ''Post'')]]"

definition CreatePostBox_view :: "jsval \<Rightarrow> composer \<Rightarrow> exn + box_handler view" where
  "CreatePostBox_view username s =
     r_bind (getInitials username) (\<lambda>i.
     Inr (El ''div'' []
       ([El ''avatar'' [] [Txt i],
         El ''textarea'' [(''placeholder'', js ''What'' @ [39] @ js ''s on your mind?''), (''value'', cb_content s)] []]
        @ map (\<lambda>(a, idx). attachment_row idx a) (zip (cb_attachments s) [0..<length (cb_attachments s)])
        @ box_toolbar s)))"

section \<open>Properties\<close>

lemma uploadBlob_sends: "length (w_sent (snd (uploadBlob_api E client b w))) = Suc (length (w_sent w))"
  by (auto simp: uploadBlob_api_def nb_uploadBlob_def fetch_def js_monad split: sum.split)

lemma upload_file_sends: "length (w_sent (snd (upload_file E client f w))) = Suc (length (w_sent w))"
  using uploadBlob_sends [of E client "snd f" w] by (auto simp: upload_file_def js_monad split: prod.split sum.split)

lemma upload_file_result: "fst (upload_file E client f w) = Inr u \<Longrightarrow> snd u = (fst f, length (snd f))"
  by (auto simp: upload_file_def js_monad split: prod.splits sum.splits)

text \<open>
  The loop of uploads sends one request per file until the first failure; when none fails it has the names
  and sizes of the files in their order.
\<close>

lemma uploads_run:
  "case js_mapM (upload_file E client) files w of (r, w') \<Rightarrow>
     (case r of
        Inr us \<Rightarrow> map snd us = map (\<lambda>f. (fst f, length (snd f))) files
          \<and> length (w_sent w') = length (w_sent w) + length files
      | Inl e \<Rightarrow> length (w_sent w') \<le> length (w_sent w) + length files)"
proof (induction files arbitrary: w)
  case Nil
  then show ?case by (simp add: js_monad)
next
  case (Cons f files)
  obtain r1 w1 where f: "upload_file E client f w = (r1, w1)" by fastforce
  have sent: "length (w_sent w1) = Suc (length (w_sent w))" using upload_file_sends [of E client f w] f by simp
  show ?case
  proof (cases r1)
    case (Inl e)
    then show ?thesis using f sent by (simp add: js_monad)
  next
    case (Inr u)
    then have "snd u = (fst f, length (snd f))" using upload_file_result [of E client f w u] f by simp
    then show ?thesis using Cons.IH [of w1] f Inr sent by (auto simp: js_monad split: prod.splits sum.splits)
  qed
qed

lemma handleFileSelect_run:
  assumes "files \<noteq> []"
  shows "handleFileSelect E client (Some files) s =
    (case js_mapM (upload_file E client) files (cb_world s) of (r, w) \<Rightarrow>
       (Inr (), s\<lparr>cb_isPosting := False, cb_world := w,
          cb_attachments := cb_attachments s @ (case r of Inl e \<Rightarrow> [] | Inr us \<Rightarrow> us),
          cb_effects := cb_effects s @ (case r of Inl e \<Rightarrow> [failure_notice ''Upload failed'' e] | Inr us \<Rightarrow> [])\<rparr>))"
  using assms by (auto simp: handleFileSelect_def js_monad split: prod.split sum.split)

lemma handlePost_run:
  assumes "trim (cb_content s) \<noteq> []"
  shows "handlePost E client cb s =
    (case createPost E client (trim (cb_content s)) (map fst (cb_attachments s)) (cb_world s) of
       (Inl e, w) \<Rightarrow>
         (Inr (), s\<lparr>cb_isPosting := False, cb_world := w,
            cb_effects := cb_effects s @ [ConsoleError e, failure_notice ''Failed to post'' e]\<rparr>)
     | (Inr p, w) \<Rightarrow>
         (Inr (), s\<lparr>cb_isPosting := False, cb_world := w, cb_content := [], cb_isFocused := False, cb_attachments := [],
            cb_effects := cb_effects s @ posted_notice # (if cb then [Callback ''onPostCreated''] else [])\<rparr>))"
  using assms by (auto simp: handlePost_def js_monad split: prod.split sum.split)



end
