(* ===== verification/School_Views.thy ===== *)
theory School_Views
  imports School_Client Js_Text
begin

text \<open>
  \<^verbatim>\<open>wasm_programs/school_management/ui/components\<close>: \<^verbatim>\<open>students-view.tsx\<close>,
  \<^verbatim>\<open>teachers-view.tsx\<close> and \<^verbatim>\<open>courses-view.tsx\<close>. The three views are built alike: a list that is
  fetched when the view is mounted, a search over it, and a dialog that adds an entry. What they share
  is defined once, over the type of the form. The list is the value the program answered, of any shape;
  rendering throws where the code would. A handler runs to completion; nothing keeps the button of the
  dialog from being pressed again while a call runs, and overlapping runs are not modelled.
\<close>

section \<open>State\<close>

record 'f school_page =
  sp_items :: json
  sp_loading :: bool
  sp_searchQuery :: jsstr
  sp_isAddDialogOpen :: bool
  sp_formData :: 'f
  sp_effects :: "effect list"
  sp_client :: SchoolManagementClient
  sp_world :: world

definition new_school_page :: "'f \<Rightarrow> SchoolManagementClient \<Rightarrow> world \<Rightarrow> 'f school_page" where
  "new_school_page form client w =
     \<lparr>sp_items = JArr [], sp_loading = True, sp_searchQuery = [], sp_isAddDialogOpen = False, sp_formData = form,
      sp_effects = [], sp_client = client, sp_world = w\<rparr>"

definition on_client :: "'a school \<Rightarrow> (('f, 'm) school_page_scheme, 'a) js" where
  [js_monad]: "on_client = js_zoom (\<lambda>s. (sp_client s, sp_world s)) (\<lambda>cw s. s\<lparr>sp_client := fst cw, sp_world := snd cw\<rparr>)"

definition on_page :: "(world, 'a) js \<Rightarrow> (('f, 'm) school_page_scheme, 'a) js" where
  [js_monad]: "on_page = js_zoom sp_world (\<lambda>w s. s\<lparr>sp_world := w\<rparr>)"

definition page_emit :: "effect \<Rightarrow> (('f, 'm) school_page_scheme, unit) js" where
  [js_monad]: "page_emit e = js_modify (\<lambda>s. s\<lparr>sp_effects := sp_effects s @ [e]\<rparr>)"

section \<open>Fetching and adding\<close>

definition succeeded :: "json \<Rightarrow> bool" where
  "succeeded response \<longleftrightarrow> opt_prop ''status'' (Some response) = Some (JStr (js ''success''))"

text \<open>\<^verbatim>\<open>response.status === "success" && response.data\<close>.\<close>

definition listed :: "json \<Rightarrow> json option" where
  "listed response =
     (let data = opt_prop ''data'' (Some response)
      in if succeeded response \<and> truthy_val data then data else None)"

definition fetch_items :: "json school \<Rightarrow> ('f school_page, unit) js" where
  "fetch_items lst =
     js_finally
       (js_catch
         (js_seq (js_modify (\<lambda>s. s\<lparr>sp_loading := True\<rparr>))
           (js_bind (on_client lst) (\<lambda>response.
            case listed response of
              Some data \<Rightarrow> js_modify (\<lambda>s. s\<lparr>sp_items := data\<rparr>)
            | None \<Rightarrow> js_ret ())))
         (\<lambda>error. page_emit (ConsoleError error)))
       (\<lambda>s. s\<lparr>sp_loading := False\<rparr>)"

definition add_item :: "env \<Rightarrow> (int \<Rightarrow> json school) \<Rightarrow> ('f school_page, unit) js \<Rightarrow> 'f \<Rightarrow> ('f school_page, unit) js" where
  "add_item E add refresh emptyForm =
     js_catch
       (js_bind (on_page (Date_now E)) (\<lambda>now.
        js_bind (on_client (add now)) (\<lambda>response.
        if succeeded response then
          js_seq refresh (js_modify (\<lambda>s. s\<lparr>sp_isAddDialogOpen := False, sp_formData := emptyForm\<rparr>))
        else page_emit (ConsoleValue (opt_prop ''error'' (Some response))))))
       (\<lambda>error. page_emit (ConsoleError error))"

text \<open>Typing into the search field and into a field of the dialog.\<close>

definition setSearchQuery :: "jsstr \<Rightarrow> ('f, 'm) school_page_scheme \<Rightarrow> ('f, 'm) school_page_scheme" where
  "setSearchQuery q s = s\<lparr>sp_searchQuery := q\<rparr>"

definition setFormData ::
  "(string \<Rightarrow> jsstr \<Rightarrow> 'f \<Rightarrow> 'f) \<Rightarrow> string \<Rightarrow> jsstr \<Rightarrow> ('f, 'm) school_page_scheme \<Rightarrow> ('f, 'm) school_page_scheme" where
  "setFormData input field value s = s\<lparr>sp_formData := input field value (sp_formData s)\<rparr>"

section \<open>Students\<close>

text \<open>\<^verbatim>\<open>Partial<Student>\<close>; a number that is missing or NaN is \<open>None\<close>.\<close>

record Student_form =
  sf_name :: "jsstr option"
  sf_grade :: "jsstr option"
  sf_age :: "int option"
  sf_email :: "jsstr option"
  sf_subjects :: "jsstr list option"

definition empty_Student :: Student_form where
  "empty_Student = \<lparr>sf_name = None, sf_grade = None, sf_age = None, sf_email = None, sf_subjects = None\<rparr>"

definition or_zero :: "int option \<Rightarrow> int" where
  "or_zero x = (case x of None \<Rightarrow> 0 | Some i \<Rightarrow> i)"

definition newStudent :: "Student_form \<Rightarrow> int \<Rightarrow> Student" where
  "newStudent formData now =
     \<lparr>st_id = show_int now, st_name = the (sf_name formData), st_grade = or_str (sf_grade formData) [],
      st_age = Some (JNum (of_int (or_zero (sf_age formData)))), st_email = the (sf_email formData),
      st_subjects = (case sf_subjects formData of None \<Rightarrow> [] | Some ss \<Rightarrow> ss)\<rparr>"

definition fetchStudents :: "env \<Rightarrow> aead_open \<Rightarrow> ('f school_page, unit) js" where
  "fetchStudents E aead = fetch_items (listStudents E aead)"

definition handleAddStudent :: "env \<Rightarrow> aead_open \<Rightarrow> (Student_form school_page, unit) js" where
  "handleAddStudent E aead =
     js_bind (js_gets sp_formData) (\<lambda>formData.
     if truthy (sf_name formData) \<and> truthy (sf_email formData) then
       add_item E (\<lambda>now. addStudent E aead (newStudent formData now)) (fetchStudents E aead) empty_Student
     else js_ret ())"

text \<open>What the fields of the dialog do with the text that is typed, by the identifier of the field.\<close>

definition student_input :: "string \<Rightarrow> jsstr \<Rightarrow> Student_form \<Rightarrow> Student_form" where
  "student_input field value formData =
     (if field = ''name'' then formData\<lparr>sf_name := Some value\<rparr>
      else if field = ''grade'' then formData\<lparr>sf_grade := Some value\<rparr>
      else if field = ''age'' then formData\<lparr>sf_age := parseInt value\<rparr>
      else if field = ''email'' then formData\<lparr>sf_email := Some value\<rparr>
      else formData)"

section \<open>Teachers\<close>

record Teacher_form =
  tf_name :: "jsstr option"
  tf_subject :: "jsstr option"
  tf_email :: "jsstr option"
  tf_phone :: "jsstr option"

definition empty_Teacher :: Teacher_form where
  "empty_Teacher = \<lparr>tf_name = None, tf_subject = None, tf_email = None, tf_phone = None\<rparr>"

definition newTeacher :: "Teacher_form \<Rightarrow> int \<Rightarrow> Teacher" where
  "newTeacher formData now =
     \<lparr>te_id = show_int now, te_name = the (tf_name formData), te_subject = or_str (tf_subject formData) [],
      te_email = the (tf_email formData), te_phone = or_str (tf_phone formData) []\<rparr>"

definition fetchTeachers :: "env \<Rightarrow> aead_open \<Rightarrow> ('f school_page, unit) js" where
  "fetchTeachers E aead = fetch_items (listTeachers E aead)"

definition handleAddTeacher :: "env \<Rightarrow> aead_open \<Rightarrow> (Teacher_form school_page, unit) js" where
  "handleAddTeacher E aead =
     js_bind (js_gets sp_formData) (\<lambda>formData.
     if truthy (tf_name formData) \<and> truthy (tf_email formData) then
       add_item E (\<lambda>now. addTeacher E aead (newTeacher formData now)) (fetchTeachers E aead) empty_Teacher
     else js_ret ())"

definition teacher_input :: "string \<Rightarrow> jsstr \<Rightarrow> Teacher_form \<Rightarrow> Teacher_form" where
  "teacher_input field value formData =
     (if field = ''teacher-name'' then formData\<lparr>tf_name := Some value\<rparr>
      else if field = ''subject'' then formData\<lparr>tf_subject := Some value\<rparr>
      else if field = ''teacher-email'' then formData\<lparr>tf_email := Some value\<rparr>
      else if field = ''phone'' then formData\<lparr>tf_phone := Some value\<rparr>
      else formData)"

section \<open>Courses\<close>

text \<open>
  The form of a course has the fields that the view uses. Among them are \<^verbatim>\<open>teacherId\<close>,
  \<^verbatim>\<open>studentIds\<close> and \<^verbatim>\<open>teacherName\<close>, which the interface \<^verbatim>\<open>Course\<close> does not have.
\<close>

record Course_form =
  cf_name :: "jsstr option"
  cf_code :: "jsstr option"
  cf_teacherId :: "jsstr option"
  cf_studentIds :: "jsstr list option"
  cf_teacherName :: "jsstr option"
  cf_description :: "jsstr option"

definition empty_Course :: Course_form where
  "empty_Course = \<lparr>cf_name = None, cf_code = None, cf_teacherId = None, cf_studentIds = None, cf_teacherName = None,
     cf_description = None\<rparr>"

definition newCourse :: "Course_form \<Rightarrow> int \<Rightarrow> Course" where
  "newCourse formData now =
     \<lparr>co_id = show_int now, co_name = the (cf_name formData), co_code = the (cf_code formData),
      co_teacher_id = or_str (cf_teacherId formData) [],
      co_student_ids = (case cf_studentIds formData of None \<Rightarrow> [] | Some ss \<Rightarrow> ss),
      co_description = or_str (cf_description formData) []\<rparr>"

definition fetchCourses :: "env \<Rightarrow> aead_open \<Rightarrow> ('f school_page, unit) js" where
  "fetchCourses E aead = fetch_items (listCourses E aead)"

definition handleAddCourse :: "env \<Rightarrow> aead_open \<Rightarrow> (Course_form school_page, unit) js" where
  "handleAddCourse E aead =
     js_bind (js_gets sp_formData) (\<lambda>formData.
     if truthy (cf_name formData) \<and> truthy (cf_code formData) then
       add_item E (\<lambda>now. addCourse E aead (newCourse formData now)) (fetchCourses E aead) empty_Course
     else js_ret ())"

definition course_input :: "string \<Rightarrow> jsstr \<Rightarrow> Course_form \<Rightarrow> Course_form" where
  "course_input field value formData =
     (if field = ''course-name'' then formData\<lparr>cf_name := Some value\<rparr>
      else if field = ''code'' then formData\<lparr>cf_code := Some value\<rparr>
      else if field = ''teacher'' then formData\<lparr>cf_teacherName := Some value\<rparr>
      else if field = ''description'' then formData\<lparr>cf_description := Some value\<rparr>
      else formData)"

section \<open>What the views show\<close>

text \<open>The predicate of the search: one of two fields contains the query.\<close>

definition search_by :: "string \<Rightarrow> string \<Rightarrow> jsstr \<Rightarrow> json \<Rightarrow> exn + bool" where
  "search_by k1 k2 searchQuery item =
     r_bind (get_prop k1 (Some item)) (\<lambda>a.
     r_bind (string_receiver ''toLowerCase'' a) (\<lambda>a.
     if text_matches searchQuery a then Inr True
     else
       r_bind (get_prop k2 (Some item)) (\<lambda>b.
       r_bind (string_receiver ''toLowerCase'' b) (\<lambda>b. Inr (text_matches searchQuery b)))))"

definition filtered_items :: "string \<Rightarrow> string \<Rightarrow> 'f school_page \<Rightarrow> exn + json list" where
  "filtered_items k1 k2 s =
     r_bind (array_receiver ''filter'' (Some (sp_items s))) (\<lambda>items.
     r_filter (search_by k1 k2 (sp_searchQuery s)) items)"

datatype page_handler = OpenAdd | CloseAdd | AddNow

text \<open>A property of an entry as text among the children of an element.\<close>

definition shown :: "string \<Rightarrow> json \<Rightarrow> exn + jsstr" where
  "shown k item = r_bind (get_prop k (Some item)) react_text"

definition initials_of :: "jsval \<Rightarrow> exn + jsstr" where
  "initials_of v = r_bind (string_receiver ''split'' v) (\<lambda>name. Inr (word_initials name))"

text \<open>The buttons of a card have no handlers.\<close>

definition card_buttons :: "'h view list" where
  "card_buttons = [El ''button'' [] [Txt (js ''Edit'')], El ''button'' [] [Txt (js ''Delete'')]]"

definition student_card :: "json \<Rightarrow> exn + 'h view" where
  "student_card student =
     r_bind (get_prop ''name'' (Some student)) (\<lambda>n.
     r_bind (initials_of n) (\<lambda>i.
     r_bind (get_prop ''subjects'' (Some student)) (\<lambda>ss.
     r_bind (array_receiver ''map'' ss) (\<lambda>ss.
     r_bind (shown ''name'' student) (\<lambda>name.
     r_bind (shown ''grade'' student) (\<lambda>grade.
     r_bind (shown ''email'' student) (\<lambda>email.
     r_bind (shown ''age'' student) (\<lambda>age.
     r_bind (r_mapM (\<lambda>subject. react_text (Some subject)) ss) (\<lambda>subjects.
     Inr (El ''card'' []
       ([El ''avatar'' [] [Txt i], El ''h3'' [] [Txt name], El ''p'' [] [Txt (grade @ js '' Grade'')],
         El ''span'' [] [Txt email], El ''span'' [] [Txt (js ''Age: '' @ age)],
         El ''p'' [] [Txt (js ''Subjects'')]]
        @ map (\<lambda>t. El ''span'' [] [Txt t]) subjects @ card_buttons)))))))))))"

definition teacher_card :: "json \<Rightarrow> exn + 'h view" where
  "teacher_card teacher =
     r_bind (get_prop ''name'' (Some teacher)) (\<lambda>n.
     r_bind (initials_of n) (\<lambda>i.
     r_bind (shown ''name'' teacher) (\<lambda>name.
     r_bind (shown ''subject'' teacher) (\<lambda>subject.
     r_bind (shown ''email'' teacher) (\<lambda>email.
     r_bind (shown ''phone'' teacher) (\<lambda>phone.
     Inr (El ''card'' []
       ([El ''avatar'' [] [Txt i], El ''h3'' [] [Txt name], El ''p'' [] [Txt subject], El ''span'' [] [Txt email],
         El ''span'' [] [Txt phone]] @ card_buttons))))))))"

text \<open>\<^verbatim>\<open>(course.studentIds || []).length\<close>; the length of a value that is neither list nor text is not shown.\<close>

definition length_shown :: "jsval \<Rightarrow> jsstr" where
  "length_shown v =
     (case v of
        Some (JArr vs) \<Rightarrow> show_int (int (length vs))
      | Some (JStr s) \<Rightarrow> show_int (int (length s))
      | _ \<Rightarrow> [])"

definition course_card :: "json \<Rightarrow> exn + 'h view" where
  "course_card course =
     r_bind (get_prop ''teacherName'' (Some course)) (\<lambda>t.
     r_bind (initials_of (or_val t (Some (JStr (js ''?''))))) (\<lambda>i.
     r_bind (get_prop ''studentIds'' (Some course)) (\<lambda>ids.
     r_bind (shown ''name'' course) (\<lambda>name.
     r_bind (shown ''code'' course) (\<lambda>code.
     r_bind (shown ''description'' course) (\<lambda>description.
     r_bind (shown ''teacherName'' course) (\<lambda>teacherName.
     Inr (El ''card'' []
       ([El ''h3'' [] [Txt name], El ''p'' [] [Txt code], El ''p'' [] [Txt description], El ''avatar'' [] [Txt i],
         El ''span'' [] [Txt teacherName],
         El ''span'' [] [Txt (length_shown (or_val ids (Some (JArr []))) @ js '' students enrolled'')]]
        @ card_buttons)))))))))"

text \<open>A labelled field of the dialog, and the dialog, which is shown while it is open.\<close>

definition field_view :: "string \<Rightarrow> string \<Rightarrow> string \<Rightarrow> jsstr \<Rightarrow> 'h view list" where
  "field_view i label placeholder value =
     [El ''label'' [(''for'', js i)] [Txt (js label)],
      El ''input'' [(''id'', js i), (''placeholder'', js placeholder), (''value'', value)] []]"

definition add_dialog :: "string \<Rightarrow> string \<Rightarrow> string \<Rightarrow> page_handler view list \<Rightarrow> ('f, 'm) school_page_scheme
   \<Rightarrow> page_handler view list" where
  "add_dialog title description label inputs s =
     show_if (sp_isAddDialogOpen s)
       [El ''dialog'' []
          ([El ''title'' [] [Txt (js title)], El ''p'' [] [Txt (js description)]] @ inputs
           @ [Btn CloseAdd False [Txt (js ''Cancel'')], Btn AddNow False [Txt (js label)]])]"

definition list_page ::
  "string \<Rightarrow> string \<Rightarrow> string \<Rightarrow> exn + json list \<Rightarrow> (json \<Rightarrow> exn + page_handler view) \<Rightarrow> page_handler view list
   \<Rightarrow> 'f school_page \<Rightarrow> exn + page_handler view" where
  "list_page loadingText placeholder label items entry dialog s =
     r_bind items (\<lambda>items.
     if sp_loading s then Inr (El ''div'' [] [Txt (js loadingText)])
     else
       r_bind (r_mapM entry items) (\<lambda>cards.
       Inr (El ''div'' []
         ([El ''input'' [(''placeholder'', js placeholder), (''value'', sp_searchQuery s)] [],
           Btn OpenAdd False [Txt (js label)]] @ cards @ dialog))))"

definition StudentsView :: "Student_form school_page \<Rightarrow> exn + page_handler view" where
  "StudentsView s =
     (let formData = sp_formData s
      in list_page ''Loading students...'' ''Search students...'' ''Add Student''
           (filtered_items ''name'' ''email'' s) student_card
           (add_dialog ''Add New Student'' ''Enter the student information below to add them to the system.'' ''Add Student''
             (field_view ''name'' ''Full Name'' ''John Doe'' (or_str (sf_name formData) [])
              @ field_view ''grade'' ''Grade'' ''10th'' (or_str (sf_grade formData) [])
              @ field_view ''age'' ''Age'' ''15'' (if or_zero (sf_age formData) = 0 then [] else show_int (or_zero (sf_age formData)))
              @ field_view ''email'' ''Email'' ''student@school.edu'' (or_str (sf_email formData) [])) s) s)"

definition TeachersView :: "Teacher_form school_page \<Rightarrow> exn + page_handler view" where
  "TeachersView s =
     (let formData = sp_formData s
      in list_page ''Loading teachers...'' ''Search teachers...'' ''Add Teacher''
           (filtered_items ''name'' ''subject'' s) teacher_card
           (add_dialog ''Add New Teacher'' ''Enter the teacher information below to add them to the system.'' ''Add Teacher''
             (field_view ''teacher-name'' ''Full Name'' ''Dr. John Smith'' (or_str (tf_name formData) [])
              @ field_view ''subject'' ''Subject'' ''Mathematics'' (or_str (tf_subject formData) [])
              @ field_view ''teacher-email'' ''Email'' ''teacher@school.edu'' (or_str (tf_email formData) [])
              @ field_view ''phone'' ''Phone'' ''(555) 123-4567'' (or_str (tf_phone formData) [])) s) s)"

definition CoursesView :: "Course_form school_page \<Rightarrow> exn + page_handler view" where
  "CoursesView s =
     (let formData = sp_formData s
      in list_page ''Loading courses...'' ''Search courses...'' ''Add Course''
           (filtered_items ''name'' ''code'' s) course_card
           (add_dialog ''Add New Course'' ''Enter the course information below to add it to the system.'' ''Add Course''
             (field_view ''course-name'' ''Course Name'' ''Advanced Mathematics'' (or_str (cf_name formData) [])
              @ field_view ''code'' ''Course Code'' ''MATH-301'' (or_str (cf_code formData) [])
              @ field_view ''teacher'' ''Teacher'' ''Teacher Name'' (or_str (cf_teacherName formData) [])
              @ field_view ''description'' ''Description'' ''Course description...'' (or_str (cf_description formData) [])) s) s)"

text \<open>Pressing a button, with the handler of the view for the button of the dialog.\<close>

definition press_page ::
  "(('f, 'm) school_page_scheme, unit) js \<Rightarrow> page_handler \<Rightarrow> (('f, 'm) school_page_scheme, unit) js" where
  "press_page addNow h =
     (case h of
        OpenAdd \<Rightarrow> js_modify (\<lambda>s. s\<lparr>sp_isAddDialogOpen := True\<rparr>)
      | CloseAdd \<Rightarrow> js_modify (\<lambda>s. s\<lparr>sp_isAddDialogOpen := False\<rparr>)
      | AddNow \<Rightarrow> addNow)"

section \<open>Adding an entry\<close>

definition list_after :: "json \<Rightarrow> json \<Rightarrow> json" where
  "list_after response items = (case listed response of None \<Rightarrow> items | Some data \<Rightarrow> data)"

lemma fetch_items_run:
  "fetch_items lst s =
     (case lst (sp_client s, sp_world s) of (r, cw) \<Rightarrow>
        (Inr (), s\<lparr>sp_loading := False, sp_client := fst cw, sp_world := snd cw,
           sp_items := (case r of Inl e \<Rightarrow> sp_items s | Inr response \<Rightarrow> list_after response (sp_items s)),
           sp_effects := sp_effects s @ (case r of Inl e \<Rightarrow> [ConsoleError e] | Inr response \<Rightarrow> [])\<rparr>))"
  by (auto simp: fetch_items_def js_monad list_after_def split: prod.split sum.split option.split)

lemma failed_not_succeeded: "school_failed v \<Longrightarrow> \<not> succeeded v"
  by (simp add: school_failed_def succeeded_def)

text \<open>
  What adding an entry does to a page in front of a node that hosts \<open>prog\<close>: when the program accepts the
  entry the dialog is closed, the form is empty and the list is what the program lists afterwards, and the
  old one if it lists nothing; otherwise dialog, form and list stay and the error is logged.
\<close>

definition after_add ::
  "(json \<Rightarrow> json) \<Rightarrow> json \<Rightarrow> json \<Rightarrow> 'f \<Rightarrow> 'f school_page \<Rightarrow> 'f school_page \<Rightarrow> bool" where
  "after_add prog added lst emptyForm s s' \<longleftrightarrow>
     sp_searchQuery s' = sp_searchQuery s \<and> sp_client s' = sp_client s
     \<and> (if succeeded (prog added)
        then \<not> sp_loading s' \<and> \<not> sp_isAddDialogOpen s' \<and> sp_formData s' = emptyForm
          \<and> sp_items s' = list_after (prog lst) (sp_items s)
        else sp_isAddDialogOpen s' = sp_isAddDialogOpen s \<and> sp_formData s' = sp_formData s \<and> sp_items s' = sp_items s
          \<and> (\<exists>e. sp_effects s' = sp_effects s @ [e]))"

abbreviation page_hosted :: "env \<Rightarrow> (json \<Rightarrow> json) \<Rightarrow> ('f, 'm) school_page_scheme \<Rightarrow> bool" where
  "page_hosted E prog s \<equiv> school_hosted E prog (sp_client s) (sp_world s)"

abbreviation page_now :: "env \<Rightarrow> ('f, 'm) school_page_scheme \<Rightarrow> int" where
  "page_now E s \<equiv> e_now E (w_clock (sp_world s))"

lemma school_hosted_clock: "school_hosted E prog c w \<Longrightarrow> school_hosted E prog c (w\<lparr>w_clock := n\<rparr>)"
  by (simp add: school_hosted_def timers_ok_def)

lemma fetch_hosted:
  assumes "page_hosted E prog s"
  shows "\<exists>s'. fetch_items (school_op E aead lop JNull) s = (Inr (), s') \<and> \<not> sp_loading s'
    \<and> sp_items s' = list_after (prog (operation_json lop JNull)) (sp_items s)
    \<and> sp_searchQuery s' = sp_searchQuery s \<and> sp_client s' = sp_client s \<and> page_hosted E prog s'"
proof -
  obtain w' where "school_op E aead lop JNull (sp_client s, sp_world s) =
      (school_outcome prog lop JNull, (sp_client s, w'))" "school_hosted E prog (sp_client s) w'"
    using school_op_run [OF assms, of JNull] by auto
  then show ?thesis
    using failed_not_succeeded [of "prog (operation_json lop JNull)"]
    by (auto simp: fetch_items_run school_outcome_def list_after_def listed_def Let_def)
qed

lemma add_hosted:
  assumes "page_hosted E prog s" "json_ok (data (page_now E s))"
  shows "\<exists>s'. add_item E (\<lambda>now. school_op E aead aop (data now)) (fetch_items (school_op E aead lop JNull)) emptyForm s
      = (Inr (), s')
    \<and> after_add prog (operation_json aop (data (page_now E s))) (operation_json lop JNull) emptyForm s s'"
proof -
  let ?now = "page_now E s" and ?s0 = "s\<lparr>sp_world := (sp_world s)\<lparr>w_clock := Suc (w_clock (sp_world s))\<rparr>\<rparr>"
  let ?a = "prog (operation_json aop (data ?now))"
  have h0: "page_hosted E prog ?s0" using school_hosted_clock [OF assms(1)] by simp
  obtain w' where a: "school_op E aead aop (data ?now) (sp_client ?s0, sp_world ?s0) =
      (school_outcome prog aop (data ?now), (sp_client s, w'))" "school_hosted E prog (sp_client s) w'"
    using school_op_run [OF h0 assms(2), of aead aop] by auto
  show ?thesis
  proof (cases "succeeded ?a")
    case True
    then have "\<not> school_failed ?a" using failed_not_succeeded by blast
    then have out: "school_outcome prog aop (data ?now) = Inr ?a" by (simp add: school_outcome_def)
    let ?s1 = "s\<lparr>sp_client := sp_client s, sp_world := w'\<rparr>"
    have "page_hosted E prog ?s1" using a(2) by simp
    from fetch_hosted [OF this, of aead lop] obtain s2 where
      "fetch_items (school_op E aead lop JNull) ?s1 = (Inr (), s2)" "\<not> sp_loading s2"
      "sp_items s2 = list_after (prog (operation_json lop JNull)) (sp_items s)"
      "sp_searchQuery s2 = sp_searchQuery s" "sp_client s2 = sp_client s" by auto
    then show ?thesis
      using a(1) True out by (auto simp: add_item_def js_monad Date_now_def after_add_def)
  next
    case False
    then show ?thesis
      using a(1) by (auto simp: add_item_def js_monad Date_now_def after_add_def school_outcome_def Let_def)
  qed
qed


definition accepting_school :: "json \<Rightarrow> json" where
  "accepting_school _ = JObj [(js ''status'', JStr (js ''success'')), (js ''data'', JArr [JStr (js ''x'')])]"


section \<open>Searching\<close>

lemma search_by_texts:
  assumes "get_prop k1 (Some item) = Inr (Some (JStr a))" "get_prop k2 (Some item) = Inr (Some (JStr b))"
  shows "search_by k1 k2 q item = Inr (text_matches q a \<or> text_matches q b)"
  by (simp add: search_by_def assms)

lemma Student_json_props [simp]:
  "get_prop ''name'' (Some (Student_json x)) = Inr (Some (JStr (st_name x)))"
  "get_prop ''grade'' (Some (Student_json x)) = Inr (Some (JStr (st_grade x)))"
  "get_prop ''email'' (Some (Student_json x)) = Inr (Some (JStr (st_email x)))"
  "get_prop ''age'' (Some (Student_json x)) = Inr (st_age x)"
  "get_prop ''subjects'' (Some (Student_json x)) = Inr (Some (JArr (map JStr (st_subjects x))))"
  unfolding Student_json_def by (rule get_prop_obj_literal; simp)+

lemma Teacher_json_props [simp]:
  "get_prop ''name'' (Some (Teacher_json x)) = Inr (Some (JStr (te_name x)))"
  "get_prop ''subject'' (Some (Teacher_json x)) = Inr (Some (JStr (te_subject x)))"
  "get_prop ''email'' (Some (Teacher_json x)) = Inr (Some (JStr (te_email x)))"
  "get_prop ''phone'' (Some (Teacher_json x)) = Inr (Some (JStr (te_phone x)))"
  unfolding Teacher_json_def by (rule get_prop_obj_literal; simp)+

lemma Course_json_props [simp]:
  "get_prop ''name'' (Some (Course_json x)) = Inr (Some (JStr (co_name x)))"
  "get_prop ''code'' (Some (Course_json x)) = Inr (Some (JStr (co_code x)))"
  "get_prop ''description'' (Some (Course_json x)) = Inr (Some (JStr (co_description x)))"
  unfolding Course_json_def by (rule get_prop_obj_literal; simp)+

text \<open>The properties that the view reads and that a course does not have.\<close>

lemma Course_json_missing [simp]:
  "get_prop ''teacherName'' (Some (Course_json x)) = Inr None"
  "get_prop ''studentIds'' (Some (Course_json x)) = Inr None"
  by (simp_all add: Course_json_def obj_literal_def js_def ju_def)

lemma react_strings [simp]: "r_mapM react_json (map JStr ss) = Inr ss"
  by (induction ss) simp_all

lemma show_int_zero [simp]: "show_int 0 = [48]"
  by (simp add: show_int_def show_nat.simps)

lemma no_h3 [simp]: "concat (map (texts_under ''h3'') (map (\<lambda>t. El ''span'' [] [Txt t]) ts)) = []"
  by (induction ts) simp_all

lemma student_card_shows:
  "st_age x = Some (JNum n) \<Longrightarrow> \<exists>v. student_card (Student_json x) = Inr v \<and> texts_under ''h3'' v = [st_name x]"
  by (simp add: student_card_def initials_of_def shown_def react_text_def card_buttons_def del: map_map)

lemma teacher_card_shows: "\<exists>v. teacher_card (Teacher_json x) = Inr v \<and> texts_under ''h3'' v = [te_name x]"
  by (simp add: teacher_card_def initials_of_def shown_def react_text_def card_buttons_def)

lemma course_card_run:
  "course_card (Course_json x) = Inr (El ''card'' []
     ([El ''h3'' [] [Txt (co_name x)], El ''p'' [] [Txt (co_code x)], El ''p'' [] [Txt (co_description x)],
       El ''avatar'' [] [Txt (js ''?'')], El ''span'' [] [Txt []], El ''span'' [] [Txt (js ''0 students enrolled'')]]
      @ card_buttons))"
  by (simp add: course_card_def initials_of_def shown_def react_text_def or_val_def length_shown_def word_initials_def
      js_def ju_def)

lemma cards_show:
  "(\<And>x. x \<in> set xs \<Longrightarrow> \<exists>v. entry (enc x) = Inr v \<and> texts_under tag v = [name x]) \<Longrightarrow>
     \<exists>vs. r_mapM entry (map enc xs) = Inr vs \<and> concat (map (texts_under tag) vs) = map name xs"
proof (induction xs)
  case (Cons x xs)
  from Cons.prems [of x] obtain v where v: "entry (enc x) = Inr v" "texts_under tag v = [name x]" by auto
  from Cons.IH Cons.prems obtain vs where
    vs: "r_mapM entry (map enc xs) = Inr vs" "concat (map (texts_under tag) vs) = map name xs" by auto
  show ?case using v vs by simp
qed simp

lemma r_filter_map:
  "(\<And>x. x \<in> set xs \<Longrightarrow> p (enc x) = Inr (q x)) \<Longrightarrow> r_filter p (map enc xs) = Inr (map enc (filter q xs))"
  by (induction xs) auto

text \<open>What a list page shows of entries that are encoded values: the matching ones, by name.\<close>

lemma list_page_shows:
  assumes "\<not> sp_loading s" "sp_items s = JArr (map enc xs)"
    and "\<And>x. search_by k1 k2 (sp_searchQuery s) (enc x) = Inr (p x)"
    and "\<And>x. x \<in> set xs \<Longrightarrow> \<exists>v. entry (enc x) = Inr v \<and> texts_under ''h3'' v = [name x]"
    and "concat (map (texts_under ''h3'') dialog) = []"
  shows "\<exists>v. list_page l1 l2 l3 (filtered_items k1 k2 s) entry dialog s = Inr v
    \<and> texts_under ''h3'' v = map name (filter p xs)"
proof -
  have f: "filtered_items k1 k2 s = Inr (map enc (filter p xs))"
    using r_filter_map [where xs = xs and enc = enc and q = p] assms(2,3) by (simp add: filtered_items_def)
  obtain vs where "r_mapM entry (map enc (filter p xs)) = Inr vs"
    "concat (map (texts_under ''h3'') vs) = map name (filter p xs)"
    using cards_show [of "filter p xs" entry enc "''h3''" name] assms(4) by auto
  then show ?thesis using assms(1,5) f by (simp add: list_page_def)
qed

lemma field_view_h3 [simp]: "concat (map (texts_under ''h3'') (field_view i l p v)) = []"
  by (simp add: field_view_def)

lemma add_dialog_h3 [simp]:
  "concat (map (texts_under ''h3'') inputs) = [] \<Longrightarrow> concat (map (texts_under ''h3'') (add_dialog t d l inputs s)) = []"
  by (simp add: add_dialog_def)



section \<open>What the courses lose\<close>

text \<open>The forms that typing into the fields of the dialog can produce.\<close>

definition typed_Course :: "(string \<times> jsstr) list \<Rightarrow> Course_form" where
  "typed_Course inputs = foldl (\<lambda>formData (field, value). course_input field value formData) empty_Course inputs"

lemma typed_Course_teacher: "cf_teacherId (typed_Course inputs) = None \<and> cf_studentIds (typed_Course inputs) = None"
  by (induction inputs rule: rev_induct) (auto simp: typed_Course_def empty_Course_def course_input_def)

text \<open>
  C37. The view of the courses does not know the fields of a course: the card of a course shows no enrolled
  students and no teacher whatever the course has, and a course that is added has no teacher and no students
  whatever is typed into the dialog, the field for the teacher included.
\<close>

theorem course_details_lost:
  "(\<exists>v. course_card (Course_json x) = Inr v \<and> js ''0 students enrolled'' \<in> set (view_texts v)
      \<and> texts_under ''avatar'' v = [js ''?''])
   \<and> co_teacher_id (newCourse (typed_Course inputs) now) = [] \<and> co_student_ids (newCourse (typed_Course inputs) now) = []"
  using typed_Course_teacher [of inputs] by (simp add: course_card_run card_buttons_def newCourse_def)

end
