(* ===== verification/Grades.thy ===== *)
theory Grades
  imports School_Views
begin

text \<open>
  \<^verbatim>\<open>wasm_programs/school_management/ui/components/grades-view.tsx\<close>: the list of all grades, joined with
  the names of students and courses, and the dialog that assigns a grade. The page is that of the other
  views with the lists of students and courses added. \<^verbatim>\<open>fetchGrades\<close> belongs to a rendering and keeps
  the lists of that rendering, which are its arguments here. The three calls of the effect overlap in the
  browser and follow one another here. Identifiers are compared by value, and the length of a value that
  is neither list nor text is undefined.
\<close>

section \<open>State\<close>

record Grade_form =
  gf_student_id :: "jsstr option"
  gf_course_id :: "jsstr option"
  gf_score :: "int option"
  gf_date :: jsstr

record grades_page = "Grade_form school_page" +
  gp_students :: json
  gp_courses :: json

text \<open>
  \<^verbatim>\<open>new Date().toISOString().split("T")[0]\<close>: the day of a time in milliseconds in the proleptic Gregorian
  calendar, for the years 0 to 9999. Years are counted from March, so that the leap day is the last one.
\<close>

definition civil_date :: "int \<Rightarrow> int \<times> int \<times> int" where
  "civil_date days =
     (let z = days + 719468;
          era = z div 146097;
          doe = z mod 146097;
          yoe = (doe - doe div 1460 + doe div 36524 - doe div 146096) div 365;
          doy = doe - (365 * yoe + yoe div 4 - yoe div 100);
          mp = (5 * doy + 2) div 153;
          d = doy - (153 * mp + 2) div 5 + 1;
          m = (if mp < 10 then mp + 3 else mp - 9)
      in (yoe + era * 400 + (if m \<le> 2 then 1 else 0), m, d))"

definition padded :: "nat \<Rightarrow> int \<Rightarrow> jsstr" where
  "padded n i = (let s = show_int i in replicate (n - length s) 48 @ s)"

definition iso_date :: "int \<Rightarrow> jsstr" where
  "iso_date ms = (case civil_date (ms div 86400000) of (y, m, d) \<Rightarrow> padded 4 y @ [45] @ padded 2 m @ [45] @ padded 2 d)"

definition empty_Grade :: "int \<Rightarrow> Grade_form" where
  "empty_Grade now = \<lparr>gf_student_id = None, gf_course_id = None, gf_score = None, gf_date = iso_date now\<rparr>"

definition new_GradesView :: "int \<Rightarrow> SchoolManagementClient \<Rightarrow> world \<Rightarrow> grades_page" where
  "new_GradesView now client w =
     \<lparr>sp_items = JArr [], sp_loading = True, sp_searchQuery = [], sp_isAddDialogOpen = False,
      sp_formData = empty_Grade now, sp_effects = [], sp_client = client, sp_world = w,
      gp_students = JArr [], gp_courses = JArr []\<rparr>"

section \<open>Fetching\<close>

definition fetch_into :: "json school \<Rightarrow> (json \<Rightarrow> grades_page \<Rightarrow> grades_page) \<Rightarrow> (grades_page, unit) js" where
  "fetch_into lst put =
     js_catch
       (js_bind (on_client lst) (\<lambda>response.
        case listed response of Some data \<Rightarrow> js_modify (put data) | None \<Rightarrow> js_ret ()))
       (\<lambda>error. page_emit (ConsoleError error))"

definition grades_fetchStudents :: "env \<Rightarrow> aead_open \<Rightarrow> (grades_page, unit) js" where
  "grades_fetchStudents E aead = fetch_into (listStudents E aead) (\<lambda>data s. s\<lparr>gp_students := data\<rparr>)"

definition grades_fetchCourses :: "env \<Rightarrow> aead_open \<Rightarrow> (grades_page, unit) js" where
  "grades_fetchCourses E aead = fetch_into (listCourses E aead) (\<lambda>data s. s\<lparr>gp_courses := data\<rparr>)"

fun length_of :: "json \<Rightarrow> nat option" where
  "length_of (JArr vs) = Some (length vs)"
| "length_of (JStr s) = Some (length s)"
| "length_of _ = None"

definition longer :: "json \<Rightarrow> bool" where
  "longer v = (case length_of v of Some n \<Rightarrow> n > 0 | None \<Rightarrow> False)"

text \<open>\<^verbatim>\<open>xs.length > 0 ? xs : (await list()).data || []\<close>.\<close>

definition current_list :: "json \<Rightarrow> json school \<Rightarrow> (grades_page, json) js" where
  "current_list xs lst =
     (if longer xs then js_ret xs
      else js_bind (on_client lst) (\<lambda>response.
        js_ret (the (or_val (opt_prop ''data'' (Some response)) (Some (JArr []))))))"

definition iterable :: "json \<Rightarrow> exn + json list" where
  "iterable v = (case v of JArr vs \<Rightarrow> Inr vs | _ \<Rightarrow> Inl (native CTypeError (js ''value is not iterable'')))"

text \<open>The entries of a grade that is spread into an object; grades are objects.\<close>

definition spread :: "json \<Rightarrow> (jsstr \<times> json) list" where
  "spread v = (case v of JObj kvs \<Rightarrow> kvs | _ \<Rightarrow> [])"

definition find_by_id :: "json list \<Rightarrow> jsval \<Rightarrow> exn + json option" where
  "find_by_id xs i = r_find (\<lambda>x. r_bind (get_prop ''id'' (Some x)) (\<lambda>k. Inr (k = i))) xs"

definition join_grade :: "json list \<Rightarrow> json \<Rightarrow> json \<Rightarrow> exn + json" where
  "join_grade currentStudents currentCourses grade =
     r_bind (get_prop ''student_id'' (Some grade)) (\<lambda>sid.
     r_bind (find_by_id currentStudents sid) (\<lambda>studentInfo.
     r_bind (array_receiver ''find'' (Some currentCourses)) (\<lambda>courses.
     r_bind (get_prop ''course_id'' (Some grade)) (\<lambda>cid.
     r_bind (find_by_id courses cid) (\<lambda>courseInfo.
     Inr (JObj (obj_put (js ''courseName'')
       (the (or_val (opt_prop ''name'' courseInfo) (Some (JStr (js ''Unknown Course'')))))
       (obj_put (js ''studentName'')
         (the (or_val (opt_prop ''name'' studentInfo) (Some (JStr (js ''Unknown Student'')))))
         (spread grade)))))))))"

fun collect_grades ::
  "env \<Rightarrow> aead_open \<Rightarrow> json list \<Rightarrow> json \<Rightarrow> json list \<Rightarrow> json list \<Rightarrow> (grades_page, json list) js" where
  "collect_grades E aead currentStudents currentCourses [] allGrades = js_ret allGrades"
| "collect_grades E aead currentStudents currentCourses (student # rest) allGrades =
     js_bind (js_lift (get_prop ''id'' (Some student))) (\<lambda>i.
     js_bind (on_client (getStudentGrades E aead i)) (\<lambda>response.
     case listed response of
       None \<Rightarrow> collect_grades E aead currentStudents currentCourses rest allGrades
     | Some data \<Rightarrow>
         js_bind (js_lift (r_bind (array_receiver ''map'' (Some data))
           (r_mapM (join_grade currentStudents currentCourses)))) (\<lambda>studentGrades.
         collect_grades E aead currentStudents currentCourses rest (allGrades @ studentGrades))))"

definition fetchGrades :: "env \<Rightarrow> aead_open \<Rightarrow> json \<Rightarrow> json \<Rightarrow> (grades_page, unit) js" where
  "fetchGrades E aead students courses =
     js_seq (js_modify (\<lambda>s. s\<lparr>sp_loading := True\<rparr>))
       (js_finally
         (js_catch
           (js_seq (if length_of students = Some 0 then grades_fetchStudents E aead else js_ret ())
             (js_seq (if length_of courses = Some 0 then grades_fetchCourses E aead else js_ret ())
               (js_bind (current_list students (listStudents E aead)) (\<lambda>currentStudents.
                js_bind (current_list courses (listCourses E aead)) (\<lambda>currentCourses.
                js_bind (js_lift (iterable currentStudents)) (\<lambda>xs.
                js_bind (collect_grades E aead xs currentCourses xs []) (\<lambda>allGrades.
                js_modify (\<lambda>s. s\<lparr>sp_items := JArr allGrades\<rparr>))))))))
           (\<lambda>error. page_emit (ConsoleError error)))
         (\<lambda>s. s\<lparr>sp_loading := False\<rparr>))"

text \<open>The effect of the first rendering.\<close>

definition grades_effect :: "env \<Rightarrow> aead_open \<Rightarrow> (grades_page, unit) js" where
  "grades_effect E aead =
     js_seq (fetchGrades E aead (JArr []) (JArr []))
       (js_seq (grades_fetchStudents E aead) (grades_fetchCourses E aead))"

section \<open>Assigning a grade\<close>

definition newGrade :: "Grade_form \<Rightarrow> int \<Rightarrow> Grade" where
  "newGrade formData now =
     \<lparr>gr_id = show_int now, gr_student_id = the (gf_student_id formData), gr_course_id = the (gf_course_id formData),
      gr_score = map_option (\<lambda>i. JNum (of_int i)) (gf_score formData), gr_date = gf_date formData,
      gr_studentName = None, gr_courseName = None\<rparr>"

definition can_assign :: "Grade_form \<Rightarrow> bool" where
  "can_assign formData \<longleftrightarrow>
     truthy (gf_student_id formData) \<and> truthy (gf_course_id formData) \<and> or_zero (gf_score formData) \<noteq> 0"

definition handleAddGrade :: "env \<Rightarrow> aead_open \<Rightarrow> (grades_page, unit) js" where
  "handleAddGrade E aead =
     js_bind (js_gets id) (\<lambda>s.
     if can_assign (sp_formData s) then
       js_catch
         (js_bind (on_page (Date_now E)) (\<lambda>now.
          js_bind (on_client (assignGrade E aead (newGrade (sp_formData s) now))) (\<lambda>response.
          if succeeded response then
            js_seq (fetchGrades E aead (gp_students s) (gp_courses s))
              (js_seq (js_modify (\<lambda>s. s\<lparr>sp_isAddDialogOpen := False\<rparr>))
                (js_bind (on_page (Date_now E)) (\<lambda>now.
                 js_modify (\<lambda>s. s\<lparr>sp_formData := empty_Grade now\<rparr>))))
          else page_emit (ConsoleValue (opt_prop ''error'' (Some response))))))
         (\<lambda>error. page_emit (ConsoleError error))
     else js_ret ())"

definition grade_input :: "string \<Rightarrow> jsstr \<Rightarrow> Grade_form \<Rightarrow> Grade_form" where
  "grade_input field value formData =
     (if field = ''student-id'' then formData\<lparr>gf_student_id := Some value\<rparr>
      else if field = ''course-id'' then formData\<lparr>gf_course_id := Some value\<rparr>
      else if field = ''score'' then formData\<lparr>gf_score := parseInt value\<rparr>
      else if field = ''date'' then formData\<lparr>gf_date := value\<rparr>
      else formData)"

section \<open>What the view shows\<close>

text \<open>\<^verbatim>\<open>grade.k?.toLowerCase().includes(query)\<close>, false for a missing value.\<close>

definition optional_match :: "string \<Rightarrow> jsstr \<Rightarrow> json \<Rightarrow> exn + bool" where
  "optional_match k searchQuery grade =
     r_bind (get_prop k (Some grade)) (\<lambda>v.
     if nullish v then Inr False
     else r_bind (string_receiver ''toLowerCase'' v) (\<lambda>t. Inr (text_matches searchQuery t)))"

definition grade_matches :: "jsstr \<Rightarrow> json \<Rightarrow> exn + bool" where
  "grade_matches searchQuery grade =
     r_bind (optional_match ''studentName'' searchQuery grade) (\<lambda>b.
     if b then Inr True else optional_match ''courseName'' searchQuery grade)"

definition filteredGrades :: "grades_page \<Rightarrow> exn + json list" where
  "filteredGrades s =
     r_bind (array_receiver ''filter'' (Some (sp_items s))) (r_filter (grade_matches (sp_searchQuery s)))"

text \<open>\<^verbatim>\<open>score >= n\<close>, false for what is no number.\<close>

definition ge_number :: "jsval \<Rightarrow> rat \<Rightarrow> bool" where
  "ge_number v n = (case val_number v of None \<Rightarrow> False | Some r \<Rightarrow> r \<ge> n)"

definition getGradeColor :: "jsval \<Rightarrow> jsstr" where
  "getGradeColor score =
     (if ge_number score 90 then js ''text-emerald-600 dark:text-emerald-400 bg-emerald-500/10''
      else if ge_number score 80 then js ''text-blue-600 dark:text-blue-400 bg-blue-500/10''
      else if ge_number score 70 then js ''text-amber-600 dark:text-amber-400 bg-amber-500/10''
      else js ''text-red-600 dark:text-red-400 bg-red-500/10'')"

definition getGradeLetter :: "jsval \<Rightarrow> jsstr" where
  "getGradeLetter score =
     (if ge_number score 90 then js ''A''
      else if ge_number score 80 then js ''B''
      else if ge_number score 70 then js ''C''
      else if ge_number score 60 then js ''D''
      else js ''F'')"

text \<open>\<^verbatim>\<open>new Date(v).toLocaleDateString()\<close> depends on the browser and is an argument.\<close>

definition grade_row :: "(jsval \<Rightarrow> jsstr) \<Rightarrow> json \<Rightarrow> exn + 'h view" where
  "grade_row localeDate grade =
     r_bind (get_prop ''studentName'' (Some grade)) (\<lambda>n.
     r_bind (initials_of (or_val n (Some (JStr (js ''?''))))) (\<lambda>i.
     r_bind (get_prop ''score'' (Some grade)) (\<lambda>sc.
     r_bind (get_prop ''date'' (Some grade)) (\<lambda>d.
     r_bind (shown ''studentName'' grade) (\<lambda>studentName.
     r_bind (shown ''courseName'' grade) (\<lambda>courseName.
     r_bind (shown ''score'' grade) (\<lambda>score.
     Inr (El ''tr'' []
       [El ''avatar'' [] [Txt i], El ''student'' [] [Txt studentName], El ''course'' [] [Txt courseName],
        El ''score'' [] [Txt (score @ js ''%'')],
        El ''grade'' [(''class'', getGradeColor sc)] [Txt (getGradeLetter sc)],
        El ''date'' [] [Txt (localeDate d)]]))))))))"

text \<open>
  The entries of a selection. They are created with every rendering, so that reading them can throw; their
  text is rendered only when the selection is opened.
\<close>

definition select_view :: "string \<Rightarrow> string \<Rightarrow> string \<Rightarrow> jsstr \<Rightarrow> json \<Rightarrow> exn + 'h view list" where
  "select_view i label placeholder value items =
     r_bind (array_receiver ''map'' (Some items)) (\<lambda>items.
     r_bind (r_mapM (\<lambda>item.
       r_bind (get_prop ''id'' (Some item)) (\<lambda>k.
       r_bind (get_prop ''name'' (Some item)) (\<lambda>n.
       Inr (El ''option'' (attr ''value'' k) [Txt (case react_text n of Inl e \<Rightarrow> [] | Inr t \<Rightarrow> t)])))) items) (\<lambda>options.
     Inr [El ''label'' [(''for'', js i)] [Txt (js label)],
          El ''select'' [(''id'', js i), (''placeholder'', js placeholder), (''value'', value)] options]))"

definition GradesView :: "(jsval \<Rightarrow> jsstr) \<Rightarrow> int \<Rightarrow> grades_page \<Rightarrow> exn + page_handler view" where
  "GradesView localeDate now s =
     r_bind (filteredGrades s) (\<lambda>grades.
     if sp_loading s then Inr (El ''div'' [] [Txt (js ''Loading grades...'')])
     else
       let formData = sp_formData s in
       r_bind (r_mapM (grade_row localeDate) grades) (\<lambda>rows.
       r_bind (select_view ''student-id'' ''Student'' ''Select a student'' (or_str (gf_student_id formData) []) (gp_students s)) (\<lambda>students.
       r_bind (select_view ''course-id'' ''Course'' ''Select a course'' (or_str (gf_course_id formData) []) (gp_courses s)) (\<lambda>courses.
       Inr (El ''div'' []
         ([El ''input'' [(''placeholder'', js ''Search grades...''), (''value'', sp_searchQuery s)] [],
           Btn OpenAdd False [Txt (js ''Assign Grade'')],
           El ''thead'' [] (map (\<lambda>h. El ''th'' [] [Txt (js h)]) [''Student'', ''Course'', ''Score'', ''Grade'', ''Date'']),
           El ''tbody'' [] rows]
          @ add_dialog ''Assign Grade'' ''Enter the grade information below to assign it to a student.'' ''Assign Grade''
              (students @ courses
               @ field_view ''score'' ''Score (%)'' ''95''
                   (if or_zero (gf_score formData) = 0 then [] else show_int (or_zero (gf_score formData)))
               @ field_view ''date'' ''Date'' []
                   (if gf_date formData = [] then iso_date now else gf_date formData)) s))))))"

section \<open>Dates\<close>

lemma iso_date_samples:
  "iso_date 0 = js ''1970-01-01''" "iso_date 951782400000 = js ''2000-02-29''" "iso_date 1735603200000 = js ''2024-12-31''"
  by code_simp+

section \<open>Joining grades with names\<close>

text \<open>
  The program answers a request with a list: an array of encoded entries, or nothing when there are none,
  as the program does for an empty list.
\<close>

definition answers_list :: "json \<Rightarrow> ('a \<Rightarrow> json) \<Rightarrow> 'a list \<Rightarrow> bool" where
  "answers_list response enc xs \<longleftrightarrow>
     succeeded response
     \<and> (opt_prop ''data'' (Some response) = Some (JArr (map enc xs))
        \<or> xs = [] \<and> \<not> truthy_val (opt_prop ''data'' (Some response)))"

lemma answers_listD:
  assumes "answers_list response enc xs"
  shows "listed response = Some (JArr (map enc xs)) \<or> xs = [] \<and> listed response = None"
    "or_val (opt_prop ''data'' (Some response)) (Some (JArr [])) = Some (JArr (map enc xs))"
    "\<not> school_failed response"
  using assms failed_not_succeeded [of response] by (auto simp: answers_list_def listed_def or_val_def)

definition name_or :: "string \<Rightarrow> ('a \<Rightarrow> jsstr) \<Rightarrow> 'a option \<Rightarrow> jsstr" where
  "name_or unknown name x = (case x of Some y \<Rightarrow> if name y = [] then js unknown else name y | None \<Rightarrow> js unknown)"

text \<open>A grade with the names of its student and its course.\<close>

definition named_grade :: "Student list \<Rightarrow> Course list \<Rightarrow> Grade \<Rightarrow> Grade" where
  "named_grade xs ys g =
     g\<lparr>gr_studentName := Some (name_or ''Unknown Student'' st_name (find (\<lambda>x. st_id x = gr_student_id g) xs)),
       gr_courseName := Some (name_or ''Unknown Course'' co_name (find (\<lambda>y. co_id y = gr_course_id g) ys))\<rparr>"

lemma find_by_id_enc:
  assumes "\<And>x. get_prop ''id'' (Some (enc x)) = Inr (Some (JStr (key x)))"
  shows "find_by_id (map enc xs) (Some (JStr i)) = Inr (map_option enc (find (\<lambda>x. key x = i) xs))"
  unfolding find_by_id_def by (induction xs) (simp_all add: assms)

lemma school_ids:
  "get_prop ''id'' (Some (Student_json x)) = Inr (Some (JStr (st_id x)))"
  "get_prop ''id'' (Some (Course_json y)) = Inr (Some (JStr (co_id y)))"
  "get_prop ''student_id'' (Some (Grade_json g)) = Inr (Some (JStr (gr_student_id g)))"
  "get_prop ''course_id'' (Some (Grade_json g)) = Inr (Some (JStr (gr_course_id g)))"
  "opt_prop ''name'' (Some (Student_json x)) = Some (JStr (st_name x))"
  "opt_prop ''name'' (Some (Course_json y)) = Some (JStr (co_name y))"
  unfolding Student_json_def Course_json_def Grade_json_def
  by (rule get_prop_obj_literal opt_prop_obj_literal; simp)+

definition raw_grade :: "Grade \<Rightarrow> bool" where
  "raw_grade g \<longleftrightarrow> gr_studentName g = None \<and> gr_courseName g = None"

lemma spread_names:
  "raw_grade g \<Longrightarrow> JObj (obj_put (js ''courseName'') (JStr m) (obj_put (js ''studentName'') (JStr n) (spread (Grade_json g)))) =
     Grade_json (g\<lparr>gr_studentName := Some n, gr_courseName := Some m\<rparr>)"
  by (cases "gr_score g") (simp_all add: raw_grade_def Grade_json_def spread_def obj_literal_def js_def ju_def)

lemma name_found:
  "the (or_val (opt_prop ''name'' (map_option Student_json x)) (Some (JStr (js ''Unknown Student'')))) =
     JStr (name_or ''Unknown Student'' st_name x)"
  "the (or_val (opt_prop ''name'' (map_option Course_json y)) (Some (JStr (js ''Unknown Course'')))) =
     JStr (name_or ''Unknown Course'' co_name y)"
  by (cases x; simp add: or_val_def name_or_def school_ids) (cases y; simp add: or_val_def name_or_def school_ids)

lemma join_grade_typed:
  "raw_grade g \<Longrightarrow> join_grade (map Student_json xs) (JArr (map Course_json ys)) (Grade_json g) = Inr (Grade_json (named_grade xs ys g))"
  by (simp add: join_grade_def school_ids find_by_id_enc [where key = st_id] find_by_id_enc [where key = co_id]
      name_found spread_names named_grade_def)

lemma join_grades_typed:
  "list_all raw_grade gs \<Longrightarrow> r_mapM (join_grade (map Student_json xs) (JArr (map Course_json ys))) (map Grade_json gs) =
     Inr (map (Grade_json \<circ> named_grade xs ys) gs)"
  by (induction gs) (simp_all add: join_grade_typed)

lemma on_client_hosted:
  assumes "page_hosted E prog s" "json_ok data"
  shows "\<exists>w'. on_client (school_op E aead op data) s = (school_outcome prog op data, s\<lparr>sp_world := w'\<rparr>)
    \<and> school_hosted E prog (sp_client s) w'"
  using school_op_run [OF assms, of aead op] by (auto simp: js_monad)

text \<open>What the program answers, as the view relies on it.\<close>

definition school_data ::
  "(json \<Rightarrow> json) \<Rightarrow> Student list \<Rightarrow> Course list \<Rightarrow> (jsstr \<Rightarrow> Grade list) \<Rightarrow> bool" where
  "school_data prog xs ys G \<longleftrightarrow>
     answers_list (prog (operation_json ''list_students'' JNull)) Student_json xs
     \<and> answers_list (prog (operation_json ''list_courses'' JNull)) Course_json ys
     \<and> (\<forall>x \<in> set xs. answers_list (prog (operation_json ''get_student_grades'' (JStr (st_id x)))) Grade_json (G (st_id x))
          \<and> list_all raw_grade (G (st_id x)))"

lemma outcome_list: "answers_list (prog (operation_json op d)) enc xs \<Longrightarrow> school_outcome prog op d = Inr (prog (operation_json op d))"
  using answers_listD(3) by (auto simp: school_outcome_def Let_def)

lemma getStudentGrades_op: "getStudentGrades E aead (Some v) = school_op E aead ''get_student_grades'' v"
  by (simp add: getStudentGrades_def operation_json_def)

lemma collect_grades_typed:
  assumes "page_hosted E prog s"
    "\<forall>x \<in> set rest. answers_list (prog (operation_json ''get_student_grades'' (JStr (st_id x)))) Grade_json (G (st_id x))
       \<and> list_all raw_grade (G (st_id x))"
  shows "\<exists>w'. collect_grades E aead (map Student_json xs) (JArr (map Course_json ys)) (map Student_json rest) acc s =
      (Inr (acc @ concat (map (\<lambda>x. map (Grade_json \<circ> named_grade xs ys) (G (st_id x))) rest)), s\<lparr>sp_world := w'\<rparr>)
    \<and> school_hosted E prog (sp_client s) w'"
  using assms
proof (induction rest arbitrary: s acc)
  case Nil
  then show ?case by (auto simp: js_monad intro!: exI [of _ "sp_world s"])
next
  case (Cons x rest)
  let ?r = "prog (operation_json ''get_student_grades'' (JStr (st_id x)))"
  have a: "answers_list ?r Grade_json (G (st_id x))" and raw: "list_all raw_grade (G (st_id x))" using Cons.prems(2) by auto
  obtain w' where w: "on_client (getStudentGrades E aead (Some (JStr (st_id x)))) s = (Inr ?r, s\<lparr>sp_world := w'\<rparr>)"
      "school_hosted E prog (sp_client s) w'"
    using on_client_hosted [OF Cons.prems(1), of "JStr (st_id x)" aead "''get_student_grades''"] outcome_list [where prog = prog, OF a]
    unfolding getStudentGrades_op by auto
  let ?s = "s\<lparr>sp_world := w'\<rparr>"
  have join: "r_mapM (join_grade (map Student_json xs) (JArr (map Course_json ys))) (map Grade_json (G (st_id x))) =
      Inr (map (Grade_json \<circ> named_grade xs ys) (G (st_id x)))"
    using raw by (rule join_grades_typed)
  have step: "collect_grades E aead (map Student_json xs) (JArr (map Course_json ys)) (map Student_json (x # rest)) acc s =
      collect_grades E aead (map Student_json xs) (JArr (map Course_json ys)) (map Student_json rest)
        (acc @ map (Grade_json \<circ> named_grade xs ys) (G (st_id x))) ?s"
    using answers_listD(1) [OF a] w(1) join by (auto simp: js_monad school_ids)
  show ?case
    unfolding step
    using Cons.IH [of ?s "acc @ map (Grade_json \<circ> named_grade xs ys) (G (st_id x))"] w(2) Cons.prems(2) by auto
qed

lemma fetch_into_hosted:
  assumes "page_hosted E prog s" "answers_list (prog (operation_json op JNull)) enc xs"
    "\<And>s d w. sp_client (put d s) = sp_client s \<and> sp_world (put d s) = sp_world s"
  shows "\<exists>s'. fetch_into (school_op E aead op JNull) put s = (Inr (), s') \<and> page_hosted E prog s' \<and> sp_client s' = sp_client s"
proof -
  obtain w' where "on_client (school_op E aead op JNull) s = (Inr (prog (operation_json op JNull)), s\<lparr>sp_world := w'\<rparr>)"
      "school_hosted E prog (sp_client s) w'"
    using on_client_hosted [OF assms(1), of JNull aead op] outcome_list [where prog = prog, OF assms(2)] by auto
  then show ?thesis using answers_listD(1) [OF assms(2)] assms(3) by (auto simp: fetch_into_def js_catch_def js_bind_def js_modify_def js_ret_def)
qed

lemma current_list_hosted:
  assumes "page_hosted E prog s" "answers_list (prog (operation_json op JNull)) enc xs" "v = JArr [] \<or> v = JArr (map enc xs)"
  shows "\<exists>w'. current_list v (school_op E aead op JNull) s = (Inr (JArr (map enc xs)), s\<lparr>sp_world := w'\<rparr>)
    \<and> school_hosted E prog (sp_client s) w'"
proof (cases "longer v")
  case True
  then show ?thesis
    using assms(1,3) by (auto simp: current_list_def longer_def js_ret_def intro!: exI [of _ "sp_world s"])
next
  case False
  obtain w' where "on_client (school_op E aead op JNull) s = (Inr (prog (operation_json op JNull)), s\<lparr>sp_world := w'\<rparr>)"
      "school_hosted E prog (sp_client s) w'"
    using on_client_hosted [OF assms(1), of JNull aead op] outcome_list [where prog = prog, OF assms(2)] by auto
  then show ?thesis using False answers_listD(2) [OF assms(2)] by (auto simp: current_list_def js_bind_def js_ret_def)
qed

text \<open>
  C38. The grades that are shown: in front of a program that lists the students \<open>xs\<close>, the courses \<open>ys\<close> and
  the grades of each student, fetching ends with exactly these grades, student by student, each with the
  name of its student and of its course or the text for an unknown one, no matter whether students and
  courses were there before.
\<close>

theorem grades_joined:
  assumes "page_hosted E prog s" "school_data prog xs ys G"
    "students = JArr [] \<or> students = JArr (map Student_json xs)" "courses = JArr [] \<or> courses = JArr (map Course_json ys)"
  shows "\<exists>s'. fetchGrades E aead students courses s = (Inr (), s') \<and> \<not> sp_loading s'
    \<and> sp_items s' = JArr (concat (map (\<lambda>x. map (Grade_json \<circ> named_grade xs ys) (G (st_id x))) xs))"
proof -
  note d = assms(2) [unfolded school_data_def]
  let ?f1 = "if length_of students = Some 0 then grades_fetchStudents E aead else js_ret ()"
  let ?f2 = "if length_of courses = Some 0 then grades_fetchCourses E aead else js_ret ()"
  let ?s0 = "s\<lparr>sp_loading := True\<rparr>"
  have h0: "page_hosted E prog ?s0" using assms(1) by simp
  obtain s1 where s1: "?f1 ?s0 = (Inr (), s1)" "page_hosted E prog s1"
    using fetch_into_hosted [OF h0, of "''list_students''" Student_json xs "\<lambda>data s. s\<lparr>gp_students := data\<rparr>" aead] d h0
    by (cases "length_of students = Some 0") (auto simp: grades_fetchStudents_def listStudents_def js_ret_def)
  obtain s2 where s2: "?f2 s1 = (Inr (), s2)" "page_hosted E prog s2"
    using fetch_into_hosted [OF s1(2), of "''list_courses''" Course_json ys "\<lambda>data s. s\<lparr>gp_courses := data\<rparr>" aead] d s1(2)
    by (cases "length_of courses = Some 0") (auto simp: grades_fetchCourses_def listCourses_def js_ret_def)
  obtain w3 where w3: "current_list students (listStudents E aead) s2 = (Inr (JArr (map Student_json xs)), s2\<lparr>sp_world := w3\<rparr>)"
      "page_hosted E prog (s2\<lparr>sp_world := w3\<rparr>)"
    using current_list_hosted [OF s2(2), of "''list_students''" Student_json xs students] d assms(3)
    by (auto simp: listStudents_def)
  obtain w4 where w4: "current_list courses (listCourses E aead) (s2\<lparr>sp_world := w3\<rparr>) =
      (Inr (JArr (map Course_json ys)), s2\<lparr>sp_world := w4\<rparr>)" "page_hosted E prog (s2\<lparr>sp_world := w4\<rparr>)"
    using current_list_hosted [OF w3(2), of "''list_courses''" Course_json ys courses] d assms(4)
    by (auto simp: listCourses_def)
  obtain w5 where "collect_grades E aead (map Student_json xs) (JArr (map Course_json ys)) (map Student_json xs) []
      (s2\<lparr>sp_world := w4\<rparr>) =
      (Inr (concat (map (\<lambda>x. map (Grade_json \<circ> named_grade xs ys) (G (st_id x))) xs)), s2\<lparr>sp_world := w5\<rparr>)"
    using collect_grades_typed [OF w4(2), of xs G aead xs ys "[]"] d by auto
  then show ?thesis
    using s1(1) s2(1) w3(1) w4(1)
    by (simp add: fetchGrades_def js_bind_def js_modify_def js_finally_def js_catch_def js_lift_def js_ret_def
        iterable_def)
qed

text \<open>A school with one student who has two grades, one of them in a course that is not listed.\<close>

definition ann :: Student where
  "ann = \<lparr>st_id = js ''1'', st_name = js ''Ann'', st_grade = [], st_age = Some (JNum 15), st_email = [], st_subjects = []\<rparr>"

definition algebra :: Course where
  "algebra = \<lparr>co_id = js ''7'', co_name = js ''Algebra'', co_code = [], co_teacher_id = [], co_student_ids = [], co_description = []\<rparr>"

definition graded :: "string \<Rightarrow> Grade" where
  "graded c = \<lparr>gr_id = [], gr_student_id = js ''1'', gr_course_id = js c, gr_score = Some (JNum 95), gr_date = [],
     gr_studentName = None, gr_courseName = None\<rparr>"

definition success :: "json \<Rightarrow> json" where
  "success data = JObj [(js ''status'', JStr (js ''success'')), (js ''data'', data)]"

definition small_school :: "json \<Rightarrow> json" where
  "small_school r =
     (if r = operation_json ''list_students'' JNull then success (JArr [Student_json ann])
      else if r = operation_json ''list_courses'' JNull then success (JArr [Course_json algebra])
      else success (JArr [Grade_json (graded ''7''), Grade_json (graded ''8'')]))"

lemma success_props [simp]:
  "opt_prop ''status'' (Some (success d)) = Some (JStr (js ''success''))" "opt_prop ''data'' (Some (success d)) = Some d"
  by (simp_all add: success_def js_def ju_def)

lemma json_ok_success: "json_ok d \<Longrightarrow> json_ok (success d) \<and> success d \<noteq> JNull"
  by (simp add: success_def js_def ju_def)

lemma answers_success: "answers_list (success (JArr (map enc xs))) enc xs"
  by (simp add: answers_list_def succeeded_def)

lemma small_school_ok: "json_ok (small_school r) \<and> small_school r \<noteq> JNull"
  unfolding small_school_def
  by (auto intro!: json_ok_success school_data_ok simp: ann_def graded_def)

theorem grades_joined_witness:
  "\<exists>s'. fetchGrades (hosted_env small_school) (\<lambda>_ _ _ _. Inr None) (JArr []) (JArr []) (new_GradesView 0 demo_school fresh_world)
      = (Inr (), s')
    \<and> sp_items s' = JArr (map Grade_json
        [(graded ''7'')\<lparr>gr_studentName := Some (js ''Ann''), gr_courseName := Some (js ''Algebra'')\<rparr>,
         (graded ''8'')\<lparr>gr_studentName := Some (js ''Ann''), gr_courseName := Some (js ''Unknown Course'')\<rparr>])"
proof -
  let ?s = "new_GradesView 0 demo_school fresh_world"
  have h: "page_hosted (hosted_env small_school) small_school ?s"
    using small_school_ok by (simp add: school_hosted_def new_GradesView_def demo_school_def plain_client_def hosted_env_def)
  have ops: "operation_json ''list_courses'' JNull \<noteq> operation_json ''list_students'' JNull"
    "operation_json ''get_student_grades'' v \<noteq> operation_json ''list_students'' JNull"
    "operation_json ''get_student_grades'' v \<noteq> operation_json ''list_courses'' JNull" for v
    by (simp_all add: operation_json_def obj_literal_def)
  have "school_data small_school [ann] [algebra] (\<lambda>_. [graded ''7'', graded ''8''])"
    using answers_success [of Student_json "[ann]"] answers_success [of Course_json "[algebra]"]
      answers_success [of Grade_json "[graded ''7'', graded ''8'']"] ops
    by (simp add: school_data_def small_school_def raw_grade_def graded_def)
  from grades_joined [OF h this, of "JArr []" "JArr []" "\<lambda>_ _ _ _. Inr None"] show ?thesis
    by (auto simp: named_grade_def name_or_def graded_def ann_def algebra_def)
qed

section \<open>Assigning a grade\<close>

lemma guarded_total:
  fixes m :: "(grades_page, unit) js"
  shows "fst (js_finally (js_catch m (\<lambda>e. page_emit (ConsoleError e))) (\<lambda>s. s\<lparr>sp_loading := False\<rparr>) s) = Inr ()
    \<and> \<not> sp_loading (snd (js_finally (js_catch m (\<lambda>e. page_emit (ConsoleError e))) (\<lambda>s. s\<lparr>sp_loading := False\<rparr>) s))"
  by (auto simp: js_monad split: sum.split prod.split)

lemma fetchGrades_total: "fst (fetchGrades E aead xs ys s) = Inr () \<and> \<not> sp_loading (snd (fetchGrades E aead xs ys s))"
  unfolding fetchGrades_def js_bind_def [of "js_modify _"] js_modify_def using guarded_total by simp



end
