(* ===== verification/Dashboard.thy ===== *)
theory Dashboard
  imports Grades
begin

text \<open>
  \<^verbatim>\<open>wasm_programs/school_management/ui/components/dashboard-view.tsx\<close> and the frame of the pages,
  \<^verbatim>\<open>app/page.tsx\<close>. \<^verbatim>\<open>fetchStats\<close> asks for the lists and for the grades of every course, twice, and
  computes the figures; it updates the three parts of the state as it goes, so that an exception leaves the
  later ones as they were. A sum that becomes text in the program is NaN here; scores are numbers.
\<close>

section \<open>State\<close>

text \<open>A figure is its title, its value and its change; an activity is the name, the action and the time.\<close>

record dashboard =
  db_stats :: "(jsstr \<times> jsstr \<times> jsstr) list"
  db_recentActivity :: "(jsval \<times> jsstr \<times> jsstr) list"
  db_quickStats :: "(jsstr \<times> jsstr) list"
  db_effects :: "effect list"
  db_client :: SchoolManagementClient
  db_world :: world

definition stats_of :: "jsstr \<Rightarrow> jsstr \<Rightarrow> jsstr \<Rightarrow> jsstr \<Rightarrow> (jsstr \<times> jsstr \<times> jsstr) list" where
  "stats_of students teachers courses average =
     [(js ''Total Students'', students, js ''+0%''), (js ''Total Teachers'', teachers, js ''+0%''),
      (js ''Active Courses'', courses, js ''+0%''), (js ''Average Grade'', average, js ''+0%'')]"

definition quick_stats_of :: "jsstr \<Rightarrow> jsstr \<Rightarrow> jsstr \<Rightarrow> jsstr \<Rightarrow> (jsstr \<times> jsstr) list" where
  "quick_stats_of enrolled assignments completion attendance =
     [(js ''Students enrolled this week'', enrolled), (js ''Assignments graded'', assignments),
      (js ''Course completion rate'', completion), (js ''Average attendance'', attendance)]"

definition new_DashboardView :: "SchoolManagementClient \<Rightarrow> world \<Rightarrow> dashboard" where
  "new_DashboardView client w =
     \<lparr>db_stats = stats_of (js ''0'') (js ''0'') (js ''0'') (js ''0%''), db_recentActivity = [],
      db_quickStats = quick_stats_of (js ''0'') (js ''0'') (js ''0%'') (js ''0%''), db_effects = [],
      db_client = client, db_world = w\<rparr>"

definition on_dash :: "'a school \<Rightarrow> (dashboard, 'a) js" where
  [js_monad]: "on_dash = js_zoom (\<lambda>s. (db_client s, db_world s)) (\<lambda>cw s. s\<lparr>db_client := fst cw, db_world := snd cw\<rparr>)"

section \<open>The figures\<close>

text \<open>\<^verbatim>\<open>status === "success" && data ? data.length : 0\<close>; \<open>None\<close> is undefined.\<close>

definition count_of :: "json \<Rightarrow> nat option" where
  "count_of response = (case listed response of None \<Rightarrow> Some 0 | Some data \<Rightarrow> length_of data)"

definition count_text :: "nat option \<Rightarrow> exn + jsstr" where
  "count_text c =
     (case c of
        Some n \<Rightarrow> Inr (show_int (int n))
      | None \<Rightarrow> r_bind (get_prop ''toString'' None) (\<lambda>_. Inr []))"

text \<open>\<^verbatim>\<open>gradeSum += score\<close>, with \<open>None\<close> for NaN.\<close>

definition add_score :: "rat option \<Rightarrow> jsval \<Rightarrow> rat option" where
  "add_score gradeSum score =
     (case (gradeSum, score) of
        (Some q, Some (JNum r)) \<Rightarrow> Some (q + r)
      | (Some q, Some JNull) \<Rightarrow> Some q
      | (Some q, Some (JBool b)) \<Rightarrow> Some (q + (if b then 1 else 0))
      | _ \<Rightarrow> None)"

fun sum_scores :: "json list \<Rightarrow> rat option \<times> nat \<Rightarrow> exn + rat option \<times> nat" where
  "sum_scores [] acc = Inr acc"
| "sum_scores (grade # grades) acc =
     r_bind (get_prop ''score'' (Some grade)) (\<lambda>score.
     sum_scores grades (add_score (fst acc) score, Suc (snd acc)))"

fun sum_grades :: "env \<Rightarrow> aead_open \<Rightarrow> json list \<Rightarrow> rat option \<times> nat \<Rightarrow> (dashboard, rat option \<times> nat) js" where
  "sum_grades E aead [] acc = js_ret acc"
| "sum_grades E aead (course # courses) acc =
     js_bind (js_lift (get_prop ''id'' (Some course))) (\<lambda>i.
     js_bind (on_dash (getCourseGrades E aead i)) (\<lambda>response.
     case listed response of
       None \<Rightarrow> sum_grades E aead courses acc
     | Some grades \<Rightarrow>
         js_bind (js_lift (r_bind (iterable grades) (\<lambda>gs. sum_scores gs acc))) (\<lambda>acc.
         sum_grades E aead courses acc)))"

text \<open>\<^verbatim>\<open>Math.round(q)\<close>.\<close>

definition math_round :: "rat \<Rightarrow> int" where
  "math_round q = \<lfloor>q + 1 / 2\<rfloor>"

definition average_text :: "rat option \<times> nat \<Rightarrow> jsstr" where
  "average_text acc =
     (case acc of (gradeSum, totalGrades) \<Rightarrow>
        (if totalGrades > 0 then
           (case gradeSum of None \<Rightarrow> js ''NaN'' | Some q \<Rightarrow> show_int (math_round (q / of_nat totalGrades)))
         else js ''0'') @ js ''%'')"

text \<open>The elements that an index reaches.\<close>

definition elements :: "json \<Rightarrow> json list" where
  "elements v = (case v of JArr vs \<Rightarrow> vs | JStr s \<Rightarrow> map (\<lambda>u. JStr [u]) s | _ \<Rightarrow> [])"

definition enrolments :: "json \<Rightarrow> exn + (jsval \<times> jsstr \<times> jsstr) list" where
  "enrolments response =
     (case listed response of
        None \<Rightarrow> Inr []
      | Some students \<Rightarrow>
          r_mapM (\<lambda>student. r_bind (get_prop ''name'' (Some student)) (\<lambda>n.
            Inr (n, js ''Enrolled in school'', js ''Recently''))) (take 2 (elements students)))"

definition grade_activity :: "json \<Rightarrow> json \<Rightarrow> exn + (jsval \<times> jsstr \<times> jsstr) list" where
  "grade_activity studentsResponse grade =
     (case listed studentsResponse of
        None \<Rightarrow> Inr []
      | Some students \<Rightarrow>
          r_bind (array_receiver ''find'' (Some students)) (\<lambda>students.
          r_bind (if students = [] then Inr None else get_prop ''student_id'' (Some grade)) (\<lambda>sid.
          r_bind (find_by_id students sid) (\<lambda>student.
          if truthy_val student then
            r_bind (get_prop ''name'' student) (\<lambda>n.
            r_bind (get_prop ''score'' (Some grade)) (\<lambda>score.
            Inr [(n, js ''Received grade '' @ val_text score @ js '' in course'', js ''Recently'')]))
          else Inr []))))"

fun grade_activities ::
  "env \<Rightarrow> aead_open \<Rightarrow> json \<Rightarrow> json list \<Rightarrow> (jsval \<times> jsstr \<times> jsstr) list \<Rightarrow> (dashboard, (jsval \<times> jsstr \<times> jsstr) list) js" where
  "grade_activities E aead studentsResponse [] items = js_ret items"
| "grade_activities E aead studentsResponse (course # courses) items =
     js_bind (js_lift (get_prop ''id'' (Some course))) (\<lambda>i.
     js_bind (on_dash (getCourseGrades E aead i)) (\<lambda>response.
     case listed response of
       None \<Rightarrow> grade_activities E aead studentsResponse courses items
     | Some grades \<Rightarrow>
         js_bind (js_lift (r_mapM (grade_activity studentsResponse) (take 2 (elements grades)))) (\<lambda>new.
         grade_activities E aead studentsResponse courses (items @ concat new))))"

text \<open>The courses to iterate over, none without an answer.\<close>

definition courses_of :: "json \<Rightarrow> exn + json list" where
  "courses_of response = (case listed response of None \<Rightarrow> Inr [] | Some courses \<Rightarrow> iterable courses)"

definition completion_text :: "nat \<Rightarrow> nat \<Rightarrow> nat \<Rightarrow> jsstr" where
  "completion_text assignmentsGraded coursesCount studentsCount =
     (if coursesCount > 0
      then show_int (math_round (of_nat assignmentsGraded / of_nat (coursesCount * max 1 studentsCount) * 100)) @ js ''%''
      else js ''0%'')"

definition attendance_text :: "nat \<Rightarrow> jsstr" where
  "attendance_text studentsCount = num_str (min 100 (max 0 (95 - of_nat studentsCount / 10))) @ js ''%''"

definition fetchStats :: "env \<Rightarrow> aead_open \<Rightarrow> (dashboard, unit) js" where
  "fetchStats E aead =
     js_catch
       (js_bind (on_dash (listStudents E aead)) (\<lambda>studentsResponse.
        js_bind (on_dash (listTeachers E aead)) (\<lambda>teachersResponse.
        js_bind (on_dash (listCourses E aead)) (\<lambda>coursesResponse.
        js_bind (js_lift (courses_of coursesResponse)) (\<lambda>courses.
        js_bind (sum_grades E aead courses (Some 0, 0)) (\<lambda>acc.
        js_bind (js_lift (count_text (count_of studentsResponse))) (\<lambda>students.
        js_bind (js_lift (count_text (count_of teachersResponse))) (\<lambda>teachers.
        js_bind (js_lift (count_text (count_of coursesResponse))) (\<lambda>coursesText.
        js_seq (js_modify (\<lambda>s. s\<lparr>db_stats := stats_of students teachers coursesText (average_text acc)\<rparr>))
          (js_bind (js_lift (enrolments studentsResponse)) (\<lambda>items.
           js_bind (grade_activities E aead studentsResponse courses items) (\<lambda>activityItems.
           js_seq (js_modify (\<lambda>s. s\<lparr>db_recentActivity := take 4 activityItems\<rparr>))
             (js_modify (\<lambda>s. s\<lparr>db_quickStats := quick_stats_of students (show_int (int (snd acc)))
                (completion_text (snd acc) (the (count_of coursesResponse)) (the (count_of studentsResponse)))
                (attendance_text (the (count_of studentsResponse)))\<rparr>))))))))))))))
       (\<lambda>error. js_modify (\<lambda>s. s\<lparr>db_effects := db_effects s @ [ConsoleError error]\<rparr>))"

section \<open>What the dashboard shows\<close>

definition activity_view :: "jsval \<times> jsstr \<times> jsstr \<Rightarrow> exn + 'h view" where
  "activity_view = (\<lambda>(student, action, time).
     r_bind (initials_of student) (\<lambda>i.
     r_bind (react_text student) (\<lambda>name.
     Inr (El ''activity'' []
       [El ''avatar'' [] [Txt i], El ''p'' [] [Txt name], El ''p'' [] [Txt action], El ''p'' [] [Txt time]]))))"

definition DashboardView :: "dashboard \<Rightarrow> exn + 'h view" where
  "DashboardView s =
     r_bind (r_mapM activity_view (db_recentActivity s)) (\<lambda>activities.
     Inr (El ''div'' []
       (map (\<lambda>(title, value, change).
          El ''card'' [] [El ''p'' [] [Txt title], El ''p'' [] [Txt value], El ''p'' [] [Txt (change @ js '' from last month'')]])
          (db_stats s)
        @ [El ''card'' []
             (El ''h3'' [] [Txt (js ''Recent Activity'')]
              # (if db_recentActivity s \<noteq> [] then activities else [El ''p'' [] [Txt (js ''No recent activity'')]])),
           El ''card'' []
             (El ''h3'' [] [Txt (js ''Quick Stats'')]
              # map (\<lambda>(label, value). El ''div'' [] [El ''span'' [] [Txt label], El ''span'' [] [Txt value]]) (db_quickStats s))])))"

section \<open>The frame of the pages\<close>

datatype View = DashboardPage | StudentsPage | TeachersPage | CoursesPage | GradesPage

record school_frame =
  fr_currentView :: View
  fr_sidebarOpen :: bool

definition new_SchoolManagementSystem :: school_frame where
  "new_SchoolManagementSystem = \<lparr>fr_currentView = DashboardPage, fr_sidebarOpen = False\<rparr>"

definition navigation :: "(View \<times> jsstr) list" where
  "navigation =
     [(DashboardPage, js ''Dashboard''), (StudentsPage, js ''Students''), (TeachersPage, js ''Teachers''),
      (CoursesPage, js ''Courses''), (GradesPage, js ''Grades'')]"

datatype frame_handler = OpenSidebar | CloseSidebar | GoTo View

definition press_frame :: "frame_handler \<Rightarrow> school_frame \<Rightarrow> school_frame" where
  "press_frame h s =
     (case h of
        OpenSidebar \<Rightarrow> s\<lparr>fr_sidebarOpen := True\<rparr>
      | CloseSidebar \<Rightarrow> s\<lparr>fr_sidebarOpen := False\<rparr>
      | GoTo v \<Rightarrow> s\<lparr>fr_currentView := v, fr_sidebarOpen := False\<rparr>)"

text \<open>The component of the current view appears by name.\<close>

definition page_name :: "View \<Rightarrow> string" where
  "page_name v =
     (case v of
        DashboardPage \<Rightarrow> ''DashboardView''
      | StudentsPage \<Rightarrow> ''StudentsView''
      | TeachersPage \<Rightarrow> ''TeachersView''
      | CoursesPage \<Rightarrow> ''CoursesView''
      | GradesPage \<Rightarrow> ''GradesView'')"

definition SchoolManagementSystem_view :: "school_frame \<Rightarrow> frame_handler view" where
  "SchoolManagementSystem_view s =
     El ''div'' []
       ([El ''span'' [] [Txt (js ''EduManager'')], Btn CloseSidebar False [],
         El ''nav'' [] (map (\<lambda>(v, name). Btn (GoTo v) False [Txt name]) navigation),
         El ''div'' [] [Txt (js ''AD''), Txt (js ''Admin User''), Txt (js ''admin@school.edu'')]]
        @ show_if (fr_sidebarOpen s) [Area CloseSidebar []]
        @ [Btn OpenSidebar False [],
           El ''h1'' [] [Txt (case map_of navigation (fr_currentView s) of Some n \<Rightarrow> n | None \<Rightarrow> [])],
           El (page_name (fr_currentView s)) [] []])"

section \<open>The average\<close>

definition score_of :: "Grade \<Rightarrow> rat" where
  "score_of g = (case gr_score g of Some (JNum r) \<Rightarrow> r | _ \<Rightarrow> 0)"

definition scored :: "Grade \<Rightarrow> bool" where
  "scored g \<longleftrightarrow> (\<exists>r. gr_score g = Some (JNum r))"

lemma sum_scores_typed:
  "list_all scored gs \<Longrightarrow> sum_scores (map Grade_json gs) (Some q, n) = Inr (Some (q + sum_list (map score_of gs)), n + length gs)"
proof (induction gs arbitrary: q n)
  case (Cons g gs)
  have "get_prop ''score'' (Some (Grade_json g)) = Inr (gr_score g)"
    unfolding Grade_json_def by (rule get_prop_obj_literal) simp_all
  then show ?case using Cons by (auto simp: scored_def score_of_def add_score_def)
qed simp

lemma on_dash_hosted:
  assumes "school_hosted E prog (db_client s) (db_world s)" "json_ok data"
  shows "\<exists>w'. on_dash (school_op E aead op data) s = (school_outcome prog op data, s\<lparr>db_world := w'\<rparr>)
    \<and> school_hosted E prog (db_client s) w'"
  using school_op_run [OF assms, of aead op] by (auto simp: js_monad)

lemma getCourseGrades_op: "getCourseGrades E aead (Some v) = school_op E aead ''get_course_grades'' v"
  by (simp add: getCourseGrades_def operation_json_def)

text \<open>What the program answers about the courses.\<close>

definition course_data :: "(json \<Rightarrow> json) \<Rightarrow> Course list \<Rightarrow> (jsstr \<Rightarrow> Grade list) \<Rightarrow> bool" where
  "course_data prog ys G \<longleftrightarrow>
     (\<forall>y \<in> set ys. answers_list (prog (operation_json ''get_course_grades'' (JStr (co_id y)))) Grade_json (G (co_id y))
        \<and> list_all scored (G (co_id y)))"

lemma course_call:
  assumes "school_hosted E prog (db_client s) (db_world s)" "course_data prog ys G" "y \<in> set ys"
  shows "\<exists>w' r. on_dash (getCourseGrades E aead (Some (JStr (co_id y)))) s = (Inr r, s\<lparr>db_world := w'\<rparr>)
    \<and> school_hosted E prog (db_client s) w'
    \<and> (listed r = Some (JArr (map Grade_json (G (co_id y)))) \<or> G (co_id y) = [] \<and> listed r = None)"
proof -
  let ?r = "prog (operation_json ''get_course_grades'' (JStr (co_id y)))"
  have a: "answers_list ?r Grade_json (G (co_id y))" using assms(2,3) by (auto simp: course_data_def)
  show ?thesis
    using on_dash_hosted [OF assms(1), of "JStr (co_id y)" aead "''get_course_grades''"] outcome_list [where prog = prog, OF a]
      answers_listD(1) [OF a]
    unfolding getCourseGrades_op by auto
qed

lemma sum_grades_typed:
  assumes "school_hosted E prog (db_client s) (db_world s)" "course_data prog ys G"
  shows "\<exists>w'. sum_grades E aead (map Course_json ys) (Some q, n) s =
      (Inr (Some (q + sum_list (map score_of (concat (map (G \<circ> co_id) ys)))), n + length (concat (map (G \<circ> co_id) ys))),
       s\<lparr>db_world := w'\<rparr>)
    \<and> school_hosted E prog (db_client s) w'"
  using assms
proof (induction ys arbitrary: s q n)
  case Nil
  then show ?case by (auto simp: js_monad intro!: exI [of _ "db_world s"])
next
  case (Cons y ys)
  have d: "course_data prog ys G" and sc: "list_all scored (G (co_id y))" using Cons.prems(2) by (simp_all add: course_data_def)
  obtain w' r where c: "on_dash (getCourseGrades E aead (Some (JStr (co_id y)))) s = (Inr r, s\<lparr>db_world := w'\<rparr>)"
    "school_hosted E prog (db_client s) w'"
    "listed r = Some (JArr (map Grade_json (G (co_id y)))) \<or> G (co_id y) = [] \<and> listed r = None"
    using course_call [OF Cons.prems, of y aead] by auto
  let ?s = "s\<lparr>db_world := w'\<rparr>"
  have step: "sum_grades E aead (map Course_json (y # ys)) (Some q, n) s =
      sum_grades E aead (map Course_json ys) (Some (q + sum_list (map score_of (G (co_id y)))), n + length (G (co_id y))) ?s"
    using c(1,3) sum_scores_typed [OF sc, of q n]
    by (auto simp: js_bind_def js_lift_def school_ids iterable_def)
  show ?case
    unfolding step
    using Cons.IH [of ?s "q + sum_list (map score_of (G (co_id y)))" "n + length (G (co_id y))"] c(2) d
    by (auto simp: add.assoc)
qed

text \<open>The rounded mean lies between bounds of the values that are integers.\<close>

lemma mean_bounds:
  assumes "gs \<noteq> []" "\<forall>g \<in> set gs. of_int lo \<le> score_of g \<and> score_of g \<le> of_int hi"
  shows "lo \<le> math_round (sum_list (map score_of gs) / of_nat (length gs))"
    "math_round (sum_list (map score_of gs) / of_nat (length gs)) \<le> hi"
proof -
  let ?n = "of_nat (length gs) :: rat" and ?q = "sum_list (map score_of gs)"
  have n: "?n > 0" using assms(1) by simp
  have "of_int lo * ?n \<le> ?q \<and> ?q \<le> of_int hi * ?n"
    using assms(2) by (induction gs) (auto simp: algebra_simps)
  then have b: "of_int lo \<le> ?q / ?n" "?q / ?n \<le> of_int hi" using n by (simp_all add: le_divide_eq divide_le_eq)
  show "lo \<le> math_round (?q / ?n)" using b(1) unfolding math_round_def by linarith
  show "math_round (?q / ?n) \<le> hi" using b(2) unfolding math_round_def by linarith
qed

section \<open>The activities\<close>

definition received :: "Student list \<Rightarrow> Grade \<Rightarrow> (jsval \<times> jsstr \<times> jsstr) list" where
  "received xs g =
     (case find (\<lambda>x. st_id x = gr_student_id g) xs of
        None \<Rightarrow> []
      | Some x \<Rightarrow>
          [(Some (JStr (st_name x)), js ''Received grade '' @ num_str (score_of g) @ js '' in course'', js ''Recently'')])"

definition activities :: "Student list \<Rightarrow> Course list \<Rightarrow> (jsstr \<Rightarrow> Grade list) \<Rightarrow> (jsval \<times> jsstr \<times> jsstr) list" where
  "activities xs ys G =
     map (\<lambda>x. (Some (JStr (st_name x)), js ''Enrolled in school'', js ''Recently'')) (take 2 xs)
     @ concat (map (\<lambda>y. concat (map (received xs) (take 2 (G (co_id y))))) ys)"

lemma grade_activity_typed:
  assumes "listed r = Some (JArr (map Student_json xs)) \<or> xs = [] \<and> listed r = None" "scored g"
  shows "grade_activity r (Grade_json g) = Inr (received xs g)"
proof (cases "xs = []")
  case True
  then show ?thesis using assms(1) by (auto simp: grade_activity_def received_def find_by_id_def)
next
  case False
  obtain q where q: "gr_score g = Some (JNum q)" using assms(2) by (auto simp: scored_def)
  have "get_prop ''score'' (Some (Grade_json g)) = Inr (gr_score g)"
    unfolding Grade_json_def by (rule get_prop_obj_literal) simp_all
  moreover have "truthy_val (Some (Student_json x))" for x by (simp add: Student_json_def obj_literal_def)
  ultimately show ?thesis
    using False assms(1) q
    by (cases "find (\<lambda>x. st_id x = gr_student_id g) xs")
      (auto simp: grade_activity_def school_ids find_by_id_enc [where key = st_id] received_def score_of_def val_text_def)
qed

lemma grade_activity_list:
  assumes "listed r = Some (JArr (map Student_json xs)) \<or> xs = [] \<and> listed r = None" "list_all scored gs"
  shows "r_mapM (grade_activity r) (map Grade_json gs) = Inr (map (received xs) gs)"
  using assms(2) by (induction gs) (simp_all add: grade_activity_typed [OF assms(1)])

lemma grade_activities_typed:
  assumes "school_hosted E prog (db_client s) (db_world s)" "course_data prog ys G"
    "listed r = Some (JArr (map Student_json xs)) \<or> xs = [] \<and> listed r = None"
  shows "\<exists>w'. grade_activities E aead r (map Course_json ys) items s =
      (Inr (items @ concat (map (\<lambda>y. concat (map (received xs) (take 2 (G (co_id y))))) ys)), s\<lparr>db_world := w'\<rparr>)
    \<and> school_hosted E prog (db_client s) w'"
  using assms(1,2)
proof (induction ys arbitrary: s items)
  case Nil
  then show ?case by (auto simp: js_monad intro!: exI [of _ "db_world s"])
next
  case (Cons y ys)
  have d: "course_data prog ys G" and sc: "list_all scored (take 2 (G (co_id y)))"
    using Cons.prems(2) by (auto simp: course_data_def list_all_iff dest: in_set_takeD)
  obtain w' q where c: "on_dash (getCourseGrades E aead (Some (JStr (co_id y)))) s = (Inr q, s\<lparr>db_world := w'\<rparr>)"
    "school_hosted E prog (db_client s) w'"
    "listed q = Some (JArr (map Grade_json (G (co_id y)))) \<or> G (co_id y) = [] \<and> listed q = None"
    using course_call [OF Cons.prems, of y aead] by auto
  let ?s = "s\<lparr>db_world := w'\<rparr>" and ?new = "concat (map (received xs) (take 2 (G (co_id y))))"
  have step: "grade_activities E aead r (map Course_json (y # ys)) items s =
      grade_activities E aead r (map Course_json ys) (items @ ?new) ?s"
    using c(1,3) grade_activity_list [OF assms(3) sc]
    by (auto simp: js_bind_def js_lift_def school_ids elements_def take_map)
  show ?case unfolding step using Cons.IH [of ?s "items @ ?new"] c(2) d by auto
qed

lemma enrolments_typed:
  assumes "listed r = Some (JArr (map Student_json xs)) \<or> xs = [] \<and> listed r = None"
  shows "enrolments r = Inr (map (\<lambda>x. (Some (JStr (st_name x)), js ''Enrolled in school'', js ''Recently'')) (take 2 xs))"
proof -
  have "r_mapM (\<lambda>student. r_bind (get_prop ''name'' (Some student)) (\<lambda>n. Inr (n, js ''Enrolled in school'', js ''Recently'')))
      (map Student_json zs) = Inr (map (\<lambda>x. (Some (JStr (st_name x)), js ''Enrolled in school'', js ''Recently'')) zs)" for zs
    by (induction zs) simp_all
  then show ?thesis using assms by (auto simp: enrolments_def elements_def take_map)
qed

section \<open>Properties\<close>

lemma count_typed:
  assumes "listed r = Some (JArr (map enc xs)) \<or> xs = [] \<and> listed r = None"
  shows "count_of r = Some (length xs)"
  using assms by (auto simp: count_of_def)

definition average :: "Grade list \<Rightarrow> int" where
  "average gs = (if gs = [] then 0 else math_round (sum_list (map score_of gs) / of_nat (length gs)))"

lemma average_text_typed:
  "average_text (Some (sum_list (map score_of gs)), length gs) = show_int (average gs) @ js ''%''"
proof -
  have "show_int 0 = js ''0''" by (simp add: js_def ju_def)
  then show ?thesis by (simp add: average_text_def average_def)
qed

lemma list_call:
  assumes "school_hosted E prog (db_client s) (db_world s)" "answers_list (prog (operation_json op JNull)) enc xs"
  shows "\<exists>w' r. on_dash (school_op E aead op JNull) s = (Inr r, s\<lparr>db_world := w'\<rparr>) \<and> school_hosted E prog (db_client s) w'
    \<and> (listed r = Some (JArr (map enc xs)) \<or> xs = [] \<and> listed r = None)"
  using on_dash_hosted [OF assms(1), of JNull aead op] outcome_list [where prog = prog, OF assms(2)] answers_listD(1) [OF assms(2)]
  by auto


text \<open>The school of the grades as the dashboard sees it; every course has the same two grades.\<close>

definition dashboard_school :: "json \<Rightarrow> json" where
  "dashboard_school r =
     (if r = operation_json ''list_teachers'' JNull then success JNull else small_school r)"


end
