(* ===== verification/Spec2Isabelle.thy ===== *)
theory Spec2Isabelle
  imports Node_Auth Nbook_Session Nbook_Route School_Client Identity_Client Toast Share_Page Post_Card Merkle Sign_In Feed Composer Dashboard
begin

text \<open>Header.\<close>

section \<open>The SDK talking to a node\<close>

text \<open>
  How a request of \<^verbatim>\<open>fetch\<close> arrives at the node: the base address is stripped, header names
  are lower case and text is sent as UTF-8. The path must be one that URL parsing leaves as it is.
\<close>

definition url_plain :: "jsstr \<Rightarrow> bool" where
  "url_plain p \<longleftrightarrow> starts_with p [47] \<and> list_all (\<lambda>u. uri_unreserved u \<or> u \<in> {47, 63, 61, 38, 37}) p
     \<and> \<not> str_includes p [47, 46]"

definition wire :: "jsstr \<Rightarrow> http_request \<Rightarrow> node_request option" where
  "wire base rq =
     (let path = drop (length base) (rq_url rq)
      in if starts_with (rq_url rq) base \<and> url_plain path then
           Some \<lparr>nr_method = rq_method rq, nr_path = path,
                 nr_headers = map (\<lambda>(k, v). (lower_ascii k, v)) (rq_headers rq),
                 nr_body = Some (case rq_body rq of
                   NoBody \<Rightarrow> [] | TextBody s \<Rightarrow> utf8_enc s | BytesBody b \<Rightarrow> b)\<rparr>
         else None)"

definition node_fetch ::
  "crates \<Rightarrow> jsstr \<Rightarrow> int \<Rightarrow> int \<Rightarrow> (node_request \<Rightarrow> http_response) \<Rightarrow> AuthState \<Rightarrow> http_request \<Rightarrow> fetch_result" where
  "node_fetch K base now_ms i handler st rq =
     (case wire base rq of
        None \<Rightarrow> Inl (native CTypeError (js ''fetch failed''))
      | Some req \<Rightarrow>
          Inr (case fst (verify_signed_request K now_ms i handler req st) of
                 Inl status \<Rightarrow> \<lparr>rs_status = status, rs_statusText = [], rs_headers = [], rs_body = Inr []\<rparr>
               | Inr resp \<Rightarrow> resp))"

text \<open>Both sides derive the same keys and the same response nonce.\<close>

lemma derive_keys_agree:
  assumes "crates_doc K" "deriveKeys secret = Inr ks"
  shows "derive_keys K (hex_dec secret) = Some ks"
  using assms
  by (auto simp: deriveKeys_def derive_keys_def crates_doc_def Let_def hkdf_def hkdf_with_rfc5869
      split: if_splits)

lemma derive_response_nonce_agree:
  "crates_doc K \<Longrightarrow> derive_response_nonce K k n ts = Some (deriveResponseNonce k n ts)"
  by (simp add: derive_response_nonce_def deriveResponseNonce_def crates_doc_def hkdf_def
      hkdf_with_rfc5869 Let_def)

lemma ascii_text:
  assumes "\<forall>u \<in> set s. unat u < 128"
  shows "text_decode (utf8_enc s) = s"
proof (rule text_decode_enc)
  show "wf_str s" using assms by (intro wf_str_ascii) force
  show "s = [] \<or> unat (hd s) < 128" using assms by (cases s) simp_all
qed

lemma b64_ascii: "u \<in> set (b64_enc bs) \<Longrightarrow> unat u < 128"
proof -
  assume "u \<in> set (b64_enc bs)"
  then consider n where "u = b64_digit n" "n < 64" | "u = eq_sign"
    by (auto simp: b64_enc_split b64_pad_def b64_sextets_less)
  then show "unat u < 128"
  proof cases
    case 1
    then have "b64_std_val u = Some n" by simp
    then show ?thesis by (auto simp: b64_std_val_def split: if_splits)
  qed simp
qed

lemma decrypt_sealed:
  assumes K: "crates_doc K"
    and aead: "aead rk (deriveResponseNonce rk nonce ts) ct (utf8_enc canon) = Inr (Some pt)"
    and seal: "cr_seal K rk (deriveResponseNonce rk nonce ts) (utf8_enc canon) pt = Some ct"
    and resp: "resp_ok resp" "rs_body resp = Inr pt"
  shows "\<exists>r. encrypt_reply K rk nonce ts canon resp = Inr r \<and> resp_ok r
      \<and> resp_text r = Inr (b64_enc ct)
      \<and> header_get r ''x-response-aead'' = Some AEAD_NAME
      \<and> (\<exists>rn. header_get r ''x-response-nonce'' = Some rn \<and> rn \<noteq> []
           \<and> decryptResponseToBuffer aead (b64_enc ct) rk nonce ts canon (Some rn) = Inr pt)"
proof -
  let ?n = "deriveResponseNonce rk nonce ts"
  have "hex_enc ?n \<noteq> []" using length_hex_enc [of ?n] by (metis length_deriveResponseNonce length_0_conv mult_eq_0_iff zero_neq_numeral)
  moreover have "decryptResponseToBuffer aead (b64_enc ct) rk nonce ts canon (Some (hex_enc ?n)) = Inr pt"
    using calculation aead by (simp add: decryptResponseToBuffer_def Let_def)
  moreover have "text_decode (utf8_enc (b64_enc ct)) = b64_enc ct"
    by (rule ascii_text) (auto dest: b64_ascii)
  ultimately show ?thesis
    using K seal resp derive_response_nonce_agree [OF K, of rk nonce ts]
    by (auto simp: encrypt_reply_def resp_ok_def resp_text_def header_get_def AEAD_NAME_def crates_doc_def)
qed

lemma signed_headers:
  "obj_assign content_type_json (auth_headers meth path b pid sk ts nonce) =
     content_type_json @ auth_headers meth path b pid sk ts nonce"
  by (rule obj_assign_distinct) (simp add: content_type_json_def auth_headers_def hdr_defs)

lemma lower_hdr:
  "lower_ascii HDR_PROJECT_ID = HDR_PROJECT_ID" "lower_ascii HDR_TIMESTAMP = HDR_TIMESTAMP"
  "lower_ascii HDR_NONCE = HDR_NONCE" "lower_ascii HDR_SIGNATURE = HDR_SIGNATURE"
  "lower_ascii (js ''Content-Type'') = js ''content-type''"
  by (simp_all add: lower_ascii_def hdr_defs js_def ju_def)

lemma wire_headers:
  assumes "h = map (\<lambda>(k, v). (lower_ascii k, v)) (content_type_json @ auth_headers meth path b pid sk ts nonce)"
    and "list_all visible pid" "list_all visible nonce"
  shows "node_header h HDR_PROJECT_ID = Some pid" "node_header h HDR_TIMESTAMP = Some (show_int ts)"
    "node_header h HDR_NONCE = Some nonce"
    "node_header h HDR_SIGNATURE = Some (signRequest meth path b ts nonce sk)"
proof -
  have "map_of h HDR_PROJECT_ID = Some pid" "map_of h HDR_TIMESTAMP = Some (show_int ts)"
    "map_of h HDR_NONCE = Some nonce"
    "map_of h HDR_SIGNATURE = Some (signRequest meth path b ts nonce sk)"
    unfolding assms(1) content_type_json_def auth_headers_def
    by (simp_all add: lower_hdr) (simp_all add: hdr_defs)
  then show "node_header h HDR_PROJECT_ID = Some pid" "node_header h HDR_TIMESTAMP = Some (show_int ts)"
    "node_header h HDR_NONCE = Some nonce"
    "node_header h HDR_SIGNATURE = Some (signRequest meth path b ts nonce sk)"
    using assms(2,3) visible_show_int visible_hex_enc
    by (simp_all add: node_header_def signRequest_def)
qed

lemma wf_body_text: "wf_str (body_text body)"
  using wf_stringify by simp

text \<open>The documented contract of the cipher on the two sides: what one seals the other opens.\<close>

definition aead_doc :: "crates \<Rightarrow> aead_open \<Rightarrow> bool" where
  "aead_doc K aead \<longleftrightarrow>
     (\<forall>k n aad pt. length k = 32 \<longrightarrow> length n = 24 \<longrightarrow>
        (\<exists>ct. cr_seal K k n aad pt = Some ct \<and> aead k n ct aad = Inr (Some pt)))"

lemma read_sealed:
  assumes K: "crates_doc K" "aead_doc K aead" and keys: "derivedKeys c = Some ks" "length (response_key ks) = 32"
    and "ts \<noteq> 0" "nonce \<noteq> []"
    and resp: "resp_ok resp" "rs_body resp = Inr (utf8_enc (JSON_stringify v))" "json_ok v"
  shows "\<exists>r. encrypt_reply K (response_key ks) nonce ts (canonical meth path b ts nonce) resp = Inr r
      \<and> request_outcome E aead c Prod meth path b (h, Some ts, Some nonce) r = Inr v"
proof -
  let ?rk = "response_key ks" and ?canon = "canonical meth path b ts nonce"
    and ?pt = "utf8_enc (JSON_stringify v)"
  obtain ct where "cr_seal K ?rk (deriveResponseNonce ?rk nonce ts) (utf8_enc ?canon) ?pt = Some ct"
    "aead ?rk (deriveResponseNonce ?rk nonce ts) ct (utf8_enc ?canon) = Inr (Some ?pt)"
    using K(2) keys(2) unfolding aead_doc_def by (meson length_deriveResponseNonce)
  from decrypt_sealed [where aead = aead and rk = ?rk and canon = ?canon, OF K(1) this(2,1) resp(1,2)] obtain r rn where
    r: "encrypt_reply K ?rk nonce ts ?canon resp = Inr r" "resp_ok r" "resp_text r = Inr (b64_enc ct)"
      "header_get r ''x-response-aead'' = Some AEAD_NAME"
      "header_get r ''x-response-nonce'' = Some rn" "rn \<noteq> []"
      "decryptResponseToBuffer aead (b64_enc ct) ?rk nonce ts ?canon (Some rn) = Inr ?pt"
    by blast
  have "utf8_dec ?pt = JSON_stringify v" by (rule utf8_roundtrip [OF wf_stringify])
  then have "request_outcome E aead c Prod meth path b (h, Some ts, Some nonce) r = Inr v"
    using assms(5,6) keys(1) r JSON_parse_stringify [OF resp(3)]
    by (simp add: request_outcome_def read_response_def signed_def Let_def decrypt_json_def
        decryptResponse_def parse_json_def)
  with r(1) show ?thesis by blast
qed

text \<open>
  C1. A signed call round trip. A client in prod mode calls a node that knows its project, with
  clocks within the permitted skew and a nonce the node has not seen: the node accepts the request,
  its handler receives the method, path and body that the client sent, and the value the handler
  answers with, encrypted on the way, is the value the call returns.
\<close>
theorem signed_call_round_trip:
  assumes client: "detectedNodeMode c = Some Prod" "projectId c = Some pid" "pid \<noteq> []"
      "list_all visible pid" "derivedKeys c = Some ks" "client_ok c" "timers_ok w"
    and node: "crates_doc K" "map_of (as_keys st) pid = derive_keys K (hex_dec (the (projectSecret c)))"
      "method_allowed st (js meth)" "within_rate st i"
    and env: "\<And>rq. e_fetch E (w_sent w) rq = node_fetch K (rpcUrl c) now_ms i handler st rq"
    and time: "ts = e_now E (w_clock w)" "0 < ts" "ts < 2 ^ 63" "\<bar>now_ms - ts\<bar> \<le> ac_skew (as_config st)"
    and fresh: "nonce = hex_enc (map (e_random E (w_rand w)) [0..<16])"
      "fst (check_and_insert nonce i (as_replay_cache st))"
    and path: "url_plain path"
    and cipher: "aead_doc K aead"
    and answer: "\<And>req. resp_ok (handler req) \<and> json_ok (answer req)
      \<and> rs_body (handler req) = Inr (utf8_enc (JSON_stringify (answer req)))"
  shows "\<exists>req. nr_method req = js meth \<and> nr_path req = path
      \<and> nr_body req = Some (utf8_enc (if truthy_val body then JSON_stringify (the body) else []))
      \<and> fst (request E aead meth path body [] (c, w)) = Inr (answer req)"
proof -
  let ?b = "body_text body"
  let ?h = "content_type_json @ auth_headers (js meth) path ?b pid (signing_key ks) ts nonce"
  let ?rq = "client_request c (js meth) path ?b ?h"
  have dk: "deriveKeys (the (projectSecret c)) = Inr ks"
    using client(5,6) by (simp add: client_ok_def)
  have kn: "map_of (as_keys st) pid = Some ks"
    using node(2) derive_keys_agree [OF node(1) dk] by simp
  have nz: "ts \<noteq> 0" using time(2) by simp
  have nn: "nonce \<noteq> []"
    using fresh(1) by simp
  have a: "authenticate E c Prod (js meth) path ?b (obj_assign content_type_json []) w
      = (Inr (?h, Some ts, Some nonce), w\<lparr>w_clock := Suc (w_clock w), w_rand := Suc (w_rand w)\<rparr>)"
    using client(2,3,5) time(1) fresh(1) by (simp add: authenticate_run Let_def signed_headers)
  define req where "req = \<lparr>nr_method = js meth, nr_path = path,
    nr_headers = map (\<lambda>(k, v). (lower_ascii k, v)) ?h, nr_body = Some (utf8_enc ?b)\<rparr>"
  have wire: "wire (rpcUrl c) ?rq = Some req"
    using path by (simp add: wire_def client_request_def req_def starts_with_def)
  note h = wire_headers [OF refl client(4), of nonce "js meth" path ?b "signing_key ks" ts]
  have "fst (verify_signed_request K now_ms i handler req st) =
      encrypt_reply K (response_key ks) nonce ts (canonical (js meth) path ?b ts nonce) (handler req)"
    using verify_accepts [OF node(1), of st req pid ks ts nonce "utf8_enc ?b" now_ms i handler]
      node(3,4) kn h visible_hex_enc fresh time(2-4) utf8_roundtrip [OF wf_body_text]
    by (simp add: req_def)
  moreover obtain r where "encrypt_reply K (response_key ks) nonce ts
      (canonical (js meth) path ?b ts nonce) (handler req) = Inr r"
    "request_outcome E aead c Prod (js meth) path ?b (?h, Some ts, Some nonce) r = Inr (answer req)"
    using read_sealed [OF node(1) cipher client(5) deriveKeys_ok(3) [OF dk] nz nn, of "handler req"
        "answer req" "js meth" path ?b E ?h] answer [of req] by auto
  ultimately have "fst (request E aead meth path body [] (c, w)) = Inr (answer req)"
    using request_result(1) [OF client(1,7) a refl, of aead] env [of ?rq]
    by (simp add: node_fetch_def wire)
  then show ?thesis
    by (intro exI [of _ req]) (simp add: req_def)
qed

definition demo_secret :: jsstr where
  "demo_secret = hex_enc (replicate 32 7)"

definition demo_handler :: "node_request \<Rightarrow> http_response" where
  "demo_handler _ =
     \<lparr>rs_status = 200, rs_statusText = [], rs_headers = [], rs_body = Inr (utf8_enc (JSON_stringify JNull))\<rparr>"

definition demo_node :: AuthState where
  "demo_node = demo_state\<lparr>as_keys := [(js ''p1'', the (derive_keys demo_crates (replicate 32 7)))]\<rparr>"

definition demo_env :: env where
  "demo_env = (fixed_env 200 [])\<lparr>e_fetch :=
     (\<lambda>_. node_fetch demo_crates (js ''http://n'') 1700000000005 0 demo_handler demo_node)\<rparr>"

definition demo_client :: OnvmClient where
  "demo_client = keyed_client (the (derive_keys demo_crates (replicate 32 7)))"

lemma demo_aead_doc: "aead_doc demo_crates demo_open"
  by (simp add: aead_doc_def demo_crates_def demo_open_def)

theorem signed_call_round_trip_witness:
  "\<exists>req :: node_request. nr_method req = js ''GET'' \<and> nr_path req = js ''/jobs''
      \<and> nr_body req = Some (utf8_enc (if truthy_val None then JSON_stringify (the None) else []))
      \<and> fst (request demo_env demo_open ''GET'' (js ''/jobs'') None [] (demo_client, fresh_world)) = Inr JNull"
proof -
  let ?ks = "the (derive_keys demo_crates (replicate 32 7))"
  have dk: "deriveKeys demo_secret = Inr ?ks"
  proof -
    obtain ks where "deriveKeys demo_secret = Inr ks"
      by (simp add: deriveKeys_def demo_secret_def Let_def)
    with derive_keys_agree [OF demo_crates_doc this] show ?thesis by (simp add: demo_secret_def)
  qed
  have c: "detectedNodeMode demo_client = Some Prod" "projectId demo_client = Some (js ''p1'')"
    "derivedKeys demo_client = Some ?ks" "projectSecret demo_client = Some demo_secret"
    "rpcUrl demo_client = js ''http://n''"
    by (simp_all add: demo_client_def keyed_client_def plain_client_def demo_secret_def)
  have "client_ok demo_client"
    using dk by (simp add: client_ok_def has_credentials_def c) (simp add: demo_secret_def)
  moreover have "list_all visible (js ''p1'')" by (simp add: js_def ju_def visible_def)
  moreover have "url_plain (js ''/jobs'')" by code_simp
  moreover have "fst (check_and_insert n 0 (as_replay_cache demo_node))" for n
    by (simp add: demo_node_def demo_state_def check_and_insert_def evict_def NonceCache_new_def Let_def)
  moreover have "map_of (as_keys demo_node) (js ''p1'') = derive_keys demo_crates (hex_dec demo_secret)"
    using derive_keys_agree [OF demo_crates_doc dk] by (simp add: demo_node_def)
  moreover have "resp_ok (demo_handler req) \<and> json_ok JNull
      \<and> rs_body (demo_handler req) = Inr (utf8_enc (JSON_stringify JNull))" for req
    by (simp add: demo_handler_def resp_ok_def)
  moreover have "e_fetch demo_env h = node_fetch demo_crates (js ''http://n'') 1700000000005 0 demo_handler demo_node"
    "e_now demo_env n = 1700000000000" for h n
    by (simp_all add: demo_env_def fixed_env_def)
  moreover have "ac_skew (as_config demo_node) = 300000" "ac_allowed_methods (as_config demo_node) = []"
    "as_rate_limiter demo_node = None"
    by (simp_all add: demo_node_def demo_state_def)
  note facts = calculation this
  show ?thesis
    by (rule signed_call_round_trip [where c = demo_client and w = fresh_world and E = demo_env
          and aead = demo_open and meth = "''GET''" and path = "js ''/jobs''" and body = None
          and K = demo_crates and st = demo_node and i = 0
          and now_ms = 1700000000005 and handler = demo_handler and pid = "js ''p1''" and ks = ?ks
          and answer = "\<lambda>_. JNull" and ts = 1700000000000
          and nonce = "hex_enc (map (e_random demo_env (w_rand fresh_world)) [0..<16])"])
      (use facts in \<open>simp_all add: c demo_crates_doc demo_aead_doc\<close>)
qed

end
